(* ===== verification/Prelude.thy ===== *)
theory Prelude
  imports Complex_Main "HOL-Library.Word" "HOL-Library.AList" "HOL-Library.Char_ord"
    "HOL-Library.List_Lexorder" "HOL-Library.Multiset"
begin

text \<open>
  Shared vocabulary of the development: Go's machine integers, error values, the string
  functions of package \<open>strings\<close> the sources use, Go maps as association lists
  (\<open>None\<close> is the nil map), and the combinator for the idiom
  \<open>if err := f(); err != nil { return err }\<close>. The theorem collections \<open>go_defs\<close>
  and \<open>err_simps\<close> carry the unfolding facts the component proofs share.
\<close>

named_theorems go_defs "definitions of the Go library functions, unfolded by component proofs"
named_theorems err_simps "equations of the error-return combinator"

type_synonym int64 = "64 word"
type_synonym int32 = "32 word"

section \<open>Error values\<close>

text \<open>
  A Go \<open>error\<close>. \<open>ErrClusterExists\<close> is the sentinel of \<open>cluster.go\<close>, compared by
  identity; \<open>Errorf\<close> is any error made by \<open>fmt.Errorf\<close> or \<open>errors.New\<close>; the other
  constructors are the typed errors of the libraries the code inspects: a Kubernetes API status
  with its reason, a gRPC status with its code, an AWS error with its code. The last field is
  the message.
\<close>

datatype goerr =
    ErrClusterExists
  | Errorf string
  | K8sStatus string string
  | RpcStatus string string
  | AwsErr string string

text \<open>The \<open>Error()\<close> method.\<close>

fun err_msg :: "goerr \<Rightarrow> string" where
  "err_msg ErrClusterExists = ''cluster already exists''"
| "err_msg (Errorf m) = m"
| "err_msg (K8sStatus r m) = m"
| "err_msg (RpcStatus c m) = ''rpc error: code = '' @ c @ '' desc = '' @ m"
| "err_msg (AwsErr c m) = m"

fun is_not_found :: "goerr \<Rightarrow> bool" where
  "is_not_found (K8sStatus r m) = (r = ''NotFound'')"
| "is_not_found _ = False"

fun is_already_exists :: "goerr \<Rightarrow> bool" where
  "is_already_exists (K8sStatus r m) = (r = ''AlreadyExists'')"
| "is_already_exists _ = False"

section \<open>Strings\<close>

text \<open>\<open>strings.HasPrefix\<close>, \<open>strings.HasSuffix\<close>, \<open>strings.Contains\<close>.\<close>

definition has_prefix :: "string \<Rightarrow> string \<Rightarrow> bool" where
  "has_prefix s p = (take (length p) s = p)"

definition has_suffix :: "string \<Rightarrow> string \<Rightarrow> bool" where
  "has_suffix s p = (length p \<le> length s \<and> drop (length s - length p) s = p)"

fun contains :: "string \<Rightarrow> string \<Rightarrow> bool" where
  "contains [] p = (p = [])"
| "contains (c # s) p = (has_prefix (c # s) p \<or> contains s p)"

text \<open>\<open>strings.Split\<close> with a one-character separator: never the empty list.\<close>

fun split_on :: "char \<Rightarrow> string \<Rightarrow> string list" where
  "split_on d [] = [[]]"
| "split_on d (c # s) =
     (if c = d then [] # split_on d s
      else (case split_on d s of [] \<Rightarrow> [[c]] | w # ws \<Rightarrow> (c # w) # ws))"

text \<open>\<open>strings.Join\<close>.\<close>

fun join_with :: "string \<Rightarrow> string list \<Rightarrow> string" where
  "join_with d [] = []"
| "join_with d [w] = w"
| "join_with d (w # v # ws) = w @ d @ join_with d (v # ws)"

text \<open>Decimal text of integers: \<open>strconv.Itoa\<close> and \<open>strconv.FormatInt(_, 10)\<close>.\<close>

definition digit_char :: "nat \<Rightarrow> char" where
  "digit_char n = char_of (48 + n)"

fun nat_text :: "nat \<Rightarrow> string" where
  "nat_text n = (if n < 10 then [digit_char n] else nat_text (n div 10) @ [digit_char (n mod 10)])"

declare nat_text.simps [simp del]

definition int_text :: "int \<Rightarrow> string" where
  "int_text i = (if i < 0 then CHR ''-'' # nat_text (nat (- i)) else nat_text (nat i))"

definition bool_text :: "bool \<Rightarrow> string" where
  "bool_text b = (if b then ''true'' else ''false'')"

section \<open>Maps\<close>

text \<open>
  A Go \<open>map[string]T\<close> as an association list in the order a \<open>range\<close> loop visits it;
  \<open>None\<close> is the nil map, from which one can read but to which one cannot write.
\<close>

type_synonym 'v gomap = "(string \<times> 'v) list option"

definition gm_list :: "'v gomap \<Rightarrow> (string \<times> 'v) list" where
  "gm_list m = (case m of None \<Rightarrow> [] | Some l \<Rightarrow> l)"

definition gm_find :: "'v gomap \<Rightarrow> string \<Rightarrow> 'v option" where
  "gm_find m k = map_of (gm_list m) k"

text \<open>Reading a missing key gives the zero value.\<close>

definition gm_str :: "string gomap \<Rightarrow> string \<Rightarrow> string" where
  "gm_str m k = (case gm_find m k of None \<Rightarrow> [] | Some v \<Rightarrow> v)"

text \<open>\<open>if m == nil { m = map[string]T{} }; m[k] = v\<close>.\<close>

definition gm_put :: "string \<Rightarrow> 'v \<Rightarrow> 'v gomap \<Rightarrow> 'v gomap" where
  "gm_put k v m = Some (AList.update k v (gm_list m))"

text \<open>
  The order in which a \<open>range\<close> loop visits a map is chosen by the runtime: the list \<open>picks\<close> says
  which of the remaining entries comes next. Every choice is a permutation, and every permutation
  is a choice.
\<close>

fun visit :: "nat list \<Rightarrow> 'a list \<Rightarrow> 'a list" where
  "visit [] xs = xs"
| "visit (i # picks) xs =
     (if xs = [] then []
      else (let j = i mod length xs in xs ! j # visit picks (take j xs @ drop (Suc j) xs)))"

section \<open>Error returns\<close>

text \<open>\<open>if err := r; err != nil { return err }\<close> followed by the rest \<open>f\<close> of the function.\<close>

definition and_then :: "goerr option \<times> 'st \<Rightarrow> ('st \<Rightarrow> goerr option \<times> 'st) \<Rightarrow> goerr option \<times> 'st" where
  "and_then r f = (case r of (Some e, st) \<Rightarrow> (Some e, st) | (None, st) \<Rightarrow> f st)"

text \<open>A run-time panic (a nil dereference, a failed type assertion, an index out of range) as an outcome.\<close>

datatype 'a outcome = Ret 'a | Panic string

section \<open>Lemmas\<close>

lemma and_then_simps [simp, err_simps]:
  "and_then (Some e, st) f = (Some e, st)"
  "and_then (None, st) f = f st"
  by (simp_all add: and_then_def)

lemma and_then_None [err_simps]:
  "and_then r f = (None, st') \<longleftrightarrow> (\<exists>st. r = (None, st) \<and> f st = (None, st'))"
  by (cases r; cases "fst r") (auto simp: and_then_def)

lemma and_then_cases:
  assumes "and_then r f = (res, st')"
  obtains (stop) e where "r = (Some e, st')" "res = Some e"
  | (go) st where "r = (None, st)" "f st = (res, st')"
  using assms by (cases r; cases "fst r") (auto simp: and_then_def)

text \<open>A property of the state that every step keeps is kept by the sequence.\<close>

lemma and_then_inv:
  "P (snd r) \<Longrightarrow> (\<And>st. P st \<Longrightarrow> P (snd (f st))) \<Longrightarrow> P (snd (and_then r f))"
  by (cases r; cases "fst r") auto

lemma has_prefix_append [simp]: "has_prefix (p @ s) p"
  by (simp add: has_prefix_def)

lemma has_prefix_iff: "has_prefix s p \<longleftrightarrow> (\<exists>t. s = p @ t)"
proof
  assume "has_prefix s p"
  then have "s = p @ drop (length p) s"
    unfolding has_prefix_def by (metis append_take_drop_id)
  then show "\<exists>t. s = p @ t" ..
qed auto

lemma has_suffix_append [simp]: "has_suffix (s @ p) p"
  by (simp add: has_suffix_def)

lemma contains_append_left: "contains t p \<Longrightarrow> contains (s @ t) p"
  by (induction s) auto

lemma contains_infix [simp]: "contains (s @ p @ t) p"
proof -
  have "contains (p @ t) p"
    by (cases "p @ t") (simp_all, metis has_prefix_append)
  then show ?thesis by (rule contains_append_left)
qed

lemma split_on_nonempty [simp]: "split_on d s \<noteq> []"
  by (induction s) (auto split: list.splits)

lemma split_on_no_sep: "d \<notin> set s \<Longrightarrow> split_on d s = [s]"
  by (induction s) auto

lemma split_on_append_sep: "d \<notin> set s \<Longrightarrow> split_on d (s @ d # t) = s # split_on d t"
  by (induction s) auto

lemma join_split_on: "join_with [d] (split_on d s) = s"
proof (induction s)
  case (Cons c s)
  obtain w ws where ws: "split_on d s = w # ws"
    using split_on_nonempty [of d s] by (cases "split_on d s") auto
  show ?case
    using Cons ws by (cases ws) auto
qed simp

lemma mset_visit [simp]: "mset (visit picks xs) = mset xs"
proof (induction picks xs rule: visit.induct)
  case (2 i picks xs)
  show ?case
  proof (cases "xs = []")
    case False
    let ?j = "i mod length xs"
    have "xs = take ?j xs @ xs ! ?j # drop (Suc ?j) xs"
      using False by (simp add: id_take_nth_drop)
    then have "mset xs = mset (take ?j xs @ xs ! ?j # drop (Suc ?j) xs)" by (rule arg_cong)
    with 2 False show ?thesis by (simp add: Let_def)
  qed simp
qed simp

lemma set_visit [simp]: "set (visit picks xs) = set xs"
  by (metis mset_visit set_mset_mset)

lemma gm_list_simps [simp]: "gm_list None = []" "gm_list (Some l) = l"
  by (simp_all add: gm_list_def)

lemma gm_find_put [simp]: "gm_find (gm_put k v m) k' = (if k' = k then Some v else gm_find m k')"
  by (simp add: gm_find_def gm_put_def update_conv')

lemma gm_str_put [simp]: "gm_str (gm_put k v m) k' = (if k' = k then v else gm_str m k')"
  by (simp add: gm_str_def)

text \<open>Digits: the decimal text of a number reads back as the number.\<close>

definition is_digit :: "char \<Rightarrow> bool" where
  "is_digit c \<longleftrightarrow> 48 \<le> (of_char c :: nat) \<and> (of_char c :: nat) \<le> 57"

definition digit_val :: "char \<Rightarrow> nat" where
  "digit_val c = of_char c - 48"

definition digits_val :: "string \<Rightarrow> nat" where
  "digits_val s = foldl (\<lambda>n c. 10 * n + digit_val c) 0 s"

text \<open>\<open>strconv.Atoi\<close>: an optional sign and decimal digits, in the range of an int.\<close>

definition Atoi :: "string \<Rightarrow> int option" where
  "Atoi s =
     (let neg = has_prefix s ''-'';
          ds = (if has_prefix s ''-'' \<or> has_prefix s ''+'' then drop 1 s else s);
          n = (if neg then - int (digits_val ds) else int (digits_val ds)) in
      if ds = [] \<or> \<not> list_all is_digit ds \<or> n < - (2 ^ 63) \<or> 2 ^ 63 \<le> n then None else Some n)"

lemma of_char_digit: "n < 10 \<Longrightarrow> (of_char (digit_char n) :: nat) = 48 + n"
  by (simp add: digit_char_def of_char_of)

lemma digit_char_props [simp]:
  "n < 10 \<Longrightarrow> is_digit (digit_char n)"
  "n < 10 \<Longrightarrow> digit_val (digit_char n) = n"
  by (simp_all add: is_digit_def digit_val_def of_char_digit)

lemma nat_text_digits: "\<forall>c \<in> set (nat_text n). is_digit c"
proof (induction n rule: nat_text.induct)
  case (1 n)
  then show ?case
    by (subst nat_text.simps) auto
qed

lemma nat_text_nonempty [simp]: "nat_text n \<noteq> []"
  by (subst nat_text.simps) simp

lemma digits_val_snoc [simp]: "digits_val (s @ [c]) = 10 * digits_val s + digit_val c"
  by (simp add: digits_val_def)

lemma digits_val_nat_text [simp]: "digits_val (nat_text n) = n"
proof (induction n rule: nat_text.induct)
  case (1 n)
  show ?case
  proof (cases "n < 10")
    case True
    then show ?thesis
      by (subst nat_text.simps) (simp add: digits_val_def)
  next
    case False
    with 1 show ?thesis
      by (subst nat_text.simps) simp
  qed
qed

lemma hd_nat_text_zero: "hd (nat_text n) = CHR ''0'' \<Longrightarrow> nat_text n = ''0''"
proof (induction n rule: nat_text.induct)
  case (1 n)
  show ?case
  proof (cases "n < 10")
    case True
    then have "n = 0" if "digit_char n = CHR ''0''"
      using that digit_char_props(2) [OF True] by (simp add: digit_val_def)
    with 1 True show ?thesis
      by (subst (asm) nat_text.simps, subst nat_text.simps) (simp add: digit_char_def)
  next
    case False
    with "1.prems" have "hd (nat_text (n div 10)) = CHR ''0''"
      by (subst (asm) nat_text.simps) simp
    with "1.IH" False have "nat_text (n div 10) = ''0''" by simp
    then have "digits_val (nat_text (n div 10)) = digits_val ''0''" by (rule arg_cong)
    then have "n div 10 = 0"
      unfolding digits_val_nat_text by (simp add: digits_val_def digit_val_def)
    with False show ?thesis by simp
  qed
qed

lemma nat_text_hd: "is_digit (hd (nat_text n))"
  using nat_text_digits [of n] by (simp add: hd_in_set)

lemma Atoi_nat_text: "p < 2 ^ 63 \<Longrightarrow> Atoi (nat_text p) = Some (int p)"
proof -
  have d: "list_all is_digit (nat_text p)" using nat_text_digits by (simp add: list_all_iff)
  moreover have "is_digit (hd (nat_text p))" by (rule nat_text_hd)
  then have "hd (nat_text p) \<noteq> CHR ''-''" "hd (nat_text p) \<noteq> CHR ''+''" by (auto simp: is_digit_def)
  then have "\<not> has_prefix (nat_text p) ''-''" "\<not> has_prefix (nat_text p) ''+''"
    by (auto simp: has_prefix_iff)
  ultimately show "p < 2 ^ 63 \<Longrightarrow> ?thesis" by (simp add: Atoi_def Let_def)
qed

lemma Atoi_int_text:
  assumes "- (2 ^ 63) \<le> i" "i < 2 ^ 63"
  shows "Atoi (int_text i) = Some i"
proof (cases "i < 0")
  case True
  then have "int_text i = CHR ''-'' # nat_text (nat (- i))" by (simp add: int_text_def)
  moreover have "list_all is_digit (nat_text (nat (- i)))" using nat_text_digits by (simp add: list_all_iff)
  ultimately show ?thesis using True assms by (simp add: Atoi_def Let_def has_prefix_def)
next
  case False
  then show ?thesis using assms Atoi_nat_text[of "nat i"] by (simp add: int_text_def)
qed

lemma clearjunk_subset: "set (AList.clearjunk l) \<subseteq> set l"
  by (auto simp: graph_map_of[symmetric] dest!: in_graphD map_of_SomeD)

end
