(* ===== verification/Utf8.thy ===== *)
theory Utf8
  imports Prelude
begin

text \<open>
  The part of package \<open>unicode/utf8\<close> that \<open>encoding/json\<close> relies on. Go strings are byte strings; a rune
  is read as \<open>DecodeRune\<close> reads it, and a byte that starts no valid sequence stands for U+FFFD. \<open>utf8_fix\<close>
  is the string that a conversion to valid UTF-8 gives; it leaves valid strings alone and its result is
  always valid.
\<close>

section \<open>Reading runes\<close>

definition byte_in :: "nat \<Rightarrow> nat \<Rightarrow> char \<Rightarrow> bool" where
  "byte_in lo hi c \<longleftrightarrow> lo \<le> (of_char c :: nat) \<and> (of_char c :: nat) \<le> hi"

abbreviation cont :: "char \<Rightarrow> bool" where "cont \<equiv> byte_in 128 191"

text \<open>The range of the second byte after the first byte \<open>n\<close> of a sequence of three or four.\<close>

definition second_ok :: "nat \<Rightarrow> char \<Rightarrow> bool" where
  "second_ok n b \<longleftrightarrow>
     (if n = 224 then byte_in 160 191 b else if n = 237 then byte_in 128 159 b
      else if n = 240 then byte_in 144 191 b else if n = 244 then byte_in 128 143 b
      else cont b)"

text \<open>The length that a first byte announces, and 0 for a byte that starts no sequence.\<close>

definition lead_len :: "nat \<Rightarrow> nat" where
  "lead_len n =
     (if n < 128 then 1 else if 194 \<le> n \<and> n \<le> 223 then 2 else if 224 \<le> n \<and> n \<le> 239 then 3
      else if 240 \<le> n \<and> n \<le> 244 then 4 else 0)"

text \<open>The length of the sequence at the start of a string, and 0 when there is none.\<close>

definition rune_len :: "string \<Rightarrow> nat" where
  "rune_len s =
     (case s of
        [] \<Rightarrow> 0
      | a # r \<Rightarrow>
          (let n = (of_char a :: nat); k = lead_len n; bs = take (k - 1) r in
           if k \<noteq> 0 \<and> length bs = k - 1 \<and> (bs = [] \<or> second_ok n (hd bs)) \<and> list_all cont (tl bs) then k else 0))"

abbreviation FFFD :: string where "FFFD \<equiv> [CHR 0xEF, CHR 0xBF, CHR 0xBD]"

function utf8_fix :: "string \<Rightarrow> string" where
  "utf8_fix [] = []"
| "utf8_fix (a # r) =
     (let k = rune_len (a # r) in
      if k = 0 then FFFD @ utf8_fix r else take k (a # r) @ utf8_fix (drop k (a # r)))"
  by pat_completeness auto
termination by (relation "measure length") auto

function valid_utf8 :: "string \<Rightarrow> bool" where
  "valid_utf8 [] = True"
| "valid_utf8 (a # r) = (let k = rune_len (a # r) in if k = 0 then False else valid_utf8 (drop k (a # r)))"
  by pat_completeness auto
termination by (relation "measure length") (auto simp: Let_def)

declare utf8_fix.simps(2) [simp del] valid_utf8.simps(2) [simp del]

text \<open>The bytes of a code point; a surrogate becomes U+FFFD.\<close>

definition utf8 :: "nat \<Rightarrow> string" where
  "utf8 n =
     (if n < 128 then [char_of n]
      else if n < 2048 then [char_of (192 + n div 64), char_of (128 + n mod 64)]
      else if 55296 \<le> n \<and> n < 57344 then FFFD
      else if n < 65536 then
        [char_of (224 + n div 4096), char_of (128 + (n div 64) mod 64), char_of (128 + n mod 64)]
      else
        [char_of (240 + n div 262144), char_of (128 + (n div 4096) mod 64),
         char_of (128 + (n div 64) mod 64), char_of (128 + n mod 64)])"

section \<open>Lemmas\<close>

lemma rune_len_ascii [simp]: "(of_char c :: nat) < 128 \<Longrightarrow> rune_len (c # s) = 1"
  by (simp add: rune_len_def lead_len_def)

lemma rune_len_Nil [simp]: "rune_len [] = 0"
  by (simp add: rune_len_def)

text \<open>A sequence is read in the same way whatever follows it.\<close>

lemma rune_len_append: "rune_len s \<noteq> 0 \<Longrightarrow> rune_len (s @ t) = rune_len s"
  by (cases s) (auto simp: rune_len_def Let_def split: if_splits)

lemma rune_len_take: "rune_len s \<noteq> 0 \<Longrightarrow> rune_len (take (rune_len s) s @ t) = rune_len s"
proof (cases s)
  case (Cons a r)
  assume k: "rune_len s \<noteq> 0"
  then have l: "rune_len s = lead_len (of_char a)" and r: "lead_len (of_char a) - 1 \<le> length r"
    using Cons by (auto simp: rune_len_def Let_def split: if_splits)
  obtain m where m: "rune_len s = Suc m" using k by (cases "rune_len s") auto
  have "lead_len (of_char a) = Suc m" using l m by simp
  with k r m Cons show ?thesis by (cases r) (auto simp: rune_len_def Let_def split: if_splits)
qed simp

lemma rune_len_le: "rune_len s \<le> length s"
  by (cases s) (auto simp: rune_len_def Let_def)

lemma utf8_fix_chunk:
  assumes "rune_len s \<noteq> 0"
  shows "utf8_fix s = take (rune_len s) s @ utf8_fix (drop (rune_len s) s)"
  using assms by (cases s) (simp_all add: utf8_fix.simps(2) Let_def)

lemma valid_utf8_chunk:
  assumes "rune_len s \<noteq> 0"
  shows "valid_utf8 s = valid_utf8 (drop (rune_len s) s)"
  using assms by (cases s) (simp_all add: valid_utf8.simps(2) Let_def)

lemma valid_utf8_append: "\<lbrakk>valid_utf8 s; valid_utf8 t\<rbrakk> \<Longrightarrow> valid_utf8 (s @ t)"
proof (induction s rule: valid_utf8.induct)
  case (2 a r)
  let ?s = "a # r" let ?k = "rune_len ?s"
  from 2(2) have k: "?k \<noteq> 0" and r: "valid_utf8 (drop ?k ?s)" unfolding valid_utf8.simps(2) Let_def by (metis)+
  have "valid_utf8 (drop ?k ?s @ t)" by (rule 2(1)[OF refl k r 2(3)])
  moreover have "drop (rune_len (?s @ t)) (?s @ t) = drop ?k ?s @ t"
    unfolding rune_len_append[OF k] using rune_len_le[of ?s] by (simp only: drop_append diff_is_0_eq) simp
  ultimately show ?case
    using k rune_len_append[OF k, of t] valid_utf8_chunk[of "?s @ t"] by (simp only: append_Cons) simp
qed simp

lemma valid_FFFD [simp]: "valid_utf8 FFFD"
  by code_simp

lemma valid_take_rune:
  assumes "rune_len s \<noteq> 0"
  shows "valid_utf8 (take (rune_len s) s)"
proof -
  have k: "rune_len (take (rune_len s) s) = rune_len s" using rune_len_take[OF assms, of "[]"] by simp
  show ?thesis using assms by (subst valid_utf8_chunk) (simp_all add: k)
qed

lemma valid_utf8_fix [simp]: "valid_utf8 (utf8_fix s)"
proof (induction s rule: utf8_fix.induct)
  case (2 a r)
  show ?case
  proof (cases "rune_len (a # r) = 0")
    case True
    with 2(1)[OF refl] show ?thesis
      using valid_utf8_append[OF valid_FFFD] by (simp add: utf8_fix.simps(2))
  next
    case False
    show ?thesis unfolding utf8_fix_chunk[OF False]
      by (rule valid_utf8_append[OF valid_take_rune[OF False] 2(2)[OF refl False]])
  qed
qed simp

lemma utf8_fix_valid: "valid_utf8 s \<Longrightarrow> utf8_fix s = s"
proof (induction s rule: valid_utf8.induct)
  case (2 a r)
  have k: "rune_len (a # r) \<noteq> 0" using 2(2) unfolding valid_utf8.simps(2) Let_def by metis
  have "utf8_fix (drop (rune_len (a # r)) (a # r)) = drop (rune_len (a # r)) (a # r)"
    by (rule 2(1)[OF refl k]) (use 2(2) k valid_utf8_chunk[OF k] in blast)
  then show ?case unfolding utf8_fix_chunk[OF k] by (simp only: append_take_drop_id)
qed simp

lemma utf8_fix_idem [simp]: "utf8_fix (utf8_fix s) = utf8_fix s"
  by (simp add: utf8_fix_valid)

lemma utf8_fix_Nil_iff [simp]: "utf8_fix s = [] \<longleftrightarrow> s = []"
  by (cases s) (auto simp: utf8_fix.simps(2) Let_def)

text \<open>ASCII strings are valid.\<close>

definition is_ascii :: "string \<Rightarrow> bool" where
  "is_ascii s \<longleftrightarrow> list_all (\<lambda>c. (of_char c :: nat) < 128) s"

lemma valid_ascii [simp]: "is_ascii s \<Longrightarrow> valid_utf8 s"
  by (induction s) (simp_all add: is_ascii_def valid_utf8.simps(2))

lemma is_ascii_simps [simp]: "is_ascii []" "is_ascii (c # s) \<longleftrightarrow> (of_char c :: nat) < 128 \<and> is_ascii s"
  by (simp_all add: is_ascii_def)

lemma utf8_fix_ascii [simp]: "is_ascii s \<Longrightarrow> utf8_fix s = s"
  by (simp add: utf8_fix_valid valid_ascii)

text \<open>No other string becomes an ASCII string.\<close>

lemma is_ascii_append [simp]: "is_ascii (s @ t) \<longleftrightarrow> is_ascii s \<and> is_ascii t"
  by (simp add: is_ascii_def)

lemma utf8_fix_eq_ascii: "is_ascii (utf8_fix s) \<Longrightarrow> utf8_fix s = s"
proof (induction s rule: utf8_fix.induct)
  case (2 a r)
  show ?case
  proof (cases "rune_len (a # r) = 0")
    case True
    with 2(3) show ?thesis by (simp add: utf8_fix.simps(2))
  next
    case False
    then show ?thesis using 2(2)[OF refl False] 2(3) unfolding utf8_fix_chunk[OF False] by simp
  qed
qed simp

text \<open>The bytes of a code point are valid.\<close>

lemma byte_in_char: "n < 256 \<Longrightarrow> byte_in lo hi (char_of n) \<longleftrightarrow> lo \<le> n \<and> n \<le> hi"
  by (simp add: byte_in_def of_char_of)

lemma second_byte:
  "\<lbrakk>x < 64; y < 16; z = 64 * y + x; 32 \<le> z; z < 864 \<or> 896 \<le> z\<rbrakk> \<Longrightarrow> second_ok (224 + y) (char_of (128 + x))"
  "\<lbrakk>x < 64; y < 5; z = 64 * y + x; 16 \<le> z; z < 272\<rbrakk> \<Longrightarrow> second_ok (240 + y) (char_of (128 + x))"
  by (auto simp: second_ok_def byte_in_char)

lemma rune_len_utf8: "n < 0x110000 \<Longrightarrow> rune_len (utf8 n) = length (utf8 n) \<and> utf8 n \<noteq> []"
proof -
  assume n: "n < 0x110000"
  have m: "n mod 64 < 64" "n div 64 mod 64 < 64" "n div 4096 mod 64 < 64" by simp_all
  then have le: "n mod 64 \<le> 63" "n div 64 mod 64 \<le> 63" by linarith+
  have e: "n div 64 = 64 * (n div 4096) + n div 64 mod 64" "n div 4096 = 64 * (n div 262144) + n div 4096 mod 64"
    using mult_div_mod_eq[of 64 "n div 64"] mult_div_mod_eq[of 64 "n div 4096"]
    by (simp_all add: div_mult2_eq[symmetric])
  consider "n < 128" | "128 \<le> n" "n < 2048" | "55296 \<le> n" "n < 57344" | "2048 \<le> n" "n < 65536" "\<not> (55296 \<le> n \<and> n < 57344)"
    | "65536 \<le> n" using n by linarith
  then show ?thesis
  proof cases
    case 2
    then have "2 \<le> n div 64" "n div 64 < 32" by (simp_all add: less_mult_imp_div_less div_le_mono[of 128 n 64, simplified])
    with 2 le show ?thesis by (simp add: utf8_def rune_len_def lead_len_def byte_in_def second_ok_def)
  next
    case 4
    have d: "n div 4096 < 16" "32 \<le> n div 64" using 4 div_le_mono[of 2048 n 64] by (simp_all add: less_mult_imp_div_less)
    have "n div 64 < 864 \<or> 896 \<le> n div 64"
      using 4(3) div_le_mono[of 57344 n 64] by (auto simp: not_le less_mult_imp_div_less)
    then have "second_ok (224 + n div 4096) (char_of (128 + n div 64 mod 64))"
      using second_byte(1)[OF m(2) d(1) e(1) d(2)] by blast
    with 4 le d show ?thesis by (simp add: utf8_def rune_len_def lead_len_def byte_in_def)
  next
    case 5
    have d: "n div 262144 < 5" "16 \<le> n div 4096" "n div 4096 < 272"
      using n 5 div_le_mono[of 65536 n 4096] by (simp_all add: less_mult_imp_div_less)
    then have "second_ok (240 + n div 262144) (char_of (128 + n div 4096 mod 64))"
      using second_byte(2)[OF m(3) _ e(2)] by blast
    with 5 le d show ?thesis by (simp add: utf8_def rune_len_def lead_len_def byte_in_def)
  qed (simp_all add: utf8_def rune_len_def lead_len_def byte_in_def second_ok_def)
qed

lemma valid_utf8_utf8: "n < 0x110000 \<Longrightarrow> valid_utf8 (utf8 n)"
  using rune_len_utf8[of n] valid_take_rune[of "utf8 n"] by simp

end
