(* ===== verification/GoJson.thy ===== *)
theory GoJson
  imports Utf8
begin

text \<open>
  The part of package \<open>encoding/json\<close> the program relies on: JSON values, the compact text
  \<open>json.Marshal\<close> prints (with its string escapes) and the decoder behind
  \<open>json.Unmarshal\<close>. A number is its literal, because an integer field takes integer literals
  only; read into an interface it is a float64, modelled by its rational value (\<open>num_val\<close>). Strings are
  byte strings, and both directions replace what is not valid UTF-8 by U+FFFD. The main fact is that decoding
  the text of a value gives the value back with its strings made valid (\<open>json_decode_encode\<close>), and the same for the text of \<open>json.MarshalIndent\<close>
  (\<open>json_decode_indent\<close>).
\<close>

section \<open>Values\<close>

datatype json =
    JNull
  | JBool bool
  | JNum string
  | JStr string
  | JArr "json list"
  | JObj "(string \<times> json) list"

section \<open>Encoding\<close>

definition hex_char :: "nat \<Rightarrow> char" where
  "hex_char n = (if n < 10 then char_of (48 + n) else char_of (87 + n))"

abbreviation DQ :: char where "DQ \<equiv> CHR 0x22"
abbreviation BS :: char where "BS \<equiv> CHR 0x5C"

text \<open>
  An ASCII byte of a string, as \<open>encodeState.string\<close> writes it with HTML escaping on: quotes and
  backslashes, the three short escapes, and \<open>\u00xx\<close> for the other control characters and
  for \<open><\<close>, \<open>>\<close> and \<open>&\<close>.
\<close>

definition enc_char :: "char \<Rightarrow> string" where
  "enc_char c =
     (if c = DQ then [BS, DQ]
      else if c = BS then [BS, BS]
      else if c = CHR 0x0A then [BS, CHR ''n'']
      else if c = CHR 0x0D then [BS, CHR ''r'']
      else if c = CHR 0x09 then [BS, CHR ''t'']
      else if (of_char c :: nat) < 32 \<or> c = CHR ''<'' \<or> c = CHR ''>'' \<or> c = CHR 0x26
      then [BS, CHR ''u'', CHR ''0'', CHR ''0'', hex_char (of_char c div 16), hex_char (of_char c mod 16)]
      else [c])"

text \<open>
  Other runes are copied, but for the line separators U+2028 and U+2029, which are escaped, and for bytes that
  are not UTF-8, which become the escape of U+FFFD.
\<close>

definition enc_rune :: "string \<Rightarrow> string" where
  "enc_rune r =
     (if r = [CHR 0xE2, CHR 0x80, CHR 0xA8] then BS # ''u2028''
      else if r = [CHR 0xE2, CHR 0x80, CHR 0xA9] then BS # ''u2029'' else r)"

function enc_body :: "string \<Rightarrow> string" where
  "enc_body [] = []"
| "enc_body (c # cs) =
     (let k = rune_len (c # cs) in
      if k = 0 then (BS # ''ufffd'') @ enc_body cs
      else if k = 1 then enc_char c @ enc_body cs
      else enc_rune (take k (c # cs)) @ enc_body (drop k (c # cs)))"
  by pat_completeness auto
termination by (relation "measure length") auto

declare enc_body.simps(2) [simp del]

definition enc_str :: "string \<Rightarrow> string" where
  "enc_str s = DQ # enc_body s @ [DQ]"

fun enc_val :: "json \<Rightarrow> string"
  and enc_elems :: "json list \<Rightarrow> string"
  and enc_members :: "(string \<times> json) list \<Rightarrow> string" where
  "enc_val JNull = ''null''"
| "enc_val (JBool b) = bool_text b"
| "enc_val (JNum lit) = lit"
| "enc_val (JStr s) = enc_str s"
| "enc_val (JArr vs) = CHR ''['' # enc_elems vs @ '']''"
| "enc_val (JObj ms) = CHR ''{'' # enc_members ms @ ''}''"
| "enc_elems [] = []"
| "enc_elems (v # vs) = enc_val v @ (if vs = [] then [] else CHR '','' # enc_elems vs)"
| "enc_members [] = []"
| "enc_members ((k, v) # ms) =
     enc_str k @ CHR '':'' # enc_val v @ (if ms = [] then [] else CHR '','' # enc_members ms)"

definition json_encode :: "json \<Rightarrow> string" where
  "json_encode v = enc_val v"

text \<open>\<open>json.MarshalIndent\<close> with an empty prefix: every member and element on a line of its own, after one
  indentation per level.\<close>

definition ind_line :: "string \<Rightarrow> nat \<Rightarrow> string" where
  "ind_line tab n = CHR 0x0A # concat (replicate n tab)"

fun ind_val :: "string \<Rightarrow> nat \<Rightarrow> json \<Rightarrow> string"
  and ind_elems :: "string \<Rightarrow> nat \<Rightarrow> json list \<Rightarrow> string"
  and ind_members :: "string \<Rightarrow> nat \<Rightarrow> (string \<times> json) list \<Rightarrow> string" where
  "ind_val tab n (JArr vs) =
     (if vs = [] then ''[]'' else CHR ''['' # ind_elems tab (Suc n) vs @ ind_line tab n @ '']'')"
| "ind_val tab n (JObj ms) =
     (if ms = [] then ''{}'' else CHR ''{'' # ind_members tab (Suc n) ms @ ind_line tab n @ ''}'')"
| "ind_val tab n v = enc_val v"
| "ind_elems tab n [] = []"
| "ind_elems tab n (v # vs) =
     ind_line tab n @ ind_val tab n v @ (if vs = [] then [] else CHR '','' # ind_elems tab n vs)"
| "ind_members tab n [] = []"
| "ind_members tab n ((k, v) # ms) =
     ind_line tab n @ enc_str k @ '': '' @ ind_val tab n v @
       (if ms = [] then [] else CHR '','' # ind_members tab n ms)"

section \<open>Decoding\<close>

definition is_ws :: "char \<Rightarrow> bool" where
  "is_ws c = (c = CHR '' '' \<or> c = CHR 0x09 \<or> c = CHR 0x0A \<or> c = CHR 0x0D)"

definition skip_ws :: "string \<Rightarrow> string" where
  "skip_ws s = dropWhile is_ws s"

definition hex_val :: "char \<Rightarrow> nat option" where
  "hex_val c =
     (let n = (of_char c :: nat) in
      if 48 \<le> n \<and> n \<le> 57 then Some (n - 48)
      else if 97 \<le> n \<and> n \<le> 102 then Some (n - 87)
      else if 65 \<le> n \<and> n \<le> 70 then Some (n - 55)
      else None)"

definition hex4 :: "char \<Rightarrow> char \<Rightarrow> char \<Rightarrow> char \<Rightarrow> nat option" where
  "hex4 a b c d =
     (case (hex_val a, hex_val b, hex_val c, hex_val d) of
        (Some w, Some x, Some y, Some z) \<Rightarrow> Some (((w * 16 + x) * 16 + y) * 16 + z)
      | _ \<Rightarrow> None)"

definition unescape :: "char \<Rightarrow> char option" where
  "unescape c =
     (if c = DQ \<or> c = BS \<or> c = CHR ''/'' then Some c
      else if c = CHR ''b'' then Some (CHR 0x08)
      else if c = CHR ''f'' then Some (CHR 0x0C)
      else if c = CHR ''n'' then Some (CHR 0x0A)
      else if c = CHR ''r'' then Some (CHR 0x0D)
      else if c = CHR ''t'' then Some (CHR 0x09)
      else None)"

definition prepend :: "string \<Rightarrow> (string \<times> string) option \<Rightarrow> (string \<times> string) option" where
  "prepend p r = map_option (\<lambda>(s, rest). (p @ s, rest)) r"

text \<open>
  After an escape \<open>\uXXXX\<close> with value \<open>n\<close>: if \<open>n\<close> is a high surrogate and a low
  surrogate escape follows, both make one code point. The code point and the rest of the input.
\<close>

definition dec_surrogate :: "nat \<Rightarrow> string \<Rightarrow> nat \<times> string" where
  "dec_surrogate n s =
     (if 55296 \<le> n \<and> n < 56320 \<and> has_prefix s [BS, CHR ''u''] then
        (case drop 2 s of
           g1 # g2 # g3 # g4 # rest \<Rightarrow>
             (case hex4 g1 g2 g3 g4 of
                Some m \<Rightarrow>
                  (if 56320 \<le> m \<and> m < 57344
                   then (65536 + (n - 55296) * 1024 + (m - 56320), rest) else (n, s))
              | None \<Rightarrow> (n, s))
         | _ \<Rightarrow> (n, s))
      else (n, s))"

lemma dec_surrogate_length [termination_simp]:
  "length (snd (dec_surrogate n s)) \<le> length s"
proof -
  have "length rest \<le> length s" if "drop 2 s = g1 # g2 # g3 # g4 # rest" for g1 g2 g3 g4 rest
    using arg_cong [OF that, of length] by simp
  then show ?thesis
    unfolding dec_surrogate_def by (auto split: list.split option.split)
qed

text \<open>The body of a string, after its opening quote: the string and the rest of the input.\<close>

fun dec_str :: "string \<Rightarrow> (string \<times> string) option" where
  "dec_str [] = None"
| "dec_str (c # cs) =
     (if c = DQ then Some ([], cs)
      else if c = BS then
        (case cs of
           [] \<Rightarrow> None
         | e # es \<Rightarrow>
             (if e = CHR ''u'' then
                (case es of
                   h1 # h2 # h3 # h4 # rest \<Rightarrow>
                     (case hex4 h1 h2 h3 h4 of
                        None \<Rightarrow> None
                      | Some n \<Rightarrow>
                          prepend (utf8 (fst (dec_surrogate n rest)))
                            (dec_str (snd (dec_surrogate n rest))))
                 | _ \<Rightarrow> None)
              else
                (case unescape e of None \<Rightarrow> None | Some d \<Rightarrow> prepend [d] (dec_str es))))
      else if (of_char c :: nat) < 32 then None
      else (let k = rune_len (c # cs) in
            if k = 0 then prepend FFFD (dec_str cs)
            else prepend (take k (c # cs)) (dec_str (drop k (c # cs)))))"

declare dec_str.simps(2) [simp del]

text \<open>
  Numbers: an optional sign, an integer part without superfluous zeros, an optional fraction and
  an optional exponent. A number ends at the first character that cannot continue it.
\<close>

definition dec_frac :: "string \<Rightarrow> (rat \<times> string) option" where
  "dec_frac s =
     (case s of
        c # cs \<Rightarrow>
          (if c = CHR ''.'' then
             (let ds = takeWhile is_digit cs; rest = dropWhile is_digit cs in
              if ds = [] then None
              else Some (of_nat (digits_val ds) / 10 ^ length ds, rest))
           else Some (0, s))
      | [] \<Rightarrow> Some (0, s))"

definition dec_exp :: "string \<Rightarrow> (rat \<times> string) option" where
  "dec_exp s =
     (case s of
        c # cs \<Rightarrow>
          (if c = CHR ''e'' \<or> c = CHR ''E'' then
             (let neg = (case cs of x # _ \<Rightarrow> x = CHR ''-'' | [] \<Rightarrow> False);
                  cs' = (case cs of x # xs \<Rightarrow> (if x = CHR ''-'' \<or> x = CHR ''+'' then xs else cs) | [] \<Rightarrow> []);
                  ds = takeWhile is_digit cs'; rest = dropWhile is_digit cs' in
              if ds = [] then None
              else Some (if neg then 1 / 10 ^ digits_val ds else 10 ^ digits_val ds, rest))
           else Some (1, s))
      | [] \<Rightarrow> Some (1, s))"

definition dec_unsigned :: "string \<Rightarrow> (rat \<times> string) option" where
  "dec_unsigned s =
     (let ds = takeWhile is_digit s; rest = dropWhile is_digit s in
      if ds = [] \<or> (hd ds = CHR ''0'' \<and> ds \<noteq> ''0'') then None
      else (case dec_frac rest of
              None \<Rightarrow> None
            | Some (f, rest') \<Rightarrow>
                (case dec_exp rest' of
                   None \<Rightarrow> None
                 | Some (e, rest'') \<Rightarrow> Some ((of_nat (digits_val ds) + f) * e, rest''))))"

definition dec_num :: "string \<Rightarrow> (rat \<times> string) option" where
  "dec_num s =
     (case s of
        [] \<Rightarrow> None
      | c # cs \<Rightarrow>
          (if c = CHR ''-'' then map_option (\<lambda>(r, rest). (- r, rest)) (dec_unsigned cs)
           else dec_unsigned s))"

text \<open>
  Values, array elements and object members. The first argument bounds the number of calls; the
  length of the input is enough, since a nested value is enclosed in two brackets.
\<close>

fun dec_val :: "nat \<Rightarrow> string \<Rightarrow> (json \<times> string) option"
  and dec_elems :: "nat \<Rightarrow> string \<Rightarrow> (json list \<times> string) option"
  and dec_members :: "nat \<Rightarrow> string \<Rightarrow> ((string \<times> json) list \<times> string) option" where
  "dec_val 0 s = None"
| "dec_val (Suc n) s =
     (case skip_ws s of
        [] \<Rightarrow> None
      | c # cs \<Rightarrow>
          (if c = DQ then map_option (\<lambda>(x, rest). (JStr x, rest)) (dec_str cs)
           else if c = CHR ''['' then
             (case skip_ws cs of
                [] \<Rightarrow> None
              | d # ds \<Rightarrow>
                  (if d = CHR '']'' then Some (JArr [], ds)
                   else map_option (\<lambda>(vs, rest). (JArr vs, rest)) (dec_elems n cs)))
           else if c = CHR ''{'' then
             (case skip_ws cs of
                [] \<Rightarrow> None
              | d # ds \<Rightarrow>
                  (if d = CHR ''}'' then Some (JObj [], ds)
                   else map_option (\<lambda>(ms, rest). (JObj ms, rest)) (dec_members n cs)))
           else if has_prefix (c # cs) ''true'' then Some (JBool True, drop 4 (c # cs))
           else if has_prefix (c # cs) ''false'' then Some (JBool False, drop 5 (c # cs))
           else if has_prefix (c # cs) ''null'' then Some (JNull, drop 4 (c # cs))
           else map_option (\<lambda>(r, rest). (JNum (take (length (c # cs) - length rest) (c # cs)), rest)) (dec_num (c # cs))))"
| "dec_elems 0 s = None"
| "dec_elems (Suc n) s =
     (case dec_val n s of
        None \<Rightarrow> None
      | Some (v, rest) \<Rightarrow>
          (case skip_ws rest of
             [] \<Rightarrow> None
           | c # cs \<Rightarrow>
               (if c = CHR '']'' then Some ([v], cs)
                else if c = CHR '','' then map_option (\<lambda>(vs, rest'). (v # vs, rest')) (dec_elems n cs)
                else None)))"
| "dec_members 0 s = None"
| "dec_members (Suc n) s =
     (case skip_ws s of
        [] \<Rightarrow> None
      | q # qs \<Rightarrow>
          (if q \<noteq> DQ then None
           else (case dec_str qs of
                   None \<Rightarrow> None
                 | Some (k, rest) \<Rightarrow>
                     (case skip_ws rest of
                        [] \<Rightarrow> None
                      | c # cs \<Rightarrow>
                          (if c \<noteq> CHR '':'' then None
                           else (case dec_val n cs of
                                   None \<Rightarrow> None
                                 | Some (v, rest') \<Rightarrow>
                                     (case skip_ws rest' of
                                        [] \<Rightarrow> None
                                      | d # ds \<Rightarrow>
                                          (if d = CHR ''}'' then Some ([(k, v)], ds)
                                           else if d = CHR '','' then
                                             map_option (\<lambda>(ms, rest''). ((k, v) # ms, rest''))
                                               (dec_members n ds)
                                           else None))))))))"

text \<open>The float64 of a literal.\<close>

definition num_val :: "string \<Rightarrow> rat" where
  "num_val lit = (case dec_num lit of Some (r, _) \<Rightarrow> r | None \<Rightarrow> 0)"

definition json_decode :: "string \<Rightarrow> json option" where
  "json_decode s =
     (case dec_val (Suc (length s)) s of
        None \<Rightarrow> None
      | Some (v, rest) \<Rightarrow> (if skip_ws rest = [] then Some v else None))"

text \<open>
  Objects that are decoded into a \<open>map[string]interface{}\<close>, at every level: of several members with the
  same key the last one is kept.
\<close>

definition last_wins :: "(string \<times> 'a) list \<Rightarrow> (string \<times> 'a) list" where
  "last_wins ms = fold (\<lambda>(k, v). AList.update k v) ms []"

lemma map_of_last_wins: "map_of (last_wins ms) = map_of (rev ms)"
proof -
  have "map_of (fold (\<lambda>(k, v). AList.update k v) ms acc) = map_of (rev ms @ acc)" for acc
    by (induction ms arbitrary: acc) (auto simp: update_conv')
  then show ?thesis by (simp add: last_wins_def)
qed

lemma last_wins_distinct: "distinct (map fst ms) \<Longrightarrow> last_wins ms = ms"
proof -
  have "fold (\<lambda>(k, v). AList.update k v) ms acc = acc @ ms" if "distinct (map fst (acc @ ms))" for acc
    using that
  proof (induction ms arbitrary: acc)
    case (Cons m ms)
    have "AList.update (fst m) (snd m) acc = acc @ [m]"
    proof -
      have "fst m \<notin> fst ` set acc" using Cons.prems by auto
      then show ?thesis by (induction acc) auto
    qed
    with Cons show ?case by (cases m) simp
  qed simp
  from this[of "[]"] show "distinct (map fst ms) \<Longrightarrow> ?thesis" by (simp add: last_wins_def)
qed

fun go_maps :: "json \<Rightarrow> json" where
  "go_maps (JArr vs) = JArr (map go_maps vs)"
| "go_maps (JObj ms) = JObj (last_wins (map (\<lambda>(k, v). (k, go_maps v)) ms))"
| "go_maps v = v"

text \<open>\<open>json.Unmarshal(data, &m)\<close> into a \<open>map[string]interface{}\<close>: an object or null.\<close>

definition unmarshal_map :: "string \<Rightarrow> (string \<times> json) list option" where
  "unmarshal_map s =
     (case map_option go_maps (json_decode s) of
        Some (JObj ms) \<Rightarrow> Some ms
      | Some JNull \<Rightarrow> Some []
      | _ \<Rightarrow> None)"

text \<open>A value with all its strings and keys made valid UTF-8, and the values for which that changes nothing.\<close>

fun fix_json :: "json \<Rightarrow> json" where
  "fix_json (JStr s) = JStr (utf8_fix s)"
| "fix_json (JArr vs) = JArr (map fix_json vs)"
| "fix_json (JObj ms) = JObj (map (\<lambda>(k, v). (utf8_fix k, fix_json v)) ms)"
| "fix_json v = v"

fun valid_json :: "json \<Rightarrow> bool" where
  "valid_json (JStr s) = valid_utf8 s"
| "valid_json (JArr vs) = (\<forall>v \<in> set vs. valid_json v)"
| "valid_json (JObj ms) = (\<forall>m \<in> set ms. valid_utf8 (fst m) \<and> valid_json (snd m))"
| "valid_json _ = True"

text \<open>The values whose numbers are integers, which is what the program's structs marshal to.\<close>

fun integral :: "json \<Rightarrow> bool" where
  "integral (JNum lit) = (\<exists>i. lit = int_text i)"
| "integral (JArr vs) = (\<forall>v \<in> set vs. integral v)"
| "integral (JObj ms) = (\<forall>m \<in> set ms. integral (snd m))"
| "integral _ = True"

text \<open>What can follow a number without continuing it.\<close>

definition num_end :: "string \<Rightarrow> bool" where
  "num_end s = (case s of [] \<Rightarrow> True | c # _ \<Rightarrow> \<not> is_digit c \<and> c \<noteq> CHR ''.'' \<and> c \<noteq> CHR ''e'' \<and> c \<noteq> CHR ''E'')"

section \<open>Round trip\<close>

subsection \<open>Strings\<close>

lemma of_char_less_256: "(of_char c :: nat) < 256"
  by (metis of_char_mod_256 mod_less_divisor zero_less_numeral)

lemma hex_val_hex_char: "n < 16 \<Longrightarrow> hex_val (hex_char n) = Some n"
  by (auto simp: hex_val_def hex_char_def of_char_of Let_def)

lemma hex4_ascii:
  "n < 256 \<Longrightarrow> hex4 (CHR ''0'') (CHR ''0'') (hex_char (n div 16)) (hex_char (n mod 16)) = Some n"
proof -
  assume n: "n < 256"
  have z: "hex_val (CHR ''0'') = Some 0" by (simp add: hex_val_def)
  from n have "n div 16 < 16" by auto
  then show ?thesis by (simp add: hex4_def z hex_val_hex_char)
qed

lemma dec_str_u:
  assumes n: "n < 128"
  shows "dec_str (BS # CHR ''u'' # CHR ''0'' # CHR ''0'' # hex_char (n div 16) # hex_char (n mod 16) # t)
       = prepend [char_of n] (dec_str t)"
proof -
  have "hex4 (CHR ''0'') (CHR ''0'') (hex_char (n div 16)) (hex_char (n mod 16)) = Some n"
    using n by (intro hex4_ascii) simp
  moreover have "dec_surrogate n t = (n, t)"
    using n by (simp add: dec_surrogate_def)
  ultimately show ?thesis
    using n by (subst dec_str.simps) (simp add: utf8_def)
qed

lemma dec_str_esc:
  "unescape e = Some d \<Longrightarrow> e \<noteq> CHR ''u'' \<Longrightarrow> dec_str (BS # e # t) = prepend [d] (dec_str t)"
  by (subst dec_str.simps) simp

lemma dec_str_plain:
  "c \<noteq> DQ \<Longrightarrow> c \<noteq> BS \<Longrightarrow> 32 \<le> (of_char c :: nat) \<Longrightarrow> (of_char c :: nat) < 128 \<Longrightarrow>
     dec_str (c # t) = prepend [c] (dec_str t)"
  by (subst dec_str.simps) simp

text \<open>A rune of several bytes is copied, and the three escapes of runes are read back.\<close>

lemma rune_len_high: "1 < rune_len (c # cs) \<Longrightarrow> 128 \<le> (of_char c :: nat)"
  using rune_len_ascii[of c cs] by fastforce

lemma dec_str_rune:
  assumes "1 < rune_len s"
  shows "dec_str (take (rune_len s) s @ t) = prepend (take (rune_len s) s) (dec_str t)"
proof -
  let ?k = "rune_len s"
  obtain c cs where s: "s = c # cs" using assms by (cases s) auto
  then have high: "128 \<le> (of_char c :: nat)" using rune_len_high assms by blast
  obtain u where u: "take ?k s @ t = c # u" using s assms by (cases ?k) auto
  have k: "rune_len (c # u) = ?k" using rune_len_take[of s t] assms u by simp
  have "take ?k (c # u) = take ?k s" "drop ?k (c # u) = t"
    using rune_len_le[of s] unfolding u[symmetric] by simp_all
  with high assms show ?thesis
    unfolding u by (subst dec_str.simps) (auto simp: k Let_def)
qed

lemma dec_str_escaped:
  "dec_str (BS # ''ufffd'' @ t) = prepend FFFD (dec_str t)"
  "dec_str (BS # ''u2028'' @ t) = prepend [CHR 0xE2, CHR 0x80, CHR 0xA8] (dec_str t)"
  "dec_str (BS # ''u2029'' @ t) = prepend [CHR 0xE2, CHR 0x80, CHR 0xA9] (dec_str t)"
proof -
  have h: "hex4 (CHR ''f'') (CHR ''f'') (CHR ''f'') (CHR ''d'') = Some 65533"
    "hex4 (CHR ''2'') (CHR ''0'') (CHR ''2'') (CHR ''8'') = Some 8232" "hex4 (CHR ''2'') (CHR ''0'') (CHR ''2'') (CHR ''9'') = Some 8233"
    by (simp_all add: hex4_def hex_val_def)
  have u: "utf8 65533 = FFFD" "utf8 8232 = [CHR 0xE2, CHR 0x80, CHR 0xA8]" "utf8 8233 = [CHR 0xE2, CHR 0x80, CHR 0xA9]"
    by (simp_all add: utf8_def char_of_def bit_0)
  show "dec_str (BS # ''ufffd'' @ t) = prepend FFFD (dec_str t)"
    "dec_str (BS # ''u2028'' @ t) = prepend [CHR 0xE2, CHR 0x80, CHR 0xA8] (dec_str t)"
    "dec_str (BS # ''u2029'' @ t) = prepend [CHR 0xE2, CHR 0x80, CHR 0xA9] (dec_str t)"
    by (subst dec_str.simps, simp add: h u dec_surrogate_def)+
qed

lemma dec_str_enc_rune:
  "1 < rune_len s \<Longrightarrow> dec_str (enc_rune (take (rune_len s) s) @ t) = prepend (take (rune_len s) s) (dec_str t)"
  using dec_str_rune[of s t] dec_str_escaped[of t] by (simp add: enc_rune_def)

lemma dec_str_enc_char:
  assumes low: "(of_char c :: nat) < 128"
  shows "dec_str (enc_char c @ t) = prepend [c] (dec_str t)"
proof (cases "c \<in> {DQ, BS, CHR 0x0A, CHR 0x0D, CHR 0x09}")
  case True
  then show ?thesis by (auto simp: enc_char_def unescape_def dec_str_esc)
next
  case short: False
  show ?thesis
  proof (cases "(of_char c :: nat) < 32 \<or> c = CHR ''<'' \<or> c = CHR ''>'' \<or> c = CHR 0x26")
    case True
    then have "(of_char c :: nat) < 128" by auto
    moreover have "enc_char c = [BS, CHR ''u'', CHR ''0'', CHR ''0'',
        hex_char (of_char c div 16), hex_char (of_char c mod 16)]"
      using short True unfolding enc_char_def by (simp only: insert_iff empty_iff if_False if_True simp_thms de_Morgan_disj)
    ultimately show ?thesis using dec_str_u [of "of_char c" t] by simp
  next
    case False
    with short have "enc_char c = [c]" by (simp add: enc_char_def)
    with short False low show ?thesis by (simp add: dec_str_plain)
  qed
qed

lemma rune_len_1: "rune_len (c # cs) = 1 \<Longrightarrow> (of_char c :: nat) < 128"
  by (auto simp: rune_len_def lead_len_def Let_def split: if_splits)

lemma dec_str_enc: "dec_str (enc_body s @ DQ # t) = Some (utf8_fix s, t)"
proof (induction s rule: enc_body.induct)
  case (2 c cs)
  let ?k = "rune_len (c # cs)"
  consider "?k = 0" | "?k = 1" | "1 < ?k" by linarith
  then show ?case
  proof cases
    case 1
    then show ?thesis using 2(1)[OF refl 1] dec_str_escaped(1)[of "enc_body cs @ DQ # t"]
      by (simp add: enc_body.simps(2) utf8_fix.simps(2) prepend_def Let_def)
  next
    case one: 2
    then show ?thesis using 2(2)[OF refl _ one] dec_str_enc_char[OF rune_len_1[OF one]]
      by (simp add: enc_body.simps(2) utf8_fix.simps(2) prepend_def Let_def)
  next
    case 3
    then have "dec_str (enc_body (drop ?k (c # cs)) @ DQ # t) = Some (utf8_fix (drop ?k (c # cs)), t)"
      using 2(3)[OF refl] by simp
    with 3 show ?thesis using dec_str_enc_rune[OF 3, of "enc_body (drop ?k (c # cs)) @ DQ # t"]
      by (simp add: enc_body.simps(2) utf8_fix.simps(2) prepend_def Let_def)
  qed
qed (simp add: dec_str.simps(2))

text \<open>Every decoded string is valid.\<close>

lemma hex4_bound: "hex4 a b c d = Some n \<Longrightarrow> n < 65536"
  by (auto simp: hex4_def hex_val_def Let_def split: option.splits if_splits)

lemma dec_surrogate_bound: "n < 65536 \<Longrightarrow> fst (dec_surrogate n s) < 0x110000"
  by (auto simp: dec_surrogate_def split: list.splits option.splits)

lemma dec_str_valid: "dec_str s = Some (x, rest) \<Longrightarrow> valid_utf8 x"
proof (induction s arbitrary: x rest rule: dec_str.induct)
  case (2 c cs)
  have pre: "valid_utf8 x" if "prepend p (dec_str r) = Some (x, rest)" "valid_utf8 p"
      "\<And>y q. dec_str r = Some (y, q) \<Longrightarrow> valid_utf8 y" for p r
    using that valid_utf8_append by (auto simp: prepend_def)
  have one: "valid_utf8 [d]" if "unescape e = Some d" for e d
    using that by (auto simp: unescape_def valid_utf8.simps(2) split: if_splits)
  note s = 2(5)[unfolded dec_str.simps(2)[of c cs] Let_def]
  consider "c = DQ" | "c = BS" | "c \<noteq> DQ" "c \<noteq> BS" "rune_len (c # cs) = 0" | "c \<noteq> DQ" "c \<noteq> BS" "rune_len (c # cs) \<noteq> 0" by blast
  then show ?case
  proof cases
    case 1
    then show ?thesis using s by simp
  next
    case bs: 2
    show ?thesis
    proof (cases "\<exists>h1 h2 h3 h4 rest. cs = CHR ''u'' # h1 # h2 # h3 # h4 # rest")
      case True
      then obtain h1 h2 h3 h4 r where cs: "cs = CHR ''u'' # h1 # h2 # h3 # h4 # r" by blast
      obtain n where n: "hex4 h1 h2 h3 h4 = Some n" using s bs cs by (auto split: option.splits)
      have "valid_utf8 (utf8 (fst (dec_surrogate n r)))"
        by (rule valid_utf8_utf8[OF dec_surrogate_bound[OF hex4_bound[OF n]]])
      moreover have "prepend (utf8 (fst (dec_surrogate n r))) (dec_str (snd (dec_surrogate n r))) = Some (x, rest)"
        using s bs cs n by simp
      ultimately show ?thesis using pre 2(1) bs cs n by simp
    next
      case False
      then obtain e es d where e: "cs = e # es" "e \<noteq> CHR ''u''" "unescape e = Some d" "prepend [d] (dec_str es) = Some (x, rest)"
        using s bs by (auto split: list.splits if_splits option.splits)
      show ?thesis using pre[OF e(4) one[OF e(3)]] 2(2) bs e by simp
    qed
  next
    case 3
    then show ?thesis using s 2(3) pre[OF _ valid_FFFD, of cs] by (auto split: if_splits)
  next
    case 4
    then show ?thesis using s 2(4) pre[OF _ valid_take_rune[OF 4(3)]] by (auto split: if_splits)
  qed
qed simp

subsection \<open>Numbers\<close>

lemma takeWhile_digits:
  "\<forall>c \<in> set ds. is_digit c \<Longrightarrow> num_end t \<Longrightarrow>
     takeWhile is_digit (ds @ t) = ds \<and> dropWhile is_digit (ds @ t) = t"
  by (cases t) (auto simp: num_end_def takeWhile_append dropWhile_append)

lemma dec_frac_exp_end [simp]:
  "num_end t \<Longrightarrow> dec_frac t = Some (0, t)" "num_end t \<Longrightarrow> dec_exp t = Some (1, t)"
  by (cases t; simp add: dec_frac_def dec_exp_def num_end_def)+

lemma dec_unsigned_nat_text: "num_end t \<Longrightarrow> dec_unsigned (nat_text n @ t) = Some (of_nat n, t)"
  using takeWhile_digits [OF nat_text_digits [of n], of t] hd_nat_text_zero [of n]
  by (auto simp: dec_unsigned_def Let_def)

lemma dec_num_int_text: "num_end t \<Longrightarrow> dec_num (int_text i @ t) = Some (of_int i, t)"
proof -
  assume t: "num_end t"
  have hd: "hd (nat_text n) \<noteq> CHR ''-''" for n
    using nat_text_hd [of n] by (auto simp: is_digit_def)
  have pos: "dec_num (nat_text n @ t) = Some (of_nat n, t)" for n
  proof (cases "nat_text n")
    case (Cons c cs)
    with hd [of n] dec_unsigned_nat_text [OF t, of n] show ?thesis by (simp add: dec_num_def)
  qed simp
  show ?thesis
    using pos [of "nat i"] dec_unsigned_nat_text [OF t, of "nat (- i)"]
    by (auto simp: int_text_def dec_num_def)
qed

subsection \<open>Values\<close>

lemma skip_ws_Cons [simp]: "\<not> is_ws c \<Longrightarrow> skip_ws (c # cs) = c # cs"
  by (simp add: skip_ws_def)

lemma skip_ws_Nil [simp]: "skip_ws [] = []"
  by (simp add: skip_ws_def)

lemma int_text_hd: "\<exists>c cs. int_text i = c # cs \<and> (is_digit c \<or> c = CHR ''-'')"
proof (cases "i < 0")
  case False
  then show ?thesis
    using nat_text_hd [of "nat i"] by (cases "nat_text (nat i)") (auto simp: int_text_def)
qed (simp add: int_text_def)

lemma enc_val_hd: "integral v \<Longrightarrow> \<exists>c cs. enc_val v = c # cs \<and> \<not> is_ws c \<and> c \<noteq> CHR '']'' \<and> c \<noteq> CHR ''}''"
proof (cases v)
  case (JNum lit)
  assume "integral v"
  then obtain i where "lit = int_text i" using JNum by auto
  then show ?thesis
    using JNum int_text_hd [of i] by (auto simp: is_ws_def is_digit_def)
qed (auto simp: is_ws_def bool_text_def enc_str_def)

lemma dec_val_num:
  assumes "num_end t"
  shows "dec_val (Suc n) (int_text i @ t) = Some (JNum (int_text i), t)"
proof -
  obtain c cs where c: "int_text i = c # cs" "is_digit c \<or> c = CHR ''-''"
    using int_text_hd by blast
  then have "\<not> is_ws c" "c \<noteq> DQ" "c \<noteq> CHR ''[''" "c \<noteq> CHR ''{''"
    "c \<noteq> CHR ''t''" "c \<noteq> CHR ''f''" "c \<noteq> CHR ''n''"
    by (auto simp: is_digit_def is_ws_def)
  with c(1) dec_num_int_text [OF assms, of i] show ?thesis
    by (simp add: has_prefix_def)
qed

lemma num_val_int_text [simp]: "num_val (int_text i) = of_int i"
  using dec_num_int_text[of "[]" i] by (simp add: num_val_def num_end_def)

lemma num_end_simps [simp]:
  "num_end (CHR '','' # t)" "num_end (CHR '']'' # t)" "num_end (CHR ''}'' # t)" "num_end []"
  by (simp_all add: num_end_def is_digit_def)

lemma is_ws_simps [simp]:
  "\<not> is_ws (CHR '','')" "\<not> is_ws (CHR '']'')" "\<not> is_ws (CHR ''}'')" "\<not> is_ws (CHR '':'')"
  "\<not> is_ws DQ" "\<not> is_ws (CHR ''['')" "\<not> is_ws (CHR ''{'')"
  by (simp_all add: is_ws_def)

lemma enc_elems_hd:
  "vs \<noteq> [] \<Longrightarrow> \<forall>v \<in> set vs. integral v \<Longrightarrow> \<exists>c cs. enc_elems vs = c # cs \<and> \<not> is_ws c \<and> c \<noteq> CHR '']''"
proof (cases vs)
  case (Cons v us)
  moreover assume "\<forall>v \<in> set vs. integral v"
  ultimately show ?thesis using enc_val_hd [of v] by auto
qed simp

lemma dec_enc:
  "\<lbrakk>integral v; num_end t; length (enc_val v) \<le> n\<rbrakk> \<Longrightarrow> dec_val n (enc_val v @ t) = Some (fix_json v, t)"
  "\<lbrakk>\<forall>v \<in> set vs. integral v; vs \<noteq> []; length (enc_elems vs) < n\<rbrakk> \<Longrightarrow>
     dec_elems n (enc_elems vs @ CHR '']'' # t) = Some (map fix_json vs, t)"
  "\<lbrakk>\<forall>m \<in> set ms. integral (snd m); ms \<noteq> []; length (enc_members ms) < n\<rbrakk> \<Longrightarrow>
     dec_members n (enc_members ms @ CHR ''}'' # t) = Some (map (\<lambda>(k, v). (utf8_fix k, fix_json v)) ms, t)"
proof (induction v and vs and ms arbitrary: n t and n t and n t
    rule: enc_val_enc_elems_enc_members.induct)
  case (3 lit)
  then obtain i where i: "lit = int_text i" by auto
  then obtain m where "n = Suc m"
    using 3 int_text_hd [of i] by (cases n) auto
  with 3 i show ?case by (simp add: dec_val_num del: dec_val.simps)
next
  case (4 s)
  then show ?case
    using dec_str_enc [of s t] by (cases n) (auto simp: enc_str_def)
next
  case (5 vs)
  then obtain m where m: "n = Suc m" by (cases n) auto
  show ?case
  proof (cases "vs = []")
    case False
    then obtain c cs where "enc_elems vs = c # cs" "\<not> is_ws c" "c \<noteq> CHR '']''"
      using enc_elems_hd 5(2) by force
    with 5 m False show ?thesis by (auto simp: Suc_le_eq)
  qed (simp add: m)
next
  case (6 ms)
  then obtain m where m: "n = Suc m" by (cases n) auto
  show ?case
  proof (cases ms)
    case (Cons e es)
    with 6 m show ?thesis by (cases e) (auto simp: enc_str_def Suc_le_eq)
  qed (simp add: m)
next
  case (8 v vs)
  then obtain m where m: "n = Suc m" by (cases n) auto
  with 8 show ?case by (cases "vs = []") auto
next
  case (10 k v ms)
  then obtain m where m: "n = Suc m" by (cases n) auto
  have k: "dec_str (enc_body k @ DQ # t') = Some (utf8_fix k, t')" for t'
    by (rule dec_str_enc)
  from 10 m show ?case by (cases "ms = []") (auto simp: enc_str_def k)
next
  case 1
  then show ?case by (cases n) (auto simp: has_prefix_def is_ws_def)
next
  case (2 b)
  then show ?case by (cases n; cases b) (auto simp: bool_text_def has_prefix_def is_ws_def)
qed auto

text \<open>Decoded values are valid, and valid values are left alone.\<close>

lemma dec_valid:
  "dec_val n s = Some (v, r) \<Longrightarrow> valid_json v"
  "dec_elems n s = Some (vs, r) \<Longrightarrow> \<forall>v \<in> set vs. valid_json v"
  "dec_members n s = Some (ms, r) \<Longrightarrow> \<forall>m \<in> set ms. valid_utf8 (fst m) \<and> valid_json (snd m)"
proof (induction n s and n s and n s arbitrary: v r and vs r and ms r rule: dec_val_dec_elems_dec_members.induct)
  case (2 n s)
  then show ?case
    by (auto simp: dec_str_valid split: list.splits if_splits)
next
  case (4 n s)
  then show ?case
    by (auto split: option.splits list.splits if_splits)
next
  case (6 n s)
  then show ?case
    by (auto simp: dec_str_valid split: option.splits list.splits if_splits) fastforce+
qed simp_all

lemma valid_json_decode: "json_decode s = Some v \<Longrightarrow> valid_json v"
  by (auto simp: json_decode_def split: option.splits if_splits intro: dec_valid(1) simp del: dec_val.simps)

lemma fix_json_valid: "valid_json v \<Longrightarrow> fix_json v = v"
  by (induction v) (auto simp: utf8_fix_valid intro!: map_idI)

theorem json_decode_encode: "integral v \<Longrightarrow> json_decode (json_encode v) = Some (fix_json v)"
  using dec_enc(1) [of v "[]" "Suc (length (enc_val v))"]
  by (simp add: json_decode_def json_encode_def)

subsection \<open>Indented text\<close>

text \<open>White space in front of a value, of elements and of members is skipped.\<close>

lemma skip_ws_append [simp]: "list_all is_ws w \<Longrightarrow> skip_ws (w @ s) = skip_ws s"
  by (induction w) (simp_all add: skip_ws_def)

lemma dec_skip:
  assumes "list_all is_ws w"
  shows "dec_val n (w @ s) = dec_val n s" "dec_elems n (w @ s) = dec_elems n s" "dec_members n (w @ s) = dec_members n s"
proof -
  show v: "dec_val n (w @ s) = dec_val n s" for n using assms by (cases n) simp_all
  show "dec_elems n (w @ s) = dec_elems n s" by (cases n) (simp_all add: v del: dec_val.simps)
  show "dec_members n (w @ s) = dec_members n s" using assms by (cases n) (simp_all del: dec_val.simps)
qed

lemma num_end_ws: "\<lbrakk>list_all is_ws w; num_end t\<rbrakk> \<Longrightarrow> num_end (w @ t)"
  by (cases w) (auto simp: num_end_def is_ws_def is_digit_def)

lemma ind_line_ws [simp]: "list_all is_ws tab \<Longrightarrow> list_all is_ws (ind_line tab n)"
  by (induction n) (auto simp: ind_line_def is_ws_def)

lemma length_ind_line [simp]: "0 < length (ind_line tab n)"
  by (simp add: ind_line_def)

lemma ind_val_scalar: "(\<And>vs. v \<noteq> JArr vs) \<Longrightarrow> (\<And>ms. v \<noteq> JObj ms) \<Longrightarrow> ind_val tab k v = enc_val v"
  by (cases v) auto

lemma ind_val_hd: "integral v \<Longrightarrow> \<exists>c cs. ind_val tab k v = c # cs \<and> \<not> is_ws c \<and> c \<noteq> CHR '']'' \<and> c \<noteq> CHR ''}''"
proof (cases v)
  case (JArr vs)
  then show ?thesis by simp
next
  case (JObj ms)
  then show ?thesis by simp
qed (use enc_val_hd[of v] in auto)

lemma skip_ind_elems:
  assumes "list_all is_ws tab" "vs \<noteq> []" "\<forall>v \<in> set vs. integral v"
  shows "\<exists>c cs. skip_ws (ind_elems tab k vs @ t) = c # cs \<and> c \<noteq> CHR '']''"
proof -
  obtain v us where vs: "vs = v # us" using assms(2) by (cases vs) auto
  obtain c cs where "ind_val tab k v = c # cs" "\<not> is_ws c" "c \<noteq> CHR '']''"
    using ind_val_hd[of v tab k] assms(3) vs by (metis list.set_intros(1))
  with assms(1) vs show ?thesis by simp
qed

lemma skip_ind_members:
  assumes "list_all is_ws tab" "ms \<noteq> []"
  shows "\<exists>cs. skip_ws (ind_members tab k ms @ t) = DQ # cs"
  using assms by (cases ms) (auto simp: enc_str_def)

lemma dec_ind:
  "\<lbrakk>list_all is_ws tab; integral v; num_end t; length (ind_val tab k v) \<le> n\<rbrakk> \<Longrightarrow>
     dec_val n (ind_val tab k v @ t) = Some (fix_json v, t)"
  "\<lbrakk>list_all is_ws tab; list_all is_ws w; \<forall>v \<in> set vs. integral v; vs \<noteq> []; length (ind_elems tab k vs) < n\<rbrakk> \<Longrightarrow>
     dec_elems n (ind_elems tab k vs @ w @ CHR '']'' # t) = Some (map fix_json vs, t)"
  "\<lbrakk>list_all is_ws tab; list_all is_ws w; \<forall>m \<in> set ms. integral (snd m); ms \<noteq> []; length (ind_members tab k ms) < n\<rbrakk> \<Longrightarrow>
     dec_members n (ind_members tab k ms @ w @ CHR ''}'' # t) = Some (map (\<lambda>(k, v). (utf8_fix k, fix_json v)) ms, t)"
proof (induction tab k v and tab k vs and tab k ms arbitrary: n t and n t w and n t w
    rule: ind_val_ind_elems_ind_members.induct)
  case (1 tab k vs)
  then obtain m where m: "n = Suc m" by (cases n) (auto split: if_splits)
  show ?case
  proof (cases "vs = []")
    case False
    obtain c cs where "skip_ws (ind_elems tab (Suc k) vs @ ind_line tab k @ CHR '']'' # t) = c # cs" "c \<noteq> CHR '']''"
      using skip_ind_elems[OF 1(2) False] 1(3) by (metis integral.simps(2))
    with 1 m False show ?thesis by (simp add: Suc_le_eq)
  qed (simp add: m)
next
  case (2 tab k ms)
  then obtain m where m: "n = Suc m" by (cases n) (auto split: if_splits)
  show ?case
  proof (cases "ms = []")
    case False
    obtain cs where "skip_ws (ind_members tab (Suc k) ms @ ind_line tab k @ CHR ''}'' # t) = DQ # cs"
      using skip_ind_members[OF 2(2) False] by blast
    with 2 m False show ?thesis by (simp add: Suc_le_eq)
  qed (simp add: m)
next
  case (5 tab k v vs)
  then obtain m where m: "n = Suc m" by (cases n) auto
  have v: "dec_val m (ind_line tab k @ ind_val tab k v @ t') = Some (fix_json v, t')" if "num_end t'" for t'
    using 5 m that by (simp add: dec_skip)
  show ?case
  proof (cases "vs = []")
    case True
    with m 5(4) v[of "w @ CHR '']'' # t"] show ?thesis by (simp add: num_end_ws)
  next
    case False
    with m v 5 show ?thesis by simp
  qed
next
  case (7 tab k key v ms)
  then obtain m where m: "n = Suc m" by (cases n) auto
  have key: "dec_str (enc_body key @ DQ # t') = Some (utf8_fix key, t')" for t'
    by (rule dec_str_enc)
  have v: "dec_val m (CHR '' '' # ind_val tab k v @ t') = Some (fix_json v, t')" if "num_end t'" for t'
    using 7 m that dec_skip(1)[of "'' ''" m "ind_val tab k v @ t'"] by (simp add: is_ws_def)
  show ?case
  proof (cases "ms = []")
    case True
    with m 7(3,4) v[of "w @ CHR ''}'' # t"] key show ?thesis by (simp add: num_end_ws enc_str_def)
  next
    case False
    with m v 7 key show ?thesis by (simp add: enc_str_def)
  qed
qed (simp_all add: dec_enc(1) del: enc_val.simps integral.simps)

theorem json_decode_indent:
  assumes "integral v" "list_all is_ws tab" "list_all is_ws w"
  shows "json_decode (ind_val tab 0 v @ w) = Some (fix_json v)"
proof -
  have "skip_ws w = []" using skip_ws_append[OF assms(3), of "[]"] by simp
  then show ?thesis
    using dec_ind(1)[OF assms(2,1), of w 0 "Suc (length (ind_val tab 0 v @ w))"] num_end_ws[OF assms(3), of "[]"]
    by (simp add: json_decode_def)
qed

end
