(* ===== verification/Types.thy ===== *)
theory Types
  imports GoJson
begin

text \<open>
  Package \<open>types\<close>: the messages of \<open>drivers.proto\<close>, the capability set, the \<open>Driver\<close>
  interface, the gRPC server that exposes a driver and the gRPC client through which
  \<open>cluster\<close> calls it. The driver side of the wire is the record \<open>driver\<close>, whose
  methods return what a Go method of the interface returns (a pointer that may be nil, and an
  error); the client side is the record \<open>rpc_driver\<close>, whose results are sums, because the
  generated client returns either a message or an error. The type variable \<open>'d\<close> is the state
  of the cloud provider the driver talks to. Lemmas: what a call through client and server
  returns for every outcome of the driver.
\<close>

section \<open>Messages\<close>

record driver_options =
  BoolOptions :: "string \<rightharpoonup> bool"
  StringOptions :: "string \<rightharpoonup> string"
  IntOptions :: "string \<rightharpoonup> int64"
  StringSliceOptions :: "string \<rightharpoonup> string list"

record cluster_info =
  ci_Version :: string
  ci_ServiceAccountToken :: string
  ci_Endpoint :: string
  ci_Username :: string
  ci_Password :: string
  ci_RootCaCertificate :: string
  ci_ClientCertificate :: string
  ci_ClientKey :: string
  ci_NodeCount :: int64
  ci_Metadata :: "string gomap"
  ci_Status :: string
  ci_CreateError :: string

text \<open>The zero values \<open>ClusterInfo{}\<close> and a \<open>DriverOptions\<close> with empty, non-nil maps.\<close>

definition empty_info :: cluster_info where
  "empty_info = \<lparr>ci_Version = [], ci_ServiceAccountToken = [], ci_Endpoint = [], ci_Username = [],
     ci_Password = [], ci_RootCaCertificate = [], ci_ClientCertificate = [], ci_ClientKey = [],
     ci_NodeCount = 0, ci_Metadata = None, ci_Status = [], ci_CreateError = []\<rparr>"

definition empty_options :: driver_options where
  "empty_options = \<lparr>BoolOptions = Map.empty, StringOptions = Map.empty, IntOptions = Map.empty,
     StringSliceOptions = Map.empty\<rparr>"

record flag_default =
  DefaultBool :: bool
  DefaultString :: string
  DefaultStringSlice :: "string list option"
  DefaultInt :: int64

record flag =
  flag_Type :: string
  flag_Usage :: string
  flag_Value :: string
  flag_Default :: "flag_default option"
  flag_Password :: bool

type_synonym driver_flags = "(string \<times> flag) list"

text \<open>The flags the drivers declare: \<open>&types.Flag{Type: t, Usage: u}\<close>, with \<open>Password: true\<close>.\<close>

definition zero_default :: flag_default where
  "zero_default = \<lparr>DefaultBool = False, DefaultString = [], DefaultStringSlice = None, DefaultInt = 0\<rparr>"

definition plain_flag :: "string \<Rightarrow> string \<Rightarrow> flag" where
  "plain_flag ty usage = \<lparr>flag_Type = ty, flag_Usage = usage, flag_Value = [], flag_Default = None,
     flag_Password = False\<rparr>"

definition secret_flag :: "string \<Rightarrow> string \<Rightarrow> flag" where
  "secret_flag ty usage = (plain_flag ty usage)\<lparr>flag_Password := True\<rparr>"

text \<open>The flag map after a sequence of assignments \<open>Options[k] = f\<close>.\<close>

definition flag_map :: "(string \<times> flag) list \<Rightarrow> driver_flags" where
  "flag_map assignments = fold (\<lambda>(k, f). AList.update k f) assignments []"

record load_balancer_capabilities =
  lb_Enabled :: bool
  lb_Provider :: string
  lb_ProtocolsSupported :: "string list"
  lb_HealthCheckSupported :: bool

record ingress_capabilities =
  ing_IngressProvider :: string
  ing_CustomDefaultBackend :: bool

record k8s_capabilities =
  k8s_L4LoadBalancer :: "load_balancer_capabilities option"
  k8s_IngressControllers :: "ingress_capabilities list"
  k8s_NodePoolScalingSupported :: bool
  k8s_NodePortRange :: string

section \<open>Flag types and capabilities\<close>

definition StringType :: string where "StringType = ''string''"
definition BoolType :: string where "BoolType = ''bool''"
definition BoolPointerType :: string where "BoolPointerType = ''boolPtr''"
definition IntType :: string where "IntType = ''int''"
definition IntPointerType :: string where "IntPointerType = ''intPtr''"
definition StringSliceType :: string where "StringSliceType = ''stringSlice''"

datatype capability =
    GetVersionCapability
  | SetVersionCapability
  | GetClusterSizeCapability
  | SetClusterSizeCapability
  | EtcdBackupCapability

text \<open>The \<open>iota\<close> numbers of the capability constants, the keys of the capability map.\<close>

primrec cap_num :: "capability \<Rightarrow> int64" where
  "cap_num GetVersionCapability = 0"
| "cap_num SetVersionCapability = 1"
| "cap_num GetClusterSizeCapability = 2"
| "cap_num SetClusterSizeCapability = 3"
| "cap_num EtcdBackupCapability = 4"

type_synonym capabilities = "int64 \<rightharpoonup> bool"

definition AddCapability :: "int64 \<Rightarrow> capabilities \<Rightarrow> capabilities" where
  "AddCapability c m = m(c \<mapsto> True)"

definition HasCapability :: "capability \<Rightarrow> capabilities \<Rightarrow> bool" where
  "HasCapability c m = (case m (cap_num c) of None \<Rightarrow> False | Some b \<Rightarrow> b)"

section \<open>The two sides of the driver interface\<close>

record 'd driver =
  v_GetDriverCreateOptions :: "'d \<Rightarrow> (driver_flags option \<times> goerr option) \<times> 'd"
  v_GetDriverUpdateOptions :: "'d \<Rightarrow> (driver_flags option \<times> goerr option) \<times> 'd"
  v_Create :: "driver_options \<Rightarrow> cluster_info option \<Rightarrow> 'd \<Rightarrow> (cluster_info option \<times> goerr option) \<times> 'd"
  v_Update :: "cluster_info \<Rightarrow> driver_options \<Rightarrow> 'd \<Rightarrow> (cluster_info option \<times> goerr option) \<times> 'd"
  v_PostCheck :: "cluster_info \<Rightarrow> 'd \<Rightarrow> (cluster_info option \<times> goerr option) \<times> 'd"
  v_Remove :: "cluster_info \<Rightarrow> 'd \<Rightarrow> goerr option \<times> 'd"
  v_GetVersion :: "cluster_info \<Rightarrow> 'd \<Rightarrow> (string option \<times> goerr option) \<times> 'd"
  v_SetVersion :: "cluster_info \<Rightarrow> string \<Rightarrow> 'd \<Rightarrow> goerr option \<times> 'd"
  v_GetClusterSize :: "cluster_info \<Rightarrow> 'd \<Rightarrow> (int64 option \<times> goerr option) \<times> 'd"
  v_SetClusterSize :: "cluster_info \<Rightarrow> int64 \<Rightarrow> 'd \<Rightarrow> goerr option \<times> 'd"
  v_GetCapabilities :: "'d \<Rightarrow> (capabilities option \<times> goerr option) \<times> 'd"
  v_RemoveLegacyServiceAccount :: "cluster_info \<Rightarrow> 'd \<Rightarrow> goerr option \<times> 'd"
  v_ETCDSave :: "cluster_info \<Rightarrow> driver_options \<Rightarrow> string \<Rightarrow> 'd \<Rightarrow> goerr option \<times> 'd"
  v_ETCDRestore :: "cluster_info \<Rightarrow> driver_options \<Rightarrow> string \<Rightarrow> 'd
                      \<Rightarrow> (cluster_info option \<times> goerr option) \<times> 'd"
  v_ETCDRemoveSnapshot :: "cluster_info \<Rightarrow> driver_options \<Rightarrow> string \<Rightarrow> 'd \<Rightarrow> goerr option \<times> 'd"
  v_GetK8SCapabilities :: "driver_options \<Rightarrow> 'd \<Rightarrow> (k8s_capabilities option \<times> goerr option) \<times> 'd"

record 'd rpc_driver =
  d_GetDriverCreateOptions :: "'d \<Rightarrow> (goerr + driver_flags) \<times> 'd"
  d_GetDriverUpdateOptions :: "'d \<Rightarrow> (goerr + driver_flags) \<times> 'd"
  d_Create :: "driver_options \<Rightarrow> cluster_info option \<Rightarrow> 'd \<Rightarrow> (cluster_info option \<times> goerr option) \<times> 'd"
  d_Update :: "cluster_info \<Rightarrow> driver_options \<Rightarrow> 'd \<Rightarrow> (goerr + cluster_info) \<times> 'd"
  d_PostCheck :: "cluster_info \<Rightarrow> 'd \<Rightarrow> (goerr + cluster_info) \<times> 'd"
  d_Remove :: "cluster_info \<Rightarrow> 'd \<Rightarrow> goerr option \<times> 'd"
  d_GetVersion :: "cluster_info \<Rightarrow> 'd \<Rightarrow> (goerr + string) \<times> 'd"
  d_SetVersion :: "cluster_info \<Rightarrow> string \<Rightarrow> 'd \<Rightarrow> goerr option \<times> 'd"
  d_GetClusterSize :: "cluster_info \<Rightarrow> 'd \<Rightarrow> (goerr + int64) \<times> 'd"
  d_SetClusterSize :: "cluster_info \<Rightarrow> int64 \<Rightarrow> 'd \<Rightarrow> goerr option \<times> 'd"
  d_GetCapabilities :: "'d \<Rightarrow> (goerr + capabilities) \<times> 'd"
  d_RemoveLegacyServiceAccount :: "cluster_info \<Rightarrow> 'd \<Rightarrow> goerr option \<times> 'd"
  d_ETCDSave :: "cluster_info \<Rightarrow> driver_options \<Rightarrow> string \<Rightarrow> 'd \<Rightarrow> goerr option \<times> 'd"
  d_ETCDRestore :: "cluster_info \<Rightarrow> driver_options \<Rightarrow> string \<Rightarrow> 'd \<Rightarrow> (goerr + cluster_info) \<times> 'd"
  d_ETCDRemoveSnapshot :: "cluster_info \<Rightarrow> driver_options \<Rightarrow> string \<Rightarrow> 'd \<Rightarrow> goerr option \<times> 'd"
  d_GetK8SCapabilities :: "driver_options \<Rightarrow> 'd \<Rightarrow> (goerr + k8s_capabilities) \<times> 'd"

text \<open>The embedded defaults of drivers without version or size access: nil results.\<close>

definition unimpl_GetVersion :: "cluster_info \<Rightarrow> 'd \<Rightarrow> (string option \<times> goerr option) \<times> 'd" where
  "unimpl_GetVersion info d = ((None, None), d)"
definition unimpl_SetVersion :: "cluster_info \<Rightarrow> string \<Rightarrow> 'd \<Rightarrow> goerr option \<times> 'd" where
  "unimpl_SetVersion info v d = (None, d)"
definition unimpl_GetClusterSize :: "cluster_info \<Rightarrow> 'd \<Rightarrow> (int64 option \<times> goerr option) \<times> 'd" where
  "unimpl_GetClusterSize info d = ((None, None), d)"
definition unimpl_SetClusterSize :: "cluster_info \<Rightarrow> int64 \<Rightarrow> 'd \<Rightarrow> goerr option \<times> 'd" where
  "unimpl_SetClusterSize info n d = (None, d)"

section \<open>The server\<close>

text \<open>
  \<open>GrpcServer.Create\<close>: an error that comes with a cluster info is moved into the info's
  \<open>CreateError\<close>, so that both reach the client; gRPC itself would drop the info.
\<close>

definition srv_Create :: "'d driver \<Rightarrow> driver_options \<Rightarrow> cluster_info option \<Rightarrow> 'd
    \<Rightarrow> (cluster_info option \<times> goerr option) \<times> 'd" where
  "srv_Create v opts info d =
     (case v_Create v opts info d of
        ((Some i, Some e), d') \<Rightarrow> ((Some (i\<lparr>ci_CreateError := err_msg e\<rparr>), None), d')
      | (r, d') \<Rightarrow> (r, d'))"

text \<open>Every other handler forwards the call to the driver.\<close>

definition grpc_server :: "'d driver \<Rightarrow> 'd driver" where
  "grpc_server v = v\<lparr>v_Create := srv_Create v\<rparr>"

section \<open>The wire\<close>

text \<open>
  A connection: \<open>conn_send\<close> says whether a request fails before the server runs it,
  \<open>conn_recv\<close> whether the reply is lost. \<open>server_reply\<close> is what \<open>processUnaryRPC\<close> of the
  vendored gRPC does with the result of a handler: an error that is not a status becomes one
  with code Unknown, a nil reply cannot be marshalled.
\<close>

record 'd conn =
  conn_send :: "'d \<Rightarrow> goerr option"
  conn_recv :: "'d \<Rightarrow> goerr option"

fun status_of :: "goerr \<Rightarrow> goerr" where
  "status_of (RpcStatus c m) = RpcStatus c m"
| "status_of e = RpcStatus ''Unknown'' (err_msg e)"

fun server_reply :: "'a option \<times> goerr option \<Rightarrow> goerr + 'a" where
  "server_reply (r, Some e) = Inl (status_of e)"
| "server_reply (Some x, None) = Inr x"
| "server_reply (None, None) =
     Inl (RpcStatus ''Internal'' ''grpc: error while marshaling: proto: Marshal called with nil'')"

definition rpc_invoke :: "'d conn \<Rightarrow> ('d \<Rightarrow> ('a option \<times> goerr option) \<times> 'd) \<Rightarrow> 'd \<Rightarrow> (goerr + 'a) \<times> 'd" where
  "rpc_invoke cn h d =
     (case conn_send cn d of
        Some e \<Rightarrow> (Inl e, d)
      | None \<Rightarrow>
          (case h d of
             (r, d') \<Rightarrow>
               (case conn_recv cn d' of
                  Some e \<Rightarrow> (Inl e, d')
                | None \<Rightarrow> (server_reply r, d'))))"

section \<open>The client\<close>

text \<open>\<open>handlErr\<close>: a status of code Unknown with a message is unwrapped to its message.\<close>

fun handlErr :: "goerr \<Rightarrow> goerr" where
  "handlErr (RpcStatus c m) = (if c = ''Unknown'' \<and> m \<noteq> [] then Errorf m else RpcStatus c m)"
| "handlErr e = e"

definition rpc_call :: "'d conn \<Rightarrow> ('d \<Rightarrow> ('a option \<times> goerr option) \<times> 'd) \<Rightarrow> 'd \<Rightarrow> (goerr + 'a) \<times> 'd" where
  "rpc_call cn h d = (case rpc_invoke cn h d of (r, d') \<Rightarrow> (map_sum handlErr id r, d'))"

text \<open>Methods whose reply is \<open>Empty\<close>: the handler returns \<open>&Empty{}\<close> beside its error.\<close>

definition rpc_empty :: "'d conn \<Rightarrow> ('d \<Rightarrow> goerr option \<times> 'd) \<Rightarrow> 'd \<Rightarrow> goerr option \<times> 'd" where
  "rpc_empty cn h d =
     (case rpc_call cn (\<lambda>d. case h d of (e, d') \<Rightarrow> ((Some (), e), d')) d of
        (Inl e, d') \<Rightarrow> (Some e, d')
      | (Inr _, d') \<Rightarrow> (None, d'))"

definition grpc_Create :: "'d conn \<Rightarrow> 'd driver \<Rightarrow> driver_options \<Rightarrow> cluster_info option \<Rightarrow> 'd
    \<Rightarrow> (cluster_info option \<times> goerr option) \<times> 'd" where
  "grpc_Create cn srv opts info d =
     (case rpc_call cn (v_Create srv opts info) d of
        (Inl e, d') \<Rightarrow> ((None, Some e), d')
      | (Inr out, d') \<Rightarrow>
          ((Some out, if ci_CreateError out \<noteq> [] then Some (Errorf (ci_CreateError out)) else None), d'))"

definition grpc_client :: "'d conn \<Rightarrow> 'd driver \<Rightarrow> 'd rpc_driver" where
  "grpc_client cn srv = \<lparr>
     d_GetDriverCreateOptions = rpc_call cn (v_GetDriverCreateOptions srv),
     d_GetDriverUpdateOptions = rpc_call cn (v_GetDriverUpdateOptions srv),
     d_Create = grpc_Create cn srv,
     d_Update = (\<lambda>info opts. rpc_call cn (v_Update srv info opts)),
     d_PostCheck = (\<lambda>info. rpc_call cn (v_PostCheck srv info)),
     d_Remove = (\<lambda>info. rpc_empty cn (v_Remove srv info)),
     d_GetVersion = (\<lambda>info. rpc_call cn (v_GetVersion srv info)),
     d_SetVersion = (\<lambda>info ver. rpc_empty cn (v_SetVersion srv info ver)),
     d_GetClusterSize = (\<lambda>info. rpc_call cn (v_GetClusterSize srv info)),
     d_SetClusterSize = (\<lambda>info n. rpc_empty cn (v_SetClusterSize srv info n)),
     d_GetCapabilities = rpc_invoke cn (v_GetCapabilities srv),
     d_RemoveLegacyServiceAccount = (\<lambda>info. rpc_empty cn (v_RemoveLegacyServiceAccount srv info)),
     d_ETCDSave = (\<lambda>info opts snap. rpc_empty cn (v_ETCDSave srv info opts snap)),
     d_ETCDRestore = (\<lambda>info opts snap. rpc_call cn (v_ETCDRestore srv info opts snap)),
     d_ETCDRemoveSnapshot = (\<lambda>info opts snap. rpc_empty cn (v_ETCDRemoveSnapshot srv info opts snap)),
     d_GetK8SCapabilities = (\<lambda>opts. rpc_call cn (v_GetK8SCapabilities srv opts))\<rparr>"

text \<open>\<open>NewClient\<close>: \<open>dial\<close> gives the connection to an address and the server that answers there. The driver's name is only
  kept for messages.\<close>

definition NewClient :: "(string \<Rightarrow> goerr + 'd conn \<times> 'd driver) \<Rightarrow> string \<Rightarrow> string \<Rightarrow> goerr + 'd rpc_driver" where
  "NewClient dial driverName addr =
     (case dial addr of Inl err \<Rightarrow> Inl err | Inr (conn, server) \<Rightarrow> Inr (grpc_client conn server))"

text \<open>A connection that delivers every request and every reply.\<close>

definition good_conn :: "'d conn" where
  "good_conn = \<lparr>conn_send = (\<lambda>_. None), conn_recv = (\<lambda>_. None)\<rparr>"

text \<open>A driver in which nothing is implemented, the base of concrete example drivers.\<close>

definition no_impl :: "'a option \<times> goerr option" where
  "no_impl = (None, Some (Errorf ''not implemented''))"

definition stub_driver :: "'d driver" where
  "stub_driver = \<lparr>v_GetDriverCreateOptions = (\<lambda>d. (no_impl, d)),
     v_GetDriverUpdateOptions = (\<lambda>d. (no_impl, d)),
     v_Create = (\<lambda>opts info d. (no_impl, d)), v_Update = (\<lambda>info opts d. (no_impl, d)),
     v_PostCheck = (\<lambda>info d. (no_impl, d)), v_Remove = (\<lambda>info d. (Some (Errorf ''not implemented''), d)),
     v_GetVersion = unimpl_GetVersion, v_SetVersion = unimpl_SetVersion,
     v_GetClusterSize = unimpl_GetClusterSize, v_SetClusterSize = unimpl_SetClusterSize,
     v_GetCapabilities = (\<lambda>d. ((Some Map.empty, None), d)),
     v_RemoveLegacyServiceAccount = (\<lambda>info d. (Some (Errorf ''not implemented''), d)),
     v_ETCDSave = (\<lambda>info opts snap d. (Some (Errorf ''not implemented''), d)),
     v_ETCDRestore = (\<lambda>info opts snap d. (no_impl, d)),
     v_ETCDRemoveSnapshot = (\<lambda>info opts snap d. (Some (Errorf ''not implemented''), d)),
     v_GetK8SCapabilities = (\<lambda>opts d. (no_impl, d))\<rparr>"

section \<open>Lemmas\<close>

lemma flag_map_keys: "fst ` set (flag_map l) = fst ` set l"
proof -
  have "fst ` set (fold (\<lambda>(k, f). AList.update k f) l acc) = fst ` set acc \<union> fst ` set l" for acc
    by (induction l arbitrary: acc) (auto simp: dom_update split: prod.splits)
  then show ?thesis by (simp add: flag_map_def)
qed

lemma rpc_invoke_good [simp]:
  "rpc_invoke good_conn h d = (server_reply (fst (h d)), snd (h d))"
  by (simp add: rpc_invoke_def good_conn_def split: prod.splits)

lemma handlErr_msg:
  "err_msg e \<noteq> [] \<Longrightarrow> (\<forall>c m. e \<noteq> RpcStatus c m) \<Longrightarrow> handlErr (status_of e) = Errorf (err_msg e)"
  by (cases e) auto

lemma HasCapability_Add [simp]:
  "HasCapability c (AddCapability (cap_num c') m) \<longleftrightarrow> c = c' \<or> HasCapability c m"
  by (cases c; cases c') (simp_all add: HasCapability_def AddCapability_def)

lemma HasCapability_empty [simp]: "\<not> HasCapability c Map.empty"
  by (simp add: HasCapability_def)

text \<open>
  C29. A create call over a working connection delivers both results of the driver: the client
  sees the driver's info (with \<open>CreateError\<close> filled in when the driver failed) and an error
  with the driver's message exactly when the driver failed. This is the point of moving the
  error into the info: gRPC alone would drop the info of a failed create.
\<close>

theorem create_over_grpc:
  assumes drv: "v_Create v opts info d = ((Some i, err), d')"
    and ce: "ci_CreateError i = []"
    and msg: "\<And>e. err = Some e \<Longrightarrow> err_msg e \<noteq> []"
  shows "d_Create (grpc_client good_conn (grpc_server v)) opts info d =
     ((Some (case err of None \<Rightarrow> i | Some e \<Rightarrow> i\<lparr>ci_CreateError := err_msg e\<rparr>),
       map_option (\<lambda>e. Errorf (err_msg e)) err), d')"
  using assms
  by (cases err)
     (simp_all add: grpc_client_def grpc_Create_def rpc_call_def grpc_server_def srv_Create_def)

theorem create_over_grpc_witness:
  "d_Create (grpc_client good_conn (grpc_server
       (stub_driver\<lparr>v_Create := \<lambda>os i d. ((Some empty_info, Some (Errorf ''quota'')), d)\<rparr>)))
     empty_options None (0::nat) =
   ((Some (empty_info\<lparr>ci_CreateError := ''quota''\<rparr>), Some (Errorf ''quota'')), 0)"
proof -
  let ?v = "stub_driver\<lparr>v_Create := \<lambda>os i d. ((Some empty_info, Some (Errorf ''quota'')), d)\<rparr> :: nat driver"
  have drv: "v_Create ?v empty_options None 0 = ((Some empty_info, Some (Errorf ''quota'')), 0)"
    by simp
  have ce: "ci_CreateError empty_info = []" by (simp add: empty_info_def)
  show ?thesis
    using create_over_grpc [OF drv ce] by simp
qed

end
