(* ===== verification/Options.thy ===== *)
theory Options
  imports Types
begin

text \<open>
  Driver options: the lookup \<open>GetValueFromDriverOptions\<close> of \<open>drivers/options\<close> with its
  list of alias keys, \<open>flatten\<close> of \<open>service.go\<close> and \<open>flattenIfNotExist\<close> of
  \<open>cluster.go\<close>, which turn a decoded JSON object into driver options. A Go map is visited in
  an unspecified order, so the object is an association list in the order of the visit, and
  the lemmas say when the result does not depend on it: both functions are a sequence of single
  assignments (\<open>assigns\<close>), and assignments to different options commute.
\<close>

section \<open>Reading an option\<close>

text \<open>The \<open>interface{}\<close> values the lookup returns.\<close>

datatype go_any =
    AnyNil
  | AnyInt int64
  | AnyIntPtr int64
  | AnyStr string
  | AnyBool bool
  | AnyBoolPtr bool
  | AnySlice "string list"

fun first_key :: "(string \<rightharpoonup> 'v) \<Rightarrow> string list \<Rightarrow> 'v option" where
  "first_key m [] = None"
| "first_key m (k # ks) = (case m k of Some v \<Rightarrow> Some v | None \<Rightarrow> first_key m ks)"

definition GetValueFromDriverOptions :: "driver_options \<Rightarrow> string \<Rightarrow> string list \<Rightarrow> go_any" where
  "GetValueFromDriverOptions opts ty keys =
     (if ty = IntType then
        (case first_key (IntOptions opts) keys of Some v \<Rightarrow> AnyInt v | None \<Rightarrow> AnyInt 0)
      else if ty = IntPointerType then
        (case first_key (IntOptions opts) keys of Some v \<Rightarrow> AnyIntPtr v | None \<Rightarrow> AnyNil)
      else if ty = StringType then
        (case first_key (StringOptions opts) keys of Some v \<Rightarrow> AnyStr v | None \<Rightarrow> AnyStr [])
      else if ty = BoolType then
        (case first_key (BoolOptions opts) keys of Some v \<Rightarrow> AnyBool v | None \<Rightarrow> AnyBool False)
      else if ty = BoolPointerType then
        (case first_key (BoolOptions opts) keys of Some v \<Rightarrow> AnyBoolPtr v | None \<Rightarrow> AnyNil)
      else if ty = StringSliceType then
        (case first_key (StringSliceOptions opts) keys of Some v \<Rightarrow> AnySlice v | None \<Rightarrow> AnySlice [])
      else AnyNil)"

text \<open>
  The lookups followed by their type assertion, \<open>GetValueFromDriverOptions(...).(string)\<close> and
  so on; a pointer option is \<open>None\<close> when the assertion \<open>v, _ := x.(*T)\<close> leaves nil. A failed
  assertion would panic: \<open>opt_lookup_typed\<close> shows that none of these can fail.
\<close>

definition opt_str :: "driver_options \<Rightarrow> string list \<Rightarrow> string" where
  "opt_str opts keys =
     (case GetValueFromDriverOptions opts StringType keys of AnyStr s \<Rightarrow> s | _ \<Rightarrow> undefined)"
definition opt_int :: "driver_options \<Rightarrow> string list \<Rightarrow> int64" where
  "opt_int opts keys =
     (case GetValueFromDriverOptions opts IntType keys of AnyInt i \<Rightarrow> i | _ \<Rightarrow> undefined)"
definition opt_int_ptr :: "driver_options \<Rightarrow> string list \<Rightarrow> int64 option" where
  "opt_int_ptr opts keys =
     (case GetValueFromDriverOptions opts IntPointerType keys of AnyIntPtr i \<Rightarrow> Some i | _ \<Rightarrow> None)"
definition opt_bool :: "driver_options \<Rightarrow> string list \<Rightarrow> bool" where
  "opt_bool opts keys =
     (case GetValueFromDriverOptions opts BoolType keys of AnyBool b \<Rightarrow> b | _ \<Rightarrow> undefined)"
definition opt_bool_ptr :: "driver_options \<Rightarrow> string list \<Rightarrow> bool option" where
  "opt_bool_ptr opts keys =
     (case GetValueFromDriverOptions opts BoolPointerType keys of AnyBoolPtr b \<Rightarrow> Some b | _ \<Rightarrow> None)"
definition opt_slice :: "driver_options \<Rightarrow> string list \<Rightarrow> string list" where
  "opt_slice opts keys =
     (case GetValueFromDriverOptions opts StringSliceType keys of AnySlice l \<Rightarrow> l | _ \<Rightarrow> undefined)"

section \<open>Flattening\<close>

text \<open>
  \<open>int64(v.(float64))\<close>: truncation towards zero; a value outside the int64 range gives the
  smallest int64, as on amd64.
\<close>

definition int64_of_float :: "rat \<Rightarrow> int64" where
  "int64_of_float r =
     (let i = (if r \<ge> 0 then \<lfloor>r\<rfloor> else \<lceil>r\<rceil>) in
      if - (2 ^ 63) \<le> i \<and> i < 2 ^ 63 then word_of_int i else word_of_int (- (2 ^ 63)))"

text \<open>
  The \<open>%v\<close> text of a decoded value; \<open>fmtf\<close> is the text of a float64, \<open>fmt\<close> prints maps
  in key order.
\<close>

fun fmt_v :: "(rat \<Rightarrow> string) \<Rightarrow> json \<Rightarrow> string" where
  "fmt_v fmtf JNull = ''<nil>''"
| "fmt_v fmtf (JBool b) = bool_text b"
| "fmt_v fmtf (JNum r) = fmtf (num_val r)"
| "fmt_v fmtf (JStr s) = s"
| "fmt_v fmtf (JArr vs) = ''['' @ join_with '' '' (map (fmt_v fmtf) vs) @ '']''"
| "fmt_v fmtf (JObj ms) =
     ''map['' @ join_with '' '' (map snd (sort_key fst
        (map (\<lambda>(k, v). (k, k @ '':'' @ fmt_v fmtf v)) ms))) @ '']''"

text \<open>The strings of a decoded list; other elements are dropped.\<close>

fun string_elems :: "json list \<Rightarrow> string list" where
  "string_elems [] = []"
| "string_elems (JStr s # vs) = s # string_elems vs"
| "string_elems (v # vs) = string_elems vs"

definition key_value :: "(rat \<Rightarrow> string) \<Rightarrow> (string \<times> json) list \<Rightarrow> string list" where
  "key_value fmtf ms = map (\<lambda>(k, v). k @ ''='' @ fmt_v fmtf v) ms"

text \<open>\<open>flatten\<close> of \<open>service.go\<close>; null values and unknown types are only logged.\<close>

fun flatten :: "(rat \<Rightarrow> string) \<Rightarrow> (string \<times> json) list \<Rightarrow> driver_options \<Rightarrow> driver_options"
  and flatten_entry :: "(rat \<Rightarrow> string) \<Rightarrow> string \<Rightarrow> json \<Rightarrow> driver_options \<Rightarrow> driver_options" where
  "flatten fmtf [] opts = opts"
| "flatten fmtf ((k, v) # ms) opts = flatten fmtf ms (flatten_entry fmtf k v opts)"
| "flatten_entry fmtf k (JNum r) opts = opts\<lparr>IntOptions := (IntOptions opts)(k \<mapsto> int64_of_float (num_val r))\<rparr>"
| "flatten_entry fmtf k (JStr s) opts = opts\<lparr>StringOptions := (StringOptions opts)(k \<mapsto> s)\<rparr>"
| "flatten_entry fmtf k (JBool b) opts = opts\<lparr>BoolOptions := (BoolOptions opts)(k \<mapsto> b)\<rparr>"
| "flatten_entry fmtf k (JArr vs) opts =
     (if string_elems vs \<noteq> []
      then opts\<lparr>StringSliceOptions := (StringSliceOptions opts)(k \<mapsto> string_elems vs)\<rparr> else opts)"
| "flatten_entry fmtf k (JObj ms) opts =
     (if k = ''labels''
      then opts\<lparr>StringSliceOptions := (StringSliceOptions opts)(k \<mapsto> key_value fmtf ms)\<rparr>
      else flatten fmtf ms opts)"
| "flatten_entry fmtf k JNull opts = opts"

text \<open>\<open>flattenIfNotExist\<close> of \<open>cluster.go\<close>: the same walk, which never replaces an option.\<close>

definition put_new :: "string \<Rightarrow> 'v \<Rightarrow> (string \<rightharpoonup> 'v) \<Rightarrow> (string \<rightharpoonup> 'v)" where
  "put_new k v m = (case m k of None \<Rightarrow> m(k \<mapsto> v) | Some _ \<Rightarrow> m)"

fun flattenIfNotExist :: "(rat \<Rightarrow> string) \<Rightarrow> (string \<times> json) list \<Rightarrow> driver_options \<Rightarrow> driver_options"
  and flattenIfNotExist_entry :: "(rat \<Rightarrow> string) \<Rightarrow> string \<Rightarrow> json \<Rightarrow> driver_options \<Rightarrow> driver_options" where
  "flattenIfNotExist fmtf [] opts = opts"
| "flattenIfNotExist fmtf ((k, v) # ms) opts =
     flattenIfNotExist fmtf ms (flattenIfNotExist_entry fmtf k v opts)"
| "flattenIfNotExist_entry fmtf k (JNum r) opts =
     opts\<lparr>IntOptions := put_new k (int64_of_float (num_val r)) (IntOptions opts)\<rparr>"
| "flattenIfNotExist_entry fmtf k (JStr s) opts =
     opts\<lparr>StringOptions := put_new k s (StringOptions opts)\<rparr>"
| "flattenIfNotExist_entry fmtf k (JBool b) opts =
     opts\<lparr>BoolOptions := put_new k b (BoolOptions opts)\<rparr>"
| "flattenIfNotExist_entry fmtf k (JArr vs) opts =
     (if string_elems vs \<noteq> []
      then opts\<lparr>StringSliceOptions := put_new k (string_elems vs) (StringSliceOptions opts)\<rparr> else opts)"
| "flattenIfNotExist_entry fmtf k (JObj ms) opts =
     (if k = ''tags''
      then opts\<lparr>StringSliceOptions := put_new k (key_value fmtf ms) (StringSliceOptions opts)\<rparr>
      else flattenIfNotExist fmtf ms opts)"
| "flattenIfNotExist_entry fmtf k JNull opts = opts"

section \<open>The assignments of a walk\<close>

datatype assign =
    ASet_Bool string bool
  | ASet_Str string string
  | ASet_Int string int64
  | ASet_Slice string "string list"

text \<open>The option an assignment writes: the map it is in (0 to 3) and the key.\<close>

fun target :: "assign \<Rightarrow> nat \<times> string" where
  "target (ASet_Bool k b) = (0, k)"
| "target (ASet_Str k s) = (1, k)"
| "target (ASet_Int k i) = (2, k)"
| "target (ASet_Slice k l) = (3, k)"

fun apply_assign :: "assign \<Rightarrow> driver_options \<Rightarrow> driver_options" where
  "apply_assign (ASet_Bool k b) opts = opts\<lparr>BoolOptions := (BoolOptions opts)(k \<mapsto> b)\<rparr>"
| "apply_assign (ASet_Str k s) opts = opts\<lparr>StringOptions := (StringOptions opts)(k \<mapsto> s)\<rparr>"
| "apply_assign (ASet_Int k i) opts = opts\<lparr>IntOptions := (IntOptions opts)(k \<mapsto> i)\<rparr>"
| "apply_assign (ASet_Slice k l) opts = opts\<lparr>StringSliceOptions := (StringSliceOptions opts)(k \<mapsto> l)\<rparr>"

fun apply_new :: "assign \<Rightarrow> driver_options \<Rightarrow> driver_options" where
  "apply_new (ASet_Bool k b) opts = opts\<lparr>BoolOptions := put_new k b (BoolOptions opts)\<rparr>"
| "apply_new (ASet_Str k s) opts = opts\<lparr>StringOptions := put_new k s (StringOptions opts)\<rparr>"
| "apply_new (ASet_Int k i) opts = opts\<lparr>IntOptions := put_new k i (IntOptions opts)\<rparr>"
| "apply_new (ASet_Slice k l) opts = opts\<lparr>StringSliceOptions := put_new k l (StringSliceOptions opts)\<rparr>"

text \<open>The assignments of the walk; \<open>hack\<close> is the key whose object becomes \<open>key=value\<close> strings.\<close>

fun assigns :: "string \<Rightarrow> (rat \<Rightarrow> string) \<Rightarrow> (string \<times> json) list \<Rightarrow> assign list"
  and assigns_entry :: "string \<Rightarrow> (rat \<Rightarrow> string) \<Rightarrow> string \<Rightarrow> json \<Rightarrow> assign list" where
  "assigns hack fmtf [] = []"
| "assigns hack fmtf ((k, v) # ms) = assigns_entry hack fmtf k v @ assigns hack fmtf ms"
| "assigns_entry hack fmtf k (JNum r) = [ASet_Int k (int64_of_float (num_val r))]"
| "assigns_entry hack fmtf k (JStr s) = [ASet_Str k s]"
| "assigns_entry hack fmtf k (JBool b) = [ASet_Bool k b]"
| "assigns_entry hack fmtf k (JArr vs) =
     (if string_elems vs \<noteq> [] then [ASet_Slice k (string_elems vs)] else [])"
| "assigns_entry hack fmtf k (JObj ms) =
     (if k = hack then [ASet_Slice k (key_value fmtf ms)] else assigns hack fmtf ms)"
| "assigns_entry hack fmtf k JNull = []"

section \<open>Lemmas\<close>

lemmas flag_type_defs [go_defs] =
  StringType_def BoolType_def BoolPointerType_def IntType_def IntPointerType_def StringSliceType_def

lemma opt_lookup_typed [simp]:
  "opt_str opts keys = (case first_key (StringOptions opts) keys of Some v \<Rightarrow> v | None \<Rightarrow> [])"
  "opt_int opts keys = (case first_key (IntOptions opts) keys of Some v \<Rightarrow> v | None \<Rightarrow> 0)"
  "opt_int_ptr opts keys = first_key (IntOptions opts) keys"
  "opt_bool opts keys = (case first_key (BoolOptions opts) keys of Some v \<Rightarrow> v | None \<Rightarrow> False)"
  "opt_bool_ptr opts keys = first_key (BoolOptions opts) keys"
  "opt_slice opts keys = (case first_key (StringSliceOptions opts) keys of Some v \<Rightarrow> v | None \<Rightarrow> [])"
  by (simp_all add: opt_str_def opt_int_def opt_int_ptr_def opt_bool_def opt_bool_ptr_def
      opt_slice_def GetValueFromDriverOptions_def go_defs split: option.splits)

lemma first_key_find:
  "first_key m ks = (case find (\<lambda>k. m k \<noteq> None) ks of None \<Rightarrow> None | Some k \<Rightarrow> m k)"
  by (induction ks) (auto split: option.splits)

lemma first_key_other: "k \<notin> set ks \<Longrightarrow> first_key (m(k \<mapsto> v)) ks = first_key m ks"
  by (induction ks) (auto split: option.splits)

lemma first_key_default:
  "(case first_key m ks of Some v \<Rightarrow> v | None \<Rightarrow> z) =
   (case find (\<lambda>k. m k \<noteq> None) ks of None \<Rightarrow> z | Some k \<Rightarrow> the (m k))"
  by (induction ks) (auto split: option.splits)

lemma put_new_other [simp]: "put_new k v m k' = (if k' = k \<and> m k = None then Some v else m k')"
  by (auto simp: put_new_def split: option.splits)

lemma flatten_assigns:
  "flatten fmtf ms opts = fold apply_assign (assigns ''labels'' fmtf ms) opts"
  "flatten_entry fmtf k v opts = fold apply_assign (assigns_entry ''labels'' fmtf k v) opts"
  by (induction fmtf ms opts and fmtf k v opts rule: flatten_flatten_entry.induct) auto

lemma flattenIfNotExist_assigns:
  "flattenIfNotExist fmtf ms opts = fold apply_new (assigns ''tags'' fmtf ms) opts"
  "flattenIfNotExist_entry fmtf k v opts = fold apply_new (assigns_entry ''tags'' fmtf k v) opts"
  by (induction fmtf ms opts and fmtf k v opts
      rule: flattenIfNotExist_flattenIfNotExist_entry.induct) auto

lemma assigns_concat: "assigns hack fmtf ms = concat (map (\<lambda>(k, v). assigns_entry hack fmtf k v) ms)"
  by (induction ms) auto

lemma apply_assign_commute:
  "target a \<noteq> target b \<Longrightarrow> apply_assign a (apply_assign b opts) = apply_assign b (apply_assign a opts)"
  by (cases a; cases b) (auto simp: fun_upd_twist)

lemma apply_new_commute:
  "target a \<noteq> target b \<Longrightarrow> apply_new a (apply_new b opts) = apply_new b (apply_new a opts)"
  by (cases a; cases b) (auto simp: fun_eq_iff)

lemma fold_assign_perm:
  assumes "mset as = mset bs" and "distinct (map target as)"
    and comm: "\<And>a b opts. target a \<noteq> target b \<Longrightarrow> f a (f b opts) = f b (f a opts)"
  shows "fold f as opts = fold f bs opts"
proof -
  have "fold f as = fold f bs"
  proof (rule fold_multiset_equiv)
    fix x y assume "x \<in> set as" "y \<in> set as"
    then have "x = y \<or> target x \<noteq> target y"
      using assms(2) by (auto simp: distinct_map inj_on_def)
    then show "f x \<circ> f y = f y \<circ> f x"
      using comm [of x y] by (auto simp: fun_eq_iff)
  qed fact
  then show ?thesis by simp
qed

lemma mset_assigns: "mset ms = mset ms' \<Longrightarrow> mset (assigns hack fmtf ms) = mset (assigns hack fmtf ms')"
proof -
  assume "mset ms = mset ms'"
  then have "mset (map (\<lambda>(k, v). assigns_entry hack fmtf k v) ms) =
      mset (map (\<lambda>(k, v). assigns_entry hack fmtf k v) ms')" by simp
  then show ?thesis
    by (simp only: assigns_concat mset_concat mset_map flip: sum_mset_sum_list)
qed

text \<open>An assignment by \<open>flattenIfNotExist\<close> keeps every option that is already set.\<close>

lemma apply_new_keeps:
  "StringOptions opts k = Some v \<Longrightarrow> StringOptions (fold apply_new as opts) k = Some v"
proof (induction as arbitrary: opts)
  case (Cons a as)
  then have "StringOptions (apply_new a opts) k = Some v" by (cases a) auto
  then show ?case by (simp add: Cons.IH)
qed simp

text \<open>Setting a string option commutes with a later \<open>flattenIfNotExist\<close>.\<close>

lemma apply_new_put:
  "apply_new a (opts\<lparr>StringOptions := (StringOptions opts)(k \<mapsto> v)\<rparr>) =
   (let o' = apply_new a opts in o'\<lparr>StringOptions := (StringOptions o')(k \<mapsto> v)\<rparr>)"
  by (cases a) (auto simp: Let_def fun_eq_iff)

lemma fold_new_put:
  "fold apply_new as (opts\<lparr>StringOptions := (StringOptions opts)(k \<mapsto> v)\<rparr>) =
   (let o' = fold apply_new as opts in o'\<lparr>StringOptions := (StringOptions o')(k \<mapsto> v)\<rparr>)"
  by (induction as arbitrary: opts) (simp_all add: apply_new_put Let_def)

lemma fold_assign_string:
  assumes "distinct (map target as)"
  shows "StringOptions (fold apply_assign as opts) k = Some s \<longleftrightarrow>
     ASet_Str k s \<in> set as \<or> StringOptions opts k = Some s \<and> (\<forall>t. ASet_Str k t \<notin> set as)"
  using assms
proof (induction as arbitrary: opts)
  case (Cons a as)
  show ?case
  proof (cases "target a = (1, k)")
    case True
    then obtain t where a: "a = ASet_Str k t" by (cases a) auto
    have "ASet_Str k u \<notin> set as" for u
    proof
      assume "ASet_Str k u \<in> set as"
      then have "target (ASet_Str k u) \<in> target ` set as" by (rule imageI)
      with Cons.prems a show False by simp
    qed
    with a Cons show ?thesis by auto
  next
    case False
    then have "StringOptions (apply_assign a opts) k = StringOptions opts k" by (cases a) auto
    with False Cons show ?thesis by auto
  qed
qed simp

section \<open>Properties\<close>

text \<open>
  \<open>flatten\<close> does not depend on the order in which Go visits the entries of the object, as
  long as no two assignments of the walk write the same option.
\<close>

theorem flatten_order_independent:
  assumes "mset ms = mset ms'" and "distinct (map target (assigns ''labels'' fmtf ms))"
  shows "flatten fmtf ms opts = flatten fmtf ms' opts"
  unfolding flatten_assigns(1)
  using mset_assigns [OF assms(1)] assms(2) apply_assign_commute by (rule fold_assign_perm)

theorem flatten_order_independent_witness:
  "flatten (\<lambda>_. []) [(''zone'', JStr ''z''), (''nodeCount'', JNum ''3'')] empty_options =
   flatten (\<lambda>_. []) [(''nodeCount'', JNum ''3''), (''zone'', JStr ''z'')] empty_options"
  by (rule flatten_order_independent) simp_all

text \<open>
  When the walk writes every option at most once, each of its assignments is what the
  resulting options hold, and options that it does not write keep their value (stated for the
  string options).
\<close>

theorem flatten_string_options:
  assumes "distinct (map target (assigns ''labels'' fmtf ms))"
  shows "StringOptions (flatten fmtf ms opts) k = Some s \<longleftrightarrow>
     ASet_Str k s \<in> set (assigns ''labels'' fmtf ms) \<or>
     StringOptions opts k = Some s \<and> (\<forall>t. ASet_Str k t \<notin> set (assigns ''labels'' fmtf ms))"
  unfolding flatten_assigns(1) by (rule fold_assign_string [OF assms])

theorem flatten_string_options_witness:
  "StringOptions (flatten (\<lambda>_. []) [(''config'', JObj [(''zone'', JStr ''z'')]), (''on'', JBool True)]
     empty_options) ''zone'' = Some ''z''"
  by (subst flatten_string_options) (simp_all add: target.simps)

text \<open>
  \<open>flattenIfNotExist\<close> never replaces a string option that is already set, whatever the
  object holds at any depth.
\<close>

theorem flattenIfNotExist_keeps:
  assumes "StringOptions opts k = Some v"
  shows "StringOptions (flattenIfNotExist fmtf ms opts) k = Some v"
  unfolding flattenIfNotExist_assigns(1) by (rule apply_new_keeps [OF assms])

theorem flattenIfNotExist_keeps_witness:
  "StringOptions (flattenIfNotExist (\<lambda>_. []) [(''zone'', JStr ''old''), (''x'', JObj [(''zone'', JStr ''deep'')])]
     (empty_options\<lparr>StringOptions := [''zone'' \<mapsto> ''new'']\<rparr>)) ''zone'' = Some ''new''"
  by (rule flattenIfNotExist_keeps) simp

text \<open>
  An option is read under the first of its alias keys that is set; with none set, the
  zero value (nil for a pointer option) is returned. So a camel-case key is consulted only when the
  dashed key is absent.
\<close>

theorem option_alias_order:
  "opt_str opts keys =
     (case find (\<lambda>k. StringOptions opts k \<noteq> None) keys of None \<Rightarrow> [] | Some k \<Rightarrow> the (StringOptions opts k))
   \<and> opt_int opts keys =
     (case find (\<lambda>k. IntOptions opts k \<noteq> None) keys of None \<Rightarrow> 0 | Some k \<Rightarrow> the (IntOptions opts k))
   \<and> opt_bool_ptr opts keys =
     (case find (\<lambda>k. BoolOptions opts k \<noteq> None) keys of None \<Rightarrow> None | Some k \<Rightarrow> BoolOptions opts k)
   \<and> opt_slice opts keys =
     (case find (\<lambda>k. StringSliceOptions opts k \<noteq> None) keys of None \<Rightarrow> []
      | Some k \<Rightarrow> the (StringSliceOptions opts k))"
  unfolding opt_lookup_typed first_key_default by (simp only: first_key_find simp_thms)

end
