(* ===== verification/Cluster.thy ===== *)
theory Cluster
  imports Options
begin

text \<open>
  Package \<open>cluster\<close>: the cluster record, the interface of the persistent store, and the
  life-cycle operations (\<open>cluster.go\<close>, \<open>backup.go\<close>). The handles a \<open>Cluster\<close> struct
  holds (driver client, store, config getter) are the record \<open>env\<close>; an operation maps a state
  (the cluster value, the store's state and the provider's state) to the returned error and the
  new state. The store is an interface: its laws are the locale \<open>persistent_store\<close>, and the
  facts about the life cycle are proved inside it.
\<close>

section \<open>Statuses\<close>

definition PreCreating :: string where [simp]: "PreCreating = ''Pre-Creating''"
definition Creating :: string where [simp]: "Creating = ''Creating''"
definition PostChecking :: string where [simp]: "PostChecking = ''Post-Checking''"
definition Running :: string where [simp]: "Running = ''Running''"
definition ErrorStatus :: string where [simp]: "ErrorStatus = ''Error''"
definition Updating :: string where [simp]: "Updating = ''Updating''"
definition Init :: string where [simp]: "Init = ''Init''"

section \<open>The cluster record\<close>

record cluster =
  DriverName :: string
  Name :: string
  Status :: string
  Version :: string
  ServiceAccountToken :: string
  Endpoint :: string
  Username :: string
  Password :: string
  RootCACert :: string
  ClientCertificate :: string
  ClientKey :: string
  NodeCount :: int64
  Metadata :: "string gomap"

definition transformClusterInfo :: "cluster \<Rightarrow> cluster_info \<Rightarrow> cluster" where
  "transformClusterInfo c i = c\<lparr>
     ClientCertificate := ci_ClientCertificate i, ClientKey := ci_ClientKey i,
     RootCACert := ci_RootCaCertificate i, Username := ci_Username i, Password := ci_Password i,
     Version := ci_Version i, Endpoint := ci_Endpoint i, NodeCount := ci_NodeCount i,
     Metadata := ci_Metadata i, ServiceAccountToken := ci_ServiceAccountToken i,
     Status := ci_Status i\<rparr>"

definition toInfo :: "cluster \<Rightarrow> cluster_info" where
  "toInfo c = \<lparr>
     ci_Version = Version c, ci_ServiceAccountToken = ServiceAccountToken c,
     ci_Endpoint = Endpoint c, ci_Username = Username c, ci_Password = Password c,
     ci_RootCaCertificate = RootCACert c, ci_ClientCertificate = ClientCertificate c,
     ci_ClientKey = ClientKey c, ci_NodeCount = NodeCount c, ci_Metadata = Metadata c,
     ci_Status = Status c, ci_CreateError = []\<rparr>"

section \<open>Interfaces\<close>

record 's persistent_store_ops =
  ps_GetStatus :: "string \<Rightarrow> 's \<Rightarrow> goerr + string"
  ps_Get :: "string \<Rightarrow> 's \<Rightarrow> goerr + cluster"
  ps_Remove :: "string \<Rightarrow> 's \<Rightarrow> goerr option \<times> 's"
  ps_Store :: "cluster \<Rightarrow> 's \<Rightarrow> goerr option \<times> 's"
  ps_PersistStatus :: "cluster \<Rightarrow> string \<Rightarrow> 's \<Rightarrow> goerr option \<times> 's"

text \<open>
  The handles of a cluster. \<open>GetConfig\<close> is the result of the config getter, which builds fresh
  maps at every call; \<open>FmtFloat\<close> is the text \<open>fmt\<close> gives a float64.
\<close>

record ('s, 'd) env =
  Driver :: "'d rpc_driver"
  PersistStore :: "'s persistent_store_ops"
  GetConfig :: "goerr + driver_options"
  FmtFloat :: "rat \<Rightarrow> string"

type_synonym ('s, 'd) cstate = "cluster \<times> 's \<times> 'd"

section \<open>Operations\<close>

text \<open>\<open>c.PersistStore.PersistStatus(*c, status)\<close>: the cluster value itself is not changed.\<close>

definition persist :: "('s, 'd) env \<Rightarrow> string \<Rightarrow> ('s, 'd) cstate \<Rightarrow> goerr option \<times> ('s, 'd) cstate" where
  "persist env status st =
     (case st of (c, s, d) \<Rightarrow>
        (case ps_PersistStatus (PersistStore env) c status s of (r, s') \<Rightarrow> (r, c, s', d)))"

definition Store :: "('s, 'd) env \<Rightarrow> ('s, 'd) cstate \<Rightarrow> goerr option \<times> ('s, 'd) cstate" where
  "Store env st =
     (case st of (c, s, d) \<Rightarrow> (case ps_Store (PersistStore env) c s of (r, s') \<Rightarrow> (r, c, s', d)))"

definition getState :: "('s, 'd) env \<Rightarrow> ('s, 'd) cstate \<Rightarrow> goerr + string" where
  "getState env st = (case st of (c, s, d) \<Rightarrow> ps_GetStatus (PersistStore env) (Name c) s)"

definition restore :: "('s, 'd) env \<Rightarrow> ('s, 'd) cstate \<Rightarrow> goerr option \<times> ('s, 'd) cstate" where
  "restore env st =
     (case st of (c, s, d) \<Rightarrow>
        (case ps_Get (PersistStore env) (Name c) s of
           Inl e \<Rightarrow> (Some e, c, s, d)
         | Inr cls \<Rightarrow> (None, transformClusterInfo c (toInfo cls), s, d)))"

definition put_string :: "string \<Rightarrow> string \<Rightarrow> driver_options \<Rightarrow> driver_options" where
  "put_string k v opts = opts\<lparr>StringOptions := (StringOptions opts)(k \<mapsto> v)\<rparr>"

text \<open>
  The loop over the metadata in \<open>Update\<close> and \<open>getDriverOps\<close>: the entry \<open>state\<close> is JSON that
  is flattened into the options that are still unset, every other entry is a string option.
\<close>

definition merge_entry :: "(rat \<Rightarrow> string) \<Rightarrow> string \<times> string \<Rightarrow> driver_options \<Rightarrow> driver_options" where
  "merge_entry fmtf kv opts =
     (case kv of (k, v) \<Rightarrow>
        (if k = ''state''
         then (case unmarshal_map v of Some ms \<Rightarrow> flattenIfNotExist fmtf ms opts | None \<Rightarrow> opts)
         else put_string k v opts))"

definition merge_metadata :: "(rat \<Rightarrow> string) \<Rightarrow> (string \<times> string) list \<Rightarrow> driver_options \<Rightarrow> driver_options" where
  "merge_metadata fmtf m opts = fold (merge_entry fmtf) m opts"

text \<open>The method \<open>create\<close>.\<close>

definition create :: "('s, 'd) env \<Rightarrow> cluster_info option \<Rightarrow> ('s, 'd) cstate
    \<Rightarrow> goerr option \<times> ('s, 'd) cstate" where
  "create env info st =
     (if Status (fst st) = PostChecking then (None, st)
      else and_then (persist env PreCreating st) (\<lambda>(c, s, d).
        (case GetConfig env of
           Inl e \<Rightarrow> (Some e, c, s, d)
         | Inr opts \<Rightarrow>
             (let opts' = fold (\<lambda>(k, v). put_string k v) (gm_list (Metadata c)) opts in
              and_then (persist env Creating (c, s, d)) (\<lambda>(c, s, d).
                (case d_Create (Driver env) opts' info d of
                   ((ret, err), d') \<Rightarrow>
                     (err, (case ret of Some i \<Rightarrow> transformClusterInfo c i | None \<Rightarrow> c), s, d')))))))"

definition PostCheck :: "('s, 'd) env \<Rightarrow> ('s, 'd) cstate \<Rightarrow> goerr option \<times> ('s, 'd) cstate" where
  "PostCheck env st =
     and_then (persist env PostChecking st) (\<lambda>(c, s, d).
       (case d_PostCheck (Driver env) (toInfo c) d of
          (Inl e, d') \<Rightarrow> (Some e, c, s, d')
        | (Inr i, d') \<Rightarrow> Store env (transformClusterInfo c i, s, d')))"

definition GenerateServiceAccount :: "('s, 'd) env \<Rightarrow> ('s, 'd) cstate \<Rightarrow> goerr option \<times> ('s, 'd) cstate" where
  "GenerateServiceAccount env st =
     and_then (restore env st) (\<lambda>st.
     and_then (persist env Updating st) (\<lambda>(c, s, d).
       (case d_PostCheck (Driver env) (toInfo c) d of
          (Inl e, d') \<Rightarrow> (Some e, c, s, d')
        | (Inr i, d') \<Rightarrow> Store env (transformClusterInfo c i, s, d'))))"

definition RemoveLegacyServiceAccount :: "('s, 'd) env \<Rightarrow> ('s, 'd) cstate \<Rightarrow> goerr option \<times> ('s, 'd) cstate" where
  "RemoveLegacyServiceAccount env st =
     and_then (restore env st) (\<lambda>(c, s, d).
       (case d_RemoveLegacyServiceAccount (Driver env) (toInfo c) d of (r, d') \<Rightarrow> (r, c, s, d')))"

text \<open>The statuses under which \<open>createInner\<close> reports that the cluster exists.\<close>

definition exists_status :: "string \<Rightarrow> bool" where
  "exists_status st = (st = Updating \<or> st = Running \<or> st = PostChecking \<or> st = Init)"

definition createInner :: "('s, 'd) env \<Rightarrow> ('s, 'd) cstate \<Rightarrow> goerr option \<times> ('s, 'd) cstate" where
  "createInner env st =
     (let st' = snd (restore env st);
          c = fst st';
          info = (if Status c = ErrorStatus then Some (toInfo c) else None) in
      if exists_status (Status c) then (Some ErrClusterExists, st')
      else and_then (create env info st') (PostCheck env))"

definition Create :: "('s, 'd) env \<Rightarrow> ('s, 'd) cstate \<Rightarrow> goerr option \<times> ('s, 'd) cstate" where
  "Create env st =
     (let st1 = (if RootCACert (fst st) \<noteq> [] \<and> Status (fst st) = []
                 then snd (persist env Init st) else st) in
      (case createInner env st1 of
         (Some e, st2) \<Rightarrow>
           (Some e, snd (persist env (if e = ErrClusterExists then Running else ErrorStatus) st2))
       | (None, st2) \<Rightarrow> persist env Running st2))"

definition Update :: "('s, 'd) env \<Rightarrow> ('s, 'd) cstate \<Rightarrow> goerr option \<times> ('s, 'd) cstate" where
  "Update env st =
     and_then (restore env st) (\<lambda>(c, s, d).
       if Status c = ErrorStatus then Create env (c, s, d)
       else if Status c = PreCreating \<or> Status c = Creating
       then (Some (Errorf (''cluster '' @ Name c @ '' has not been created'')), c, s, d)
       else
         (case GetConfig env of
            Inl e \<Rightarrow> (Some e, c, s, d)
          | Inr opts \<Rightarrow>
              (let opts' = merge_metadata (FmtFloat env) (gm_list (Metadata c))
                             (put_string ''name'' (Name c) opts) in
               and_then (persist env Updating (c, s, d)) (\<lambda>(c, s, d).
                 (case d_Update (Driver env) (toInfo c) opts' d of
                    (Inl e, d') \<Rightarrow> (Some e, c, s, d')
                  | (Inr i, d') \<Rightarrow> PostCheck env (transformClusterInfo c i, s, d'))))))"

definition Remove :: "('s, 'd) env \<Rightarrow> bool \<Rightarrow> ('s, 'd) cstate \<Rightarrow> goerr option \<times> ('s, 'd) cstate" where
  "Remove env forceRemove st =
     (case restore env st of
        (Some e, st') \<Rightarrow> (if is_not_found e then (None, st') else (Some e, st'))
      | (None, (c, s, d)) \<Rightarrow>
          (case d_Remove (Driver env) (toInfo c) d of
             (err, d') \<Rightarrow>
               (if err \<noteq> None \<and> \<not> forceRemove
                then (Some (Errorf (''Error removing cluster ['' @ Name c @ ''] with driver ['' @
                        DriverName c @ '']: '' @ err_msg (the err))), c, s, d')
                else (case ps_Remove (PersistStore env) (Name c) s of (r, s') \<Rightarrow> (r, c, s', d')))))"

text \<open>\<open>getDriverOps\<close> of \<open>backup.go\<close>: the driver options, or the error.\<close>

definition getDriverOps :: "('s, 'd) env \<Rightarrow> ('s, 'd) cstate \<Rightarrow> (goerr + driver_options) \<times> ('s, 'd) cstate" where
  "getDriverOps env st =
     (case restore env st of
        (Some e, st') \<Rightarrow> (Inl e, st')
      | (None, (c, s, d)) \<Rightarrow>
          (case GetConfig env of
             Inl e \<Rightarrow> (Inl e, c, s, d)
           | Inr opts \<Rightarrow>
               (Inr (merge_metadata (FmtFloat env) (gm_list (Metadata c))
                       (put_string ''name'' (Name c) opts)), c, s, d)))"

definition ETCDSave :: "('s, 'd) env \<Rightarrow> string \<Rightarrow> ('s, 'd) cstate \<Rightarrow> goerr option \<times> ('s, 'd) cstate" where
  "ETCDSave env snapshotName st =
     (case getDriverOps env st of
        (Inl e, st') \<Rightarrow> (Some e, st')
      | (Inr opts, (c, s, d)) \<Rightarrow>
          (case d_ETCDSave (Driver env) (toInfo c) opts snapshotName d of (r, d') \<Rightarrow> (r, c, s, d')))"

definition ETCDRestore :: "('s, 'd) env \<Rightarrow> string \<Rightarrow> ('s, 'd) cstate \<Rightarrow> goerr option \<times> ('s, 'd) cstate" where
  "ETCDRestore env snapshotName st =
     (case getDriverOps env st of
        (Inl e, st') \<Rightarrow> (Some e, st')
      | (Inr opts, st') \<Rightarrow>
          and_then (persist env Updating st') (\<lambda>(c, s, d).
            (case d_ETCDRestore (Driver env) (toInfo c) opts snapshotName d of
               (Inl e, d') \<Rightarrow> (Some e, c, s, d')
             | (Inr i, d') \<Rightarrow> PostCheck env (transformClusterInfo c i, s, d'))))"

definition ETCDRemoveSnapshot :: "('s, 'd) env \<Rightarrow> string \<Rightarrow> ('s, 'd) cstate \<Rightarrow> goerr option \<times> ('s, 'd) cstate" where
  "ETCDRemoveSnapshot env snapshotName st =
     (case getDriverOps env st of
        (Inl e, st') \<Rightarrow> (Some e, st')
      | (Inr opts, (c, s, d)) \<Rightarrow>
          (case d_ETCDRemoveSnapshot (Driver env) (toInfo c) opts snapshotName d of
             (r, d') \<Rightarrow> (r, c, s, d')))"

text \<open>Operations that only forward to the driver.\<close>

definition GetVersion :: "('s, 'd) env \<Rightarrow> ('s, 'd) cstate \<Rightarrow> (goerr + string) \<times> ('s, 'd) cstate" where
  "GetVersion env st =
     (case st of (c, s, d) \<Rightarrow> (case d_GetVersion (Driver env) (toInfo c) d of (r, d') \<Rightarrow> (r, c, s, d')))"
definition SetVersion :: "('s, 'd) env \<Rightarrow> string \<Rightarrow> ('s, 'd) cstate \<Rightarrow> goerr option \<times> ('s, 'd) cstate" where
  "SetVersion env v st =
     (case st of (c, s, d) \<Rightarrow> (case d_SetVersion (Driver env) (toInfo c) v d of (r, d') \<Rightarrow> (r, c, s, d')))"
definition GetClusterSize :: "('s, 'd) env \<Rightarrow> ('s, 'd) cstate \<Rightarrow> (goerr + int64) \<times> ('s, 'd) cstate" where
  "GetClusterSize env st =
     (case st of (c, s, d) \<Rightarrow> (case d_GetClusterSize (Driver env) (toInfo c) d of (r, d') \<Rightarrow> (r, c, s, d')))"
definition SetClusterSize :: "('s, 'd) env \<Rightarrow> int64 \<Rightarrow> ('s, 'd) cstate \<Rightarrow> goerr option \<times> ('s, 'd) cstate" where
  "SetClusterSize env n st =
     (case st of (c, s, d) \<Rightarrow> (case d_SetClusterSize (Driver env) (toInfo c) n d of (r, d') \<Rightarrow> (r, c, s, d')))"
definition GetCapabilities :: "('s, 'd) env \<Rightarrow> ('s, 'd) cstate \<Rightarrow> (goerr + capabilities) \<times> ('s, 'd) cstate" where
  "GetCapabilities env st =
     (case st of (c, s, d) \<Rightarrow> (case d_GetCapabilities (Driver env) d of (r, d') \<Rightarrow> (r, c, s, d')))"
definition GetK8SCapabilities :: "('s, 'd) env \<Rightarrow> ('s, 'd) cstate \<Rightarrow> (goerr + k8s_capabilities) \<times> ('s, 'd) cstate" where
  "GetK8SCapabilities env st =
     (case st of (c, s, d) \<Rightarrow>
        (case GetConfig env of
           Inl e \<Rightarrow> (Inl e, c, s, d)
         | Inr opts \<Rightarrow> (case d_GetK8SCapabilities (Driver env) opts d of (r, d') \<Rightarrow> (r, c, s, d'))))"
definition GetDriverCreateOptions :: "('s, 'd) env \<Rightarrow> ('s, 'd) cstate \<Rightarrow> (goerr + driver_flags) \<times> ('s, 'd) cstate" where
  "GetDriverCreateOptions env st =
     (case st of (c, s, d) \<Rightarrow> (case d_GetDriverCreateOptions (Driver env) d of (r, d') \<Rightarrow> (r, c, s, d')))"
definition GetDriverUpdateOptions :: "('s, 'd) env \<Rightarrow> ('s, 'd) cstate \<Rightarrow> (goerr + driver_flags) \<times> ('s, 'd) cstate" where
  "GetDriverUpdateOptions env st =
     (case st of (c, s, d) \<Rightarrow> (case d_GetDriverUpdateOptions (Driver env) d of (r, d') \<Rightarrow> (r, c, s, d')))"

text \<open>
  \<open>NewCluster\<close> and \<open>FromCluster\<close>; \<open>newClient\<close> is \<open>types.NewClient\<close> at the given address.
\<close>

definition NewCluster :: "(string \<Rightarrow> string \<Rightarrow> goerr + 'd rpc_driver) \<Rightarrow> (rat \<Rightarrow> string) \<Rightarrow> string \<Rightarrow> string
    \<Rightarrow> string \<Rightarrow> goerr + driver_options \<Rightarrow> 's persistent_store_ops \<Rightarrow> goerr + (('s, 'd) env \<times> cluster)" where
  "NewCluster newClient fmtf driverName name addr configGetter store =
     (case newClient driverName addr of
        Inl e \<Rightarrow> Inl e
      | Inr rpcClient \<Rightarrow>
          Inr (\<lparr>Driver = rpcClient, PersistStore = store, GetConfig = configGetter, FmtFloat = fmtf\<rparr>,
               \<lparr>DriverName = driverName, Name = name, Status = [], Version = [],
                ServiceAccountToken = [], Endpoint = [], Username = [], Password = [],
                RootCACert = [], ClientCertificate = [], ClientKey = [], NodeCount = 0,
                Metadata = None\<rparr>))"

definition FromCluster :: "(string \<Rightarrow> string \<Rightarrow> goerr + 'd rpc_driver) \<Rightarrow> (rat \<Rightarrow> string) \<Rightarrow> cluster
    \<Rightarrow> string \<Rightarrow> goerr + driver_options \<Rightarrow> 's persistent_store_ops \<Rightarrow> goerr + (('s, 'd) env \<times> cluster)" where
  "FromCluster newClient fmtf cls addr configGetter store =
     (case newClient (DriverName cls) addr of
        Inl e \<Rightarrow> Inl e
      | Inr rpcClient \<Rightarrow>
          Inr (\<lparr>Driver = rpcClient, PersistStore = store, GetConfig = configGetter, FmtFloat = fmtf\<rparr>, cls))"

section \<open>What a store keeps of a cluster\<close>

text \<open>
  A stored record comes back with its metadata in key order (JSON text lists a map by key, and an
  empty map comes back as nil) and with its strings made valid UTF-8, as JSON text can hold no others; keys
  of the metadata that become equal are one entry. \<open>utf8_cluster\<close> are the records whose strings are valid.
\<close>

definition canon_meta :: "string gomap \<Rightarrow> string gomap" where
  "canon_meta m =
     (case sort_key fst (AList.clearjunk (gm_list m)) of [] \<Rightarrow> None | l \<Rightarrow> Some l)"

definition saved_meta :: "string gomap \<Rightarrow> string gomap" where
  "saved_meta m = map_option (\<lambda>l. last_wins (map (\<lambda>(k, v). (utf8_fix k, utf8_fix v)) l)) (canon_meta m)"

definition saved :: "cluster \<Rightarrow> cluster" where
  "saved c = \<lparr>DriverName = utf8_fix (DriverName c), Name = utf8_fix (Name c), Status = utf8_fix (Status c),
     Version = utf8_fix (Version c), ServiceAccountToken = utf8_fix (ServiceAccountToken c),
     Endpoint = utf8_fix (Endpoint c), Username = utf8_fix (Username c), Password = utf8_fix (Password c),
     RootCACert = utf8_fix (RootCACert c), ClientCertificate = utf8_fix (ClientCertificate c),
     ClientKey = utf8_fix (ClientKey c), NodeCount = NodeCount c, Metadata = saved_meta (Metadata c)\<rparr>"

definition utf8_cluster :: "cluster \<Rightarrow> bool" where
  "utf8_cluster c \<longleftrightarrow>
     list_all valid_utf8 [DriverName c, Name c, Status c, Version c, ServiceAccountToken c, Endpoint c, Username c,
       Password c, RootCACert c, ClientCertificate c, ClientKey c] \<and>
     list_all (\<lambda>(k, v). valid_utf8 k \<and> valid_utf8 v) (gm_list (Metadata c))"

section \<open>Invariants of all operations\<close>

text \<open>
  A property \<open>P\<close> of the store that writes and removals under the name \<open>n\<close> keep; \<open>good\<close> is \<open>P\<close>
  together with the identity (name and driver name) of the cluster. Every operation keeps \<open>good\<close>.
\<close>

definition store_closed :: "'s persistent_store_ops \<Rightarrow> string \<Rightarrow> ('s \<Rightarrow> bool) \<Rightarrow> bool" where
  "store_closed ps n P \<longleftrightarrow>
     (\<forall>c status s. Name c = n \<longrightarrow> P s \<longrightarrow> P (snd (ps_PersistStatus ps c status s))) \<and>
     (\<forall>c s. Name c = n \<longrightarrow> P s \<longrightarrow> P (snd (ps_Store ps c s))) \<and>
     (\<forall>s. P s \<longrightarrow> P (snd (ps_Remove ps n s)))"

definition good :: "string \<Rightarrow> string \<Rightarrow> ('s \<Rightarrow> bool) \<Rightarrow> ('s, 'd) cstate \<Rightarrow> bool" where
  "good n dn P st \<longleftrightarrow> (case st of (c, s, d) \<Rightarrow> Name c = n \<and> DriverName c = dn \<and> P s)"

named_theorems keeps_good "every operation keeps the invariant"

lemma transformClusterInfo_simps [simp]:
  "Name (transformClusterInfo c i) = Name c"
  "DriverName (transformClusterInfo c i) = DriverName c"
  "Status (transformClusterInfo c i) = ci_Status i"
  "Metadata (transformClusterInfo c i) = ci_Metadata i"
  "RootCACert (transformClusterInfo c i) = ci_RootCaCertificate i"
  by (simp_all add: transformClusterInfo_def)

lemma toInfo_simps [simp]:
  "ci_Status (toInfo c) = Status c" "ci_Metadata (toInfo c) = Metadata c"
  "ci_RootCaCertificate (toInfo c) = RootCACert c"
  by (simp_all add: toInfo_def)

lemma toInfo_transform [simp]:
  "toInfo (transformClusterInfo c i) = i\<lparr>ci_CreateError := []\<rparr>"
  by (simp add: toInfo_def transformClusterInfo_def)

lemma saved_simps [simp]:
  "Name (saved c) = utf8_fix (Name c)" "Status (saved c) = utf8_fix (Status c)" "DriverName (saved c) = utf8_fix (DriverName c)"
  "RootCACert (saved c) = utf8_fix (RootCACert c)" "Metadata (saved c) = saved_meta (Metadata c)"
  by (simp_all add: saved_def)

lemma canon_meta_distinct: "canon_meta m = Some l \<Longrightarrow> distinct (map fst l)"
proof -
  assume "canon_meta m = Some l"
  then have "l = sort_key fst (AList.clearjunk (gm_list m))"
    by (auto simp: canon_meta_def split: list.splits)
  moreover have "mset (map fst (sort_key fst (AList.clearjunk (gm_list m)))) = mset (map fst (AList.clearjunk (gm_list m)))"
    by simp
  ultimately show ?thesis by (metis distinct_clearjunk mset_eq_imp_distinct_iff)
qed

lemma canon_meta_subset: "canon_meta m = Some l \<Longrightarrow> set l \<subseteq> set (gm_list m)"
proof -
  assume "canon_meta m = Some l"
  then have "l = sort_key fst (AList.clearjunk (gm_list m))"
    by (auto simp: canon_meta_def split: list.splits)
  then show ?thesis using clearjunk_subset[of "gm_list m"] by simp
qed

lemma saved_meta_valid:
  assumes "list_all (\<lambda>(k, v). valid_utf8 k \<and> valid_utf8 v) (gm_list m)"
  shows "saved_meta m = canon_meta m"
proof (cases "canon_meta m")
  case (Some l)
  have "map (\<lambda>(k, v). (utf8_fix k, utf8_fix v)) l = l"
    using canon_meta_subset[OF Some] assms by (intro map_idI) (fastforce simp: list_all_iff intro: utf8_fix_valid)
  then show ?thesis by (simp add: saved_meta_def Some last_wins_distinct[OF canon_meta_distinct[OF Some]])
qed (simp add: saved_meta_def)

lemma saved_utf8: "utf8_cluster c \<Longrightarrow> saved c = c\<lparr>Metadata := canon_meta (Metadata c)\<rparr>"
  by (cases c) (simp add: saved_def utf8_cluster_def saved_meta_valid utf8_fix_valid)

lemma and_then_good:
  "good n dn P (snd r) \<Longrightarrow> (\<And>st. good n dn P st \<Longrightarrow> good n dn P (snd (f st))) \<Longrightarrow>
     good n dn P (snd (and_then r f))"
  by (cases r; cases "fst r") auto

lemma persist_good [keeps_good]:
  "store_closed (PersistStore env) n P \<Longrightarrow> good n dn P st \<Longrightarrow> good n dn P (snd (persist env status st))"
  by (cases st) (auto simp: good_def persist_def store_closed_def case_prod_beta)

lemma Store_good [keeps_good]:
  "store_closed (PersistStore env) n P \<Longrightarrow> good n dn P st \<Longrightarrow> good n dn P (snd (Store env st))"
  by (cases st) (auto simp: good_def Store_def store_closed_def case_prod_beta)

lemma restore_good [keeps_good]: "good n dn P st \<Longrightarrow> good n dn P (snd (restore env st))"
  by (auto simp: good_def restore_def split: prod.splits sum.splits)

lemma good_simps [simp]:
  "good n dn P (c, s, d) \<longleftrightarrow> Name c = n \<and> DriverName c = dn \<and> P s"
  by (simp add: good_def)

lemma create_good [keeps_good]:
  "store_closed (PersistStore env) n P \<Longrightarrow> good n dn P st \<Longrightarrow> good n dn P (snd (create env info st))"
  unfolding create_def Let_def
  by (auto intro!: and_then_good keeps_good split: prod.splits sum.splits option.splits)

lemma PostCheck_good [keeps_good]:
  "store_closed (PersistStore env) n P \<Longrightarrow> good n dn P st \<Longrightarrow> good n dn P (snd (PostCheck env st))"
  unfolding PostCheck_def
  by (auto intro!: and_then_good keeps_good split: prod.splits sum.splits)

lemma GenerateServiceAccount_good [keeps_good]:
  "store_closed (PersistStore env) n P \<Longrightarrow> good n dn P st \<Longrightarrow>
     good n dn P (snd (GenerateServiceAccount env st))"
  unfolding GenerateServiceAccount_def
  by (auto intro!: and_then_good keeps_good split: prod.splits sum.splits)

lemma RemoveLegacyServiceAccount_good [keeps_good]:
  "good n dn P st \<Longrightarrow> good n dn P (snd (RemoveLegacyServiceAccount env st))"
  unfolding RemoveLegacyServiceAccount_def
  by (auto intro!: and_then_good keeps_good split: prod.splits)

lemma createInner_good [keeps_good]:
  "store_closed (PersistStore env) n P \<Longrightarrow> good n dn P st \<Longrightarrow> good n dn P (snd (createInner env st))"
  unfolding createInner_def Let_def
  by (auto intro!: and_then_good keeps_good)

lemma Create_good [keeps_good]:
  assumes "store_closed (PersistStore env) n P" and "good n dn P st"
  shows "good n dn P (snd (Create env st))"
proof -
  let ?st1 = "if RootCACert (fst st) \<noteq> [] \<and> Status (fst st) = [] then snd (persist env Init st) else st"
  have "good n dn P (snd (createInner env ?st1))"
    using assms by (auto intro!: keeps_good simp del: Init_def)
  with assms(1) show ?thesis
    unfolding Create_def Let_def
    by (cases "createInner env ?st1"; cases "fst (createInner env ?st1)")
       (auto intro!: keeps_good simp del: Init_def Running_def ErrorStatus_def)
qed

lemma Update_good [keeps_good]:
  "store_closed (PersistStore env) n P \<Longrightarrow> good n dn P st \<Longrightarrow> good n dn P (snd (Update env st))"
  unfolding Update_def Let_def
  by (auto intro!: and_then_good keeps_good split: prod.splits sum.splits)

lemma Remove_good [keeps_good]:
  assumes "store_closed (PersistStore env) n P" and "good n dn P st"
  shows "good n dn P (snd (Remove env force st))"
proof -
  obtain r c s d where r: "restore env st = (r, c, s, d)" by (metis prod_cases4)
  with restore_good [OF assms(2), of env] have g: "good n dn P (c, s, d)" by simp
  then have "P (snd (ps_Remove (PersistStore env) (Name c) s))"
    using assms(1) by (auto simp: store_closed_def)
  with g r show ?thesis
    by (auto simp: Remove_def split: option.splits prod.splits)
qed

lemma getDriverOps_good [keeps_good]: "good n dn P st \<Longrightarrow> good n dn P (snd (getDriverOps env st))"
  using restore_good [of n dn P st env]
  by (auto simp: getDriverOps_def split: prod.splits option.splits sum.splits)

lemma ETCDSave_good [keeps_good]: "good n dn P st \<Longrightarrow> good n dn P (snd (ETCDSave env snap st))"
  using getDriverOps_good [of n dn P st env]
  by (auto simp: ETCDSave_def split: prod.splits sum.splits)

lemma ETCDRemoveSnapshot_good [keeps_good]:
  "good n dn P st \<Longrightarrow> good n dn P (snd (ETCDRemoveSnapshot env snap st))"
  using getDriverOps_good [of n dn P st env]
  by (auto simp: ETCDRemoveSnapshot_def split: prod.splits sum.splits)

lemma ETCDRestore_good [keeps_good]:
  assumes "store_closed (PersistStore env) n P" and "good n dn P st"
  shows "good n dn P (snd (ETCDRestore env snap st))"
proof -
  obtain r c s d where r: "getDriverOps env st = (r, c, s, d)" by (metis prod_cases4)
  with getDriverOps_good [OF assms(2), of env] have "good n dn P (c, s, d)" by simp
  with r assms(1) show ?thesis
    by (auto simp: ETCDRestore_def intro!: and_then_good keeps_good split: prod.splits sum.splits
        simp del: Updating_def)
qed

text \<open>The store after the first step of \<open>Create\<close>, which marks an adopted cluster.\<close>

definition init_store :: "('s, 'd) env \<Rightarrow> cluster \<Rightarrow> 's \<Rightarrow> 's" where
  "init_store env c s =
     (if RootCACert c \<noteq> [] \<and> Status c = [] then snd (ps_PersistStatus (PersistStore env) c Init s) else s)"

lemma Create_unfold:
  "Create env (c, s, d) =
     (case createInner env (c, init_store env c s, d) of
        (Some e, st2) \<Rightarrow> (Some e, snd (persist env (if e = ErrClusterExists then Running else ErrorStatus) st2))
      | (None, st2) \<Rightarrow> persist env Running st2)"
proof -
  have "(if RootCACert c \<noteq> [] \<and> Status c = [] then snd (persist env Init (c, s, d)) else (c, s, d)) =
      (c, init_store env c s, d)"
    by (simp add: init_store_def persist_def case_prod_beta)
  then show ?thesis by (simp only: Create_def Let_def fst_conv)
qed

lemma PostCheck_success:
  assumes "PostCheck env (c, s, d) = (None, c', s', d')"
  obtains i s1 s2 where "d_PostCheck (Driver env) (toInfo c) d = (Inr i, d')"
    "c' = transformClusterInfo c i" "toInfo c' = i\<lparr>ci_CreateError := []\<rparr>"
    "ps_PersistStatus (PersistStore env) c PostChecking s = (None, s1)"
    "ps_Store (PersistStore env) c' s1 = (None, s')"
proof -
  obtain r s1 where p: "ps_PersistStatus (PersistStore env) c PostChecking s = (r, s1)" by force
  obtain x dp where x: "d_PostCheck (Driver env) (toInfo c) d = (x, dp)" by force
  have r: "r = None"
    using assms p by (cases r) (simp_all add: PostCheck_def persist_def)
  then obtain i where i: "x = Inr i"
    using assms p x by (cases x) (simp_all add: PostCheck_def persist_def)
  obtain r2 s2 where st: "ps_Store (PersistStore env) (transformClusterInfo c i) s1 = (r2, s2)" by force
  then have "r2 = None \<and> c' = transformClusterInfo c i \<and> s2 = s' \<and> dp = d'"
    using assms p x r i by (simp add: PostCheck_def persist_def Store_def)
  with p r x i st show ?thesis by (intro that [of i s1]) auto
qed

section \<open>The store interface and the life cycle over it\<close>

text \<open>
  The contract of \<open>PersistentStore\<close>: while the store is \<open>readable\<close>, a record written under a
  valid name is read back; a removed one is not; the records of other names are not touched; status
  writes succeed while the store is \<open>writable\<close>; and no operation makes it unreadable or unwritable.
\<close>

locale persistent_store =
  fixes ps :: "'s persistent_store_ops"
    and valid_name :: "string \<Rightarrow> bool"
    and readable :: "'s \<Rightarrow> bool"
    and writable :: "'s \<Rightarrow> bool"
  assumes Get_PersistStatus:
      "\<lbrakk>valid_name (Name c); readable s; ps_PersistStatus ps c status s = (None, s')\<rbrakk> \<Longrightarrow>
         ps_Get ps (Name c) s' = Inr (saved (c\<lparr>Status := status\<rparr>))"
    and Get_Store:
      "\<lbrakk>valid_name (Name c); readable s; ps_Store ps c s = (None, s')\<rbrakk> \<Longrightarrow>
         ps_Get ps (Name c) s' = Inr (saved c)"
    and Get_Remove:
      "\<lbrakk>valid_name n; ps_Remove ps n s = (None, s')\<rbrakk> \<Longrightarrow> \<exists>e. ps_Get ps n s' = Inl e"
    and other_names:
      "\<lbrakk>valid_name n; valid_name n'; n \<noteq> n'\<rbrakk> \<Longrightarrow> store_closed ps n (\<lambda>s. ps_Get ps n' s = g)"
    and readable_closed: "valid_name n \<Longrightarrow> store_closed ps n readable"
    and writable_closed: "valid_name n \<Longrightarrow> store_closed ps n writable"
    and writable_readable: "writable s \<Longrightarrow> readable s"
    and PersistStatus_ok:
      "\<lbrakk>valid_name (Name c); writable s\<rbrakk> \<Longrightarrow> fst (ps_PersistStatus ps c status s) = None"
begin

lemma closed_True: "store_closed ps n (\<lambda>_. True)"
  by (simp add: store_closed_def)

lemma Name_createInner:
  "PersistStore env = ps \<Longrightarrow> createInner env (c, s, d) = (r, c', s', d') \<Longrightarrow> Name c' = Name c"
  using createInner_good [of env "Name c" "\<lambda>_. True" "DriverName c" "(c, s, d)"] closed_True by simp

lemma writable_createInner:
  "\<lbrakk>PersistStore env = ps; valid_name (Name c); writable s; createInner env (c, s, d) = (r, c', s', d')\<rbrakk>
     \<Longrightarrow> writable s'"
  using createInner_good [of env "Name c" writable "DriverName c" "(c, s, d)"]
    writable_closed [of "Name c"] by simp

lemma readable_createInner:
  "\<lbrakk>PersistStore env = ps; valid_name (Name c); readable s; createInner env (c, s, d) = (r, c', s', d')\<rbrakk>
     \<Longrightarrow> readable s'"
  using createInner_good [of env "Name c" readable "DriverName c" "(c, s, d)"]
    readable_closed [of "Name c"] by simp

lemma persist_readable:
  "\<lbrakk>valid_name (Name c); readable s; ps_PersistStatus ps c status s = (r, s')\<rbrakk> \<Longrightarrow> readable s'"
  using readable_closed [of "Name c"] unfolding store_closed_def by (metis snd_conv)

lemma persist_writable:
  assumes "PersistStore env = ps" "valid_name (Name c)" "writable s"
  obtains s' where "persist env status (c, s, d) = (None, c, s', d)" "writable s'"
    "ps_Get ps (Name c) s' = Inr (saved (c\<lparr>Status := status\<rparr>))"
proof -
  obtain r s' where p: "ps_PersistStatus ps c status s = (r, s')" by force
  with PersistStatus_ok [OF assms(2,3), of status] have r: "r = None" by simp
  have "writable (snd (ps_PersistStatus ps c status s))"
    using writable_closed [OF assms(2)] assms(3) by (auto simp: store_closed_def)
  with p have "writable s'" by simp
  then show ?thesis
    using that p r assms(1) Get_PersistStatus [OF assms(2) writable_readable [OF assms(3)], of status s']
    by (simp add: persist_def)
qed

lemma restore_Inr:
  "PersistStore env = ps \<Longrightarrow> ps_Get ps (Name c) s = Inr p \<Longrightarrow>
     restore env (c, s, d) = (None, transformClusterInfo c (toInfo p), s, d)"
  by (simp add: restore_def)

subsection \<open>Create\<close>

lemma init_writable:
  "\<lbrakk>PersistStore env = ps; valid_name (Name c); writable s\<rbrakk> \<Longrightarrow> writable (init_store env c s)"
  using writable_closed [of "Name c"] by (auto simp: init_store_def store_closed_def)

lemma init_readable:
  "\<lbrakk>PersistStore env = ps; valid_name (Name c); readable s\<rbrakk> \<Longrightarrow> readable (init_store env c s)"
  using readable_closed [of "Name c"] by (auto simp: init_store_def store_closed_def)

lemma Create_success:
  assumes "PersistStore env = ps" "valid_name (Name c)" "readable s"
    and cr: "Create env (c, s, d) = (None, c', s', d')"
  shows "ps_Get ps (Name c) s' = Inr (saved (c'\<lparr>Status := Running\<rparr>))
    \<and> (\<exists>info dp i. d_PostCheck (Driver env) info dp = (Inr i, d') \<and> toInfo c' = i\<lparr>ci_CreateError := []\<rparr>)"
proof -
  let ?s1 = "init_store env c s"
  obtain r c2 s2 d2 where ci: "createInner env (c, ?s1, d) = (r, c2, s2, d2)" by (metis prod_cases4)
  have r: "r = None" and fin: "persist env Running (c2, s2, d2) = (None, c', s', d')"
    using cr ci by (cases r; simp add: Create_unfold)+
  then have c2: "c2 = c'" "d2 = d'" and ps: "ps_PersistStatus ps c' Running s2 = (None, s')"
    by (auto simp: persist_def assms(1) split: prod.splits)
  have "Name c' = Name c" using Name_createInner [OF assms(1) ci] c2 by simp
  then have "ps_Get ps (Name c) s' = Inr (saved (c'\<lparr>Status := Running\<rparr>))"
    using Get_PersistStatus [OF _ readable_createInner [OF assms(1,2) init_readable [OF assms(1-3)] ci] ps]
      assms(2) by simp
  moreover obtain cp sp dp where pc: "PostCheck env (cp, sp, dp) = (None, c', s2, d')"
    using ci r c2 by (auto simp: createInner_def Let_def and_then_None split: if_splits)
  ultimately show ?thesis by (metis PostCheck_success [OF pc])
qed

lemma Create_error:
  assumes "PersistStore env = ps" "valid_name (Name c)" "writable s"
    and "Create env (c, s, d) = (Some e, c', s', d')"
  shows "ps_Get ps (Name c) s' =
     Inr (saved (c'\<lparr>Status := if e = ErrClusterExists then Running else ErrorStatus\<rparr>)) \<and> writable s'"
proof -
  let ?s1 = "init_store env c s" and ?status = "if e = ErrClusterExists then Running else ErrorStatus"
  obtain r c2 s2 d2 where ci: "createInner env (c, ?s1, d) = (r, c2, s2, d2)" by (metis prod_cases4)
  have n: "Name c2 = Name c" using Name_createInner [OF assms(1) ci] .
  have v: "valid_name (Name c2)" using n assms(2) by simp
  note pw = persist_writable [OF assms(1) v
      writable_createInner [OF assms(1,2) init_writable [OF assms(1-3)] ci]]
  have "r \<noteq> None"
  proof
    assume "r = None"
    moreover obtain s3 where "persist env Running (c2, s2, d2) = (None, c2, s3, d2)" by (rule pw)
    ultimately show False using assms(4) ci by (simp add: Create_unfold)
  qed
  then have "snd (persist env ?status (c2, s2, d2)) = (c', s', d')"
    using assms(4) ci by (auto simp: Create_unfold)
  moreover obtain s3 where "persist env ?status (c2, s2, d2) = (None, c2, s3, d2)" "writable s3"
    "ps_Get ps (Name c2) s3 = Inr (saved (c2\<lparr>Status := ?status\<rparr>))" by (rule pw)
  ultimately show ?thesis using n by simp
qed

lemma createInner_existing:
  assumes "PersistStore env = ps" "ps_Get ps (Name c) s = Inr q" "exists_status (Status q)"
  shows "createInner env (c, s, d) = (Some ErrClusterExists, transformClusterInfo c (toInfo q), s, d)"
  using assms(3) by (simp add: createInner_def Let_def restore_Inr [OF assms(1,2)])

lemma Create_existing_init:
  assumes "PersistStore env = ps" "valid_name (Name c)" "writable (init_store env c s)"
    and "ps_Get ps (Name c) (init_store env c s) = Inr q" "exists_status (Status q)"
  obtains c' s' where "Create env (c, s, d) = (Some ErrClusterExists, c', s', d)"
    "ps_Get ps (Name c) s' = Inr (saved (c'\<lparr>Status := Running\<rparr>))"
proof -
  let ?c1 = "transformClusterInfo c (toInfo q)" and ?s1 = "init_store env c s"
  have v: "valid_name (Name ?c1)" using assms(2) by simp
  obtain s3 where "persist env Running (?c1, ?s1, d) = (None, ?c1, s3, d)"
    "ps_Get ps (Name ?c1) s3 = Inr (saved (?c1\<lparr>Status := Running\<rparr>))"
    by (rule persist_writable [OF assms(1) v assms(3)])
  with that show ?thesis
    by (simp add: Create_unfold createInner_existing [OF assms(1,4,5)] del: Running_def)
qed

lemma init_Get:
  assumes "PersistStore env = ps" "valid_name (Name c)" "writable s" "RootCACert c \<noteq> []" "Status c = []"
  shows "ps_Get ps (Name c) (init_store env c s) = Inr (saved (c\<lparr>Status := Init\<rparr>))"
proof -
  obtain r s1 where p: "ps_PersistStatus ps c Init s = (r, s1)" by force
  with PersistStatus_ok [OF assms(2,3), of Init] have "r = None" by simp
  with p Get_PersistStatus [OF assms(2) writable_readable [OF assms(3)], of Init s1] assms(1,4,5) show ?thesis
    by (simp add: init_store_def)
qed

lemma Create_existing:
  assumes "PersistStore env = ps" "valid_name (Name c)" "writable s"
    and "ps_Get ps (Name c) s = Inr p" "exists_status (Status p)"
  obtains c' s' where "Create env (c, s, d) = (Some ErrClusterExists, c', s', d)"
    "ps_Get ps (Name c) s' = Inr (saved (c'\<lparr>Status := Running\<rparr>))"
proof (cases "RootCACert c \<noteq> [] \<and> Status c = []")
  case True
  then show ?thesis
    using Create_existing_init [OF assms(1,2) init_writable [OF assms(1-3)] init_Get [OF assms(1-3)]] that
    by (auto simp: exists_status_def)
next
  case False
  then have "init_store env c s = s" by (auto simp: init_store_def)
  then show ?thesis
    using Create_existing_init [OF assms(1,2) init_writable [OF assms(1-3)], of p] assms(4,5) that by auto
qed

text \<open>A handle with a CA certificate and no status is adopted: the driver is not called.\<close>

lemma Create_adopts:
  assumes "PersistStore env = ps" "valid_name (Name c)" "writable s"
    and "RootCACert c \<noteq> []" "Status c = []"
  obtains c' s' where "Create env (c, s, d) = (Some ErrClusterExists, c', s', d)"
    "ps_Get ps (Name c) s' = Inr (saved (c'\<lparr>Status := Running\<rparr>))"
proof (rule Create_existing_init [OF assms(1,2) init_writable [OF assms(1-3)] init_Get [OF assms]])
  show "exists_status (Status (saved (c\<lparr>Status := Init\<rparr>)))" by (simp add: exists_status_def)
qed (rule that)

text \<open>What a retry hands to the driver.\<close>

lemma createInner_retry:
  assumes "PersistStore env = ps" "ps_Get ps (Name c) s = Inr p" "\<not> exists_status (Status p)"
  shows "createInner env (c, s, d) =
     and_then (create env (if Status p = ErrorStatus then Some (toInfo p) else None)
        (transformClusterInfo c (toInfo p), s, d)) (PostCheck env)"
proof -
  have "(toInfo p)\<lparr>ci_CreateError := []\<rparr> = toInfo p" by (simp add: toInfo_def)
  then show ?thesis
    using assms(3) by (simp add: createInner_def Let_def restore_Inr [OF assms(1,2)])
qed

subsection \<open>Update\<close>

lemma Update_driver_error:
  assumes "PersistStore env = ps" "valid_name (Name c)" "writable s"
    and "ps_Get ps (Name c) s = Inr p"
    and "Status p \<notin> {ErrorStatus, PreCreating, Creating}"
    and "GetConfig env = Inr opts"
    and "d_Update (Driver env) (toInfo p)
           (merge_metadata (FmtFloat env) (gm_list (Metadata p)) (put_string ''name'' (Name c) opts)) d
         = (Inl e, d')"
  obtains c' s' where "Update env (c, s, d) = (Some e, c', s', d')"
    "ps_Get ps (Name c) s' = Inr (saved (c'\<lparr>Status := Updating\<rparr>))"
proof -
  let ?c1 = "transformClusterInfo c (toInfo p)"
  have i: "(toInfo p)\<lparr>ci_CreateError := []\<rparr> = toInfo p" by (simp add: toInfo_def)
  obtain s1 where "persist env Updating (?c1, s, d) = (None, ?c1, s1, d)"
    "ps_Get ps (Name c) s1 = Inr (saved (?c1\<lparr>Status := Updating\<rparr>))"
    using persist_writable [OF assms(1), of ?c1 s Updating d] assms(2,3) by auto
  with that assms(5-7) show ?thesis
    by (simp add: Update_def restore_Inr [OF assms(1,4)] i Let_def del: Updating_def)
qed

lemma PostCheck_stored:
  assumes "PersistStore env = ps" "valid_name (Name c)" "readable s"
    and "PostCheck env (c, s, d) = (None, c', s', d')"
  shows "ps_Get ps (Name c) s' = Inr (saved c')"
proof -
  obtain i s1 where c': "c' = transformClusterInfo c i"
    and p: "ps_PersistStatus ps c PostChecking s = (None, s1)" and "ps_Store ps c' s1 = (None, s')"
    using PostCheck_success [OF assms(4)] assms(1) by metis
  with Get_Store [of c' s1 s'] persist_readable [OF assms(2,3) p] assms(2) show ?thesis by simp
qed

lemma Update_success:
  assumes "PersistStore env = ps" "valid_name (Name c)"
    and "ps_Get ps (Name c) s = Inr p" "Status p \<noteq> ErrorStatus"
    and "Update env (c, s, d) = (None, c', s', d')" "readable s"
  shows "ps_Get ps (Name c) s' = Inr (saved c')
    \<and> (\<exists>info dp i. d_PostCheck (Driver env) info dp = (Inr i, d') \<and> toInfo c' = i\<lparr>ci_CreateError := []\<rparr>)"
proof -
  let ?c1 = "transformClusterInfo c (toInfo p)"
  obtain opts r s1 where g: "GetConfig env = Inr opts" and p1: "persist env Updating (?c1, s, d) = (r, ?c1, s1, d)"
    using assms(4,5) by (cases "GetConfig env")
      (auto simp: Update_def restore_Inr [OF assms(1,3)] persist_def split: if_splits prod.splits)
  let ?o = "merge_metadata (FmtFloat env) (gm_list (Metadata p)) (put_string ''name'' (Name c) opts)"
  obtain x d1 where u: "d_Update (Driver env) (toInfo ?c1) ?o d = (x, d1)" by force
  have "\<exists>i. PostCheck env (transformClusterInfo ?c1 i, s1, d1) = (None, c', s', d')"
    using assms(4,5) g p1 u
    by (cases r; cases x)
       (auto simp: Update_def restore_Inr [OF assms(1,3)] Let_def simp del: Updating_def split: if_splits)
  then obtain i where pc: "PostCheck env (transformClusterInfo ?c1 i, s1, d1) = (None, c', s', d')" ..
  have "ps_PersistStatus ps ?c1 Updating s = (r, s1)"
    using p1 by (auto simp: persist_def assms(1) split: prod.splits)
  then have "readable s1" using persist_readable [of ?c1 s Updating r s1] assms(2,6) by simp
  with PostCheck_success [OF pc] PostCheck_stored [OF assms(1) _ _ pc] assms(2) show ?thesis
    by (metis transformClusterInfo_simps(1))
qed

subsection \<open>Remove\<close>

lemma Remove_forgets:
  assumes "PersistStore env = ps" "valid_name (Name c)" "ps_Get ps (Name c) s = Inr p"
    and "Remove env force (c, s, d) = (None, c', s', d')"
  shows "\<exists>e. ps_Get ps (Name c) s' = Inl e"
proof -
  have "ps_Remove ps (Name c) s = (None, s')"
    using assms(4)
    by (auto simp: Remove_def restore_Inr [OF assms(1,3)] assms(1) split: prod.splits if_splits)
  then show ?thesis by (rule Get_Remove [OF assms(2)])
qed

lemma Remove_unforced_error:
  assumes "PersistStore env = ps" "ps_Get ps (Name c) s = Inr p"
    and "d_Remove (Driver env) (toInfo p) d = (Some e, d')"
  shows "Remove env False (c, s, d) =
     (Some (Errorf (''Error removing cluster ['' @ Name c @ ''] with driver ['' @ DriverName c @ '']: ''
        @ err_msg e)), transformClusterInfo c (toInfo p), s, d')"
proof -
  have "(toInfo p)\<lparr>ci_CreateError := []\<rparr> = toInfo p" by (simp add: toInfo_def)
  with assms(3) show ?thesis by (simp add: Remove_def restore_Inr [OF assms(1,2)])
qed

lemma Remove_forced:
  assumes "PersistStore env = ps" "ps_Get ps (Name c) s = Inr p"
  shows "fst (Remove env True (c, s, d)) = fst (ps_Remove ps (Name c) s)
    \<and> fst (snd (snd (Remove env True (c, s, d)))) = snd (ps_Remove ps (Name c) s)"
  by (simp add: Remove_def restore_Inr [OF assms] assms(1) split: prod.splits)

end

section \<open>Merging metadata into the driver options\<close>

lemma put_string_commute:
  "k \<noteq> k' \<Longrightarrow> put_string k v (put_string k' v' opts) = put_string k' v' (put_string k v opts)"
  by (simp add: put_string_def fun_upd_twist)

lemma flattenIfNotExist_put:
  "flattenIfNotExist fmtf ms (put_string k v opts) = put_string k v (flattenIfNotExist fmtf ms opts)"
  by (simp add: put_string_def flattenIfNotExist_assigns fold_new_put Let_def)

lemma merge_entry_commute:
  assumes "fst x \<noteq> fst y"
  shows "merge_entry fmtf x (merge_entry fmtf y opts) = merge_entry fmtf y (merge_entry fmtf x opts)"
proof (cases "fst x = ''state''")
  case True
  with assms show ?thesis
    by (auto simp: merge_entry_def flattenIfNotExist_put split: prod.splits option.splits)
next
  case False
  with assms show ?thesis
    by (auto simp: merge_entry_def flattenIfNotExist_put put_string_commute split: prod.splits option.splits)
qed

lemma merge_metadata_keeps:
  "StringOptions opts k = Some v \<Longrightarrow> k \<notin> fst ` set m \<Longrightarrow> StringOptions (merge_metadata fmtf m opts) k = Some v"
  unfolding merge_metadata_def
proof (induction m arbitrary: opts)
  case (Cons e m)
  have "StringOptions (merge_entry fmtf e opts) k = Some v"
    using Cons.prems apply_new_keeps [of opts k v]
    by (auto simp: merge_entry_def put_string_def flattenIfNotExist_assigns split: prod.splits option.splits)
  with Cons show ?case by simp
qed simp

text \<open>
  C28. The options an update or a backup passes to the driver do not depend on the order in which
  Go visits the metadata, although the entry \<open>state\<close> only fills options that are not set yet.
\<close>

theorem merge_metadata_order:
  assumes "mset m = mset m'" "distinct (map fst m)"
  shows "merge_metadata fmtf m opts = merge_metadata fmtf m' opts"
proof -
  have "fold (merge_entry fmtf) m = fold (merge_entry fmtf) m'"
  proof (rule fold_multiset_equiv)
    fix x y assume "x \<in> set m" "y \<in> set m"
    then have "x = y \<or> fst x \<noteq> fst y"
      using assms(2) by (auto simp: distinct_map inj_on_def)
    then show "merge_entry fmtf x \<circ> merge_entry fmtf y = merge_entry fmtf y \<circ> merge_entry fmtf x"
      using merge_entry_commute [of x y fmtf] by (auto simp: fun_eq_iff)
  qed fact
  then show ?thesis by (simp add: merge_metadata_def)
qed

theorem merge_metadata_order_witness:
  "merge_metadata (\<lambda>_. []) [(''state'', ''{}''), (''zone'', ''z'')] empty_options =
   merge_metadata (\<lambda>_. []) [(''zone'', ''z''), (''state'', ''{}'')] empty_options"
  by (rule merge_metadata_order) simp_all

text \<open>
  Metadata overrides the configuration: after the merge every metadata entry other than
  \<open>state\<close> is a string option with its stored value, whatever the configuration said.
\<close>

theorem merge_metadata_overrides:
  assumes "distinct (map fst m)" "(k, v) \<in> set m" "k \<noteq> ''state''"
  shows "StringOptions (merge_metadata fmtf m opts) k = Some v"
  using assms
proof (induction m arbitrary: opts)
  case (Cons e m)
  show ?case
  proof (cases "e = (k, v)")
    case True
    with Cons.prems have "StringOptions (merge_metadata fmtf m (put_string k v opts)) k = Some v"
      by (intro merge_metadata_keeps) (auto simp: put_string_def)
    with True Cons.prems(3) show ?thesis by (simp add: merge_metadata_def merge_entry_def)
  next
    case False
    with Cons show ?thesis by (simp add: merge_metadata_def)
  qed
qed simp

theorem merge_metadata_overrides_witness:
  "StringOptions (merge_metadata (\<lambda>_. []) [(''zone'', ''z'')] (put_string ''zone'' ''other'' empty_options)) ''zone''
   = Some ''z''"
  by (rule merge_metadata_overrides) simp_all

end
