(* ===== verification/FileSys.thy ===== *)
theory FileSys
  imports Prelude
begin

text \<open>
  The file system as the store uses it, and package \<open>utils\<close> on top of it. A path is the list
  of its cleaned segments, with the first segment \<open>/\<close> for a rooted path; the file system is an
  association list of files and directories. Every system call may fail: \<open>Deny\<close> gives the error
  of a call on a path, \<open>Short\<close> how many bytes a failing write leaves behind. \<open>Rand\<close> are the
  random suffixes that \<open>ioutil.TempFile\<close> tries, \<open>MapOrder\<close> the choices (\<open>visit\<close>) that order the
  \<open>range\<close> loop of the store. The lemmas say what each call touches and when it succeeds.
\<close>

type_synonym path = "string list"

datatype node = FFile string | FDir

datatype fsop =
    OpMkdir | OpStat | OpOpen | OpWrite | OpCreate | OpClose | OpRead | OpUnlink | OpRename | OpReadDir

record fs =
  Nodes :: "(path \<times> node) list"
  Deny :: "fsop \<Rightarrow> path \<Rightarrow> goerr option"
  Short :: "path \<Rightarrow> nat"
  Rand :: "nat \<Rightarrow> string"
  MapOrder :: "nat list"
  Getenv :: "string \<Rightarrow> string"
  GOOS :: string

section \<open>Paths\<close>

text \<open>One more segment of a \<open>filepath.Join\<close>, cleaned as \<open>filepath.Clean\<close> does.\<close>

definition join_seg :: "string \<Rightarrow> path \<Rightarrow> path" where
  "join_seg seg p =
     (if seg = [] \<or> seg = ''.'' then p
      else if seg = ''..'' then
        (if p = [''/''] then p else if p = [] \<or> last p = ''..'' then p @ [seg] else butlast p)
      else p @ [seg])"

definition fp_join :: "path \<Rightarrow> string \<Rightarrow> path" where
  "fp_join p elem = fold join_seg (split_on (CHR ''/'') elem) p"

definition fp_clean :: "string \<Rightarrow> path" where
  "fp_clean s = fp_join (if has_prefix s ''/'' then [''/''] else []) s"

definition fp_dir :: "path \<Rightarrow> path" where
  "fp_dir p = butlast p"

text \<open>The non-empty prefixes of a path, shortest first.\<close>

definition prefixes_of :: "path \<Rightarrow> path list" where
  "prefixes_of p = map (\<lambda>i. take (Suc i) p) [0..<length p]"

section \<open>System calls\<close>

definition node_at :: "fs \<Rightarrow> path \<Rightarrow> node option" where
  "node_at fs p = (if p = [] \<or> p = [''/''] then Some FDir else map_of (Nodes fs) p)"

definition set_node :: "path \<Rightarrow> node \<Rightarrow> fs \<Rightarrow> fs" where
  "set_node p n fs = fs\<lparr>Nodes := AList.update p n (Nodes fs)\<rparr>"

definition del_node :: "path \<Rightarrow> fs \<Rightarrow> fs" where
  "del_node p fs = fs\<lparr>Nodes := AList.delete p (Nodes fs)\<rparr>"

definition is_file :: "fs \<Rightarrow> path \<Rightarrow> bool" where
  "is_file fs p = (case node_at fs p of Some (FFile _) \<Rightarrow> True | _ \<Rightarrow> False)"

definition file_above :: "fs \<Rightarrow> path \<Rightarrow> bool" where
  "file_above fs p = list_ex (is_file fs) (prefixes_of (butlast p))"

datatype stat_result = NotExist | StatErr goerr | Found node

definition os_Stat :: "path \<Rightarrow> fs \<Rightarrow> stat_result" where
  "os_Stat p fs =
     (case Deny fs OpStat p of
        Some e \<Rightarrow> StatErr e
      | None \<Rightarrow>
          (if file_above fs p then StatErr (Errorf ''not a directory'')
           else (case node_at fs p of None \<Rightarrow> NotExist | Some n \<Rightarrow> Found n)))"

text \<open>\<open>os.MkdirAll\<close>: the missing directories of the path, parents first.\<close>

fun mkdirs :: "path list \<Rightarrow> fs \<Rightarrow> goerr option \<times> fs" where
  "mkdirs [] fs = (None, fs)"
| "mkdirs (p # ps) fs =
     (case node_at fs p of
        Some FDir \<Rightarrow> mkdirs ps fs
      | Some (FFile _) \<Rightarrow> (Some (Errorf ''not a directory''), fs)
      | None \<Rightarrow>
          (case Deny fs OpMkdir p of Some e \<Rightarrow> (Some e, fs) | None \<Rightarrow> mkdirs ps (set_node p FDir fs)))"

definition os_MkdirAll :: "path \<Rightarrow> fs \<Rightarrow> goerr option \<times> fs" where
  "os_MkdirAll p fs = mkdirs (prefixes_of p) fs"

text \<open>\<open>ioutil.WriteFile\<close>: open with truncation, then write.\<close>

definition WriteFile :: "path \<Rightarrow> string \<Rightarrow> fs \<Rightarrow> goerr option \<times> fs" where
  "WriteFile p data fs =
     (case Deny fs OpOpen p of
        Some e \<Rightarrow> (Some e, fs)
      | None \<Rightarrow>
          (if node_at fs p = Some FDir then (Some (Errorf ''is a directory''), fs)
           else if node_at fs (fp_dir p) \<noteq> Some FDir then (Some (Errorf ''no such file or directory''), fs)
           else (case Deny fs OpWrite p of
                   Some e \<Rightarrow> (Some e, set_node p (FFile (take (Short fs p) data)) fs)
                 | None \<Rightarrow> (None, set_node p (FFile data) fs))))"

definition ReadFile :: "path \<Rightarrow> fs \<Rightarrow> goerr + string" where
  "ReadFile p fs =
     (case Deny fs OpRead p of
        Some e \<Rightarrow> Inl e
      | None \<Rightarrow>
          (case node_at fs p of
             Some (FFile data) \<Rightarrow> Inr data
           | Some FDir \<Rightarrow> Inl (Errorf ''is a directory'')
           | None \<Rightarrow> Inl (Errorf ''no such file or directory'')))"

text \<open>\<open>ioutil.TempFile\<close>: the first of the random names that is not taken, 10000 tries at most.\<close>

definition tmp_name :: "string \<Rightarrow> string" where
  "tmp_name r = ''file.tmp'' @ r"

fun try_temp :: "nat \<Rightarrow> nat \<Rightarrow> path \<Rightarrow> fs \<Rightarrow> (goerr + path) \<times> fs" where
  "try_temp 0 i dir fs = (Inl (Errorf ''file exists''), fs)"
| "try_temp (Suc n) i dir fs =
     (let p = dir @ [tmp_name (Rand fs i)] in
      case Deny fs OpCreate p of
        Some e \<Rightarrow> (Inl e, fs)
      | None \<Rightarrow>
          (if node_at fs p \<noteq> None then try_temp n (Suc i) dir fs
           else if node_at fs dir \<noteq> Some FDir then (Inl (Errorf ''no such file or directory''), fs)
           else (Inr p, set_node p (FFile []) fs)))"

definition TempFile :: "path \<Rightarrow> fs \<Rightarrow> (goerr + path) \<times> fs" where
  "TempFile dir fs = try_temp 10000 0 dir fs"

definition has_children :: "fs \<Rightarrow> path \<Rightarrow> bool" where
  "has_children fs p = list_ex (\<lambda>(q, n). q \<noteq> [] \<and> butlast q = p) (Nodes fs)"

definition os_Remove :: "path \<Rightarrow> fs \<Rightarrow> goerr option \<times> fs" where
  "os_Remove p fs =
     (case Deny fs OpUnlink p of
        Some e \<Rightarrow> (Some e, fs)
      | None \<Rightarrow>
          (case node_at fs p of
             None \<Rightarrow> (Some (Errorf ''no such file or directory''), fs)
           | Some (FFile _) \<Rightarrow> (None, del_node p fs)
           | Some FDir \<Rightarrow>
               (if has_children fs p then (Some (Errorf ''directory not empty''), fs)
                else (None, del_node p fs))))"

definition os_Rename :: "path \<Rightarrow> path \<Rightarrow> fs \<Rightarrow> goerr option \<times> fs" where
  "os_Rename p q fs =
     (case Deny fs OpRename q of
        Some e \<Rightarrow> (Some e, fs)
      | None \<Rightarrow>
          (case node_at fs p of
             Some (FFile data) \<Rightarrow>
               (if node_at fs q = Some FDir then (Some (Errorf ''file exists''), fs)
                else if node_at fs (fp_dir q) \<noteq> Some FDir then (Some (Errorf ''no such file or directory''), fs)
                else (None, set_node q (FFile data) (del_node p fs)))
           | _ \<Rightarrow> (Some (Errorf ''no such file or directory''), fs)))"

definition os_Close :: "path \<Rightarrow> fs \<Rightarrow> goerr option \<times> fs" where
  "os_Close p fs = (Deny fs OpClose p, fs)"

text \<open>\<open>os.RemoveAll\<close>: what cannot be unlinked stays, with the directories above it.\<close>

definition below :: "path \<Rightarrow> path \<Rightarrow> bool" where
  "below p q = (take (length p) q = p)"

definition stuck :: "fs \<Rightarrow> path \<Rightarrow> bool" where
  "stuck fs q = list_ex (\<lambda>(r, n). below q r \<and> Deny fs OpUnlink r \<noteq> None) (Nodes fs)"

definition os_RemoveAll :: "path \<Rightarrow> fs \<Rightarrow> goerr option \<times> fs" where
  "os_RemoveAll p fs =
     (let kept = filter (\<lambda>(q, n). below p q \<and> stuck fs q) (Nodes fs) in
      (case kept of [] \<Rightarrow> None | (q, n) # _ \<Rightarrow> (case Deny fs OpUnlink q of Some e \<Rightarrow> Some e
           | None \<Rightarrow> Some (Errorf ''directory not empty'')),
       fs\<lparr>Nodes := filter (\<lambda>(q, n). below p q \<longrightarrow> stuck fs q) (Nodes fs)\<rparr>))"

text \<open>\<open>ioutil.ReadDir\<close>: the entries by name, with their \<open>IsDir\<close>; a missing directory is told apart.\<close>

datatype readdir_result = DirMissing | DirErr goerr | DirEntries "(string \<times> bool) list"

definition ReadDir :: "path \<Rightarrow> fs \<Rightarrow> readdir_result" where
  "ReadDir p fs =
     (case Deny fs OpReadDir p of
        Some e \<Rightarrow> DirErr e
      | None \<Rightarrow>
          (case node_at fs p of
             None \<Rightarrow> (if file_above fs p then DirErr (Errorf ''not a directory'') else DirMissing)
           | Some (FFile _) \<Rightarrow> DirErr (Errorf ''not a directory'')
           | Some FDir \<Rightarrow>
               DirEntries (sort_key fst (map (\<lambda>(q, n). (last q, n = FDir))
                 (filter (\<lambda>(q, n). q \<noteq> [] \<and> butlast q = p) (Nodes fs))))))"

section \<open>Package utils\<close>

text \<open>
  \<open>WriteToFile\<close>: a missing file is written directly, an existing one is replaced through a
  temporary file (\<open>replaceFile\<close>, the second half of the function), whose deferred removal runs on
  every return.
\<close>

definition replaceFile :: "string \<Rightarrow> path \<Rightarrow> fs \<Rightarrow> goerr option \<times> fs" where
  "replaceFile data file fs =
     (case TempFile (fp_dir file) fs of
        (Inl e, fs') \<Rightarrow> (Some e, fs')
      | (Inr tmp, fs') \<Rightarrow>
          (case and_then (WriteFile tmp data fs') (\<lambda>fs.
                and_then (os_Close tmp fs) (\<lambda>fs.
                and_then (os_Remove file fs) (os_Rename tmp file))) of
             (r, fs'') \<Rightarrow> (r, snd (os_Remove tmp fs''))))"

definition WriteToFile :: "string \<Rightarrow> path \<Rightarrow> fs \<Rightarrow> goerr option \<times> fs" where
  "WriteToFile data file fs =
     and_then (os_MkdirAll (fp_dir file) fs) (\<lambda>fs.
       if os_Stat file fs = NotExist then WriteFile file data fs else replaceFile data file fs)"

definition HomeDir :: "fs \<Rightarrow> path" where
  "HomeDir fs =
     fp_join (fp_clean (if GOOS fs = ''windows'' then Getenv fs ''USERPROFILE'' else Getenv fs ''HOME''))
       ''.kontainer''"

definition KubeConfigFilePath :: "fs \<Rightarrow> path" where
  "KubeConfigFilePath fs = fp_join (HomeDir fs) ''kubeconfig''"

section \<open>Lemmas on paths\<close>

text \<open>A name that is one path segment.\<close>

definition valid_seg :: "string \<Rightarrow> bool" where
  "valid_seg n \<longleftrightarrow> n \<noteq> [] \<and> n \<noteq> ''.'' \<and> n \<noteq> ''..'' \<and> CHR ''/'' \<notin> set n"

lemma fp_join_seg [simp]: "valid_seg n \<Longrightarrow> fp_join p n = p @ [n]"
  by (simp add: fp_join_def valid_seg_def split_on_no_sep join_seg_def)

lemma fp_dir_snoc [simp]: "fp_dir (p @ [n]) = p"
  by (simp add: fp_dir_def)

lemma prefixes_of_snoc: "prefixes_of (p @ [n]) = prefixes_of p @ [p @ [n]]"
  by (simp add: prefixes_of_def)

lemma prefixes_of_Nil [simp]: "prefixes_of [] = []"
  by (simp add: prefixes_of_def)

lemma in_prefixes_of: "q \<in> set (prefixes_of p) \<longleftrightarrow> q \<noteq> [] \<and> (\<exists>r. p = q @ r)"
proof
  assume "q \<noteq> [] \<and> (\<exists>r. p = q @ r)"
  then obtain r where "q \<noteq> []" "p = q @ r" by blast
  then have "length q - 1 < length p" "take (Suc (length q - 1)) p = q" by (cases q; simp)+
  then show "q \<in> set (prefixes_of p)" unfolding prefixes_of_def set_map by force
next
  assume "q \<in> set (prefixes_of p)"
  then obtain i where "i < length p" "q = take (Suc i) p" by (auto simp: prefixes_of_def)
  then show "q \<noteq> [] \<and> (\<exists>r. p = q @ r)"
    by (metis append_take_drop_id length_0_conv less_nat_zero_code take_eq_Nil nat.simps(3))
qed

lemma prefixes_ofD: "q \<in> set (prefixes_of p) \<Longrightarrow> \<exists>r. p = q @ r"
  by (simp add: in_prefixes_of)

section \<open>What a call touches\<close>

lemma node_at_simps [simp]:
  "node_at fs [] = Some FDir" "node_at fs [''/''] = Some FDir"
  by (simp_all add: node_at_def)

lemma node_at_set [simp]:
  "p \<noteq> [] \<Longrightarrow> p \<noteq> [''/''] \<Longrightarrow> node_at (set_node p n fs) q = (if q = p then Some n else node_at fs q)"
  by (auto simp: node_at_def set_node_def update_conv')

lemma node_at_set_other: "q \<noteq> p \<Longrightarrow> node_at (set_node p n fs) q = node_at fs q"
  by (auto simp: node_at_def set_node_def update_conv')

lemma node_at_del_other: "q \<noteq> p \<Longrightarrow> node_at (del_node p fs) q = node_at fs q"
  by (auto simp: node_at_def del_node_def delete_conv')

lemma node_at_del [simp]:
  "p \<noteq> [] \<Longrightarrow> p \<noteq> [''/''] \<Longrightarrow> node_at (del_node p fs) q = (if q = p then None else node_at fs q)"
  by (auto simp: node_at_def del_node_def delete_conv')

text \<open>The part of the file system that no call changes.\<close>

definition same_env :: "fs \<Rightarrow> fs \<Rightarrow> bool" where
  "same_env fs fs' \<longleftrightarrow> fs' = fs\<lparr>Nodes := Nodes fs'\<rparr>"

text \<open>
  \<open>touches A D\<close>: outside \<open>A\<close> nothing changes except that paths of \<open>D\<close> may have become
  directories.
\<close>

definition touches :: "path set \<Rightarrow> path set \<Rightarrow> fs \<Rightarrow> fs \<Rightarrow> bool" where
  "touches A D fs fs' \<longleftrightarrow> same_env fs fs' \<and>
     (\<forall>q. q \<notin> A \<longrightarrow> node_at fs' q = node_at fs q \<or>
        q \<in> D \<and> node_at fs q = None \<and> node_at fs' q = Some FDir)"

lemma same_env_refl [simp]: "same_env fs fs"
  by (simp add: same_env_def)

lemma same_env_trans: "same_env a b \<Longrightarrow> same_env b c \<Longrightarrow> same_env a c"
  unfolding same_env_def by (metis fs.surjective fs.update_convs(1))

lemma same_env_set_del [simp]: "same_env fs (set_node p n fs)" "same_env fs (del_node p fs)"
  by (simp_all add: same_env_def set_node_def del_node_def)

lemma same_envD:
  assumes "same_env fs fs'"
  shows "Deny fs' = Deny fs" "Short fs' = Short fs" "Rand fs' = Rand fs" "MapOrder fs' = MapOrder fs"
    "Getenv fs' = Getenv fs" "GOOS fs' = GOOS fs" "HomeDir fs' = HomeDir fs"
    "KubeConfigFilePath fs' = KubeConfigFilePath fs"
proof -
  have eq: "fs' = fs\<lparr>Nodes := Nodes fs'\<rparr>" using assms by (simp add: same_env_def)
  show "Deny fs' = Deny fs" "Short fs' = Short fs" "Rand fs' = Rand fs" "MapOrder fs' = MapOrder fs"
    "Getenv fs' = Getenv fs" "GOOS fs' = GOOS fs" "HomeDir fs' = HomeDir fs"
    "KubeConfigFilePath fs' = KubeConfigFilePath fs"
    by (subst eq, simp add: HomeDir_def KubeConfigFilePath_def)+
qed

lemma touches_refl [simp]: "touches A D fs fs"
  by (simp add: touches_def)

lemma touches_trans: "touches A D a b \<Longrightarrow> touches A D b c \<Longrightarrow> touches A D a c"
  unfolding touches_def using same_env_trans by (metis option.distinct(1))

lemma touches_mono: "touches A D a b \<Longrightarrow> A \<subseteq> A' \<Longrightarrow> D \<subseteq> D' \<Longrightarrow> touches A' D' a b"
  unfolding touches_def by blast

lemma touches_env: "touches A D a b \<Longrightarrow> same_env a b"
  by (simp add: touches_def)

lemma touches_node: "touches A D a b \<Longrightarrow> q \<notin> A \<Longrightarrow> q \<notin> D \<Longrightarrow> node_at b q = node_at a q"
  unfolding touches_def by blast

lemma touches_is_file: "touches A D a b \<Longrightarrow> q \<notin> A \<Longrightarrow> is_file b q = is_file a q"
  unfolding touches_def is_file_def by (force split: option.splits node.splits)

lemma touches_dir: "touches A D a b \<Longrightarrow> q \<notin> A \<Longrightarrow> node_at a q = Some FDir \<Longrightarrow> node_at b q = Some FDir"
  unfolding touches_def by force

lemma touches_set: "p \<in> A \<Longrightarrow> touches A D fs (set_node p n fs)"
  unfolding touches_def using node_at_set_other by (metis same_env_set_del(1))

lemma touches_del: "p \<in> A \<Longrightarrow> touches A D fs (del_node p fs)"
  unfolding touches_def using node_at_del_other by (metis same_env_set_del(2))

lemma touches_and_then:
  "touches A D fs (snd r) \<Longrightarrow> (\<And>fs'. r = (None, fs') \<Longrightarrow> touches A D fs' (snd (f fs'))) \<Longrightarrow>
     touches A D fs (snd (and_then r f))"
  by (cases r; cases "fst r") (auto intro: touches_trans)

lemma touches_mkdirs:
  "set ps \<subseteq> D \<Longrightarrow> touches A D fs (snd (mkdirs ps fs))"
proof (induction ps fs rule: mkdirs.induct)
  case (2 p ps fs)
  have "touches A D fs (set_node p FDir fs)" if "node_at fs p = None"
  proof -
    have "p \<noteq> []" "p \<noteq> [''/'']" using that by auto
    with that 2(3) show ?thesis by (simp add: touches_def)
  qed
  with 2 show ?case by (auto intro: touches_trans split: option.splits node.splits)
qed simp

lemma touches_WriteFile: "p \<in> A \<Longrightarrow> touches A D fs (snd (WriteFile p data fs))"
  by (auto simp: WriteFile_def touches_set split: option.splits)

lemma touches_os_Remove: "p \<in> A \<Longrightarrow> touches A D fs (snd (os_Remove p fs))"
  by (auto simp: os_Remove_def touches_del split: option.splits node.splits)

lemma touches_os_Rename: "p \<in> A \<Longrightarrow> q \<in> A \<Longrightarrow> touches A D fs (snd (os_Rename p q fs))"
  by (auto simp: os_Rename_def intro: touches_trans [OF touches_del touches_set]
      split: option.splits node.splits)

lemma map_of_filter_key: "map_of (filter (\<lambda>(q, m). P q) l) q = (if P q then map_of l q else None)"
  by (induction l) auto

lemma node_at_RemoveAll:
  "below p q \<Longrightarrow> q \<noteq> [] \<Longrightarrow> q \<noteq> [''/''] \<Longrightarrow>
     node_at (snd (os_RemoveAll p fs)) q = (if stuck fs q then node_at fs q else None)"
  "\<not> below p q \<Longrightarrow> node_at (snd (os_RemoveAll p fs)) q = node_at fs q"
  by (simp_all add: os_RemoveAll_def Let_def node_at_def map_of_filter_key)

lemma same_env_RemoveAll [simp]: "same_env fs (snd (os_RemoveAll p fs))"
  by (simp add: os_RemoveAll_def Let_def same_env_def)

lemma below_iff: "below p q \<longleftrightarrow> (\<exists>r. q = p @ r)"
  unfolding below_def by (metis append_eq_conv_conj)

lemma RemoveAll_None:
  assumes "fst (os_RemoveAll p fs) = None" "below p q" "q \<noteq> []" "q \<noteq> [''/'']"
  shows "node_at (snd (os_RemoveAll p fs)) q = None"
proof (cases "map_of (Nodes fs) q")
  case None
  then show ?thesis using node_at_RemoveAll(1) [OF assms(2-4), of fs] assms(3,4) by (simp add: node_at_def)
next
  case (Some n)
  have "filter (\<lambda>(q, n). below p q \<and> stuck fs q) (Nodes fs) = []"
    using assms(1) by (auto simp: os_RemoveAll_def Let_def split: list.splits option.splits)
  with map_of_SomeD [OF Some] assms(2) have "\<not> stuck fs q" by (auto simp: filter_empty_conv)
  then show ?thesis using node_at_RemoveAll(1) [OF assms(2-4), of fs] by simp
qed

text \<open>The names a temporary file beside \<open>file\<close> may have.\<close>

definition tmps :: "path \<Rightarrow> path set" where
  "tmps dir = {dir @ [tmp_name x] | x. True}"

lemma try_temp_result:
  "try_temp n i dir fs = (r, fs') \<Longrightarrow> (\<exists>e. r = Inl e \<and> fs' = fs) \<or>
     (\<exists>x. r = Inr (dir @ [tmp_name x]) \<and> node_at fs (dir @ [tmp_name x]) = None \<and>
        node_at fs dir = Some FDir \<and> fs' = set_node (dir @ [tmp_name x]) (FFile []) fs)"
proof (induction n i dir fs rule: try_temp.induct)
  case (2 n i dir fs)
  let ?p = "dir @ [tmp_name (Rand fs i)]"
  show ?case
  proof (cases "Deny fs OpCreate ?p = None \<and> node_at fs ?p \<noteq> None")
    case True
    with "2.prems" have "try_temp n (Suc i) dir fs = (r, fs')" by (simp add: Let_def)
    with True show ?thesis using "2.IH" [of ?p] by simp
  next
    case False
    with "2.prems" show ?thesis by (auto simp: Let_def split: option.splits if_splits)
  qed
qed auto

lemma TempFile_result:
  assumes "TempFile dir fs = (r, fs')"
  obtains (err) e where "r = Inl e" "fs' = fs"
  | (tmp) x where "r = Inr (dir @ [tmp_name x])" "node_at fs (dir @ [tmp_name x]) = None"
      "node_at fs dir = Some FDir" "fs' = set_node (dir @ [tmp_name x]) (FFile []) fs"
  using try_temp_result [OF assms [unfolded TempFile_def]] by blast

lemma touches_replaceFile:
  "touches ({file} \<union> tmps (fp_dir file)) D fs (snd (replaceFile data file fs))" (is "touches ?A D _ _")
proof -
  obtain r fs2 where t0: "TempFile (fp_dir file) fs = (r, fs2)" by force
  then show ?thesis
  proof (cases rule: TempFile_result)
    case (tmp x)
    let ?t = "fp_dir file @ [tmp_name x]"
    let ?w = "and_then (WriteFile ?t data fs2) (\<lambda>fs. and_then (os_Close ?t fs) (\<lambda>fs.
                and_then (os_Remove file fs) (os_Rename ?t file)))"
    have t: "?t \<in> ?A" by (auto simp: tmps_def)
    have "touches ?A D fs fs2" using tmp(4) t by (simp add: touches_set)
    moreover have "touches ?A D fs2 (snd ?w)"
      by (intro touches_and_then touches_WriteFile touches_os_Remove touches_os_Rename t)
         (simp_all add: os_Close_def)
    ultimately have "touches ?A D fs (snd (os_Remove ?t (snd ?w)))"
      by (meson touches_os_Remove [OF t] touches_trans)
    with tmp t0 show ?thesis by (simp add: replaceFile_def case_prod_beta)
  qed (simp add: replaceFile_def t0)
qed

lemma touches_WriteToFile:
  "touches ({file} \<union> tmps (fp_dir file)) (set (prefixes_of (fp_dir file))) fs (snd (WriteToFile data file fs))"
  unfolding WriteToFile_def os_MkdirAll_def
  by (intro touches_and_then touches_mkdirs)
     (auto intro: touches_WriteFile touches_replaceFile [simplified])

section \<open>The result of WriteToFile\<close>

definition no_faults :: "fs \<Rightarrow> bool" where
  "no_faults fs \<longleftrightarrow> Deny fs = (\<lambda>_ _. None)"

lemma no_faults_env: "same_env a b \<Longrightarrow> no_faults b = no_faults a"
  by (simp add: no_faults_def same_envD)

lemma no_faults_Deny [simp]: "no_faults fs \<Longrightarrow> Deny fs op p = None"
  by (simp add: no_faults_def)

lemma tmp_name_eq [simp]: "tmp_name x = tmp_name y \<longleftrightarrow> x = y"
  by (simp add: tmp_name_def)

lemma WriteFile_None:
  assumes "WriteFile (dir @ [n]) data fs = (None, fs')" "dir @ [n] \<noteq> [''/'']"
  shows "fs' = set_node (dir @ [n]) (FFile data) fs" "node_at fs' (dir @ [n]) = Some (FFile data)"
  using assms by (auto simp: WriteFile_def split: option.splits if_splits)

lemma replaceFile_content:
  assumes "replaceFile data (dir @ [n]) fs = (None, fs')" "dir @ [n] \<noteq> [''/'']"
  shows "node_at fs' (dir @ [n]) = Some (FFile data)"
proof -
  let ?f = "dir @ [n]"
  obtain r fs2 where t0: "TempFile dir fs = (r, fs2)" by force
  then show ?thesis
  proof (cases rule: TempFile_result)
    case (err e)
    with assms t0 show ?thesis by (simp add: replaceFile_def)
  next
    case (tmp x)
    let ?t = "dir @ [tmp_name x]"
    have t1: "?t \<noteq> [''/'']" by (simp add: tmp_name_def)
    obtain f3 f4 f5 where w: "WriteFile ?t data fs2 = (None, f3)" and rm: "os_Remove ?f f3 = (None, f4)"
      and rn: "os_Rename ?t ?f f4 = (None, f5)" and fs': "fs' = snd (os_Remove ?t f5)"
      using assms(1) t0 tmp
      by (auto simp: replaceFile_def and_then_None os_Close_def split: prod.splits)
    have "f4 = del_node ?f f3"
      using rm by (auto simp: os_Remove_def split: option.splits node.splits if_splits)
    then have gone: "node_at f4 ?f = None" using assms(2) by simp
    from rn have ex: "node_at f4 ?t \<noteq> None" by (auto simp: os_Rename_def split: option.splits)
    then have ne: "?t \<noteq> ?f" using gone by metis
    with \<open>f4 = _\<close> have "node_at f4 ?t = Some (FFile data)"
      using WriteFile_None(2) [OF w t1] by (simp add: node_at_del_other)
    with rn have "f5 = set_node ?f (FFile data) (del_node ?t f4)"
      by (auto simp: os_Rename_def split: option.splits if_splits)
    then have "node_at f5 ?f = Some (FFile data)" using assms(2) by simp
    moreover have "node_at fs' ?f = node_at f5 ?f"
      using touches_node [OF touches_os_Remove [of ?t "{?t}" "{}" f5]] ne fs' by auto
    ultimately show ?thesis by simp
  qed
qed

lemma WriteToFile_content:
  assumes "WriteToFile data (dir @ [n]) fs = (None, fs')" "dir @ [n] \<noteq> [''/'']"
  shows "node_at fs' (dir @ [n]) = Some (FFile data)"
  using assms replaceFile_content WriteFile_None(2)
  by (auto simp: WriteToFile_def and_then_None split: if_splits)

lemma mkdirs_ok:
  "no_faults fs \<Longrightarrow> \<forall>p \<in> set ps. \<not> is_file fs p \<Longrightarrow>
     fst (mkdirs ps fs) = None \<and> (\<forall>p \<in> set ps. node_at (snd (mkdirs ps fs)) p = Some FDir)"
proof (induction ps fs rule: mkdirs.induct)
  case (2 p ps fs)
  show ?case
  proof (cases "node_at fs p")
    case None
    then have p: "p \<noteq> []" "p \<noteq> [''/'']" by auto
    have "no_faults (set_node p FDir fs)" using "2.prems"(1) no_faults_env same_env_set_del(1) by blast
    moreover have "\<forall>q \<in> set ps. \<not> is_file (set_node p FDir fs) q"
      using "2.prems"(2) p by (auto simp: is_file_def)
    ultimately have "fst (mkdirs ps (set_node p FDir fs)) = None \<and>
        (\<forall>q \<in> set ps. node_at (snd (mkdirs ps (set_node p FDir fs))) q = Some FDir)"
      using "2.IH" None "2.prems"(1) by simp
    moreover have "node_at (snd (mkdirs ps (set_node p FDir fs))) p = Some FDir"
      using touches_dir [OF touches_mkdirs [of ps "set ps" "{}"]] p by simp
    ultimately show ?thesis using None "2.prems"(1) by simp
  next
    case (Some n)
    with "2.prems" have "n = FDir" by (cases n) (auto simp: is_file_def)
    moreover have "node_at (snd (mkdirs ps fs)) p = Some FDir"
      using touches_dir [OF touches_mkdirs [of ps "set ps" "{}"]] Some calculation by simp
    ultimately show ?thesis using "2.IH" Some "2.prems" by simp
  qed
qed simp

text \<open>No call turns a path that is not a directory into one, except \<open>mkdirs\<close>.\<close>

lemma not_dir_calls:
  assumes "node_at fs q \<noteq> Some FDir"
  shows "node_at (snd (WriteFile p data fs)) q \<noteq> Some FDir"
    and "node_at (snd (os_Close p fs)) q \<noteq> Some FDir"
    and "node_at (snd (os_Remove p fs)) q \<noteq> Some FDir"
    and "node_at (snd (os_Rename p r fs)) q \<noteq> Some FDir"
  using assms
  by (auto simp: WriteFile_def os_Close_def os_Remove_def os_Rename_def node_at_def set_node_def
      del_node_def update_conv' delete_conv' split: option.splits node.splits if_splits)

lemma os_Remove_gone:
  "no_faults fs \<Longrightarrow> node_at fs p \<noteq> Some FDir \<Longrightarrow> node_at (snd (os_Remove p fs)) p = None"
  by (cases "p = [] \<or> p = [''/'']") (auto simp: os_Remove_def split: option.splits node.splits)

lemma replaceFile_tmps:
  assumes "no_faults fs" "\<And>x. node_at fs (dir @ [tmp_name x]) = None" "\<And>x. n \<noteq> tmp_name x"
  shows "node_at (snd (replaceFile data (dir @ [n]) fs)) (dir @ [tmp_name y]) = None"
proof -
  let ?f = "dir @ [n]"
  have ne: "tmp_name x \<noteq> n" for x using assms(3) [of x] by metis
  obtain r fs2 where t0: "TempFile dir fs = (r, fs2)" by force
  then show ?thesis
  proof (cases rule: TempFile_result)
    case (tmp x)
    let ?t = "dir @ [tmp_name x]"
    let ?w = "and_then (WriteFile ?t data fs2) (\<lambda>fs. and_then (os_Close ?t fs) (\<lambda>fs.
                and_then (os_Remove ?f fs) (os_Rename ?t ?f)))"
    have t1: "?t \<noteq> [''/'']" by (simp add: tmp_name_def)
    have tw: "touches {?f, ?t} {} fs2 (snd ?w)"
      by (intro touches_and_then touches_WriteFile touches_os_Remove touches_os_Rename)
         (simp_all add: os_Close_def)
    have "node_at fs2 ?t \<noteq> Some FDir" using tmp(4) t1 by simp
    then have nd: "node_at (snd ?w) ?t \<noteq> Some FDir"
      by (intro and_then_inv [where P = "\<lambda>fs. node_at fs ?t \<noteq> Some FDir"] not_dir_calls)
    have nf: "no_faults (snd ?w)"
      using no_faults_env [OF touches_env [OF tw]] tmp(4) no_faults_env [OF same_env_set_del(1)] assms(1)
      by simp
    have res: "snd (replaceFile data ?f fs) = snd (os_Remove ?t (snd ?w))"
      using t0 tmp by (simp add: replaceFile_def case_prod_beta)
    show ?thesis
    proof (cases "y = x")
      case True
      with os_Remove_gone [OF nf nd] res show ?thesis by simp
    next
      case False
      have "node_at (snd (os_Remove ?t (snd ?w))) (dir @ [tmp_name y]) = node_at (snd ?w) (dir @ [tmp_name y])"
        using touches_node [OF touches_os_Remove [of ?t "{?t}" "{}"]] False by simp
      also have "\<dots> = node_at fs2 (dir @ [tmp_name y])"
        using touches_node [OF tw] False ne by simp
      also have "\<dots> = None" using tmp(4) False assms(2) by (simp add: node_at_set_other)
      finally show ?thesis using res by simp
    qed
  qed (simp add: replaceFile_def t0 assms(2))
qed

lemma WriteToFile_tmps:
  assumes "no_faults fs" "\<And>x. node_at fs (dir @ [tmp_name x]) = None" "\<And>x. n \<noteq> tmp_name x"
  shows "node_at (snd (WriteToFile data (dir @ [n]) fs)) (dir @ [tmp_name y]) = None"
proof -
  have ne: "tmp_name x \<noteq> n" for x using assms(3) [of x] by metis
  obtain r fs1 where mk: "mkdirs (prefixes_of dir) fs = (r, fs1)" by force
  then have t: "touches {} (set (prefixes_of dir)) fs fs1"
    using touches_mkdirs [of "prefixes_of dir" "set (prefixes_of dir)" "{}" fs] by simp
  have "dir @ [tmp_name x] \<notin> set (prefixes_of dir)" for x
    by (simp add: in_prefixes_of)
  then have no: "node_at fs1 (dir @ [tmp_name x]) = None" for x
    using touches_node [OF t] assms(2) by simp
  have nf: "no_faults fs1" using no_faults_env [OF touches_env [OF t]] assms(1) by simp
  have "node_at (snd (WriteFile (dir @ [n]) data fs1)) (dir @ [tmp_name y]) = None"
    using touches_node [OF touches_WriteFile [of "dir @ [n]" "{dir @ [n]}" "{}"]] no ne
    by simp
  with replaceFile_tmps [OF nf no assms(3)] no mk show ?thesis
    by (cases r) (simp_all add: WriteToFile_def os_MkdirAll_def)
qed

lemma replaceFile_ok:
  assumes "no_faults fs" "node_at fs dir = Some FDir" "node_at fs (dir @ [n]) = Some (FFile old)"
    "\<And>x. node_at fs (dir @ [tmp_name x]) = None" "dir @ [n] \<noteq> [''/'']"
  shows "fst (replaceFile data (dir @ [n]) fs) = None"
proof -
  let ?t = "dir @ [tmp_name (Rand fs 0)]" and ?f = "dir @ [n]"
  have t1: "?t \<noteq> [''/'']" by (simp add: tmp_name_def)
  have ne: "?t \<noteq> ?f" using assms(3,4) by (metis option.distinct(1))
  let ?f2 = "set_node ?t (FFile []) fs"
  have "TempFile dir fs = (Inr ?t, ?f2)"
    using assms(1,2,4) by (simp add: TempFile_def numeral_eq_Suc Let_def)
  moreover have dne: "dir \<noteq> ?t" "dir \<noteq> ?f" by simp_all
  have d: "no_faults ?f2" using no_faults_env [OF same_env_set_del(1)] assms(1) by blast
  then have w: "WriteFile ?t data ?f2 = (None, set_node ?t (FFile data) ?f2)"
    using t1 dne assms(2) by (simp add: WriteFile_def)
  let ?f3 = "set_node ?t (FFile data) ?f2"
  have d3: "no_faults ?f3" using no_faults_env [OF same_env_set_del(1)] d by blast
  then have rm: "os_Remove ?f ?f3 = (None, del_node ?f ?f3)"
    using t1 ne assms(3,5) by (simp add: os_Remove_def)
  let ?f4 = "del_node ?f ?f3"
  have "no_faults ?f4" using no_faults_env [OF same_env_set_del(2)] d3 by blast
  then have "fst (os_Rename ?t ?f ?f4) = None"
    using t1 ne dne assms(2,5) by (simp add: os_Rename_def)
  with calculation w rm d3 show ?thesis
    by (simp add: replaceFile_def os_Close_def case_prod_beta)
qed

lemma WriteToFile_ok:
  assumes "no_faults fs" "\<And>p. p \<in> set (prefixes_of dir) \<Longrightarrow> \<not> is_file fs p"
    "node_at fs (dir @ [n]) \<noteq> Some FDir" "\<And>x. node_at fs (dir @ [tmp_name x]) = None"
    "dir @ [n] \<noteq> [''/'']"
  shows "fst (WriteToFile data (dir @ [n]) fs) = None"
proof -
  let ?D = "set (prefixes_of dir)"
  obtain r fs1 where mk: "mkdirs (prefixes_of dir) fs = (r, fs1)" by force
  then have t: "touches {} ?D fs fs1"
    using touches_mkdirs [of "prefixes_of dir" ?D "{}" fs] by simp
  have r: "r = None" and dirs: "\<And>p. p \<in> ?D \<Longrightarrow> node_at fs1 p = Some FDir"
    using mkdirs_ok [OF assms(1), of "prefixes_of dir"] assms(2) mk by auto
  have nf: "no_faults fs1" using no_faults_env [OF touches_env [OF t]] assms(1) by simp
  have same: "node_at fs1 (dir @ [x]) = node_at fs (dir @ [x])" for x
    using touches_node [OF t] by (simp add: in_prefixes_of)
  have dir: "node_at fs1 dir = Some FDir"
    using dirs [of dir] by (cases "dir = []") (auto simp: in_prefixes_of)
  have "\<not> file_above fs1 (dir @ [n])"
    using dirs by (auto simp: file_above_def list_ex_iff is_file_def)
  then have stat: "os_Stat (dir @ [n]) fs1 = (case node_at fs (dir @ [n]) of None \<Rightarrow> NotExist | Some n \<Rightarrow> Found n)"
    using nf same by (simp add: os_Stat_def)
  show ?thesis
  proof (cases "node_at fs (dir @ [n])")
    case None
    with stat nf dir same mk r show ?thesis
      by (simp add: WriteToFile_def os_MkdirAll_def WriteFile_def)
  next
    case (Some nd)
    with assms(3) obtain old where "nd = FFile old" by (cases nd) auto
    with Some stat same mk r replaceFile_ok [OF nf dir _ _ assms(5), of old] assms(4) show ?thesis
      by (simp add: WriteToFile_def os_MkdirAll_def)
  qed
qed

section \<open>Properties\<close>

text \<open>A file system without faults, with the home directory \<open>/root\<close>, for concrete runs.\<close>

definition plain_fs :: "(path \<times> node) list \<Rightarrow> fs" where
  "plain_fs nodes = \<lparr>Nodes = nodes, Deny = (\<lambda>_ _. None), Short = (\<lambda>_. 0), Rand = nat_text, MapOrder = [],
     Getenv = (\<lambda>v. if v = ''HOME'' then ''/root'' else []), GOOS = ''linux''\<rparr>"

lemma no_faults_plain [simp]: "no_faults (plain_fs nodes)"
  by (simp add: no_faults_def plain_fs_def)

lemma HomeDir_plain [simp]: "HomeDir (plain_fs nodes) = [''/'', ''root'', ''.kontainer'']"
  by (simp add: HomeDir_def plain_fs_def fp_clean_def has_prefix_def fp_join_def join_seg_def)

lemma node_at_plain: "node_at (plain_fs nodes) p = (if p = [] \<or> p = [''/''] then Some FDir else map_of nodes p)"
  by (simp add: node_at_def plain_fs_def)

text \<open>
  C10. When \<open>WriteToFile\<close> reports success, the file holds exactly the data; whatever it
  reports, it changes no path other than the file, a temporary file beside it and missing
  parent directories, which it may create.
\<close>

theorem WriteToFile_correct:
  assumes "dir @ [n] \<noteq> [''/'']" and "WriteToFile data (dir @ [n]) fs = (r, fs')"
  shows "(r = None \<longrightarrow> node_at fs' (dir @ [n]) = Some (FFile data)) \<and>
    (\<forall>q. q \<noteq> dir @ [n] \<longrightarrow> q \<notin> tmps dir \<longrightarrow>
       node_at fs' q = node_at fs q \<or>
       node_at fs q = None \<and> q \<in> set (prefixes_of dir) \<and> node_at fs' q = Some FDir)"
proof (intro conjI allI impI)
  show "node_at fs' (dir @ [n]) = Some (FFile data)" if "r = None"
    using WriteToFile_content assms that by simp
  show "node_at fs' q = node_at fs q \<or>
       node_at fs q = None \<and> q \<in> set (prefixes_of dir) \<and> node_at fs' q = Some FDir"
    if "q \<noteq> dir @ [n]" "q \<notin> tmps dir" for q
    using touches_WriteToFile [of "dir @ [n]" fs data] assms(2) that unfolding touches_def by auto
qed

theorem WriteToFile_correct_witness:
  "node_at (snd (WriteToFile ''x'' [''/'', ''a'', ''b''] (plain_fs []))) [''/'', ''a'', ''b''] = Some (FFile ''x'')"
proof -
  have "fst (WriteToFile ''x'' ([''/'', ''a''] @ [''b'']) (plain_fs [])) = None"
    by (rule WriteToFile_ok) (auto simp: node_at_plain is_file_def prefixes_of_def split: if_splits)
  then show ?thesis
    using WriteToFile_correct [of "[''/'', ''a'']" "''b''" "''x''" "plain_fs []" None] by (simp add: prod_eq_iff)
qed

text \<open>
  Replacing a file is not atomic: when the final rename fails, the old file is already
  removed, the error is returned and nothing is left under the file's name.
\<close>

theorem WriteToFile_rename_failure_loses_file:
  assumes "Deny fs = (\<lambda>op p. if op = OpRename \<and> p = dir @ [n] then Some e else None)"
    and "\<And>p. p \<in> set (prefixes_of dir) \<Longrightarrow> node_at fs p = Some FDir"
    and "node_at fs (dir @ [n]) = Some (FFile old)" and "\<And>x. node_at fs (dir @ [tmp_name x]) = None"
    and "dir \<noteq> []"
  shows "fst (WriteToFile data (dir @ [n]) fs) = Some e
    \<and> node_at (snd (WriteToFile data (dir @ [n]) fs)) (dir @ [n]) = None"
proof -
  let ?f = "dir @ [n]" and ?t = "dir @ [tmp_name (Rand fs 0)]"
  have ne: "?t \<noteq> ?f" using assms(3,4) by (metis option.distinct(1))
  have roots: "?f \<noteq> [''/'']" "?t \<noteq> [''/'']" "dir \<noteq> ?t" "dir \<noteq> ?f" using assms(5) by simp_all
  have dir: "node_at fs dir = Some FDir" using assms(2,5) by (simp add: in_prefixes_of)
  have "mkdirs ps fs = (None, fs)" if "\<forall>p \<in> set ps. node_at fs p = Some FDir" for ps
    using that by (induction ps) auto
  then have mk: "os_MkdirAll dir fs = (None, fs)" unfolding os_MkdirAll_def using assms(2) by blast
  have "\<not> file_above fs ?f" using assms(2) by (auto simp: file_above_def list_ex_iff is_file_def)
  then have "os_Stat ?f fs \<noteq> NotExist" using assms(1,3) by (simp add: os_Stat_def)
  with mk have w: "WriteToFile data ?f fs = replaceFile data ?f fs" by (simp add: WriteToFile_def)
  let ?f2 = "set_node ?t (FFile []) fs" let ?f3 = "set_node ?t (FFile data) ?f2" let ?f4 = "del_node ?f ?f3"
  have deny: "Deny ?f2 = Deny fs" "Deny ?f3 = Deny fs" "Deny ?f4 = Deny fs"
    by (simp_all add: set_node_def del_node_def)
  have "TempFile dir fs = (Inr ?t, ?f2)"
    using assms(1,4) dir by (simp add: TempFile_def numeral_eq_Suc Let_def)
  moreover have "WriteFile ?t data ?f2 = (None, ?f3)"
    using assms(1) deny roots dir by (simp add: WriteFile_def)
  moreover have "os_Remove ?f ?f3 = (None, ?f4)"
    using assms(1,3) deny roots ne by (simp add: os_Remove_def)
  moreover have "os_Rename ?t ?f ?f4 = (Some e, ?f4)"
    using assms(1) deny by (simp add: os_Rename_def)
  moreover have "snd (os_Remove ?t ?f4) = del_node ?t ?f4"
    using assms(1) deny roots ne by (simp add: os_Remove_def)
  ultimately show ?thesis
    using w assms(1) deny roots ne by (simp add: replaceFile_def os_Close_def)
qed

theorem WriteToFile_rename_failure_witness:
  "fst (WriteToFile ''new'' [''/'', ''f''] ((plain_fs [([''/'', ''f''], FFile ''old'')])
      \<lparr>Deny := \<lambda>op p. if op = OpRename \<and> p = [''/'', ''f''] then Some (Errorf ''EIO'') else None\<rparr>))
   = Some (Errorf ''EIO'')"
  using WriteToFile_rename_failure_loses_file [of "(plain_fs [([''/'', ''f''], FFile ''old'')])
      \<lparr>Deny := \<lambda>op p. if op = OpRename \<and> p = [''/'', ''f''] then Some (Errorf ''EIO'') else None\<rparr>"
      "[''/'']" "''f''" "Errorf ''EIO''" "''old''" "''new''"]
  by (simp add: prefixes_of_def node_at_def plain_fs_def tmp_name_def)

end
