(* ===== verification/CliStore.thy ===== *)
theory CliStore
  imports Cluster FileSys
begin

text \<open>
  Package \<open>store\<close>: the file store of the command line (\<open>clistore.go\<close>, \<open>filestore.go\<close>,
  \<open>types.go\<close>). A cluster is \<open>clusters/<name>/config.json\<close> below the home directory, beside the
  decoded certificates; \<open>kubeconfig\<close> collects the access data of all clusters. The YAML library
  is a parameter (\<open>yaml_codec\<close>); JSON and base64 are modelled. The store satisfies the contract
  \<open>persistent_store\<close> of the cluster package, so the life-cycle facts hold for it.
\<close>

section \<open>Base64\<close>

text \<open>The alphabet \<open>A-Za-z0-9+/\<close>.\<close>

definition b64_char :: "nat \<Rightarrow> char" where
  "b64_char n =
     (if n < 26 then char_of (65 + n) else if n < 52 then char_of (71 + n)
      else if n < 62 then char_of (n - 4) else if n = 62 then CHR ''+'' else CHR ''/'')"

definition b64_val :: "char \<Rightarrow> nat option" where
  "b64_val c =
     (let n = (of_char c :: nat) in
      if 65 \<le> n \<and> n \<le> 90 then Some (n - 65)
      else if 97 \<le> n \<and> n \<le> 122 then Some (n - 71)
      else if 48 \<le> n \<and> n \<le> 57 then Some (n + 4)
      else if n = 43 then Some 62
      else if n = 47 then Some 63
      else None)"

text \<open>\<open>base64.StdEncoding.DecodeString\<close>: newlines are skipped, padding is required.\<close>

fun b64_dec :: "string \<Rightarrow> string option" where
  "b64_dec [] = Some []"
| "b64_dec (a # b # c # d # rest) =
     (case (b64_val a, b64_val b) of
        (Some w, Some x) \<Rightarrow>
          (if c = CHR ''='' \<and> d = CHR ''='' \<and> rest = [] then Some [char_of (w * 4 + x div 16)]
           else (case b64_val c of
                   Some y \<Rightarrow>
                     (if d = CHR ''='' \<and> rest = []
                      then Some [char_of (w * 4 + x div 16), char_of (x mod 16 * 16 + y div 4)]
                      else (case b64_val d of
                              Some z \<Rightarrow>
                                map_option ((@) [char_of (w * 4 + x div 16), char_of (x mod 16 * 16 + y div 4),
                                  char_of (y mod 4 * 64 + z)]) (b64_dec rest)
                            | None \<Rightarrow> None))
                 | None \<Rightarrow> None))
      | _ \<Rightarrow> None)"
| "b64_dec _ = None"

definition base64_decode :: "string \<Rightarrow> string option" where
  "base64_decode s = b64_dec (filter (\<lambda>c. c \<noteq> CHR 0x0A \<and> c \<noteq> CHR 0x0D) s)"

fun base64_encode :: "string \<Rightarrow> string" where
  "base64_encode [] = []"
| "base64_encode [a] =
     (let m = (of_char a :: nat) in [b64_char (m div 4), b64_char (m mod 4 * 16), CHR ''='', CHR ''='' ])"
| "base64_encode [a, b] =
     (let m = (of_char a :: nat); n = (of_char b :: nat) in
      [b64_char (m div 4), b64_char (m mod 4 * 16 + n div 16), b64_char (n mod 16 * 4), CHR ''='' ])"
| "base64_encode (a # b # c # rest) =
     (let m = (of_char a :: nat); n = (of_char b :: nat); k = (of_char c :: nat) in
      [b64_char (m div 4), b64_char (m mod 4 * 16 + n div 16), b64_char (n mod 16 * 4 + k div 64),
       b64_char (k mod 64)] @ base64_encode rest)"

section \<open>The JSON form of a cluster\<close>

definition zero_cluster :: cluster where
  "zero_cluster = \<lparr>DriverName = [], Name = [], Status = [], Version = [], ServiceAccountToken = [],
     Endpoint = [], Username = [], Password = [], RootCACert = [], ClientCertificate = [],
     ClientKey = [], NodeCount = 0, Metadata = None\<rparr>"

text \<open>A string field with \<open>omitempty\<close>.\<close>

definition str_member :: "string \<Rightarrow> string \<Rightarrow> (string \<times> json) list" where
  "str_member k s = (if s = [] then [] else [(k, JStr s)])"

definition cluster_json :: "cluster \<Rightarrow> json" where
  "cluster_json c = JObj (
     str_member ''driverName'' (DriverName c) @ str_member ''name'' (Name c) @
     str_member ''status'' (Status c) @ str_member ''version'' (Version c) @
     str_member ''serviceAccountToken'' (ServiceAccountToken c) @ str_member ''endpoint'' (Endpoint c) @
     str_member ''username'' (Username c) @ str_member ''password'' (Password c) @
     str_member ''rootCACert'' (RootCACert c) @ str_member ''clientCertificate'' (ClientCertificate c) @
     str_member ''clientKey'' (ClientKey c) @
     (if NodeCount c = 0 then [] else [(''nodeCount'', JNum (int_text (sint (NodeCount c))))]) @
     (case canon_meta (Metadata c) of
        None \<Rightarrow> []
      | Some l \<Rightarrow> [(''metadata'', JObj (map (\<lambda>(k, v). (k, JStr v)) l))]))"

text \<open>Field names are matched without regard to case.\<close>

definition lower_char :: "char \<Rightarrow> char" where
  "lower_char c = (let n = (of_char c :: nat) in if 65 \<le> n \<and> n \<le> 90 then char_of (n + 32) else c)"

definition to_lower :: "string \<Rightarrow> string" where
  "to_lower s = map lower_char s"

text \<open>
  Two letters outside ASCII fold to ASCII letters: the long s (U+017F) and the Kelvin sign (U+212A).
\<close>

fun fold_letters :: "string \<Rightarrow> string" where
  "fold_letters [] = []"
| "fold_letters (c # cs) =
     (if has_prefix (c # cs) [CHR 0xC5, CHR 0xBF] then CHR ''s'' # fold_letters (drop 1 cs)
      else if has_prefix (c # cs) [CHR 0xE2, CHR 0x84, CHR 0xAA] then CHR ''k'' # fold_letters (drop 2 cs)
      else lower_char c # fold_letters cs)"

declare fold_letters.simps [simp del]

definition dec_into :: "json \<Rightarrow> (string \<Rightarrow> cluster \<Rightarrow> cluster) \<Rightarrow> cluster \<Rightarrow> cluster option" where
  "dec_into v upd c = (case v of JStr s \<Rightarrow> Some (upd s c) | JNull \<Rightarrow> Some c | _ \<Rightarrow> None)"

fun dec_meta :: "(string \<times> json) list \<Rightarrow> (string \<times> string) list \<Rightarrow> (string \<times> string) list option" where
  "dec_meta [] m = Some m"
| "dec_meta ((k, JStr s) # ms) m = dec_meta ms (AList.update k s m)"
| "dec_meta ((k, JNull) # ms) m = dec_meta ms (AList.update k [] m)"
| "dec_meta ((k, v) # ms) m = None"

definition dec_field :: "string \<times> json \<Rightarrow> cluster \<Rightarrow> cluster option" where
  "dec_field kv c =
     (case kv of (k, v) \<Rightarrow>
        (let f = fold_letters k in
         if f = ''drivername'' then dec_into v (\<lambda>s c. c\<lparr>DriverName := s\<rparr>) c
         else if f = ''name'' then dec_into v (\<lambda>s c. c\<lparr>Name := s\<rparr>) c
         else if f = ''status'' then dec_into v (\<lambda>s c. c\<lparr>Status := s\<rparr>) c
         else if f = ''version'' then dec_into v (\<lambda>s c. c\<lparr>Version := s\<rparr>) c
         else if f = ''serviceaccounttoken'' then dec_into v (\<lambda>s c. c\<lparr>ServiceAccountToken := s\<rparr>) c
         else if f = ''endpoint'' then dec_into v (\<lambda>s c. c\<lparr>Endpoint := s\<rparr>) c
         else if f = ''username'' then dec_into v (\<lambda>s c. c\<lparr>Username := s\<rparr>) c
         else if f = ''password'' then dec_into v (\<lambda>s c. c\<lparr>Password := s\<rparr>) c
         else if f = ''rootcacert'' then dec_into v (\<lambda>s c. c\<lparr>RootCACert := s\<rparr>) c
         else if f = ''clientcertificate'' then dec_into v (\<lambda>s c. c\<lparr>ClientCertificate := s\<rparr>) c
         else if f = ''clientkey'' then dec_into v (\<lambda>s c. c\<lparr>ClientKey := s\<rparr>) c
         else if f = ''nodecount'' then
           (case v of
              JNum lit \<Rightarrow> map_option (\<lambda>i. c\<lparr>NodeCount := word_of_int i\<rparr>) (Atoi lit)
            | JNull \<Rightarrow> Some c
            | _ \<Rightarrow> None)
         else if f = ''metadata'' then
           (case v of
              JObj ms \<Rightarrow> map_option (\<lambda>m. c\<lparr>Metadata := Some m\<rparr>) (dec_meta ms (gm_list (Metadata c)))
            | JNull \<Rightarrow> Some (c\<lparr>Metadata := None\<rparr>)
            | _ \<Rightarrow> None)
         else Some c))"

fun dec_fields :: "(string \<times> json) list \<Rightarrow> cluster \<Rightarrow> cluster option" where
  "dec_fields [] c = Some c"
| "dec_fields (m # ms) c = Option.bind (dec_field m c) (dec_fields ms)"

text \<open>\<open>json.Marshal(cluster)\<close> and \<open>json.Unmarshal(data, &cls)\<close>; \<open>None\<close> is any error.\<close>

definition marshal_cluster :: "cluster \<Rightarrow> string" where
  "marshal_cluster c = json_encode (cluster_json c)"

definition unmarshal_cluster :: "string \<Rightarrow> cluster option" where
  "unmarshal_cluster data =
     (case json_decode data of
        Some (JObj ms) \<Rightarrow> dec_fields ms zero_cluster
      | Some JNull \<Rightarrow> Some zero_cluster
      | _ \<Rightarrow> None)"

section \<open>The kubeconfig file\<close>

record DataCluster =
  CertificateAuthority :: string
  CertificateAuthorityData :: string
  Server :: string

record ConfigCluster =
  cc_Cluster :: DataCluster
  cc_Name :: string

record ContextData =
  cd_Cluster :: string
  cd_User :: string

record ConfigContext =
  cx_Context :: ContextData
  cx_Name :: string

record UserData =
  ud_Token :: string
  ud_Username :: string
  ud_Password :: string
  ud_ClientCertificateData :: string
  ud_ClientKeyData :: string

record ConfigUser =
  cu_Name :: string
  cu_User :: UserData

record KubeConfig =
  APIVersion :: string
  Clusters :: "ConfigCluster list"
  Contexts :: "ConfigContext list"
  Users :: "ConfigUser list"
  CurrentContext :: string
  Kind :: string
  Preferences :: "string gomap"

definition zero_config :: KubeConfig where
  "zero_config = \<lparr>APIVersion = [], Clusters = [], Contexts = [], Users = [], CurrentContext = [],
     Kind = [], Preferences = None\<rparr>"

text \<open>The YAML library: what \<open>yaml.Marshal\<close> and \<open>yaml.Unmarshal\<close> do with a \<open>KubeConfig\<close>.\<close>

record yaml_codec =
  y_Marshal :: "KubeConfig \<Rightarrow> goerr + string"
  y_Unmarshal :: "string \<Rightarrow> goerr + KubeConfig"

definition deleteConfigByName :: "string \<Rightarrow> KubeConfig \<Rightarrow> KubeConfig" where
  "deleteConfigByName name config = config\<lparr>
     Contexts := filter (\<lambda>x. cx_Name x \<noteq> name) (Contexts config),
     Clusters := filter (\<lambda>x. cc_Name x \<noteq> name) (Clusters config),
     Users := filter (\<lambda>x. cu_Name x \<noteq> name) (Users config)\<rparr>"

definition getConfigFromFile :: "yaml_codec \<Rightarrow> fs \<Rightarrow> goerr + KubeConfig" where
  "getConfigFromFile Y fs =
     (case ReadFile (KubeConfigFilePath fs) fs of Inl e \<Rightarrow> Inl e | Inr data \<Rightarrow> y_Unmarshal Y data)"

definition setConfigToFile :: "yaml_codec \<Rightarrow> KubeConfig \<Rightarrow> fs \<Rightarrow> goerr option \<times> fs" where
  "setConfigToFile Y config fs =
     (case y_Marshal Y config of
        Inl e \<Rightarrow> (Some e, fs)
      | Inr data \<Rightarrow> WriteToFile data (KubeConfigFilePath fs) fs)"

text \<open>An entry is appended unless the list has one of the same name.\<close>

definition add_entry :: "('e \<Rightarrow> string) \<Rightarrow> 'e \<Rightarrow> 'e list \<Rightarrow> 'e list" where
  "add_entry nm x xs = (if xs = [] then [x] else if list_ex (\<lambda>y. nm y = nm x) xs then xs else xs @ [x])"

definition config_host :: "string \<Rightarrow> string" where
  "config_host host = (if has_prefix host ''https://'' then host else ''https://'' @ host)"

definition merge_config :: "cluster \<Rightarrow> KubeConfig \<Rightarrow> KubeConfig" where
  "merge_config c config =
     (let isBasicOn = Username c \<noteq> [] \<and> Password c \<noteq> [];
          user = \<lparr>cu_Name = Name c, cu_User = \<lparr>
                   ud_Token = (if isBasicOn then [] else ServiceAccountToken c),
                   ud_Username = (if isBasicOn then Username c else []),
                   ud_Password = (if isBasicOn then Password c else []),
                   ud_ClientCertificateData = [], ud_ClientKeyData = []\<rparr>\<rparr>;
          cls = \<lparr>cc_Cluster = \<lparr>CertificateAuthority = [], CertificateAuthorityData = RootCACert c,
                   Server = config_host (Endpoint c)\<rparr>, cc_Name = Name c\<rparr>;
          context = \<lparr>cx_Context = \<lparr>cd_Cluster = Name c, cd_User = Name c\<rparr>, cx_Name = Name c\<rparr> in
      config\<lparr>APIVersion := ''v1'', Kind := ''Config'',
        Clusters := add_entry cc_Name cls (Clusters config),
        Users := add_entry cu_Name user (Users config),
        Contexts := add_entry cx_Name context (Contexts config)\<rparr>)"

definition storeConfig :: "yaml_codec \<Rightarrow> cluster \<Rightarrow> fs \<Rightarrow> goerr option \<times> fs" where
  "storeConfig Y c fs =
     (let configFile = KubeConfigFilePath fs in
      case (case os_Stat configFile fs of
              Found _ \<Rightarrow>
                (case ReadFile configFile fs of Inl e \<Rightarrow> Inl e | Inr data \<Rightarrow> y_Unmarshal Y data)
            | _ \<Rightarrow> Inr zero_config) of
        Inl e \<Rightarrow> (Some e, fs)
      | Inr config \<Rightarrow>
          (case y_Marshal Y (merge_config c config) of
             Inl e \<Rightarrow> (Some e, fs)
           | Inr data \<Rightarrow> WriteToFile data (KubeConfigFilePath fs) fs))"

section \<open>The store\<close>

definition cluster_dir :: "fs \<Rightarrow> string \<Rightarrow> path" where
  "cluster_dir fs name = fp_join (fp_join (HomeDir fs) ''clusters'') name"

definition cli_Get :: "string \<Rightarrow> fs \<Rightarrow> goerr + cluster" where
  "cli_Get name fs =
     (let file = fp_join (cluster_dir fs name) ''config.json'' in
      if os_Stat file fs = NotExist then Inl (Errorf (name @ '' not found''))
      else (case ReadFile file fs of
              Inl e \<Rightarrow> Inl e
            | Inr data \<Rightarrow>
                (case unmarshal_cluster data of
                   None \<Rightarrow> Inl (Errorf ''json: cannot unmarshal'')
                 | Some cls \<Rightarrow> Inr cls)))"

definition cli_GetStatus :: "string \<Rightarrow> fs \<Rightarrow> goerr + string" where
  "cli_GetStatus name fs = map_sum id Status (cli_Get name fs)"

definition cli_Remove :: "yaml_codec \<Rightarrow> string \<Rightarrow> fs \<Rightarrow> goerr option \<times> fs" where
  "cli_Remove Y name fs =
     (case getConfigFromFile Y fs of
        Inl e \<Rightarrow> (Some e, fs)
      | Inr config \<Rightarrow>
          and_then (setConfigToFile Y (deleteConfigByName name config) fs)
            (\<lambda>fs. os_RemoveAll (cluster_dir fs name) fs))"

text \<open>The map literal of \<open>Store\<close>: the certificates are the keys, so equal ones share an entry.\<close>

definition pem_files :: "cluster \<Rightarrow> (string \<times> string) list" where
  "pem_files c =
     AList.update (ClientCertificate c) ''cert.pem''
       (AList.update (ClientKey c) ''key.pem'' [(RootCACert c, ''ca.pem'')])"

fun store_pems :: "(string \<times> string) list \<Rightarrow> path \<Rightarrow> fs \<Rightarrow> goerr option \<times> fs" where
  "store_pems [] fileDir fs = (None, fs)"
| "store_pems ((k, v) # ms) fileDir fs =
     (case base64_decode k of
        None \<Rightarrow> (Some (Errorf (''error while decoding crypto '' @ [CHR 0x27] @ k @ [CHR 0x27] @
                  '': illegal base64 data'')), fs)
      | Some data \<Rightarrow> and_then (WriteToFile data (fp_join fileDir v) fs) (store_pems ms fileDir))"

definition write_cluster :: "cluster \<Rightarrow> fs \<Rightarrow> goerr option \<times> fs" where
  "write_cluster c fs = WriteToFile (marshal_cluster c) (fp_join (cluster_dir fs (Name c)) ''config.json'') fs"

definition cli_Store :: "yaml_codec \<Rightarrow> cluster \<Rightarrow> fs \<Rightarrow> goerr option \<times> fs" where
  "cli_Store Y c fs =
     and_then (storeConfig Y c fs) (\<lambda>fs.
     and_then (store_pems (visit (MapOrder fs) (pem_files c)) (cluster_dir fs (Name c)) fs) (write_cluster c))"

definition cli_PersistStatus :: "cluster \<Rightarrow> string \<Rightarrow> fs \<Rightarrow> goerr option \<times> fs" where
  "cli_PersistStatus c status fs = write_cluster (c\<lparr>Status := status\<rparr>) fs"

definition CLIPersistStore :: "yaml_codec \<Rightarrow> fs persistent_store_ops" where
  "CLIPersistStore Y = \<lparr>ps_GetStatus = cli_GetStatus, ps_Get = cli_Get, ps_Remove = cli_Remove Y,
     ps_Store = cli_Store Y, ps_PersistStatus = cli_PersistStatus\<rparr>"

text \<open>\<open>GetAllClusterFromStore\<close>: the two loops over directory entries.\<close>

fun read_configs :: "path \<Rightarrow> (string \<times> bool) list \<Rightarrow> fs \<Rightarrow> (string \<times> cluster) list
    \<Rightarrow> goerr + (string \<times> cluster) list" where
  "read_configs dir [] fs clusters = Inr clusters"
| "read_configs dir ((sub, isdir) # es) fs clusters =
     (if \<not> isdir \<and> has_suffix sub ''config.json'' then
        (case ReadFile (dir @ [sub]) fs of
           Inl e \<Rightarrow> Inl e
         | Inr data \<Rightarrow>
             (case unmarshal_cluster data of
                None \<Rightarrow> Inl (Errorf ''json: cannot unmarshal'')
              | Some cls \<Rightarrow> read_configs dir es fs (AList.update (Name cls) cls clusters)))
      else read_configs dir es fs clusters)"

fun read_dirs :: "path \<Rightarrow> (string \<times> bool) list \<Rightarrow> fs \<Rightarrow> (string \<times> cluster) list
    \<Rightarrow> goerr + (string \<times> cluster) list" where
  "read_dirs home [] fs clusters = Inr clusters"
| "read_dirs home ((name, isdir) # es) fs clusters =
     (if isdir \<and> \<not> has_prefix name ''.'' then
        (case ReadDir (home @ [name]) fs of
           DirErr e \<Rightarrow> Inl e
         | DirMissing \<Rightarrow> read_dirs home es fs clusters
         | DirEntries subs \<Rightarrow>
             (case read_configs (home @ [name]) subs fs clusters of
                Inl e \<Rightarrow> Inl e
              | Inr clusters' \<Rightarrow> read_dirs home es fs clusters'))
      else read_dirs home es fs clusters)"

definition GetAllClusterFromStore :: "fs \<Rightarrow> goerr + (string \<times> cluster) list" where
  "GetAllClusterFromStore fs =
     (let homeDir = fp_join (HomeDir fs) ''clusters'' in
      case ReadDir homeDir fs of
        DirErr e \<Rightarrow> Inl e
      | DirMissing \<Rightarrow> Inr []
      | DirEntries es \<Rightarrow> read_dirs homeDir es fs [])"

definition cli_SetEnv :: "yaml_codec \<Rightarrow> string \<Rightarrow> fs \<Rightarrow> goerr option \<times> fs" where
  "cli_SetEnv Y name fs =
     (case GetAllClusterFromStore fs of
        Inl e \<Rightarrow> (Some e, fs)
      | Inr clusters \<Rightarrow>
          (if map_of clusters name = None then (Some (Errorf (''cluster '' @ name @ '' can'' @ [CHR 0x27] @ ''t be found'')), fs)
           else (case getConfigFromFile Y fs of
                   Inl e \<Rightarrow> (Some e, fs)
                 | Inr config \<Rightarrow> setConfigToFile Y (config\<lparr>CurrentContext := name\<rparr>) fs)))"

section \<open>Base64: decoding inverts encoding\<close>

lemma of_b64_char:
  "n < 64 \<Longrightarrow> (of_char (b64_char n) :: nat) =
     (if n < 26 then 65 + n else if n < 52 then 71 + n else if n < 62 then n - 4 else if n = 62 then 43 else 47)"
  by (auto simp: b64_char_def of_char_of)

lemma b64_val_char: "n < 64 \<Longrightarrow> b64_val (b64_char n) = Some n"
  by (auto simp: b64_val_def of_b64_char Let_def)

lemma b64_char_no_special:
  assumes "n < 64"
  shows "b64_char n \<noteq> CHR ''='' \<and> b64_char n \<noteq> CHR 0x0A \<and> b64_char n \<noteq> CHR 0x0D"
proof -
  have "of_char (b64_char n) \<notin> {61, 10, 13 :: nat}"
    using assms by (auto simp: of_b64_char)
  then show ?thesis by (intro conjI notI) simp_all
qed

lemma byte_parts:
  assumes "a < 256" "b < 256" "c < (256::nat)"
  shows "a div 4 < 64" "a mod 4 * 16 + b div 16 < 64" "b mod 16 * 4 + c div 64 < 64" "c mod 64 < 64"
    "a div 4 * 4 + (a mod 4 * 16 + b div 16) div 16 = a"
    "(a mod 4 * 16 + b div 16) mod 16 * 16 + (b mod 16 * 4 + c div 64) div 4 = b"
    "(b mod 16 * 4 + c div 64) mod 4 * 64 + c mod 64 = c"
proof -
  have d: "a div 4 < 64" "b div 16 < 16" "c div 64 < 4" using assms by (simp_all add: less_mult_imp_div_less)
  have m: "a mod 4 < 4" "b mod 16 < 16" "c mod 64 < 64" by simp_all
  show "a div 4 < 64" "c mod 64 < 64" using d m by simp_all
  show "a mod 4 * 16 + b div 16 < 64" "b mod 16 * 4 + c div 64 < 64" using d m by linarith+
  have "(a mod 4 * 16 + b div 16) div 16 = a mod 4" "(a mod 4 * 16 + b div 16) mod 16 = b div 16"
    "(b mod 16 * 4 + c div 64) div 4 = b mod 16" "(b mod 16 * 4 + c div 64) mod 4 = c div 64"
    using d by simp_all
  then show "a div 4 * 4 + (a mod 4 * 16 + b div 16) div 16 = a"
    "(a mod 4 * 16 + b div 16) mod 16 * 16 + (b mod 16 * 4 + c div 64) div 4 = b"
    "(b mod 16 * 4 + c div 64) mod 4 * 64 + c mod 64 = c"
    by (simp_all only: div_mult_mod_eq)
qed

lemma b64_dec_encode: "b64_dec (base64_encode s) = Some s"
proof (induction s rule: base64_encode.induct)
  case (2 a)
  note p = byte_parts [OF of_char_less_256 [of a], of 0 0]
  from p show ?case by (simp add: Let_def b64_val_char)
next
  case (3 a b)
  note p = byte_parts [OF of_char_less_256 [of a] of_char_less_256 [of b], of 0]
  from p show ?case
    using b64_char_no_special [of "of_char b mod 16 * 4"] by (simp add: Let_def b64_val_char)
next
  case (4 a b c rest)
  note p = byte_parts [OF of_char_less_256 [of a] of_char_less_256 [of b] of_char_less_256 [of c]]
  from p 4 show ?case
    using b64_char_no_special [of "of_char b mod 16 * 4 + of_char c div 64"]
      b64_char_no_special [of "of_char c mod 64"]
    by (simp add: Let_def b64_val_char)
qed simp

lemma base64_encode_no_newline: "c \<in> set (base64_encode s) \<Longrightarrow> c \<noteq> CHR 0x0A \<and> c \<noteq> CHR 0x0D"
proof (induction s rule: base64_encode.induct)
  case (2 a)
  then show ?case
    using byte_parts [OF of_char_less_256 [of a], of 0 0] b64_char_no_special by (auto simp: Let_def)
next
  case (3 a b)
  then show ?case
    using byte_parts [OF of_char_less_256 [of a] of_char_less_256 [of b], of 0] b64_char_no_special
    by (auto simp: Let_def)
next
  case (4 a b c rest)
  then show ?case
    using byte_parts [OF of_char_less_256 [of a] of_char_less_256 [of b] of_char_less_256 [of c]]
      b64_char_no_special by (auto simp: Let_def)
qed simp

lemma base64_decode_encode: "base64_decode (base64_encode s) = Some s"
proof -
  have "filter (\<lambda>c. c \<noteq> CHR 0x0A \<and> c \<noteq> CHR 0x0D) (base64_encode s) = base64_encode s"
    using base64_encode_no_newline by (auto simp: filter_id_conv)
  then show ?thesis by (simp only: base64_decode_def b64_dec_encode)
qed

section \<open>JSON: reading back a stored cluster\<close>

lemma dec_fields_append: "dec_fields (ms @ ns) c = Option.bind (dec_fields ms c) (dec_fields ns)"
  by (induction ms arbitrary: c) (auto split: bind_splits)

lemma fold_letters_keys [simp]:
  "fold_letters ''driverName'' = ''drivername''" "fold_letters ''name'' = ''name''" "fold_letters ''status'' = ''status''"
  "fold_letters ''version'' = ''version''" "fold_letters ''serviceAccountToken'' = ''serviceaccounttoken''"
  "fold_letters ''endpoint'' = ''endpoint''" "fold_letters ''username'' = ''username''"
  "fold_letters ''password'' = ''password''" "fold_letters ''rootCACert'' = ''rootcacert''"
  "fold_letters ''clientCertificate'' = ''clientcertificate''" "fold_letters ''clientKey'' = ''clientkey''"
  "fold_letters ''nodeCount'' = ''nodecount''" "fold_letters ''metadata'' = ''metadata''"
  by code_simp+

lemma dec_str_members:
  "DriverName c = [] \<Longrightarrow> dec_fields (str_member ''driverName'' s @ ms) c = dec_fields ms (c\<lparr>DriverName := s\<rparr>)"
  "Name c = [] \<Longrightarrow> dec_fields (str_member ''name'' s @ ms) c = dec_fields ms (c\<lparr>Name := s\<rparr>)"
  "Status c = [] \<Longrightarrow> dec_fields (str_member ''status'' s @ ms) c = dec_fields ms (c\<lparr>Status := s\<rparr>)"
  "Version c = [] \<Longrightarrow> dec_fields (str_member ''version'' s @ ms) c = dec_fields ms (c\<lparr>Version := s\<rparr>)"
  "ServiceAccountToken c = [] \<Longrightarrow>
     dec_fields (str_member ''serviceAccountToken'' s @ ms) c = dec_fields ms (c\<lparr>ServiceAccountToken := s\<rparr>)"
  "Endpoint c = [] \<Longrightarrow> dec_fields (str_member ''endpoint'' s @ ms) c = dec_fields ms (c\<lparr>Endpoint := s\<rparr>)"
  "Username c = [] \<Longrightarrow> dec_fields (str_member ''username'' s @ ms) c = dec_fields ms (c\<lparr>Username := s\<rparr>)"
  "Password c = [] \<Longrightarrow> dec_fields (str_member ''password'' s @ ms) c = dec_fields ms (c\<lparr>Password := s\<rparr>)"
  "RootCACert c = [] \<Longrightarrow> dec_fields (str_member ''rootCACert'' s @ ms) c = dec_fields ms (c\<lparr>RootCACert := s\<rparr>)"
  "ClientCertificate c = [] \<Longrightarrow>
     dec_fields (str_member ''clientCertificate'' s @ ms) c = dec_fields ms (c\<lparr>ClientCertificate := s\<rparr>)"
  "ClientKey c = [] \<Longrightarrow> dec_fields (str_member ''clientKey'' s @ ms) c = dec_fields ms (c\<lparr>ClientKey := s\<rparr>)"
  by (cases c; simp add: str_member_def dec_field_def dec_into_def Let_def)+

lemma dec_nodeCount:
  assumes "NodeCount c = 0"
  shows "dec_fields ((if n = 0 then [] else [(''nodeCount'', JNum (int_text (sint n)))]) @ ms) c =
     dec_fields ms (c\<lparr>NodeCount := n\<rparr>)"
proof -
  have num: "dec_field (''nodeCount'', JNum (int_text i)) c = Some (c\<lparr>NodeCount := word_of_int i\<rparr>)"
    if "- (2 ^ 63) \<le> i" "i < 2 ^ 63" for i
    using that by (simp add: dec_field_def Let_def Atoi_int_text)
  have "- (2 ^ 63) \<le> sint n" "sint n < 2 ^ 63"
    using sint_greater_eq [of n] sint_less [of n] by simp_all
  from num [OF this] assms show ?thesis by (cases c) simp
qed

lemma dec_meta_strings:
  "dec_meta (map (\<lambda>(k, v). (k, JStr v)) l) acc = Some (fold (\<lambda>(k, v). AList.update k v) l acc)"
  by (induction l arbitrary: acc) auto

lemma dec_meta_fixed:
  "dec_meta (map (\<lambda>(k, v). (utf8_fix k, JStr (utf8_fix v))) l) [] =
     Some (last_wins (map (\<lambda>(k, v). (utf8_fix k, utf8_fix v)) l))"
proof -
  have "map (\<lambda>(k, v). (utf8_fix k, JStr (utf8_fix v))) l = map (\<lambda>(k, v). (k, JStr v)) (map (\<lambda>(k, v). (utf8_fix k, utf8_fix v)) l)"
    by auto
  then show ?thesis by (simp only: dec_meta_strings last_wins_def)
qed

lemma dec_metadata:
  "Metadata c = None \<Longrightarrow>
     dec_fields (case canon_meta m of None \<Rightarrow> []
        | Some l \<Rightarrow> [(''metadata'', JObj (map (\<lambda>(k, v). (utf8_fix k, JStr (utf8_fix v))) l))]) c =
     Some (c\<lparr>Metadata := saved_meta m\<rparr>)"
  by (cases c) (auto simp: dec_field_def Let_def saved_meta_def dec_meta_fixed split: option.splits)

text \<open>The members of a record with their strings made valid.\<close>

lemma fix_members:
  "map (\<lambda>(k, v). (utf8_fix k, fix_json v)) (str_member k s) = str_member (utf8_fix k) (utf8_fix s)"
  by (simp add: str_member_def)

lemma dec_cluster_json:
  "dec_fields (case fix_json (cluster_json c) of JObj ms \<Rightarrow> ms | _ \<Rightarrow> []) zero_cluster = Some (saved c)"
proof -
  have n: "map (\<lambda>(k, v). (utf8_fix k, fix_json v)) (if n = 0 then [] else [(''nodeCount'', JNum lit)]) =
      (if n = 0 then [] else [(''nodeCount'', JNum lit)])" for n :: int64 and lit by simp
  have m: "map (\<lambda>(k, v). (utf8_fix k, fix_json v)) (case m of None \<Rightarrow> []
        | Some l \<Rightarrow> [(''metadata'', JObj (map (\<lambda>(k, v). (k, JStr v)) l))]) =
      (case m of None \<Rightarrow> [] | Some l \<Rightarrow> [(''metadata'', JObj (map (\<lambda>(k, v). (utf8_fix k, JStr (utf8_fix v))) l))])"
    for m :: "(string \<times> string) list option"
    by (auto split: option.split)
  show ?thesis
    unfolding cluster_json_def fix_json.simps json.case map_append fix_members n m
    by (simp add: dec_str_members dec_nodeCount dec_metadata zero_cluster_def saved_def)
qed

lemma integral_cluster_json: "integral (cluster_json c)"
  by (auto simp: cluster_json_def str_member_def split: option.splits)

lemma unmarshal_cluster_json:
  "json_decode text = Some (fix_json (cluster_json c)) \<Longrightarrow> unmarshal_cluster text = Some (saved c)"
  using dec_cluster_json [of c] by (simp add: unmarshal_cluster_def cluster_json_def)

lemma unmarshal_marshal: "unmarshal_cluster (marshal_cluster c) = Some (saved c)"
  by (rule unmarshal_cluster_json) (simp add: marshal_cluster_def json_decode_encode integral_cluster_json)

text \<open>What is read from JSON text has valid strings only.\<close>

lemma list_all_update: "list_all P m \<Longrightarrow> P (k, v) \<Longrightarrow> list_all P (AList.update k v m)"
  by (induction m) auto

lemma dec_meta_utf8:
  "dec_meta ms m = Some m' \<Longrightarrow> valid_json (JObj ms) \<Longrightarrow> list_all (\<lambda>(k, v). valid_utf8 k \<and> valid_utf8 v) m \<Longrightarrow>
     list_all (\<lambda>(k, v). valid_utf8 k \<and> valid_utf8 v) m'"
  by (induction ms m rule: dec_meta.induct) (simp_all add: list_all_update)

lemma dec_field_utf8:
  "dec_field (k, v) c = Some c' \<Longrightarrow> valid_json v \<Longrightarrow> utf8_cluster c \<Longrightarrow> utf8_cluster c'"
  by (auto simp: dec_field_def dec_into_def utf8_cluster_def Let_def intro: dec_meta_utf8 split: if_splits json.splits)

lemma dec_fields_utf8:
  "dec_fields ms c = Some c' \<Longrightarrow> valid_json (JObj ms) \<Longrightarrow> utf8_cluster c \<Longrightarrow> utf8_cluster c'"
proof (induction ms arbitrary: c)
  case (Cons m ms)
  obtain k v where m: "m = (k, v)" by force
  from Cons.prems obtain c1 where c1: "dec_field (k, v) c = Some c1" "dec_fields ms c1 = Some c'"
    by (auto simp: m split: bind_splits)
  show ?case
    by (rule Cons.IH[OF c1(2)]) (use Cons.prems dec_field_utf8[OF c1(1)] in \<open>auto simp: m\<close>)
qed simp

lemma unmarshal_utf8: "unmarshal_cluster text = Some c \<Longrightarrow> utf8_cluster c"
proof -
  have "utf8_cluster zero_cluster" by (simp add: utf8_cluster_def zero_cluster_def)
  then show "unmarshal_cluster text = Some c \<Longrightarrow> utf8_cluster c"
    by (auto simp: unmarshal_cluster_def dest: valid_json_decode intro: dec_fields_utf8 split: option.splits json.splits)
qed

section \<open>What the store touches\<close>

text \<open>The directory of a cluster, everything below it, the kubeconfig file and its temporaries.\<close>

definition store_area :: "fs \<Rightarrow> string \<Rightarrow> path set" where
  "store_area fs n = {HomeDir fs @ [''clusters'', n] @ r | r. True}
     \<union> {HomeDir fs @ [''kubeconfig'']} \<union> tmps (HomeDir fs)"

definition store_dirs :: "fs \<Rightarrow> string \<Rightarrow> path set" where
  "store_dirs fs n = set (prefixes_of (HomeDir fs @ [''clusters'', n]))"

lemma valid_segs [simp]:
  "valid_seg ''clusters''" "valid_seg ''config.json''" "valid_seg ''kubeconfig''"
  "valid_seg ''ca.pem''" "valid_seg ''key.pem''" "valid_seg ''cert.pem''" "valid_seg ''.kontainer''"
  by (simp_all add: valid_seg_def)

lemma KubeConfigFilePath_eq: "KubeConfigFilePath fs = HomeDir fs @ [''kubeconfig'']"
  by (simp add: KubeConfigFilePath_def)

lemma cluster_dir_eq: "valid_seg n \<Longrightarrow> cluster_dir fs n = HomeDir fs @ [''clusters'', n]"
  by (simp add: cluster_dir_def)

lemma cluster_file_eq:
  "valid_seg n \<Longrightarrow> valid_seg f \<Longrightarrow> fp_join (cluster_dir fs n) f = (HomeDir fs @ [''clusters'', n]) @ [f]"
  by (simp add: cluster_dir_eq)

lemma touches_kubeconfig:
  "touches (store_area fs n) (store_dirs fs n) fs (snd (WriteToFile data (KubeConfigFilePath fs) fs))"
proof -
  have "set (prefixes_of (HomeDir fs)) \<subseteq> store_dirs fs n"
    by (auto simp: store_dirs_def in_prefixes_of)
  moreover have "{HomeDir fs @ [''kubeconfig'']} \<union> tmps (HomeDir fs) \<subseteq> store_area fs n"
    by (auto simp: store_area_def)
  ultimately show ?thesis
    using touches_WriteToFile [of "HomeDir fs @ [''kubeconfig'']" fs data]
    by (simp add: KubeConfigFilePath_eq touches_mono)
qed

lemma touches_cluster_file:
  assumes "valid_seg n" "valid_seg f"
  shows "touches (store_area fs n) (store_dirs fs n) fs
     (snd (WriteToFile data (fp_join (cluster_dir fs n) f) fs))"
proof -
  let ?P = "HomeDir fs @ [''clusters'', n]"
  have "{?P @ [f]} \<union> tmps ?P \<subseteq> store_area fs n" by (auto simp: store_area_def tmps_def)
  then show ?thesis
    using touches_mono [OF touches_WriteToFile [of "?P @ [f]" fs data]]
    unfolding cluster_file_eq [OF assms] fp_dir_snoc store_dirs_def by blast
qed

text \<open>A step from a later state counts as a step from the first one, since the paths are the same.\<close>

lemma area_env:
  assumes "same_env fs fs'"
  shows "store_area fs' n = store_area fs n" "store_dirs fs' n = store_dirs fs n"
    "cluster_dir fs' n = cluster_dir fs n"
  using same_envD [OF assms] by (simp_all add: store_area_def store_dirs_def cluster_dir_def)

abbreviation stays :: "string \<Rightarrow> fs \<Rightarrow> fs \<Rightarrow> bool" where
  "stays n fs fs' \<equiv> touches (store_area fs n) (store_dirs fs n) fs fs'"

lemma stays_trans: "stays n a b \<Longrightarrow> stays n b c \<Longrightarrow> stays n a c"
  using area_env [OF touches_env] by (metis touches_trans)

lemma stays_and_then:
  "stays n fs (snd r) \<Longrightarrow> (\<And>fs'. stays n fs' (snd (f fs'))) \<Longrightarrow> stays n fs (snd (and_then r f))"
  by (cases r; cases "fst r") (auto intro: stays_trans)

lemma stays_pems:
  assumes "valid_seg n"
  shows "(\<And>k v. (k, v) \<in> set ms \<Longrightarrow> valid_seg v) \<Longrightarrow> dir = cluster_dir fs n \<Longrightarrow>
     stays n fs (snd (store_pems ms dir fs))"
proof (induction ms dir fs rule: store_pems.induct)
  case (2 k v ms dir fs)
  show ?case
  proof (cases "base64_decode k")
    case (Some data)
    obtain r fs1 where w: "WriteToFile data (fp_join dir v) fs = (r, fs1)" by force
    then have s1: "stays n fs fs1"
      using touches_cluster_file [OF assms, of v fs data] "2.prems"
      by (metis list.set_intros(1) snd_conv)
    have "stays n fs1 (snd (store_pems ms dir fs1))"
    proof (rule "2.IH" [OF Some])
      show "dir = cluster_dir fs1 n" using "2.prems"(2) area_env(3) [OF touches_env [OF s1], of n] by simp
    qed (use "2.prems"(1) in auto)
    with s1 w Some show ?thesis by (cases r) (auto intro: stays_trans)
  qed simp
qed simp

lemma stays_write_cluster: "valid_seg (Name c) \<Longrightarrow> stays (Name c) fs (snd (write_cluster c fs))"
  unfolding write_cluster_def by (rule touches_cluster_file) simp_all

lemma stays_PersistStatus: "valid_seg (Name c) \<Longrightarrow> stays (Name c) fs (snd (cli_PersistStatus c status fs))"
  using stays_write_cluster [of "c\<lparr>Status := status\<rparr>"] by (simp add: cli_PersistStatus_def)

lemma stays_storeConfig: "stays n fs (snd (storeConfig Y c fs))"
  unfolding storeConfig_def Let_def
  by (auto intro: touches_kubeconfig split: sum.splits stat_result.splits)

lemma pem_names: "(k, v) \<in> set (pem_files c) \<Longrightarrow> v \<in> {''ca.pem'', ''key.pem'', ''cert.pem''}"
  unfolding pem_files_def by (auto split: if_splits)

lemma stays_Store:
  assumes "valid_seg (Name c)"
  shows "stays (Name c) fs (snd (cli_Store Y c fs))"
  unfolding cli_Store_def
proof (intro stays_and_then stays_storeConfig stays_write_cluster assms stays_pems)
  fix fs' k v
  assume "(k, v) \<in> set (visit (MapOrder fs') (pem_files c))"
  then show "valid_seg v" using pem_names [of k v c] by auto
qed simp

lemma stays_RemoveAll:
  assumes "valid_seg n"
  shows "stays n fs (snd (os_RemoveAll (cluster_dir fs n) fs))"
proof -
  have "\<not> below (cluster_dir fs n) q" if "q \<notin> store_area fs n" for q
    using that by (auto simp: below_iff cluster_dir_eq [OF assms] store_area_def)
  then show ?thesis by (simp add: touches_def node_at_RemoveAll(2))
qed

lemma stays_Remove:
  assumes "valid_seg n"
  shows "stays n fs (snd (cli_Remove Y n fs))"
  unfolding cli_Remove_def setConfigToFile_def
  by (auto intro: stays_and_then touches_kubeconfig stays_RemoveAll [OF assms] split: sum.splits)

section \<open>Reading another cluster\<close>

lemma Get_other:
  assumes "stays n fs fs'" "valid_seg n" "valid_seg n'" "n \<noteq> n'"
  shows "cli_Get n' fs' = cli_Get n' fs"
proof -
  let ?H = "HomeDir fs"
  let ?q = "?H @ [''clusters'', n', ''config.json'']"
  note env = same_envD [OF touches_env [OF assms(1)]]
  have "?q \<notin> store_area fs n" using assms(4) by (auto simp: store_area_def tmps_def)
  moreover have "?q \<notin> store_dirs fs n" by (auto simp: store_dirs_def in_prefixes_of)
  ultimately have node: "node_at fs' ?q = node_at fs ?q" by (rule touches_node [OF assms(1)])
  have "is_file fs' p = is_file fs p" if pin: "p \<in> set (prefixes_of (?H @ [''clusters'', n']))" for p
  proof (rule touches_is_file [OF assms(1)])
    obtain r where eq: "?H @ [''clusters'', n'] = p @ r" using prefixes_ofD [OF pin] ..
    show "p \<notin> store_area fs n"
    proof
      assume "p \<in> store_area fs n"
      then consider (dir) r' where "p = ?H @ [''clusters'', n] @ r'" | (kube) "p = ?H @ [''kubeconfig'']"
        | (temp) x where "p = ?H @ [tmp_name x]"
        by (auto simp: store_area_def tmps_def)
      then show False using eq assms(4) by cases (auto simp: tmp_name_def)
    qed
  qed
  then have above: "file_above fs' ?q = file_above fs ?q"
    by (auto simp: file_above_def list_ex_iff butlast_append)
  have q: "fp_join (cluster_dir fs' n') ''config.json'' = ?q" "fp_join (cluster_dir fs n') ''config.json'' = ?q"
    using env(7) by (simp_all add: cluster_dir_eq [OF assms(3)])
  have st: "os_Stat ?q fs' = os_Stat ?q fs" unfolding os_Stat_def env(1) node above ..
  have rd: "ReadFile ?q fs' = ReadFile ?q fs" unfolding ReadFile_def env(1) node ..
  show ?thesis by (simp only: cli_Get_def q Let_def st rd)
qed

section \<open>When status writes succeed\<close>

definition readable :: "fs \<Rightarrow> bool" where
  "readable fs \<longleftrightarrow> (\<forall>p. Deny fs OpRead p = None)"

text \<open>
  No call is denied, no file stands where the store needs a directory, no directory where it
  needs a file, and no temporary file of an earlier run is left.
\<close>

definition writable :: "fs \<Rightarrow> bool" where
  "writable fs \<longleftrightarrow> no_faults fs
     \<and> (\<forall>q \<in> set (prefixes_of (HomeDir fs @ [''clusters''])). \<not> is_file fs q)
     \<and> (\<forall>n. \<not> is_file fs (HomeDir fs @ [''clusters'', n]))
     \<and> (\<forall>n. node_at fs (HomeDir fs @ [''clusters'', n, ''config.json'']) \<noteq> Some FDir)
     \<and> (\<forall>n x. node_at fs (HomeDir fs @ [''clusters'', n, tmp_name x]) = None)"

lemma not_tmp_name [simp]:
  "''config.json'' \<noteq> tmp_name x" "''kubeconfig'' \<noteq> tmp_name x" "''clusters'' \<noteq> tmp_name x"
  "''ca.pem'' \<noteq> tmp_name x" "''key.pem'' \<noteq> tmp_name x" "''cert.pem'' \<noteq> tmp_name x"
  by (simp_all add: tmp_name_def)

lemmas tmp_name_not [simp] = not_tmp_name [symmetric]

lemma readable_env: "same_env a b \<Longrightarrow> readable b = readable a"
  by (simp add: readable_def same_envD)

lemma write_cluster_ok:
  assumes "writable fs" "valid_seg (Name c)"
  shows "fst (write_cluster c fs) = None"
  unfolding write_cluster_def cluster_file_eq [OF assms(2) valid_segs(2)]
proof (rule WriteToFile_ok)
  fix p
  assume "p \<in> set (prefixes_of (HomeDir fs @ [''clusters'', Name c]))"
  then have "p \<in> set (prefixes_of (HomeDir fs @ [''clusters''])) \<or> p = HomeDir fs @ [''clusters'', Name c]"
    using prefixes_of_snoc [of "HomeDir fs @ [''clusters'']" "Name c"] by auto
  then show "\<not> is_file fs p" using assms(1) unfolding writable_def by blast
qed (use assms(1) in \<open>simp_all add: writable_def\<close>)

lemma WriteToFile_not_dir:
  assumes "node_at fs q \<noteq> Some FDir" "q \<notin> set (prefixes_of (fp_dir file))" "q \<notin> tmps (fp_dir file)"
  shows "node_at (snd (WriteToFile data file fs)) q \<noteq> Some FDir"
proof (cases "q = file")
  case True
  have mk: "node_at (snd (os_MkdirAll (fp_dir file) fs)) q \<noteq> Some FDir"
    using touches_node [OF touches_mkdirs [OF order_refl, where A = "{}"], of q] assms(1,2)
    unfolding os_MkdirAll_def by simp
  have repl: "node_at (snd (replaceFile data file fs1)) q \<noteq> Some FDir" if nd: "node_at fs1 q \<noteq> Some FDir" for fs1
  proof -
    obtain r fs2 where t0: "TempFile (fp_dir file) fs1 = (r, fs2)" by force
    then show ?thesis
    proof (cases rule: TempFile_result)
      case (tmp x)
      have "node_at fs2 q \<noteq> Some FDir"
        using tmp(4) assms(3) nd node_at_set_other by (metis (mono_tags, lifting) mem_Collect_eq tmps_def)
      then have "node_at (snd (os_Remove (fp_dir file @ [tmp_name x])
          (snd (and_then (WriteFile (fp_dir file @ [tmp_name x]) data fs2) (\<lambda>fs.
             and_then (os_Close (fp_dir file @ [tmp_name x]) fs) (\<lambda>fs.
             and_then (os_Remove file fs) (os_Rename (fp_dir file @ [tmp_name x]) file))))))) q \<noteq> Some FDir"
        by (intro not_dir_calls and_then_inv [where P = "\<lambda>fs. node_at fs q \<noteq> Some FDir"])
      with t0 tmp show ?thesis by (simp add: replaceFile_def case_prod_beta)
    qed (simp add: replaceFile_def t0 nd)
  qed
  show ?thesis
    unfolding WriteToFile_def
    by (rule and_then_inv [where P = "\<lambda>fs. node_at fs q \<noteq> Some FDir", OF mk])
       (use not_dir_calls(1) repl in auto)
next
  case False
  then show ?thesis using touches_node [OF touches_WriteToFile] assms by auto
qed

text \<open>Writing one of the store's files keeps the store writable.\<close>

lemma writable_by_touches:
  assumes "writable fs" "touches ({file} \<union> tmps dir) (set (prefixes_of dir)) fs fs'"
    and "dir = HomeDir fs \<and> file = HomeDir fs @ [''kubeconfig''] \<or>
         dir = HomeDir fs @ [''clusters'', m] \<and> (\<exists>f. file = dir @ [f])"
    and nd: "\<And>n. node_at fs' (HomeDir fs @ [''clusters'', n, ''config.json'']) \<noteq> Some FDir"
    and tmp: "dir = HomeDir fs @ [''clusters'', m] \<Longrightarrow> \<forall>x. node_at fs' (dir @ [tmp_name x]) = None"
  shows "writable fs'"
proof -
  let ?H = "HomeDir fs"
  note env = touches_env [OF assms(2)]
  have H: "HomeDir fs' = ?H" using same_envD(7) [OF env] .
  have "no_faults fs'" using no_faults_env [OF env] assms(1) by (simp add: writable_def)
  moreover have "\<not> is_file fs' q" if q: "q \<in> set (prefixes_of (?H @ [''clusters'']))" for q
  proof -
    obtain r where r: "?H @ [''clusters''] = q @ r" using prefixes_ofD [OF q] ..
    have "q \<notin> {file} \<union> tmps dir"
      using assms(3) arg_cong [OF r, of length] r by (auto simp: tmps_def)
    with touches_is_file [OF assms(2)] q assms(1) show ?thesis by (auto simp: writable_def)
  qed
  moreover have "\<not> is_file fs' (?H @ [''clusters'', n])" for n
  proof -
    have "?H @ [''clusters'', n] \<notin> {file} \<union> tmps dir" using assms(3) by (auto simp: tmps_def)
    with touches_is_file [OF assms(2)] assms(1) show ?thesis by (auto simp: writable_def)
  qed
  moreover have "node_at fs' (?H @ [''clusters'', n, tmp_name x]) = None" for n x
  proof (cases "dir = ?H @ [''clusters'', n]")
    case True
    then have "n = m" using assms(3) by auto
    with tmp True show ?thesis by auto
  next
    case False
    let ?q = "?H @ [''clusters'', n, tmp_name x]"
    have "?q \<notin> {file} \<union> tmps dir" "?q \<notin> set (prefixes_of dir)"
      using assms(3) False by (auto simp: tmps_def in_prefixes_of)
    then have "node_at fs' ?q = node_at fs ?q" by (rule touches_node [OF assms(2)])
    with assms(1) show ?thesis by (simp add: writable_def)
  qed
  ultimately show ?thesis using nd unfolding writable_def H by blast
qed

lemma writable_cluster_file:
  assumes "writable fs" "valid_seg n" "f \<in> {''config.json'', ''ca.pem'', ''key.pem'', ''cert.pem''}"
  shows "writable (snd (WriteToFile data (fp_join (cluster_dir fs n) f) fs))"
proof -
  let ?P = "HomeDir fs @ [''clusters'', n]"
  have f: "fp_join (cluster_dir fs n) f = ?P @ [f]" using assms(2,3) cluster_file_eq [OF assms(2)] by (metis insertE singletonD valid_segs(2,4-6))
  show ?thesis
    unfolding f
  proof (rule writable_by_touches [OF assms(1), where m = n and dir = ?P])
    show "touches ({?P @ [f]} \<union> tmps ?P) (set (prefixes_of ?P)) fs (snd (WriteToFile data (?P @ [f]) fs))"
      using touches_WriteToFile [of "?P @ [f]" fs data] unfolding fp_dir_snoc .
    show "node_at (snd (WriteToFile data (?P @ [f]) fs)) (HomeDir fs @ [''clusters'', k, ''config.json'']) \<noteq> Some FDir" for k
      by (rule WriteToFile_not_dir) (use assms(1) in \<open>auto simp: writable_def in_prefixes_of tmps_def fp_dir_def butlast_append\<close>)
    have "f \<noteq> tmp_name x" for x using assms(3) by (auto simp: tmp_name_def)
    then have "node_at (snd (WriteToFile data (?P @ [f]) fs)) (?P @ [tmp_name x]) = None" for x
      using assms(1) by (intro WriteToFile_tmps) (auto simp: writable_def)
    then show "\<forall>x. node_at (snd (WriteToFile data (?P @ [f]) fs)) (?P @ [tmp_name x]) = None" by blast
  qed auto
qed

lemma writable_kubeconfig:
  assumes "writable fs"
  shows "writable (snd (WriteToFile data (KubeConfigFilePath fs) fs))"
  unfolding KubeConfigFilePath_eq
proof (rule writable_by_touches [OF assms, where dir = "HomeDir fs"])
  let ?f = "HomeDir fs @ [''kubeconfig'']"
  show "touches ({?f} \<union> tmps (HomeDir fs)) (set (prefixes_of (HomeDir fs))) fs (snd (WriteToFile data ?f fs))"
    using touches_WriteToFile [of ?f fs data] by simp
  show "node_at (snd (WriteToFile data ?f fs)) (HomeDir fs @ [''clusters'', k, ''config.json'']) \<noteq> Some FDir" for k
    by (rule WriteToFile_not_dir) (use assms in \<open>auto simp: writable_def in_prefixes_of tmps_def fp_dir_def butlast_append\<close>)
qed auto

lemma writable_pems:
  assumes "valid_seg n"
  shows "writable fs \<Longrightarrow> (\<And>k v. (k, v) \<in> set ms \<Longrightarrow> v \<in> {''ca.pem'', ''key.pem'', ''cert.pem''}) \<Longrightarrow>
     dir = cluster_dir fs n \<Longrightarrow> writable (snd (store_pems ms dir fs))"
proof (induction ms dir fs rule: store_pems.induct)
  case (2 k v ms dir fs)
  show ?case
  proof (cases "base64_decode k")
    case (Some data)
    have v: "v \<in> {''ca.pem'', ''key.pem'', ''cert.pem''}" using "2.prems"(2) [of k v] by simp
    obtain r fs1 where w: "WriteToFile data (fp_join dir v) fs = (r, fs1)" by force
    have "writable fs1"
      using writable_cluster_file [OF "2.prems"(1) assms, of v data] v w "2.prems"(3) by auto
    moreover have "dir = cluster_dir fs1 n"
      using w "2.prems"(3) area_env(3) [OF touches_env [OF touches_WriteToFile [of "fp_join dir v" fs data]], of n]
      by simp
    ultimately have "writable (snd (store_pems ms dir fs1))"
      using "2.prems"(2) by (intro "2.IH" [OF Some]) auto
    with \<open>writable fs1\<close> w Some show ?thesis by (cases r) auto
  qed (simp add: "2.prems")
qed simp

lemma writable_write_cluster: "writable fs \<Longrightarrow> valid_seg (Name c) \<Longrightarrow> writable (snd (write_cluster c fs))"
  unfolding write_cluster_def by (rule writable_cluster_file) simp_all

lemma writable_storeConfig: "writable fs \<Longrightarrow> writable (snd (storeConfig Y c fs))"
  unfolding storeConfig_def Let_def
  by (auto intro: writable_kubeconfig split: sum.splits stat_result.splits)

lemma writable_Store:
  assumes "valid_seg (Name c)" "writable fs"
  shows "writable (snd (cli_Store Y c fs))"
  unfolding cli_Store_def
proof (rule and_then_inv [where P = writable, OF writable_storeConfig [OF assms(2)]])
  fix fs1 assume w: "writable fs1"
  have "writable (snd (store_pems (visit (MapOrder fs1) (pem_files c)) (cluster_dir fs1 (Name c)) fs1))"
    by (rule writable_pems [OF assms(1) w]) (use pem_names [of _ _ c] in auto)
  then show "writable (snd (and_then (store_pems (visit (MapOrder fs1) (pem_files c))
      (cluster_dir fs1 (Name c)) fs1) (write_cluster c)))"
    by (rule and_then_inv [where P = writable]) (rule writable_write_cluster [OF _ assms(1)])
qed

lemma writable_RemoveAll:
  assumes "valid_seg n" "writable fs"
  shows "writable (snd (os_RemoveAll (cluster_dir fs n) fs))"
proof -
  let ?f = "snd (os_RemoveAll (cluster_dir fs n) fs)"
  have env: "same_env fs ?f" by simp
  have sub: "node_at ?f q = node_at fs q \<or> node_at ?f q = None" for q
    using node_at_RemoveAll [of "cluster_dir fs n" q fs] by (cases "q = [] \<or> q = [''/'']"; cases "below (cluster_dir fs n) q") (auto split: if_splits)
  have isf: "is_file fs q" if f: "is_file ?f q" for q
    using sub [of q] f unfolding is_file_def by (elim disjE) simp_all
  show ?thesis
    using assms(2) sub isf unfolding writable_def same_envD(7) [OF env] no_faults_env [OF env] by (metis option.distinct(1))
qed

lemma writable_Remove:
  assumes "valid_seg n" "writable fs"
  shows "writable (snd (cli_Remove Y n fs))"
  unfolding cli_Remove_def setConfigToFile_def
  by (auto intro: and_then_inv [where P = writable] writable_kubeconfig writable_RemoveAll assms split: sum.splits)

section \<open>The contract\<close>

lemma Get_write_cluster:
  assumes "valid_seg (Name c)" "readable fs" "write_cluster c fs = (None, fs')"
  shows "cli_Get (Name c) fs' = Inr (saved c)"
proof -
  let ?q = "(HomeDir fs @ [''clusters'', Name c]) @ [''config.json'']"
  have "stays (Name c) fs fs'" using stays_write_cluster [OF assms(1), of fs] assms(3) by simp
  note env = touches_env [OF this]
  have q: "fp_join (cluster_dir fs' (Name c)) ''config.json'' = ?q"
    "fp_join (cluster_dir fs (Name c)) ''config.json'' = ?q"
    using same_envD(7) [OF env] by (simp_all add: cluster_dir_eq [OF assms(1)])
  have node: "node_at fs' ?q = Some (FFile (marshal_cluster c))"
    using assms(3) unfolding write_cluster_def q by (rule WriteToFile_content) simp
  have "os_Stat ?q fs' \<noteq> NotExist" unfolding os_Stat_def node by (simp split: option.split)
  moreover have "ReadFile ?q fs' = Inr (marshal_cluster c)"
    using assms(2) same_envD(1) [OF env] unfolding ReadFile_def node by (simp add: readable_def)
  ultimately show ?thesis unfolding cli_Get_def q by (simp add: unmarshal_marshal)
qed

lemma Get_cli_Store:
  assumes "valid_seg (Name c)" "readable fs" "cli_Store Y c fs = (None, fs')"
  shows "cli_Get (Name c) fs' = Inr (saved c)"
proof -
  obtain fs1 fs2 where s1: "storeConfig Y c fs = (None, fs1)"
    and s2: "store_pems (visit (MapOrder fs1) (pem_files c)) (cluster_dir fs1 (Name c)) fs1 = (None, fs2)"
    and s3: "write_cluster c fs2 = (None, fs')"
    using assms(3) by (auto simp: cli_Store_def and_then_None)
  have "stays (Name c) fs fs1" using stays_storeConfig [where n = "Name c" and fs = fs and Y = Y and c = c] s1 by simp
  moreover have "valid_seg v" if "(k, v) \<in> set (visit (MapOrder fs1) (pem_files c))" for k v
    using pem_names [of k v c] that by auto
  then have "stays (Name c) fs1 (snd (store_pems (visit (MapOrder fs1) (pem_files c))
      (cluster_dir fs1 (Name c)) fs1))"
    by (rule stays_pems [OF assms(1)]) (assumption, rule refl)
  then have "stays (Name c) fs1 fs2" unfolding s2 by simp
  ultimately have "readable fs2" using assms(2) readable_env touches_env by metis
  then show ?thesis by (rule Get_write_cluster [OF assms(1) _ s3])
qed

lemma Get_cli_Remove:
  assumes "valid_seg n" "cli_Remove Y n fs = (None, fs')"
  shows "\<exists>e. cli_Get n fs' = Inl e"
proof -
  obtain fs1 where rm: "os_RemoveAll (cluster_dir fs1 n) fs1 = (None, fs')"
    using assms(2) by (auto simp: cli_Remove_def and_then_None split: sum.splits)
  then have env: "same_env fs1 fs'" using same_env_RemoveAll [of fs1 "cluster_dir fs1 n"] by simp
  have q: "fp_join (cluster_dir fs' n) ''config.json'' = cluster_dir fs1 n @ [''config.json'']"
    using area_env(3) [OF env] by simp
  have "node_at fs' (cluster_dir fs1 n @ [''config.json'']) = None"
    using RemoveAll_None [of "cluster_dir fs1 n" fs1 "cluster_dir fs1 n @ [''config.json'']"] rm
    by (simp add: below_iff cluster_dir_eq [OF assms(1)])
  then have "\<exists>e. ReadFile (fp_join (cluster_dir fs' n) ''config.json'') fs' = Inl e"
    unfolding q ReadFile_def by (simp split: option.split)
  then show ?thesis by (auto simp: cli_Get_def Let_def)
qed

interpretation cli: persistent_store "CLIPersistStore Y" valid_seg readable writable
proof
  fix c :: cluster and status :: string and s s' :: fs
  assume "valid_seg (Name c)" "readable s" "ps_PersistStatus (CLIPersistStore Y) c status s = (None, s')"
  then show "ps_Get (CLIPersistStore Y) (Name c) s' = Inr (saved (c\<lparr>Status := status\<rparr>))"
    using Get_write_cluster [of "c\<lparr>Status := status\<rparr>" s s']
    by (simp add: CLIPersistStore_def cli_PersistStatus_def)
next
  fix c :: cluster and s s' :: fs
  assume "valid_seg (Name c)" "readable s" "ps_Store (CLIPersistStore Y) c s = (None, s')"
  then show "ps_Get (CLIPersistStore Y) (Name c) s' = Inr (saved c)"
    using Get_cli_Store by (simp add: CLIPersistStore_def)
next
  fix n s s'
  assume "valid_seg n" "ps_Remove (CLIPersistStore Y) n s = (None, s')"
  then show "\<exists>e. ps_Get (CLIPersistStore Y) n s' = Inl e"
    using Get_cli_Remove by (simp add: CLIPersistStore_def)
next
  fix n n' g
  assume v: "valid_seg n" "valid_seg n'" "n \<noteq> n'"
  show "store_closed (CLIPersistStore Y) n (\<lambda>s. ps_Get (CLIPersistStore Y) n' s = g)"
    using Get_other [OF stays_PersistStatus _ v(2)] Get_other [OF stays_Store _ v(2)]
      Get_other [OF stays_Remove v] v
    by (auto simp: store_closed_def CLIPersistStore_def)
next
  fix n assume v: "valid_seg n"
  show "store_closed (CLIPersistStore Y) n readable"
    using readable_env [OF touches_env [OF stays_PersistStatus]] readable_env [OF touches_env [OF stays_Store]]
      readable_env [OF touches_env [OF stays_Remove]] v
    by (auto simp: store_closed_def CLIPersistStore_def)
  show "store_closed (CLIPersistStore Y) n writable"
    using v writable_write_cluster writable_Store writable_Remove
    by (auto simp: store_closed_def CLIPersistStore_def cli_PersistStatus_def)
next
  fix s assume "writable s"
  then show "readable s" by (simp add: writable_def readable_def)
next
  fix c :: cluster and s status
  assume "valid_seg (Name c)" "writable s"
  then show "fst (ps_PersistStatus (CLIPersistStore Y) c status s) = None"
    using write_cluster_ok [of s "c\<lparr>Status := status\<rparr>"]
    by (simp add: CLIPersistStore_def cli_PersistStatus_def)
qed

section \<open>Certificate files\<close>

text \<open>A successful run of the loop leaves every certificate decoded in its file.\<close>

lemma touches_cluster_other:
  assumes "valid_seg f" "valid_seg g" "f \<noteq> g" "\<And>x. g \<noteq> tmp_name x"
  shows "node_at (snd (WriteToFile data (fp_join dir f) fs)) (dir @ [g]) = node_at fs (dir @ [g])"
proof (rule touches_node [OF touches_WriteToFile])
  show "dir @ [g] \<notin> {fp_join dir f} \<union> tmps (fp_dir (fp_join dir f))"
    using assms by (auto simp: tmps_def)
qed (simp add: assms(1) in_prefixes_of)

lemma store_pems_other:
  assumes "valid_seg g" "\<And>x. g \<noteq> tmp_name x"
  shows "(\<And>k v. (k, v) \<in> set ms \<Longrightarrow> valid_seg v \<and> v \<noteq> g) \<Longrightarrow>
     node_at (snd (store_pems ms dir fs)) (dir @ [g]) = node_at fs (dir @ [g])"
proof (induction ms dir fs rule: store_pems.induct)
  case (2 k v ms dir fs)
  show ?case
  proof (cases "base64_decode k")
    case (Some data)
    obtain r fs1 where w: "WriteToFile data (fp_join dir v) fs = (r, fs1)" by force
    have "valid_seg v" "v \<noteq> g" using "2.prems" [of k v] by simp_all
    then have "node_at fs1 (dir @ [g]) = node_at fs (dir @ [g])"
      using touches_cluster_other [OF _ assms(1) _ assms(2), of v data dir fs] w by simp
    moreover have "node_at (snd (store_pems ms dir fs1)) (dir @ [g]) = node_at fs1 (dir @ [g])"
      using "2.prems" by (intro "2.IH" [OF Some]) auto
    ultimately show ?thesis using w Some by (cases r) simp_all
  qed simp
qed simp

lemma store_pems_content:
  assumes "dir \<noteq> []"
  shows "store_pems ms dir fs = (None, fs') \<Longrightarrow> distinct (map snd ms) \<Longrightarrow>
     \<forall>m \<in> set ms. valid_seg (snd m) \<and> (\<forall>x. snd m \<noteq> tmp_name x) \<Longrightarrow> (k, v) \<in> set ms \<Longrightarrow>
     \<exists>data. base64_decode k = Some data \<and> node_at fs' (dir @ [v]) = Some (FFile data)"
  using assms
proof (induction ms dir fs arbitrary: k v rule: store_pems.induct)
  case (2 k0 v0 ms dir fs)
  obtain data fs1 where d: "base64_decode k0 = Some data" and w: "WriteToFile data (fp_join dir v0) fs = (None, fs1)"
    and rest: "store_pems ms dir fs1 = (None, fs')"
    using "2.prems"(1) by (auto simp: and_then_None split: option.splits)
  have v0: "valid_seg v0" "\<And>x. v0 \<noteq> tmp_name x" using "2.prems"(3) by simp_all
  show ?case
  proof (cases "(k, v) = (k0, v0)")
    case True
    have "node_at fs1 (dir @ [v0]) = Some (FFile data)"
      using w WriteToFile_content [of data dir v0 fs fs1] v0(1) "2.prems"(5) by simp
    moreover have "node_at (snd (store_pems ms dir fs1)) (dir @ [v0]) = node_at fs1 (dir @ [v0])"
    proof (rule store_pems_other [OF v0])
      fix k' v' assume "(k', v') \<in> set ms"
      then show "valid_seg v' \<and> v' \<noteq> v0" using "2.prems"(2) "2.prems"(3) by force
    qed
    ultimately show ?thesis using True d rest by simp
  next
    case False
    then have "(k, v) \<in> set ms" using "2.prems"(4) by auto
    then show ?thesis
      using "2.IH" [OF d rest] "2.prems"(2,3,5) by simp
  qed
qed simp

lemma pem_files_distinct:
  "distinct (map fst (pem_files c))" "distinct (map snd (pem_files c))"
  by (auto simp: pem_files_def)

lemma cluster_file_ok:
  assumes "writable fs" "valid_seg n" "valid_seg f" "node_at fs (cluster_dir fs n @ [f]) \<noteq> Some FDir"
  shows "fst (WriteToFile data (fp_join (cluster_dir fs n) f) fs) = None"
proof -
  have "prefixes_of (HomeDir fs @ [''clusters'', n]) =
      prefixes_of (HomeDir fs @ [''clusters'']) @ [HomeDir fs @ [''clusters'', n]]"
    using prefixes_of_snoc [of "HomeDir fs @ [''clusters'']" n] by simp
  then have "fst (WriteToFile data ((HomeDir fs @ [''clusters'', n]) @ [f]) fs) = None"
    using assms(1,4) cluster_dir_eq [OF assms(2)] by (intro WriteToFile_ok) (auto simp: writable_def)
  then show ?thesis by (simp only: cluster_file_eq [OF assms(2,3)])
qed

lemma store_pems_ok:
  assumes "valid_seg n"
  shows "writable fs \<Longrightarrow> dir = cluster_dir fs n \<Longrightarrow>
     \<forall>m \<in> set ms. snd m \<in> {''ca.pem'', ''key.pem'', ''cert.pem''} \<and> base64_decode (fst m) \<noteq> None \<Longrightarrow>
     \<forall>m \<in> set ms. node_at fs (dir @ [snd m]) \<noteq> Some FDir \<Longrightarrow>
     fst (store_pems ms dir fs) = None"
proof (induction ms dir fs rule: store_pems.induct)
  case (2 k v ms dir fs)
  then obtain data where d: "base64_decode k = Some data" by auto
  have v: "v \<in> {''ca.pem'', ''key.pem'', ''cert.pem''}" using "2.prems"(3) by simp
  then have vs: "valid_seg v" by auto
  obtain r fs1 where w: "WriteToFile data (fp_join dir v) fs = (r, fs1)" by force
  have "r = None" using cluster_file_ok [OF "2.prems"(1) assms vs, of data] "2.prems"(2,4) w by simp
  have "writable fs1"
    using writable_cluster_file [OF "2.prems"(1) assms, of v data] v w "2.prems"(2) by auto
  moreover have "dir = cluster_dir fs1 n"
    using w "2.prems"(2) area_env(3) [OF touches_env [OF touches_WriteToFile [of "fp_join dir v" fs data]], of n]
    by simp
  moreover have "\<forall>m \<in> set ms. node_at fs1 (dir @ [snd m]) \<noteq> Some FDir"
  proof
    fix m assume m: "m \<in> set ms"
    then have "snd m \<noteq> tmp_name x" for x using "2.prems"(3) by auto
    then have "node_at (snd (WriteToFile data (fp_join dir v) fs)) (dir @ [snd m]) \<noteq> Some FDir"
      using "2.prems"(4) m vs by (intro WriteToFile_not_dir) (auto simp: in_prefixes_of tmps_def)
    then show "node_at fs1 (dir @ [snd m]) \<noteq> Some FDir" using w by simp
  qed
  ultimately have "fst (store_pems ms dir fs1) = None"
    using "2.prems"(3) by (intro "2.IH" [OF d]) auto
  with \<open>r = None\<close> w d show ?case by simp
qed simp

text \<open>
  A store that is ready for a cluster: nothing is in the way of its files, and the kubeconfig is missing or can be
  parsed. \<open>kubeconfig_is\<close> says what \<open>storeConfig\<close> starts from. Storing a cluster with decodable certificates
  succeeds there and leaves a kubeconfig with the cluster merged in.
\<close>

definition kubeconfig_is :: "yaml_codec \<Rightarrow> KubeConfig \<Rightarrow> fs \<Rightarrow> bool" where
  "kubeconfig_is Y cfg fs \<longleftrightarrow>
     (case node_at fs (HomeDir fs @ [''kubeconfig'']) of
        None \<Rightarrow> cfg = zero_config
      | Some (FFile data) \<Rightarrow> y_Unmarshal Y data = Inr cfg
      | Some FDir \<Rightarrow> False)"

definition ready_store :: "yaml_codec \<Rightarrow> KubeConfig \<Rightarrow> string \<Rightarrow> fs \<Rightarrow> bool" where
  "ready_store Y cfg n fs \<longleftrightarrow> writable fs \<and> kubeconfig_is Y cfg fs
     \<and> (\<forall>x. node_at fs (HomeDir fs @ [tmp_name x]) = None)
     \<and> (\<forall>v \<in> {''ca.pem'', ''key.pem'', ''cert.pem''}. node_at fs (HomeDir fs @ [''clusters'', n, v]) \<noteq> Some FDir)"

lemma ready_plain [simp]: "ready_store Y zero_config n (plain_fs [])"
  by (auto simp: ready_store_def kubeconfig_is_def writable_def is_file_def node_at_plain split: option.splits)

lemma writable_plain [simp]: "writable (plain_fs [])"
  using ready_plain by (simp add: ready_store_def)

lemma cluster_file_keeps_home:
  assumes "valid_seg n" "valid_seg f" "x \<noteq> ''clusters''"
  shows "node_at (snd (WriteToFile data (fp_join (cluster_dir fs n) f) fs)) (HomeDir fs @ [x]) = node_at fs (HomeDir fs @ [x])"
  unfolding cluster_file_eq [OF assms(1,2)]
  by (rule touches_node [OF touches_WriteToFile]) (use assms(3) in \<open>auto simp: tmps_def in_prefixes_of fp_dir_def butlast_append\<close>)

lemma store_pems_keeps_home:
  assumes "valid_seg n" "x \<noteq> ''clusters''"
  shows "(\<And>k v. (k, v) \<in> set ms \<Longrightarrow> valid_seg v) \<Longrightarrow> dir = cluster_dir fs n \<Longrightarrow>
     node_at (snd (store_pems ms dir fs)) (HomeDir fs @ [x]) = node_at fs (HomeDir fs @ [x])"
proof (induction ms dir fs rule: store_pems.induct)
  case (2 k v ms dir fs)
  show ?case
  proof (cases "base64_decode k")
    case (Some data)
    obtain r fs1 where w: "WriteToFile data (fp_join dir v) fs = (r, fs1)" by force
    have v: "valid_seg v" using "2.prems"(1) [of k v] by simp
    have env: "same_env fs fs1" using touches_env[OF touches_cluster_file [OF assms(1) v, of fs data]] "2.prems"(2) w by simp
    have "node_at fs1 (HomeDir fs @ [x]) = node_at fs (HomeDir fs @ [x])"
      using cluster_file_keeps_home [OF assms(1) v assms(2), of data fs] "2.prems"(2) w by simp
    moreover have "node_at (snd (store_pems ms dir fs1)) (HomeDir fs1 @ [x]) = node_at fs1 (HomeDir fs1 @ [x])"
      using "2.prems" area_env(3) [OF env, of n] by (intro "2.IH" [OF Some]) auto
    ultimately show ?thesis
      using Some w same_envD(7) [OF env] by (cases r) (simp_all add: and_then_def)
  qed simp
qed simp

lemma ready_write_cluster:
  assumes "ready_store Y cfg (Name c) fs" "valid_seg (Name c)"
  shows "ready_store Y cfg (Name c) (snd (write_cluster c fs))"
proof -
  let ?P = "HomeDir fs @ [''clusters'', Name c]" and ?fs' = "snd (write_cluster c fs)"
  have w: "write_cluster c fs = WriteToFile (marshal_cluster c) (?P @ [''config.json'']) fs"
    unfolding write_cluster_def cluster_file_eq [OF assms(2) valid_segs(2)] ..
  note H = same_envD(7) [OF touches_env [OF stays_write_cluster [OF assms(2), of fs]]]
  have keep: "node_at ?fs' (HomeDir fs @ [x]) = node_at fs (HomeDir fs @ [x])" if "x \<noteq> ''clusters''" for x
    unfolding write_cluster_def by (rule cluster_file_keeps_home [OF assms(2) valid_segs(2) that])
  have "node_at ?fs' (?P @ [v]) \<noteq> Some FDir" if "v \<in> {''ca.pem'', ''key.pem'', ''cert.pem''}" for v
    unfolding w
    by (rule WriteToFile_not_dir)
       (use that assms(1) in \<open>auto simp: ready_store_def in_prefixes_of tmps_def fp_dir_def butlast_append\<close>)
  then show ?thesis
    using assms(1) writable_write_cluster [of fs c] assms(2) keep not_tmp_name
    by (simp add: ready_store_def kubeconfig_is_def H)
qed

lemma storeConfig_ready:
  assumes "y_Marshal Y (merge_config c cfg) = Inr ytext" "ready_store Y cfg n fs"
  shows "storeConfig Y c fs = WriteToFile ytext (HomeDir fs @ [''kubeconfig'']) fs"
    "fst (WriteToFile ytext (HomeDir fs @ [''kubeconfig'']) fs) = None"
proof -
  have wf: "writable fs" and k: "kubeconfig_is Y cfg fs" using assms(2) by (simp_all add: ready_store_def)
  have above: "\<not> is_file fs p" if "p \<in> set (prefixes_of (HomeDir fs))" for p
    using that wf by (auto simp: writable_def prefixes_of_snoc)
  have nf: "no_faults fs" using wf by (simp add: writable_def)
  show "storeConfig Y c fs = WriteToFile ytext (HomeDir fs @ [''kubeconfig'']) fs"
    using k assms(1) nf above
    by (auto simp: storeConfig_def kubeconfig_is_def os_Stat_def ReadFile_def KubeConfigFilePath_eq file_above_def list_ex_iff
        split: option.splits node.splits)
  show "fst (WriteToFile ytext (HomeDir fs @ [''kubeconfig'']) fs) = None"
    using assms(2) above by (intro WriteToFile_ok) (auto simp: ready_store_def kubeconfig_is_def writable_def split: option.splits node.splits)
qed

lemma cli_Store_ready:
  assumes "y_Marshal Y (merge_config c cfg) = Inr ytext" "valid_seg (Name c)" "ready_store Y cfg (Name c) fs"
    and "\<forall>k \<in> {RootCACert c, ClientKey c, ClientCertificate c}. base64_decode k \<noteq> None"
  shows "fst (cli_Store Y c fs) = None \<and>
    node_at (snd (cli_Store Y c fs)) (HomeDir fs @ [''kubeconfig'']) = Some (FFile ytext)"
proof -
  let ?H = "HomeDir fs"
  have wf: "writable fs" using assms(3) by (simp add: ready_store_def)
  note sc = storeConfig_ready [OF assms(1,3)]
  obtain r fs1 where w: "storeConfig Y c fs = (r, fs1)" by force
  then have "r = None" using sc by simp
  have k1: "node_at fs1 (?H @ [''kubeconfig'']) = Some (FFile ytext)"
    by (rule WriteToFile_content) (use w sc \<open>r = None\<close> in simp_all)
  have wr: "writable fs1" using writable_storeConfig [OF wf, of Y c] w by simp
  have st: "stays (Name c) fs fs1"
    using stays_storeConfig [where n = "Name c" and fs = fs and Y = Y and c = c] w by simp
  have H: "HomeDir fs1 = ?H" by (rule same_envD(7) [OF touches_env [OF st]])
  have dir: "cluster_dir fs1 (Name c) = ?H @ [''clusters'', Name c]"
    using area_env(3) [OF touches_env [OF st], of "Name c"] by (simp add: cluster_dir_eq [OF assms(2)])
  have nd: "node_at fs1 (cluster_dir fs1 (Name c) @ [v]) \<noteq> Some FDir" if "v \<in> {''ca.pem'', ''key.pem'', ''cert.pem''}" for v
  proof -
    have "node_at (snd (WriteToFile ytext (?H @ [''kubeconfig'']) fs)) (cluster_dir fs1 (Name c) @ [v]) \<noteq> Some FDir"
      unfolding dir by (rule WriteToFile_not_dir)
        (use assms(3) that in \<open>auto simp: ready_store_def in_prefixes_of tmps_def fp_dir_def\<close>)
    then show ?thesis using w sc(1) by simp
  qed
  let ?ms = "visit (MapOrder fs1) (pem_files c)"
  have ms: "\<forall>m \<in> set ?ms. snd m \<in> {''ca.pem'', ''key.pem'', ''cert.pem''} \<and> base64_decode (fst m) \<noteq> None"
    using assms(4) by (auto simp: pem_files_def split: if_splits)
  have vs: "valid_seg v" if "(k, v) \<in> set ?ms" for k v using ms that by auto
  obtain r2 fs2 where p: "store_pems ?ms (cluster_dir fs1 (Name c)) fs1 = (r2, fs2)" by force
  have "r2 = None" using store_pems_ok [OF assms(2) wr refl ms] nd ms p by auto
  have "writable fs2" using writable_pems [OF assms(2) wr, of ?ms] pem_names [of _ _ c] p by fastforce
  then have "fst (write_cluster c fs2) = None" by (rule write_cluster_ok [OF _ assms(2)])
  moreover have k2: "node_at fs2 (?H @ [''kubeconfig'']) = Some (FFile ytext)"
    using store_pems_keeps_home [of "Name c" "''kubeconfig''" ?ms "cluster_dir fs1 (Name c)" fs1, OF assms(2) _ vs refl] p k1 H
    by simp
  moreover have "HomeDir fs2 = ?H"
    using same_envD(7) [OF touches_env [OF stays_pems [of "Name c" ?ms "cluster_dir fs1 (Name c)" fs1, OF assms(2) vs refl]]] p H
    by simp
  ultimately show ?thesis
    using \<open>r = None\<close> \<open>r2 = None\<close> w p cluster_file_keeps_home [OF assms(2) valid_segs(2), of "''kubeconfig''" "marshal_cluster c" fs2]
    by (simp add: cli_Store_def write_cluster_def)
qed

text \<open>\<open>Remove\<close> succeeds when the kubeconfig can be read and written back.\<close>

lemma RemoveAll_ok: "no_faults fs \<Longrightarrow> fst (os_RemoveAll p fs) = None"
  by (simp add: os_RemoveAll_def stuck_def list_ex_iff Let_def)

lemma cli_Remove_ok:
  assumes "no_faults fs" "\<And>p. p \<in> set (prefixes_of (HomeDir fs)) \<Longrightarrow> \<not> is_file fs p"
    and "node_at fs (HomeDir fs @ [''kubeconfig'']) = Some (FFile data)"
    and "\<And>x. node_at fs (HomeDir fs @ [tmp_name x]) = None"
    and "y_Unmarshal Y data = Inr cfg" "y_Marshal Y (deleteConfigByName n cfg) = Inr data'"
  shows "fst (cli_Remove Y n fs) = None"
proof -
  have w: "fst (WriteToFile data' (HomeDir fs @ [''kubeconfig'']) fs) = None"
    using assms(1-4) by (intro WriteToFile_ok) auto
  obtain fs1 where fs1: "WriteToFile data' (HomeDir fs @ [''kubeconfig'']) fs = (None, fs1)"
    using w by (metis prod.collapse)
  have "no_faults fs1"
    using no_faults_env [OF touches_env [OF touches_WriteToFile [of "HomeDir fs @ [''kubeconfig'']" fs data']]] assms(1) fs1
    by simp
  with fs1 assms(1,3,5,6) show ?thesis
    by (simp add: cli_Remove_def getConfigFromFile_def setConfigToFile_def ReadFile_def KubeConfigFilePath_eq RemoveAll_ok)
qed

section \<open>Kubeconfig entries\<close>

lemma delete_add_entry:
  assumes "nm x = n" "n \<notin> nm ` set xs"
  shows "filter (\<lambda>y. nm y \<noteq> n) (add_entry nm x xs) = xs"
proof -
  have "\<not> list_ex (\<lambda>y. nm y = nm x) xs" "filter (\<lambda>y. nm y \<noteq> n) xs = xs"
    using assms by (auto simp: list_ex_iff filter_id_conv image_iff)
  then show ?thesis using assms(1) by (simp add: add_entry_def)
qed

lemma add_entry_old:
  assumes "nm x = n" "n \<in> nm ` set xs"
  shows "add_entry nm x xs = xs"
proof -
  have "list_ex (\<lambda>y. nm y = nm x) xs" "xs \<noteq> []" using assms by (force simp: list_ex_iff)+
  then show ?thesis by (simp add: add_entry_def)
qed

section \<open>Properties\<close>

text \<open>
  C9. The store's JSON form of a cluster: reading back what \<open>json.Marshal\<close> wrote always succeeds. A record whose
  strings are valid UTF-8 comes back as it is, with its metadata in key order (an empty map comes back as nil); in any other
  record every byte that is not part of valid UTF-8 has become U+FFFD.
\<close>

theorem cluster_json_roundtrip:
  "unmarshal_cluster (marshal_cluster c) = Some (saved c) \<and>
   (utf8_cluster c \<longrightarrow> saved c = c\<lparr>Metadata := canon_meta (Metadata c)\<rparr>)"
  using unmarshal_marshal saved_utf8 by blast

text \<open>A name with an umlaut, and one that is not UTF-8.\<close>

theorem cluster_json_roundtrip_witness:
  "unmarshal_cluster (marshal_cluster (zero_cluster\<lparr>Name := [CHR ''K'', CHR 0xC3, CHR 0xB6, CHR ''l'', CHR ''n''], NodeCount := 3,
       Metadata := Some [(''b'', ''2''), (''a'', ''1'')]\<rparr>)) =
     Some (zero_cluster\<lparr>Name := [CHR ''K'', CHR 0xC3, CHR 0xB6, CHR ''l'', CHR ''n''], NodeCount := 3,
       Metadata := Some [(''a'', ''1''), (''b'', ''2'')]\<rparr>) \<and>
   map_option Name (unmarshal_cluster (marshal_cluster (zero_cluster\<lparr>Name := [CHR 0xFF]\<rparr>))) = Some FFFD"
proof -
  let ?c = "zero_cluster\<lparr>Name := [CHR ''K'', CHR 0xC3, CHR 0xB6, CHR ''l'', CHR ''n''], NodeCount := 3,
       Metadata := Some [(''b'', ''2''), (''a'', ''1'')]\<rparr>"
  have "utf8_cluster ?c" by code_simp
  moreover have "canon_meta (Metadata ?c) = Some [(''a'', ''1''), (''b'', ''2'')]" by code_simp
  moreover have "utf8_fix [CHR 0xFF] = FFFD" by code_simp
  ultimately show ?thesis
    using cluster_json_roundtrip[of ?c] cluster_json_roundtrip[of "zero_cluster\<lparr>Name := [CHR 0xFF]\<rparr>"] by simp
qed

text \<open>
  \<open>storeConfig\<close> followed by the deletion of \<open>Remove\<close> leaves the other entries of the
  kubeconfig as they were: merging a cluster whose name is new and deleting it again gives the
  config back, up to the version and kind that are always set.
\<close>

theorem merge_then_delete:
  assumes "Name c \<notin> cc_Name ` set (Clusters cfg) \<union> cu_Name ` set (Users cfg) \<union> cx_Name ` set (Contexts cfg)"
  shows "deleteConfigByName (Name c) (merge_config c cfg) = cfg\<lparr>APIVersion := ''v1'', Kind := ''Config''\<rparr>"
  using assms by (simp add: deleteConfigByName_def merge_config_def Let_def delete_add_entry)

theorem merge_then_delete_witness:
  "deleteConfigByName ''a'' (merge_config (zero_cluster\<lparr>Name := ''a''\<rparr>) zero_config) =
     zero_config\<lparr>APIVersion := ''v1'', Kind := ''Config''\<rparr>"
  using merge_then_delete [of "zero_cluster\<lparr>Name := ''a''\<rparr>" zero_config]
  by (simp add: zero_config_def zero_cluster_def)

text \<open>
  A cluster that already has its three entries in the kubeconfig is not updated there: new
  certificates, a new endpoint or new credentials do not reach the file.
\<close>

theorem merge_config_stale:
  assumes "Name c \<in> cc_Name ` set (Clusters cfg)" "Name c \<in> cu_Name ` set (Users cfg)"
    "Name c \<in> cx_Name ` set (Contexts cfg)"
  shows "merge_config c cfg = cfg\<lparr>APIVersion := ''v1'', Kind := ''Config''\<rparr>"
  using assms by (simp add: merge_config_def Let_def add_entry_old)

theorem merge_config_stale_witness:
  "merge_config (zero_cluster\<lparr>Name := ''a'', Endpoint := ''new''\<rparr>)
     (merge_config (zero_cluster\<lparr>Name := ''a'', Endpoint := ''old''\<rparr>) zero_config) =
   merge_config (zero_cluster\<lparr>Name := ''a'', Endpoint := ''old''\<rparr>) zero_config"
  by (subst merge_config_stale) (simp_all add: merge_config_def zero_config_def add_entry_def Let_def)

text \<open>
  C38. After a successful \<open>Store\<close> of a cluster whose root certificate, key and client
  certificate differ, \<open>ca.pem\<close>, \<open>key.pem\<close> and \<open>cert.pem\<close> in the cluster's directory hold
  the three decoded values, whatever the order in which the loop visited them.
\<close>

theorem Store_writes_certificates:
  assumes "valid_seg (Name c)" "cli_Store Y c fs = (None, fs')"
    and "distinct [RootCACert c, ClientKey c, ClientCertificate c]"
    and "(k, v) \<in> {(RootCACert c, ''ca.pem''), (ClientKey c, ''key.pem''), (ClientCertificate c, ''cert.pem'')}"
  shows "\<exists>data. base64_decode k = Some data \<and>
     node_at fs' (HomeDir fs @ [''clusters'', Name c, v]) = Some (FFile data)"
proof -
  let ?P = "HomeDir fs @ [''clusters'', Name c]"
  obtain fs1 fs2 where s1: "storeConfig Y c fs = (None, fs1)"
    and s2: "store_pems (visit (MapOrder fs1) (pem_files c)) (cluster_dir fs1 (Name c)) fs1 = (None, fs2)"
    and s3: "write_cluster c fs2 = (None, fs')"
    using assms(2) by (auto simp: cli_Store_def and_then_None)
  have st1: "stays (Name c) fs fs1"
    using stays_storeConfig [where n = "Name c" and fs = fs and Y = Y and c = c] s1 by simp
  have names: "\<forall>m \<in> set (visit (MapOrder fs1) (pem_files c)). valid_seg (snd m) \<and> (\<forall>x. snd m \<noteq> tmp_name x)"
    using pem_names [of _ _ c] by fastforce
  then have "stays (Name c) fs1 (snd (store_pems (visit (MapOrder fs1) (pem_files c)) (cluster_dir fs1 (Name c)) fs1))"
    by (intro stays_pems [OF assms(1)]) auto
  then have st2: "stays (Name c) fs fs2" using st1 s2 stays_trans by simp
  have P: "cluster_dir fs1 (Name c) = ?P" "cluster_dir fs2 (Name c) = ?P"
    using same_envD(7) [OF touches_env [OF st1]] same_envD(7) [OF touches_env [OF st2]]
    by (simp_all add: cluster_dir_eq [OF assms(1)])
  have ne: "cluster_dir fs1 (Name c) \<noteq> []" unfolding P by simp
  have dist: "distinct (map snd (visit (MapOrder fs1) (pem_files c)))"
    using pem_files_distinct(2) [of c] by (metis mset_eq_imp_distinct_iff mset_map mset_visit)
  have "(k, v) \<in> set (visit (MapOrder fs1) (pem_files c))"
    using assms(3,4) by (auto simp: pem_files_def)
  from store_pems_content [OF ne s2 dist names this]
  obtain data where d: "base64_decode k = Some data" "node_at fs2 (?P @ [v]) = Some (FFile data)"
    unfolding P by blast
  have "node_at fs' (?P @ [v]) = node_at fs2 (?P @ [v])"
    using touches_cluster_other [of "''config.json''" v "marshal_cluster c" ?P fs2] s3 assms(4)
    unfolding write_cluster_def P by auto
  with d show ?thesis by simp
qed

theorem Store_writes_certificates_witness:
  "\<exists>fs' data. base64_decode ''YQ=='' = Some data \<and>
     node_at fs' [''/'', ''root'', ''.kontainer'', ''clusters'', ''c1'', ''ca.pem''] = Some (FFile data)"
proof -
  let ?Y = "\<lparr>y_Marshal = \<lambda>_. Inr ''apiVersion: v1'', y_Unmarshal = \<lambda>_. Inr zero_config\<rparr>"
  let ?c = "zero_cluster\<lparr>Name := ''c1'', RootCACert := ''YQ=='', ClientKey := ''Yg=='', ClientCertificate := ''Yw==''\<rparr>"
  have v: "valid_seg (Name ?c)" by (simp add: valid_seg_def)
  have "\<forall>k \<in> {RootCACert ?c, ClientKey ?c, ClientCertificate ?c}. base64_decode k \<noteq> None"
    by (simp add: base64_decode_def b64_val_def)
  then have "fst (cli_Store ?Y ?c (plain_fs [])) = None"
    using cli_Store_ready [of ?Y ?c zero_config "''apiVersion: v1''" "plain_fs []"] v by simp
  then obtain fs' where "cli_Store ?Y ?c (plain_fs []) = (None, fs')" by (metis prod.collapse)
  from Store_writes_certificates [OF v this, of "''YQ==''" "''ca.pem''"] show ?thesis by auto
qed

text \<open>
  The certificates are the keys of the loop's map, so equal ones share one file: when the key
  equals the root certificate, no \<open>ca.pem\<close> is written.
\<close>

theorem equal_certificates_lose_ca_pem:
  assumes "ClientKey c = RootCACert c" "ClientCertificate c \<noteq> RootCACert c"
  shows "pem_files c = [(RootCACert c, ''key.pem''), (ClientCertificate c, ''cert.pem'')]"
  using assms by (simp add: pem_files_def)

theorem equal_certificates_witness:
  "pem_files (zero_cluster\<lparr>ClientCertificate := ''YQ==''\<rparr>) = [([], ''key.pem''), (''YQ=='', ''cert.pem'')]"
  using equal_certificates_lose_ca_pem [of "zero_cluster\<lparr>ClientCertificate := ''YQ==''\<rparr>"]
  by (simp add: zero_cluster_def)

end
