(* ===== verification/Logstream.thy ===== *)
theory Logstream
  imports Prelude
begin

text \<open>
  Package \<open>logstream\<close>. The registry of streams with its atomic counter is a record; a single
  stream under concurrent use is a step relation: each thread is at a program point of \<open>write\<close> or
  \<open>Close\<close>, the stream has a mutex, a \<open>closed\<close> flag and a channel of capacity 100, and a reader
  receives. The lemmas are invariants of the reachable states.
\<close>

record LogEvent =
  ev_Error :: bool
  ev_Message :: string

section \<open>The registry\<close>

record registry =
  reg_counter :: int64
  reg_logs :: "string \<rightharpoonup> string"

definition init_registry :: registry where
  "init_registry = \<lparr>reg_counter = 1, reg_logs = Map.empty\<rparr>"

text \<open>A stream is identified by its \<open>ID()\<close>; \<open>None\<close> is the nil that the map returns.\<close>

definition GetLogStream :: "string \<Rightarrow> registry \<Rightarrow> string option" where
  "GetLogStream lid r = reg_logs r lid"

definition NewLogStream :: "registry \<Rightarrow> string \<times> registry" where
  "NewLogStream r =
     (let c = reg_counter r + 1; lid = int_text (sint c) in
      (lid, r\<lparr>reg_counter := c, reg_logs := (reg_logs r)(lid \<mapsto> lid)\<rparr>))"

definition unregister :: "string \<Rightarrow> registry \<Rightarrow> registry" where
  "unregister lid r = r\<lparr>reg_logs := (reg_logs r)(lid := None)\<rparr>"

fun new_ids :: "nat \<Rightarrow> registry \<Rightarrow> string list" where
  "new_ids 0 r = []"
| "new_ids (Suc n) r = (case NewLogStream r of (lid, r') \<Rightarrow> lid # new_ids n r')"

section \<open>One stream\<close>

text \<open>
  Where a thread is: outside; about to lock in \<open>write\<close>, holding the lock and about to send, about
  to unlock; and the same for \<open>Close\<close>, which ends with the removal from the registry.
\<close>

datatype pc = Idle | WLock LogEvent | WSend LogEvent | WUnlock | CLock | CClose | CUnlock | CDelete

record stream =
  pcs :: "nat \<Rightarrow> pc"
  owner :: "nat option"
  ls_closed :: bool
  chan_closed :: bool
  buf :: "LogEvent list"
  sent :: "LogEvent list"
  received :: "LogEvent list"
  registered :: bool

definition chan_cap :: nat where "chan_cap = 100"

definition newLoggerStream :: stream where
  "newLoggerStream = \<lparr>pcs = \<lambda>_. Idle, owner = None, ls_closed = False, chan_closed = False, buf = [],
     sent = [], received = [], registered = True\<rparr>"

abbreviation goto_pc :: "nat \<Rightarrow> pc \<Rightarrow> stream \<Rightarrow> stream" where
  "goto_pc t p s \<equiv> s\<lparr>pcs := (pcs s)(t := p)\<rparr>"

text \<open>
  \<open>Infof\<close> and \<open>Warnf\<close> call \<open>write\<close> with the error flag off and on; \<open>write\<close> formats, locks, checks
  \<open>closed\<close>, sends (which waits while the channel is full) and unlocks. \<open>Close\<close> locks, closes the
  channel once and unlocks.
\<close>

inductive lstep :: "stream \<Rightarrow> stream \<Rightarrow> bool" where
  Infof: "pcs s t = Idle \<Longrightarrow> lstep s (goto_pc t (WLock \<lparr>ev_Error = False, ev_Message = m\<rparr>) s)"
| Warnf: "pcs s t = Idle \<Longrightarrow> lstep s (goto_pc t (WLock \<lparr>ev_Error = True, ev_Message = m\<rparr>) s)"
| write_lock: "pcs s t = WLock e \<Longrightarrow> owner s = None \<Longrightarrow>
    lstep s (goto_pc t (if ls_closed s then WUnlock else WSend e) (s\<lparr>owner := Some t\<rparr>))"
| write_send: "pcs s t = WSend e \<Longrightarrow> length (buf s) < chan_cap \<Longrightarrow>
    lstep s (goto_pc t WUnlock (s\<lparr>buf := buf s @ [e], sent := sent s @ [e]\<rparr>))"
| write_unlock: "pcs s t = WUnlock \<Longrightarrow> lstep s (goto_pc t Idle (s\<lparr>owner := None\<rparr>))"
| Close: "pcs s t = Idle \<Longrightarrow> lstep s (goto_pc t CLock s)"
| close_lock: "pcs s t = CLock \<Longrightarrow> owner s = None \<Longrightarrow>
    lstep s (goto_pc t (if ls_closed s then CUnlock else CClose) (s\<lparr>owner := Some t\<rparr>))"
| close_chan: "pcs s t = CClose \<Longrightarrow>
    lstep s (goto_pc t CUnlock (s\<lparr>chan_closed := True, ls_closed := True\<rparr>))"
| close_unlock: "pcs s t = CUnlock \<Longrightarrow> lstep s (goto_pc t CDelete (s\<lparr>owner := None\<rparr>))"
| close_delete: "pcs s t = CDelete \<Longrightarrow> lstep s (goto_pc t Idle (s\<lparr>registered := False\<rparr>))"
| receive: "buf s = e # b \<Longrightarrow> lstep s (s\<lparr>buf := b, received := received s @ [e]\<rparr>)"

inductive reach :: "stream \<Rightarrow> bool" where
  start: "reach newLoggerStream"
| step: "reach s \<Longrightarrow> lstep s s' \<Longrightarrow> reach s'"

text \<open>The program points between \<open>Lock\<close> and \<open>Unlock\<close>.\<close>

fun critical :: "pc \<Rightarrow> bool" where
  "critical (WSend e) = True"
| "critical WUnlock = True"
| "critical CClose = True"
| "critical CUnlock = True"
| "critical _ = False"

fun sending :: "pc \<Rightarrow> bool" where
  "sending (WSend e) = True"
| "sending _ = False"

definition linv :: "stream \<Rightarrow> bool" where
  "linv s \<longleftrightarrow> (\<forall>t. critical (pcs s t) \<longleftrightarrow> owner s = Some t)
     \<and> chan_closed s = ls_closed s
     \<and> (\<forall>t. sending (pcs s t) \<or> pcs s t = CClose \<longrightarrow> \<not> ls_closed s)
     \<and> length (buf s) \<le> chan_cap
     \<and> received s @ buf s = sent s"

lemma linv_owner: "linv s \<Longrightarrow> critical (pcs s t) \<longleftrightarrow> owner s = Some t"
  by (simp add: linv_def)

lemma linv_step: "lstep s s' \<Longrightarrow> linv s \<Longrightarrow> linv s'"
proof (induction rule: lstep.induct)
  case (write_unlock s t)
  then show ?case using linv_owner [of s t] by (auto simp: linv_def)
next
  case (close_unlock s t)
  then show ?case using linv_owner [of s t] by (auto simp: linv_def)
next
  case (write_send s t e)
  then show ?case using linv_owner [of s t] by (auto simp: linv_def)
next
  case (close_chan s t)
  then have o: "owner s = Some t" using linv_owner [of s t] by simp
  have "\<not> sending (pcs s u) \<and> pcs s u \<noteq> CClose" if "u \<noteq> t" for u
    using linv_owner [OF close_chan(2), of u] o that by (cases "pcs s u") auto
  with close_chan o show ?case by (auto simp: linv_def)
next
  case (Infof s t m)
  then show ?case using linv_owner [of s t] by (auto simp: linv_def)
next
  case (Warnf s t m)
  then show ?case using linv_owner [of s t] by (auto simp: linv_def)
next
  case (Close s t)
  then show ?case using linv_owner [of s t] by (auto simp: linv_def)
next
  case (close_delete s t)
  then show ?case using linv_owner [of s t] by (auto simp: linv_def)
qed (auto simp: linv_def)

lemma linv_reach: "reach s \<Longrightarrow> linv s"
proof (induction rule: reach.induct)
  case start
  show ?case by (simp add: linv_def newLoggerStream_def)
next
  case (step s s')
  then show ?case using linv_step by blast
qed

text \<open>A writer that waits on a full channel keeps the lock until the reader receives.\<close>

definition stuck_writer :: "nat \<Rightarrow> LogEvent \<Rightarrow> nat \<Rightarrow> stream \<Rightarrow> bool" where
  "stuck_writer t e u s \<longleftrightarrow> linv s \<and> pcs s t = WSend e \<and> length (buf s) = chan_cap \<and> pcs s u = CLock"

lemma stuck_writer_step:
  assumes "lstep s s'" "received s' = received s" "stuck_writer t e u s"
  shows "stuck_writer t e u s'"
proof -
  have inv: "linv s'" using linv_step assms(1,3) by (auto simp: stuck_writer_def)
  have w: "pcs s t = WSend e" "pcs s u = CLock" "length (buf s) = chan_cap" "owner s = Some t"
    using assms(3) linv_owner [of s t] by (auto simp: stuck_writer_def)
  have other: "pcs s v \<noteq> WUnlock \<and> pcs s v \<noteq> CUnlock \<and> pcs s v \<noteq> CClose" for v
    using linv_owner [of s v] assms(3) w(1,4) by (cases "v = t") (auto simp: stuck_writer_def)
  from assms(1) show ?thesis
    using w other assms(2) inv by cases (auto simp: stuck_writer_def)
qed

text \<open>The decimal text determines the number, so stream ids are distinct.\<close>

lemma nat_text_inj: "nat_text m = nat_text n \<Longrightarrow> m = n"
  by (metis digits_val_nat_text)

lemma nat_text_no_minus: "nat_text n \<noteq> CHR ''-'' # xs"
proof
  assume "nat_text n = CHR ''-'' # xs"
  then have "is_digit (CHR ''-'')" using nat_text_digits [of n] by simp
  then show False by (simp add: is_digit_def)
qed

lemma int_text_inj: "int_text i = int_text j \<Longrightarrow> i = j"
  using nat_text_inj [of "nat (- i)" "nat (- j)"] nat_text_inj [of "nat i" "nat j"]
    nat_text_no_minus [of "nat i"] nat_text_no_minus [of "nat j"]
  by (auto simp: int_text_def split: if_splits) metis+

lemma new_ids_eq: "new_ids n r = map (\<lambda>i. int_text (sint (reg_counter r + of_nat (Suc i)))) [0..<n]"
proof (induction n arbitrary: r)
  case (Suc n)
  have "map (\<lambda>i. int_text (sint (reg_counter r + of_nat (Suc i)))) [0..<Suc n] =
      int_text (sint (reg_counter r + 1)) # map (\<lambda>i. int_text (sint (reg_counter r + of_nat (Suc (Suc i))))) [0..<n]"
    by (simp add: upt_conv_Cons map_Suc_upt [symmetric] del: upt_Suc)
  with Suc show ?case by (simp add: NewLogStream_def Let_def add.assoc)
qed simp

section \<open>Properties\<close>

text \<open>
  C7. In every state a stream can reach under any number of concurrent writers, closers and a
  reader: at most one thread is between \<open>Lock\<close> and \<open>Unlock\<close>, no thread is about to send on or to
  close a closed channel (either would panic), the buffer never exceeds its capacity, and the
  reader has received exactly the events sent so far, in order, minus those still in the buffer.
\<close>

theorem logstream_safe:
  assumes "reach s"
  shows "(\<forall>t u. critical (pcs s t) \<and> critical (pcs s u) \<longrightarrow> t = u) \<and>
     (\<forall>t. sending (pcs s t) \<or> pcs s t = CClose \<longrightarrow> \<not> chan_closed s) \<and>
     length (buf s) \<le> 100 \<and> sent s = received s @ buf s"
proof -
  have inv: "linv s" using linv_reach [OF assms] .
  have "t = u" if "critical (pcs s t)" "critical (pcs s u)" for t u
    using linv_owner [OF inv] that by simp
  then show ?thesis using inv by (auto simp: linv_def chan_cap_def)
qed

theorem logstream_safe_witness:
  "sent newLoggerStream = received newLoggerStream @ buf newLoggerStream"
  using logstream_safe [OF reach.start] by simp

text \<open>
  \<open>write\<close> holds the lock while it waits for room: with a full channel and a waiting writer,
  a thread in \<open>Close\<close> makes no progress, and the stream is neither closed nor unregistered, in
  any continuation in which the reader receives nothing.
\<close>

theorem full_channel_blocks_close:
  assumes "linv s" "pcs s t = WSend e" "length (buf s) = 100" "pcs s u = CLock"
    and "(\<lambda>a b. lstep a b \<and> received b = received a)\<^sup>*\<^sup>* s s'"
  shows "pcs s' u = CLock \<and> pcs s' t = WSend e \<and> \<not> ls_closed s'"
proof -
  have "stuck_writer t e u s'"
    using assms(5)
  proof (induction rule: rtranclp_induct)
    case base
    then show ?case using assms(1-4) by (simp add: stuck_writer_def chan_cap_def)
  next
    case (step y z)
    then show ?case using stuck_writer_step by blast
  qed
  then have "linv s'" "pcs s' u = CLock" "pcs s' t = WSend e" by (simp_all add: stuck_writer_def)
  then show ?thesis unfolding linv_def by (metis sending.simps(1))
qed

theorem full_channel_blocks_close_witness:
  "pcs (newLoggerStream\<lparr>buf := replicate 100 \<lparr>ev_Error = False, ev_Message = []\<rparr>,
        sent := replicate 100 \<lparr>ev_Error = False, ev_Message = []\<rparr>, owner := Some 0,
        pcs := (\<lambda>_. Idle)(0 := WSend \<lparr>ev_Error = False, ev_Message = ''x''\<rparr>, 1 := CLock)\<rparr>) 1 = CLock"
proof -
  let ?s = "newLoggerStream\<lparr>buf := replicate 100 \<lparr>ev_Error = False, ev_Message = []\<rparr>,
        sent := replicate 100 \<lparr>ev_Error = False, ev_Message = []\<rparr>, owner := Some 0,
        pcs := (\<lambda>_. Idle)(0 := WSend \<lparr>ev_Error = False, ev_Message = ''x''\<rparr>, 1 := CLock)\<rparr>"
  have "linv ?s" by (auto simp: linv_def newLoggerStream_def chan_cap_def)
  then show ?thesis using full_channel_blocks_close [of ?s 0 _ 1 ?s] by simp
qed

text \<open>
  Stream ids are unique: fewer than \<open>2^64\<close> calls of \<open>NewLogStream\<close> give pairwise different
  ids, wherever the counter stands and although it wraps around.
\<close>

theorem new_stream_ids_distinct:
  assumes "n < 2 ^ 64"
  shows "distinct (new_ids n r)"
proof -
  have "inj_on (\<lambda>i. int_text (sint (reg_counter r + of_nat (Suc i)))) {0..<n}"
  proof (rule inj_onI)
    fix i j assume ij: "i \<in> {0..<n}" "j \<in> {0..<n}"
      and "int_text (sint (reg_counter r + of_nat (Suc i))) = int_text (sint (reg_counter r + of_nat (Suc j)))"
    then have "sint (reg_counter r + of_nat (Suc i)) = sint (reg_counter r + of_nat (Suc j))"
      by (intro int_text_inj)
    then have "reg_counter r + of_nat (Suc i) = reg_counter r + of_nat (Suc j)"
      by (rule signed_word_eqI)
    then have "(of_nat i :: int64) = of_nat j" by simp
    then have "unat (of_nat i :: int64) = unat (of_nat j :: int64)" by (rule arg_cong)
    then show "i = j"
      using ij assms by (simp add: unsigned_of_nat take_bit_nat_eq_self)
  qed
  then show ?thesis by (simp add: new_ids_eq distinct_map)
qed

theorem new_stream_ids_distinct_witness: "distinct (new_ids 3 init_registry)"
  by (rule new_stream_ids_distinct) simp

end
