(* ===== verification/Service.thy ===== *)
theory Service
  imports Cluster
begin

text \<open>
  Package \<open>service\<close>: the engine that the cluster manager calls. Each call starts a driver
  (in process, or as a jailed plugin process), connects to it, waits until it answers, runs one
  cluster operation and tears everything down again in deferred calls. The world outside is the
  record \<open>host\<close> (sockets, processes, environment, users); what happens to drivers and
  connections is recorded as a trace of events. A run-time panic is the outcome \<open>Panic\<close>, which runs
  the deferred calls like a return.
\<close>

section \<open>Drivers and addresses\<close>

definition ListenAddress :: string where "ListenAddress = ''127.0.0.1:''"
definition GoogleKubernetesEngineDriverName :: string where
  "GoogleKubernetesEngineDriverName = ''googlekubernetesengine''"
definition AzureKubernetesServiceDriverName :: string where
  "AzureKubernetesServiceDriverName = ''azurekubernetesservice''"
definition AmazonElasticContainerServiceDriverName :: string where
  "AmazonElasticContainerServiceDriverName = ''amazonelasticcontainerservice''"
definition ImportDriverName :: string where "ImportDriverName = ''import''"
definition RancherKubernetesEngineDriverName :: string where
  "RancherKubernetesEngineDriverName = ''rancherkubernetesengine''"

text \<open>The keys of the map \<open>Drivers\<close>.\<close>

definition builtin_names :: "string list" where
  "builtin_names = [GoogleKubernetesEngineDriverName, AzureKubernetesServiceDriverName,
     AmazonElasticContainerServiceDriverName, ImportDriverName, RancherKubernetesEngineDriverName]"

section \<open>Configuration\<close>

text \<open>
  The parts of a \<open>v3.ClusterSpec\<close> the service reads: the JSON value of the imported config, the
  YAML text of the RKE config (or the error of \<open>yaml.Marshal\<close>), the generic config map and the
  display name. A nil pointer is \<open>None\<close>.
\<close>

record cluster_spec =
  ImportedConfig :: "json option"
  RancherKubernetesEngineConfig :: "(goerr + string) option"
  GenericEngineConfig :: "(string \<times> json) list option"
  DisplayName :: string

text \<open>
  \<open>toMap\<close> with format \<open>json\<close>: the text of a value decodes to the value with its strings made valid, so the
  result is the members of that object as a map; null gives the nil map. Any other format but \<open>yaml\<close>, which no caller
  uses, gives nil.
\<close>

definition toMap :: "json \<Rightarrow> string \<Rightarrow> goerr + (string \<times> json) list" where
  "toMap obj format =
     (if format = ''json'' then
        (case go_maps (fix_json obj) of
           JObj ms \<Rightarrow> Inr ms
         | JNull \<Rightarrow> Inr []
         | _ \<Rightarrow> Inl (Errorf ''json: cannot unmarshal''))
      else Inr [])"

record controllerConfigGetter =
  cg_driverName :: string
  cg_clusterSpec :: cluster_spec
  cg_clusterName :: string

definition ptr_json :: "json option \<Rightarrow> json" where
  "ptr_json p = (case p of None \<Rightarrow> JNull | Some v \<Rightarrow> v)"

definition svc_GetConfig :: "(rat \<Rightarrow> string) \<Rightarrow> controllerConfigGetter \<Rightarrow> goerr + driver_options" where
  "svc_GetConfig fmtf c =
     (let spec = cg_clusterSpec c;
          opts = (if cg_driverName c = ImportDriverName then
                    map_sum id (\<lambda>ms. flatten fmtf ms empty_options) (toMap (ptr_json (ImportedConfig spec)) ''json'')
                  else if cg_driverName c = RancherKubernetesEngineDriverName then
                    map_sum id (\<lambda>cfg. put_string ''rkeConfig'' cfg empty_options)
                      (case RancherKubernetesEngineConfig spec of None \<Rightarrow> Inr (''null'' @ [CHR 0x0A]) | Some r \<Rightarrow> r)
                  else
                    map_sum id (\<lambda>ms. flatten fmtf ms empty_options)
                      (toMap (ptr_json (map_option JObj (GenericEngineConfig spec))) ''json'')) in
      case opts of
        Inl e \<Rightarrow> Inl e
      | Inr o1 \<Rightarrow>
          (let o2 = put_string ''name'' (cg_clusterName c) o1;
               displayName = (if DisplayName spec = [] then cg_clusterName c else DisplayName spec) in
           Inr (put_string ''displayName'' displayName o2)))"

section \<open>Ports, users, environment\<close>

text \<open>\<open>net.SplitHostPort\<close>: the host and the port of \<open>host:port\<close> or \<open>[host]:port\<close>.\<close>

definition SplitHostPort :: "string \<Rightarrow> goerr + (string \<times> string)" where
  "SplitHostPort s =
     (let missing = Inl (Errorf (''address '' @ s @ '': missing port in address''));
          many = Inl (Errorf (''address '' @ s @ '': too many colons in address''));
          port = rev (takeWhile (\<lambda>c. c \<noteq> CHR '':'') (rev s));
          before = take (length s - length port - 1) s in
      if CHR '':'' \<notin> set s then missing
      else if has_prefix s ''['' then
        (let inner = takeWhile (\<lambda>c. c \<noteq> CHR '']'') (drop 1 s);
             rest = drop (Suc (Suc (length inner))) s in
         if CHR '']'' \<notin> set s then Inl (Errorf (''address '' @ s @ '': missing '' @ [CHR 0x27] @ '']'' @ [CHR 0x27] @ '' in address''))
         else if rest = [] then missing
         else if rest = CHR '':'' # port then
           (if CHR ''['' \<in> set inner \<or> CHR ''['' \<in> set port \<or> CHR '']'' \<in> set port
            then Inl (Errorf (''address '' @ s @ '': unexpected bracket in address''))
            else Inr (inner, port))
         else if has_prefix rest '':'' then many else missing)
      else if CHR '':'' \<in> set before then many
      else if CHR ''['' \<in> set s \<or> CHR '']'' \<in> set s
      then Inl (Errorf (''address '' @ s @ '': unexpected bracket in address''))
      else Inr (before, port))"

definition portOnly :: "string \<Rightarrow> goerr + string" where
  "portOnly address =
     (let portParseErr = ''failed to parse port from address ['' @ address @ '']'' in
      case SplitHostPort address of
        Inl e \<Rightarrow> Inl (Errorf (portParseErr @ '': '' @ err_msg e))
      | Inr (host, port) \<Rightarrow>
          (case Atoi port of
             None \<Rightarrow> Inl (Errorf portParseErr)
           | Some n \<Rightarrow>
               (if n < 1 \<or> 65535 < n
                then Inl (Errorf (portParseErr @ '': invalid port ['' @ port @
                       ''], port range is between 1 and 65535''))
                else Inr port)))"

text \<open>\<open>strconv.ParseUint(s, 10, 32)\<close>.\<close>

definition ParseUint32 :: "string \<Rightarrow> int32 option" where
  "ParseUint32 s =
     (if s = [] \<or> \<not> list_all is_digit s \<or> 2 ^ 32 \<le> digits_val s then None else Some (of_nat (digits_val s)))"

record os_user =
  u_Uid :: string
  u_Gid :: string

record credential =
  cred_Uid :: int32
  cred_Gid :: int32

text \<open>What happens to driver processes, in-process servers and client connections.\<close>

datatype svc_event =
    EvServe string
  | EvExec string string "credential option" "string list option"
  | EvSleep nat
  | EvServerStop
  | EvStopNil
  | EvCancel
  | EvClientOpen
  | EvClientClose

text \<open>
  The host: \<open>net.Listen\<close> on an ephemeral port with the listener's \<open>Close\<close>, the in-process
  server (the error that arrives within five seconds, and the address it reports), the start of a
  plugin process, the environment, and the user database. \<open>h_Constructed\<close> says whether the goroutine of the
  in-process server has set its gRPC server by the time of a stop, after the given events: the address is
  handed over before that. A start that blocks forever has no outcome here; theory \<open>Serving\<close> has the interleaving.
\<close>

record host =
  h_Listen :: "goerr + string"
  h_CloseListener :: "goerr option"
  h_Serve :: "string \<Rightarrow> string \<Rightarrow> goerr option \<times> string"
  h_Constructed :: "svc_event list \<Rightarrow> bool"
  h_CmdStart :: "string \<Rightarrow> string \<Rightarrow> credential option \<Rightarrow> string list option \<Rightarrow> goerr option"
  h_Getenv :: "string \<Rightarrow> string"
  h_Current :: "goerr + os_user"
  h_Getuid :: int
  h_LookupId :: "string \<Rightarrow> goerr + os_user"

definition getUserCred :: "host \<Rightarrow> goerr + credential" where
  "getUserCred h =
     (case (case h_Current h of Inr u \<Rightarrow> Inr u | Inl e \<Rightarrow> h_LookupId h (int_text (h_Getuid h))) of
        Inl e \<Rightarrow> Inl e
      | Inr u \<Rightarrow>
          (case ParseUint32 (u_Uid u) of
             None \<Rightarrow> Inl (Errorf (''strconv.ParseUint: parsing '' @ u_Uid u))
           | Some uid \<Rightarrow>
               (case ParseUint32 (u_Gid u) of
                  None \<Rightarrow> Inl (Errorf (''strconv.ParseUint: parsing '' @ u_Gid u))
                | Some gid \<Rightarrow> Inr \<lparr>cred_Uid = uid, cred_Gid = gid\<rparr>)))"

definition whitelistEnvvars :: "(string \<Rightarrow> string) \<Rightarrow> string list \<Rightarrow> string list" where
  "whitelistEnvvars getenv envvars =
     (let wl = getenv ''CATTLE_KONTAINER_ENGINE_WHITELIST_ENVVARS'';
          split = split_on (CHR '','') wl;
          envWhiteList = (if length split = 0 then [''HTTP_PROXY'', ''HTTPS_PROXY'', ''NO_PROXY''] else split) in
      envvars @ map (\<lambda>v. v @ ''='' @ getenv v) (filter (\<lambda>v. getenv v \<noteq> []) envWhiteList))"

section \<open>Running drivers\<close>

record kontainer_driver =
  kd_Name :: string
  kd_BuiltIn :: bool
  kd_ExecutablePath :: string

record RunningDriver =
  rd_Name :: string
  rd_Path :: string
  rd_Builtin :: bool

definition getRunningDriver :: "kontainer_driver \<Rightarrow> cluster_spec \<Rightarrow> goerr + RunningDriver" where
  "getRunningDriver kd spec =
     Inr \<lparr>rd_Name = kd_Name kd, rd_Path = kd_ExecutablePath kd, rd_Builtin = kd_BuiltIn kd\<rparr>"

text \<open>The credentials and the environment of a plugin process, unless in development mode.\<close>

definition jail_settings :: "host \<Rightarrow> goerr + (credential option \<times> string list option)" where
  "jail_settings h =
     (if h_Getenv h ''CATTLE_DEV_MODE'' = [] then
        (case getUserCred h of
           Inl e \<Rightarrow> Inl (Errorf (''get user cred error: '' @ err_msg e))
         | Inr cred \<Rightarrow> Inr (Some cred, Some (whitelistEnvvars (h_Getenv h) [''PATH=/usr/bin''])))
      else Inr (None, None))"

definition Start :: "host \<Rightarrow> RunningDriver \<Rightarrow> (goerr + string) \<times> svc_event list" where
  "Start h r =
     (case h_Listen h of
        Inl e \<Rightarrow> (Inl (Errorf (''failed retrieving port for driver: '' @ err_msg e)), [])
      | Inr listenAddress \<Rightarrow>
          (case h_CloseListener h of
             Some e \<Rightarrow> (Inl (Errorf (''failed to close port before starting driver: '' @ err_msg e)), [])
           | None \<Rightarrow>
               (case portOnly listenAddress of
                  Inl e \<Rightarrow> (Inl e, [])
                | Inr port \<Rightarrow>
                    (if rd_Builtin r then
                       (if rd_Name r \<notin> set builtin_names
                        then (Inl (Errorf (''no driver for name: '' @ rd_Name r)), [])
                        else (case h_Serve h (rd_Name r) listenAddress of
                                (Some e, _) \<Rightarrow> (Inl (Errorf (''error starting driver: '' @ err_msg e)), [])
                              | (None, addr) \<Rightarrow> (Inr addr, [EvServe addr])))
                     else (case jail_settings h of
                             Inl e \<Rightarrow> (Inl e, [])
                           | Inr (cred, ev) \<Rightarrow>
                               (case h_CmdStart h (rd_Path r) port cred ev of
                                  Some e \<Rightarrow> (Inl (Errorf (''error starting driver: '' @ err_msg e)), [])
                                | None \<Rightarrow> (Inr listenAddress, [EvExec (rd_Path r) port cred ev])))))))"

text \<open>
  The stop of an in-process server dereferences its gRPC server, which is nil before the goroutine has set it.
\<close>

definition Stop :: "host \<Rightarrow> RunningDriver \<Rightarrow> svc_event list \<Rightarrow> unit outcome \<times> svc_event list" where
  "Stop h r evs =
     (if rd_Builtin r then
        (if h_Constructed h evs then (Ret (), [EvServerStop])
         else (Panic ''invalid memory address or nil pointer dereference'', [EvStopNil]))
      else (Ret (), [EvCancel]))"

section \<open>The engine\<close>

text \<open>
  The connections the engine opens: \<open>types.NewClient\<close> as in package \<open>cluster\<close>; \<open>FmtFloat\<close>'s text
  function; the store.
\<close>

record ('s, 'd) engine =
  e_host :: host
  e_newClient :: "string \<Rightarrow> string \<Rightarrow> goerr + 'd rpc_driver"
  e_fmt :: "rat \<Rightarrow> string"
  e_store :: "'s persistent_store_ops"

record ('s, 'd) world =
  w_store :: 's
  w_drv :: 'd
  w_trace :: "svc_event list"

definition NewEngineService :: "host \<Rightarrow> (string \<Rightarrow> string \<Rightarrow> goerr + 'd rpc_driver) \<Rightarrow> (rat \<Rightarrow> string)
    \<Rightarrow> 's persistent_store_ops \<Rightarrow> ('s, 'd) engine" where
  "NewEngineService h newClient fmt store =
     \<lparr>e_host = h, e_newClient = newClient, e_fmt = fmt, e_store = store\<rparr>"

text \<open>
  The loop that waits for the driver: \<open>failures\<close> calls have failed so far. The result, the
  provider's state, and the pauses in seconds.
\<close>

function check_up :: "'d rpc_driver \<Rightarrow> nat \<Rightarrow> 'd \<Rightarrow> goerr option \<times> 'd \<times> nat list" where
  "check_up drv failures d =
     (case d_GetCapabilities drv d of
        (Inr _, d') \<Rightarrow> (None, d', [])
      | (Inl e, d') \<Rightarrow>
          (if failures > 5 then (Some (Errorf (''error checking driver is up: '' @ err_msg e)), d', [])
           else (case check_up drv (failures + 1) d' of
                   (r, d'', pauses) \<Rightarrow> (r, d'', (failures + 1) * (failures + 1) # pauses))))"
  by pat_completeness auto
termination by (relation "measure (\<lambda>(drv, failures, d). 7 - failures)") auto

declare check_up.simps [simp del]

text \<open>The driver name of a spec; the type assertion on the generic config may panic.\<close>

definition driver_name :: "cluster_spec \<Rightarrow> (goerr + string) outcome" where
  "driver_name spec =
     (case ImportedConfig spec of
        Some _ \<Rightarrow> Ret (Inr ImportDriverName)
      | None \<Rightarrow>
          (case RancherKubernetesEngineConfig spec of
             Some _ \<Rightarrow> Ret (Inr RancherKubernetesEngineDriverName)
           | None \<Rightarrow>
               (case GenericEngineConfig spec of
                  None \<Rightarrow> Ret (Inl (Errorf ''no driver config found''))
                | Some ms \<Rightarrow>
                    (case map_of ms ''driverName'' of
                       Some (JStr n) \<Rightarrow>
                         (if n = [] then Ret (Inl (Errorf ''no driver name supplied'')) else Ret (Inr n))
                     | _ \<Rightarrow> Panic ''interface conversion: interface is not string''))))"

definition convertCluster :: "('s, 'd) engine \<Rightarrow> string \<Rightarrow> string \<Rightarrow> cluster_spec \<Rightarrow> ('s, 'd) world
    \<Rightarrow> (goerr + ('s, 'd) env \<times> cluster) outcome \<times> ('s, 'd) world" where
  "convertCluster e name listenAddr spec w =
     (case driver_name spec of
        Panic m \<Rightarrow> (Panic m, w)
      | Ret (Inl err) \<Rightarrow> (Ret (Inl err), w)
      | Ret (Inr driverName) \<Rightarrow>
          (let configGetter = \<lparr>cg_driverName = driverName, cg_clusterSpec = spec, cg_clusterName = name\<rparr> in
           case NewCluster (e_newClient e) (e_fmt e) driverName name listenAddr
                  (svc_GetConfig (e_fmt e) configGetter) (e_store e) of
             Inl err \<Rightarrow> (Ret (Inl err), w)
           | Inr (env, cls) \<Rightarrow>
               (case check_up (Driver env) 0 (w_drv w) of
                  (None, d, pauses) \<Rightarrow>
                    (Ret (Inr (env, cls)),
                     w\<lparr>w_drv := d, w_trace := w_trace w @ EvClientOpen # map EvSleep pauses\<rparr>)
                | (Some err, d, pauses) \<Rightarrow>
                    (Ret (Inl err),
                     w\<lparr>w_drv := d, w_trace := w_trace w @ EvClientOpen # map EvSleep pauses @ [EvClientClose]\<rparr>))))"

text \<open>
  The common frame of the engine's methods: start the driver, defer its stop, connect, defer the
  close of the connection, run the body. A panic runs the deferred calls, and a panic of \<open>Stop\<close> is the outcome
  of the method whatever came before.
\<close>

definition deferred_stop :: "host \<Rightarrow> RunningDriver \<Rightarrow> 'a outcome \<times> ('s, 'd) world \<Rightarrow> 'a outcome \<times> ('s, 'd) world" where
  "deferred_stop h r rw =
     (case rw of (res, w) \<Rightarrow>
        (case Stop h r (w_trace w) of
           (Ret _, evs) \<Rightarrow> (res, w\<lparr>w_trace := w_trace w @ evs\<rparr>)
         | (Panic m, evs) \<Rightarrow> (Panic m, w\<lparr>w_trace := w_trace w @ evs\<rparr>)))"

definition with_driver :: "('s, 'd) engine \<Rightarrow> string \<Rightarrow> kontainer_driver \<Rightarrow> cluster_spec
    \<Rightarrow> (('s, 'd) env \<Rightarrow> ('s, 'd) cstate \<Rightarrow> (goerr + 'a) outcome \<times> ('s, 'd) cstate) \<Rightarrow> ('s, 'd) world
    \<Rightarrow> (goerr + 'a) outcome \<times> ('s, 'd) world" where
  "with_driver e name kd spec body w =
     (case getRunningDriver kd spec of
        Inl err \<Rightarrow> (Ret (Inl err), w)
      | Inr r \<Rightarrow>
          (case Start (e_host e) r of
             (Inl err, evs) \<Rightarrow>
               (Ret (Inl (Errorf (''error starting driver: '' @ err_msg err))), w\<lparr>w_trace := w_trace w @ evs\<rparr>)
           | (Inr listenAddr, evs) \<Rightarrow>
               deferred_stop (e_host e) r
                 (case convertCluster e name listenAddr spec (w\<lparr>w_trace := w_trace w @ evs\<rparr>) of
                    (Panic m, w1) \<Rightarrow> (Panic m, w1)
                  | (Ret (Inl err), w1) \<Rightarrow> (Ret (Inl err), w1)
                  | (Ret (Inr (env, cls)), w1) \<Rightarrow>
                      (case body env (cls, w_store w1, w_drv w1) of
                         (res, c', s', d') \<Rightarrow>
                           (res, w1\<lparr>w_store := s', w_drv := d', w_trace := w_trace w1 @ [EvClientClose]\<rparr>)))))"

text \<open>What the methods return from a cluster.\<close>

definition access_data :: "cluster \<Rightarrow> string \<times> string \<times> string" where
  "access_data cls =
     (if has_prefix (Endpoint cls) ''https://'' then Endpoint cls else ''https://'' @ Endpoint cls,
      ServiceAccountToken cls, RootCACert cls)"

definition ret_of :: "(cluster \<Rightarrow> 'a) \<Rightarrow> goerr option \<times> ('s, 'd) cstate \<Rightarrow> (goerr + 'a) outcome \<times> ('s, 'd) cstate" where
  "ret_of f r = (case r of (Some e, st) \<Rightarrow> (Ret (Inl e), st) | (None, st) \<Rightarrow> (Ret (Inr (f (fst st))), st))"

definition returns :: "('e \<Rightarrow> 'c \<Rightarrow> 'r \<times> 'c) \<Rightarrow> 'e \<Rightarrow> 'c \<Rightarrow> 'r outcome \<times> 'c" where
  "returns call env st = (case call env st of (r, st') \<Rightarrow> (Ret r, st'))"

definition svc_Create where
  "svc_Create e name kd spec w = with_driver e name kd spec (\<lambda>env st. ret_of access_data (Create env st)) w"
definition svc_Update where
  "svc_Update e name kd spec w = with_driver e name kd spec (\<lambda>env st. ret_of access_data (Update env st)) w"
definition svc_Remove where
  "svc_Remove e name kd spec force w =
     with_driver e name kd spec (\<lambda>env st. ret_of (\<lambda>_. ()) (Remove env force st)) w"
definition svc_GetDriverCreateOptions where
  "svc_GetDriverCreateOptions e name kd spec w = with_driver e name kd spec (returns GetDriverCreateOptions) w"
definition svc_GetDriverUpdateOptions where
  "svc_GetDriverUpdateOptions e name kd spec w = with_driver e name kd spec (returns GetDriverUpdateOptions) w"
definition svc_GetK8sCapabilities where
  "svc_GetK8sCapabilities e name kd spec w = with_driver e name kd spec (returns GetK8SCapabilities) w"
definition svc_ETCDSave where
  "svc_ETCDSave e name kd spec snap w =
     with_driver e name kd spec (\<lambda>env st. ret_of (\<lambda>_. ()) (ETCDSave env snap st)) w"
definition svc_ETCDRestore where
  "svc_ETCDRestore e name kd spec backup w =
     with_driver e name kd spec (\<lambda>env st. ret_of access_data (ETCDRestore env backup st)) w"
definition svc_ETCDRemoveSnapshot where
  "svc_ETCDRemoveSnapshot e name kd spec snap w =
     with_driver e name kd spec (\<lambda>env st. ret_of (\<lambda>_. ()) (ETCDRemoveSnapshot env snap st)) w"
definition svc_GenerateServiceAccount where
  "svc_GenerateServiceAccount e name kd spec w =
     with_driver e name kd spec (\<lambda>env st. ret_of ServiceAccountToken (GenerateServiceAccount env st)) w"
definition svc_RemoveLegacyServiceAccount where
  "svc_RemoveLegacyServiceAccount e name kd spec w =
     with_driver e name kd spec (\<lambda>env st. ret_of (\<lambda>_. ()) (RemoveLegacyServiceAccount env st)) w"

section \<open>Lemmas\<close>

subsection \<open>Teardown\<close>

fun is_start :: "svc_event \<Rightarrow> bool" where
  "is_start (EvServe a) = True"
| "is_start (EvExec p a c v) = True"
| "is_start _ = False"

fun is_stop :: "svc_event \<Rightarrow> bool" where
  "is_stop EvServerStop = True"
| "is_stop EvCancel = True"
| "is_stop _ = False"

text \<open>
  The trace of one call with outcome \<open>res\<close>: nothing at all, or a start, at most one connection that is opened and
  closed again, with pauses in between, and one stop at the end. The stop has an effect, unless it meets an in-process server
  that is not constructed yet; then the call panics.
\<close>

definition clean_stop :: "host \<Rightarrow> bool \<Rightarrow> 'a outcome \<Rightarrow> svc_event list \<Rightarrow> svc_event \<Rightarrow> bool" where
  "clean_stop h builtin res before b \<longleftrightarrow>
     is_stop b \<or> b = EvStopNil \<and> builtin \<and> \<not> h_Constructed h before \<and> (\<exists>m. res = Panic m)"

lemma Start_events:
  "Start h r = (Inl e, evs) \<Longrightarrow> evs = []"
  "Start h r = (Inr addr, evs) \<Longrightarrow> \<exists>a. evs = [a] \<and> is_start a"
  by (auto simp: Start_def split: sum.splits option.splits if_splits prod.splits)

lemma deferred_stop_event:
  assumes "deferred_stop h r (res0, w0) = (res, w)"
  obtains b where "w_trace w = w_trace w0 @ [b]" "clean_stop h (rd_Builtin r) res (w_trace w0) b"
  using assms by (auto simp: deferred_stop_def Stop_def clean_stop_def split: if_splits)

lemma convertCluster_events:
  assumes "convertCluster e name addr spec w = (res, w')"
  shows "(\<exists>ps. w_trace w' = w_trace w @ EvClientOpen # map EvSleep ps \<and> (\<exists>x. res = Ret (Inr x))) \<or>
     (\<not> (\<exists>x. res = Ret (Inr x)) \<and>
       (w_trace w' = w_trace w \<or> (\<exists>ps. w_trace w' = w_trace w @ EvClientOpen # map EvSleep ps @ [EvClientClose])))"
  using assms
  by (auto simp: convertCluster_def Let_def split: outcome.splits sum.splits prod.splits option.splits)

lemma with_driver_events:
  assumes "with_driver e name kd spec body w = (res, w')"
  shows "w_trace w' = w_trace w \<or>
    (\<exists>a b mid. w_trace w' = w_trace w @ [a] @ mid @ [b] \<and> is_start a \<and>
       clean_stop (e_host e) (kd_BuiltIn kd) res (w_trace w @ [a] @ mid) b \<and>
       (mid = [] \<or> (\<exists>pauses. mid = EvClientOpen # map EvSleep pauses @ [EvClientClose])))"
proof -
  obtain r where r: "getRunningDriver kd spec = Inr r" "rd_Builtin r = kd_BuiltIn kd" by (simp add: getRunningDriver_def)
  obtain st evs where st: "Start (e_host e) r = (st, evs)" by force
  show ?thesis
  proof (cases st)
    case (Inl err)
    with assms r st Start_events(1) show ?thesis by (auto simp: with_driver_def)
  next
    case (Inr addr)
    then obtain a where a: "evs = [a]" "is_start a" using Start_events(2) st by blast
    let ?w0 = "w\<lparr>w_trace := w_trace w @ evs\<rparr>"
    obtain x w1 where c: "convertCluster e name addr spec ?w0 = (x, w1)" by force
    obtain res0 w0 where s: "deferred_stop (e_host e) r (res0, w0) = (res, w')"
      and w0: "w_trace w0 = w_trace w1 @ (if \<exists>y. x = Ret (Inr y) then [EvClientClose] else [])"
      using assms r(1) st Inr c
      by (cases x) (auto simp: with_driver_def split: sum.splits prod.splits)
    obtain b where b: "w_trace w' = w_trace w0 @ [b]" "clean_stop (e_host e) (kd_BuiltIn kd) res (w_trace w0) b"
      by (rule deferred_stop_event[OF s, unfolded r(2)])
    obtain mid where mid: "w_trace w0 = w_trace w @ [a] @ mid"
      "mid = [] \<or> (\<exists>pauses. mid = EvClientOpen # map EvSleep pauses @ [EvClientClose])"
      using convertCluster_events [OF c] w0 a(1) by (auto split: if_splits) blast
    with a(2) b show ?thesis by (intro disjI2 exI[of _ a] exI[of _ b] exI[of _ mid]) auto
  qed
qed

subsection \<open>Waiting for the driver\<close>

definition cap_step :: "'d rpc_driver \<Rightarrow> 'd \<Rightarrow> 'd" where
  "cap_step drv d = snd (d_GetCapabilities drv d)"

text \<open>Whether the call after \<open>k\<close> earlier ones succeeds.\<close>

definition answers :: "'d rpc_driver \<Rightarrow> 'd \<Rightarrow> nat \<Rightarrow> bool" where
  "answers drv d k \<longleftrightarrow> \<not> isl (fst (d_GetCapabilities drv ((cap_step drv ^^ k) d)))"

lemma answers_step: "answers drv (cap_step drv d) k = answers drv d (Suc k)"
  by (simp add: answers_def funpow_swap1)

lemma ex_le_shift: "(\<exists>k \<le> Suc n. P k) \<longleftrightarrow> P 0 \<or> (\<exists>k \<le> n. P (Suc k))"
proof
  assume "\<exists>k \<le> Suc n. P k"
  then obtain k where "k \<le> Suc n" "P k" by blast
  then show "P 0 \<or> (\<exists>k \<le> n. P (Suc k))" by (cases k) auto
qed auto

lemma check_up_general:
  "f \<le> 6 \<Longrightarrow> check_up drv f d = (r, d', ps) \<Longrightarrow>
     (r = None \<longleftrightarrow> (\<exists>k \<le> 6 - f. answers drv d k)) \<and>
     (\<exists>k \<le> 6 - f. ps = map (\<lambda>i. (f + i) * (f + i)) [1..<Suc k] \<and> (r \<noteq> None \<longrightarrow> k = 6 - f))"
proof (induction drv f d arbitrary: r d' ps rule: check_up.induct)
  case (1 drv f d)
  obtain x d1 where c: "d_GetCapabilities drv d = (x, d1)" by force
  have d1: "d1 = cap_step drv d" using c by (simp add: cap_step_def)
  show ?case
  proof (cases x)
    case (Inr caps)
    then have "answers drv d 0" using c by (simp add: answers_def)
    moreover have "r = None" "ps = []" using "1.prems"(2) c Inr by (simp_all add: check_up.simps [of drv f d])
    ultimately show ?thesis by auto
  next
    case (Inl e)
    then have no0: "\<not> answers drv d 0" using c by (simp add: answers_def)
    show ?thesis
    proof (cases "f > 5")
      case True
      then have "f = 6" using "1.prems"(1) by simp
      moreover have "r \<noteq> None" "ps = []"
        using "1.prems"(2) c Inl True by (auto simp: check_up.simps [of drv f d])
      ultimately show ?thesis using no0 by simp
    next
      case False
      obtain ps1 where rec: "check_up drv (f + 1) d1 = (r, d', ps1)" and ps: "ps = (f + 1) * (f + 1) # ps1"
        using "1.prems"(2) c Inl False by (auto simp: check_up.simps [of drv f d] split: prod.splits)
      have le: "f + 1 \<le> 6" and e: "6 - (f + 1) = 5 - f" using False by simp_all
      from "1.IH" [OF c [symmetric] Inl False le rec]
      have ih: "(r = None \<longleftrightarrow> (\<exists>k \<le> 5 - f. answers drv d1 k)) \<and>
          (\<exists>k \<le> 5 - f. ps1 = map (\<lambda>i. (f + 1 + i) * (f + 1 + i)) [1..<Suc k] \<and> (r \<noteq> None \<longrightarrow> k = 5 - f))"
        unfolding e .
      have "(\<exists>k \<le> 6 - f. answers drv d k) \<longleftrightarrow> (\<exists>k \<le> 5 - f. answers drv d (Suc k))"
      proof -
        have "6 - f = Suc (5 - f)" using False by simp
        with no0 ex_le_shift [of "5 - f" "answers drv d"] show ?thesis by simp
      qed
      moreover obtain k where k: "k \<le> 5 - f" "ps1 = map (\<lambda>i. (f + 1 + i) * (f + 1 + i)) [1..<Suc k]"
        "r \<noteq> None \<longrightarrow> k = 5 - f" using ih by blast
      moreover have "ps = map (\<lambda>i. (f + i) * (f + i)) [1..<Suc (Suc k)]"
        unfolding ps k(2) by (simp add: upt_conv_Cons map_Suc_upt [symmetric] del: upt_Suc)
      ultimately show ?thesis
        using ih False unfolding d1 answers_step by (intro conjI exI [of _ "Suc k"]) auto
    qed
  qed
qed

subsection \<open>Ports\<close>

lemma digits_no_special:
  "c \<in> set (nat_text n) \<Longrightarrow> c \<noteq> CHR '':'' \<and> c \<noteq> CHR ''['' \<and> c \<noteq> CHR '']''"
  using nat_text_digits [of n] by (auto simp: is_digit_def)

lemma takeWhile_rev_port:
  "CHR '':'' \<notin> set p \<Longrightarrow> takeWhile (\<lambda>c. c \<noteq> CHR '':'') (rev (h @ CHR '':'' # p)) = rev p"
  by (simp, subst takeWhile_append2) auto

lemma SplitHostPort_local: "SplitHostPort (''127.0.0.1:'' @ nat_text p) = Inr (''127.0.0.1'', nat_text p)"
proof -
  have no: "CHR '':'' \<notin> set (nat_text p)" "CHR ''['' \<notin> set (nat_text p)" "CHR '']'' \<notin> set (nat_text p)"
    using digits_no_special [of _ p] by blast+
  have "takeWhile (\<lambda>c. c \<noteq> CHR '':'') (rev (''127.0.0.1:'' @ nat_text p)) = rev (nat_text p)"
    using takeWhile_rev_port [of "nat_text p" "''127.0.0.1''"] no by simp
  with no show ?thesis by (simp add: SplitHostPort_def Let_def has_prefix_def)
qed

section \<open>Properties\<close>

text \<open>
  C8. Every engine call that starts a driver tries to stop it again, whatever fails and even if the call panics: its events are
  none (the driver did not start), or one start, at most one connection that is opened and closed again, and one stop,
  which comes last. The stop succeeds, except for an in-process driver whose server is not constructed at that
  moment: then the stop, and with it the call, panics.
\<close>

theorem engine_call_cleans_up:
  assumes "with_driver e name kd spec body w = (res, w')"
  shows "w_trace w' = w_trace w \<or>
    (\<exists>a b mid. w_trace w' = w_trace w @ [a] @ mid @ [b] \<and> is_start a \<and>
       (mid = [] \<or> (\<exists>pauses. mid = EvClientOpen # map EvSleep pauses @ [EvClientClose])) \<and>
       (is_stop b \<or> b = EvStopNil \<and> kd_BuiltIn kd \<and> \<not> h_Constructed (e_host e) (w_trace w @ [a] @ mid) \<and>
          (\<exists>m. res = Panic m)))"
  using with_driver_events [OF assms] unfolding clean_stop_def by metis

definition demo_host :: host where
  "demo_host = \<lparr>h_Listen = Inr ''127.0.0.1:4711'', h_CloseListener = None, h_Serve = (\<lambda>n a. (None, a)),
     h_Constructed = (\<lambda>evs. EvClientOpen \<in> set evs),
     h_CmdStart = (\<lambda>p q c v. None), h_Getenv = (\<lambda>v. if v = ''HTTP_PROXY'' then ''http://proxy'' else []),
     h_Current = Inr \<lparr>u_Uid = ''1000'', u_Gid = ''100''\<rparr>, h_Getuid = 1000,
     h_LookupId = (\<lambda>_. Inl (Errorf ''unknown userid''))\<rparr>"

text \<open>A plugin driver that answers, with a body that panics: connection and process are still closed.\<close>

definition demo_svc :: "(unit, unit) engine" where
  "demo_svc = \<lparr>e_host = demo_host, e_newClient = \<lambda>_ _. Inr (grpc_client good_conn stub_driver), e_fmt = \<lambda>_. [],
     e_store = \<lparr>ps_GetStatus = \<lambda>_ _. Inr [], ps_Get = \<lambda>_ _. Inl (Errorf ''none''), ps_Remove = \<lambda>_ s. (None, s),
       ps_Store = \<lambda>_ s. (None, s), ps_PersistStatus = \<lambda>_ _ s. (None, s)\<rparr>\<rparr>"

definition demo_panic :: "(goerr + unit) outcome \<times> (unit, unit) world" where
  "demo_panic = with_driver demo_svc ''c1'' \<lparr>kd_Name = ''x'', kd_BuiltIn = False, kd_ExecutablePath = ''/drv''\<rparr>
     \<lparr>ImportedConfig = Some (JObj []), RancherKubernetesEngineConfig = None, GenericEngineConfig = None, DisplayName = []\<rparr>
     (\<lambda>env st. (Panic ''boom'', st)) \<lparr>w_store = (), w_drv = (), w_trace = []\<rparr>"

theorem engine_call_cleans_up_witness:
  "w_trace (snd demo_panic) = [] \<or>
   (\<exists>a b mid. w_trace (snd demo_panic) = [a] @ mid @ [b] \<and> is_start a \<and> is_stop b \<and>
      (mid = [] \<or> (\<exists>pauses. mid = EvClientOpen # map EvSleep pauses @ [EvClientClose])))"
proof -
  obtain res w' where r: "demo_panic = (res, w')" by force
  from engine_call_cleans_up [OF r[unfolded demo_panic_def]] show ?thesis unfolding r by auto
qed

text \<open>
  C30. Waiting for a driver always ends: the connection is up if and only if one of the first
  seven capability calls succeeds, the pauses are 1, 4, 9, ... seconds, and when it gives up it has
  waited exactly 1 + 4 + 9 + 16 + 25 + 36 = 91 seconds.
\<close>

theorem check_up_retries:
  assumes "check_up drv 0 d = (r, d', pauses)"
  shows "(r = None \<longleftrightarrow> (\<exists>k \<le> 6. answers drv d k)) \<and>
     (\<exists>k \<le> 6. pauses = map (\<lambda>i. i * i) [1..<Suc k]) \<and> (r \<noteq> None \<longrightarrow> sum_list pauses = 91)"
proof -
  obtain k where k: "r = None \<longleftrightarrow> (\<exists>k \<le> 6. answers drv d k)" "k \<le> 6" "pauses = map (\<lambda>i. i * i) [1..<Suc k]"
    "r \<noteq> None \<longrightarrow> k = 6"
    using check_up_general [OF _ assms] by (auto simp del: upt_Suc)
  have "sum_list (map (\<lambda>i. i * i) [1..<Suc 6]) = (91::nat)" by (simp add: upt_rec)
  with k(3,4) have "r \<noteq> None \<longrightarrow> sum_list pauses = 91" by metis
  with k(1-3) show ?thesis by blast
qed

text \<open>A driver whose third capability call succeeds.\<close>

definition slow_driver :: "nat rpc_driver" where
  "slow_driver = (grpc_client good_conn stub_driver)
     \<lparr>d_GetCapabilities := \<lambda>d. (if d < 2 then Inl (Errorf ''refused'') else Inr Map.empty, d + 1)\<rparr>"

theorem check_up_retries_witness: "fst (check_up slow_driver 0 0) = None"
proof -
  obtain r d' ps where c: "check_up slow_driver 0 0 = (r, d', ps)" by (rule prod_cases3)
  have "(2::nat) \<le> 6 \<and> answers slow_driver 0 2"
    by (simp add: answers_def cap_step_def numeral_2_eq_2 slow_driver_def)
  with check_up_retries [OF c] have "r = None" by blast
  with c show ?thesis by simp
qed

text \<open>
  The port handed to a plugin: for the listener's own address \<open>127.0.0.1:<p>\<close> it is the decimal
  text of \<open>p\<close>, for every port from 1 to 65535, and a larger number is refused.
\<close>

theorem portOnly_listen_address:
  assumes "p < 2 ^ 63"
  shows "portOnly (ListenAddress @ nat_text p) = (if 1 \<le> p \<and> p \<le> 65535 then Inr (nat_text p)
     else Inl (Errorf (''failed to parse port from address [127.0.0.1:'' @ nat_text p @
            '']: invalid port ['' @ nat_text p @ ''], port range is between 1 and 65535'')))"
  unfolding portOnly_def ListenAddress_def SplitHostPort_local
  by (simp add: Atoi_nat_text [OF assms])

theorem portOnly_listen_address_witness: "portOnly (ListenAddress @ nat_text 4711) = Inr (nat_text 4711)"
  by (subst portOnly_listen_address) simp_all

text \<open>
  With \<open>CATTLE_KONTAINER_ENGINE_WHITELIST_ENVVARS\<close> unset, no variable is passed on: the list
  that \<open>strings.Split\<close> gives is never empty, so the intended default (the proxy variables) is
  not used, whatever the environment holds.
\<close>

theorem whitelist_default_unused:
  assumes "getenv ''CATTLE_KONTAINER_ENGINE_WHITELIST_ENVVARS'' = []" "getenv [] = []"
  shows "whitelistEnvvars getenv envvars = envvars"
  using assms by (simp add: whitelistEnvvars_def Let_def)

theorem whitelist_default_unused_witness:
  "whitelistEnvvars (h_Getenv demo_host) [''PATH=/usr/bin''] = [''PATH=/usr/bin'']"
  by (rule whitelist_default_unused) (simp_all add: demo_host_def)

text \<open>
  The options of every driver carry the cluster's name and a display name, which is the name
  when the spec has none; these two win over entries of the same name in the config. The RKE driver
  gets its whole config as one string.
\<close>

theorem config_names_cluster:
  assumes "svc_GetConfig fmtf c = Inr opts"
  shows "StringOptions opts ''name'' = Some (cg_clusterName c) \<and>
     StringOptions opts ''displayName'' =
       Some (if DisplayName (cg_clusterSpec c) = [] then cg_clusterName c else DisplayName (cg_clusterSpec c)) \<and>
     (cg_driverName c = RancherKubernetesEngineDriverName \<longrightarrow>
        (\<forall>cfg. RancherKubernetesEngineConfig (cg_clusterSpec c) = Some (Inr cfg) \<longrightarrow>
           StringOptions opts ''rkeConfig'' = Some cfg))"
  using assms
  by (auto simp: svc_GetConfig_def Let_def put_string_def ImportDriverName_def RancherKubernetesEngineDriverName_def
      split: sum.splits if_splits)

theorem config_names_cluster_witness:
  "\<exists>opts. svc_GetConfig (\<lambda>_. []) \<lparr>cg_driverName = ''googlekubernetesengine'',
       cg_clusterSpec = \<lparr>ImportedConfig = None, RancherKubernetesEngineConfig = None,
         GenericEngineConfig = Some [(''driverName'', JStr ''googlekubernetesengine''), (''name'', JStr ''x'')], DisplayName = []\<rparr>,
       cg_clusterName = ''c1''\<rparr> = Inr opts \<and> StringOptions opts ''name'' = Some ''c1''"
proof -
  let ?c = "\<lparr>cg_driverName = ''googlekubernetesengine'',
       cg_clusterSpec = \<lparr>ImportedConfig = None, RancherKubernetesEngineConfig = None,
         GenericEngineConfig = Some [(''driverName'', JStr ''googlekubernetesengine''), (''name'', JStr ''x'')], DisplayName = []\<rparr>,
       cg_clusterName = ''c1''\<rparr>"
  have "\<exists>opts. svc_GetConfig (\<lambda>_. []) ?c = Inr opts"
    by (simp add: svc_GetConfig_def toMap_def ptr_json_def ImportDriverName_def RancherKubernetesEngineDriverName_def Let_def)
  then obtain opts where o: "svc_GetConfig (\<lambda>_. []) ?c = Inr opts" ..
  from config_names_cluster [OF o] o show ?thesis by auto
qed

end
