(* ===== verification/Serving.thy ===== *)
theory Serving
  imports Service Logstream
begin

text \<open>
  Starting the server of a driver in the process (\<open>types/rpc_server.go\<close>, and the part of
  \<open>RunningDriver.Start\<close> that waits for it). The goroutine of \<open>Serve\<close> and its starter meet on two unbuffered
  channels, one for errors and one for the address: a send and its receive are one step. \<open>sstep\<close> is the
  step relation; its parameters are the outcome of \<open>net.Listen\<close> and whether the goroutine runs \<open>Serve\<close> or
  \<open>ServeOrDie\<close>, which exits the process instead of sending an error. The timeout of five seconds may fire
  at any moment before an error was received. Lemmas: an invariant by rule induction, a measure that
  bounds every run, and what the states are in which nothing can happen any more.
\<close>

section \<open>The two processes\<close>

text \<open>The starter: in the select, waiting for the address, or done. \<open>Stop\<close> is called once, after the start.\<close>

datatype start_pc =
    Selecting
  | AwaitAddr
  | StartErr goerr
  | Exited goerr
  | Started string
  | StopPanic
  | StopDone

datatype serve_pc =
    AtListen
  | AtError goerr
  | AtSendAddr string
  | AtNewServer
  | AtServe
  | InServe
  | ServeDone

text \<open>The field \<open>grpcServer\<close>: nil, made, or stopped.\<close>

datatype grpc_field = NilServer | LiveServer | StoppedServer

record GrpcServer =
  sv_starter :: start_pc
  sv_serve :: serve_pc
  grpcServer :: grpc_field

definition NewServer :: "bool \<Rightarrow> GrpcServer" where
  "NewServer die = \<lparr>sv_starter = (if die then AwaitAddr else Selecting), sv_serve = AtListen, grpcServer = NilServer\<rparr>"

definition ErrServerStopped :: goerr where
  "ErrServerStopped = Errorf ''grpc: the server has been stopped''"

text \<open>
  \<open>serve_loop\<close>: the library's \<open>Serve\<close> refuses a server that was stopped before. \<open>serve_end\<close>: it returns nil
  after a stop, and an error otherwise. \<open>stop\<close>: the call on a nil server panics.
\<close>

inductive sstep :: "goerr + string \<Rightarrow> bool \<Rightarrow> GrpcServer \<Rightarrow> GrpcServer \<Rightarrow> bool"
  for listen :: "goerr + string" and die :: bool where
  listen_err: "sv_serve s = AtListen \<Longrightarrow> listen = Inl e \<Longrightarrow> sstep listen die s (s\<lparr>sv_serve := AtError e\<rparr>)"
| listen_ok: "sv_serve s = AtListen \<Longrightarrow> listen = Inr a \<Longrightarrow> sstep listen die s (s\<lparr>sv_serve := AtSendAddr a\<rparr>)"
| fatal: "die \<Longrightarrow> sv_serve s = AtError e \<Longrightarrow> sstep listen die s (s\<lparr>sv_starter := Exited e, sv_serve := ServeDone\<rparr>)"
| send_err: "\<not> die \<Longrightarrow> sv_starter s = Selecting \<Longrightarrow> sv_serve s = AtError e \<Longrightarrow>
    sstep listen die s (s\<lparr>sv_starter := StartErr e, sv_serve := ServeDone\<rparr>)"
| timeout: "sv_starter s = Selecting \<Longrightarrow> sstep listen die s (s\<lparr>sv_starter := AwaitAddr\<rparr>)"
| send_addr: "sv_starter s = AwaitAddr \<Longrightarrow> sv_serve s = AtSendAddr a \<Longrightarrow>
    sstep listen die s (s\<lparr>sv_starter := Started a, sv_serve := AtNewServer\<rparr>)"
| new_server: "sv_serve s = AtNewServer \<Longrightarrow> sstep listen die s (s\<lparr>sv_serve := AtServe, grpcServer := LiveServer\<rparr>)"
| serve_loop: "sv_serve s = AtServe \<Longrightarrow>
    sstep listen die s (s\<lparr>sv_serve := if grpcServer s = StoppedServer then AtError ErrServerStopped else InServe\<rparr>)"
| serve_end: "sv_serve s = InServe \<Longrightarrow>
    sstep listen die s (s\<lparr>sv_serve := if grpcServer s = StoppedServer then ServeDone else AtError e\<rparr>)"
| stop: "\<not> die \<Longrightarrow> sv_starter s = Started a \<Longrightarrow>
    sstep listen die s (if grpcServer s = NilServer then s\<lparr>sv_starter := StopPanic\<rparr>
      else s\<lparr>sv_starter := StopDone, grpcServer := StoppedServer\<rparr>)"

inductive sreach :: "goerr + string \<Rightarrow> bool \<Rightarrow> GrpcServer \<Rightarrow> bool"
  for listen :: "goerr + string" and die :: bool where
  start: "sreach listen die (NewServer die)"
| step: "sreach listen die s \<Longrightarrow> sstep listen die s s' \<Longrightarrow> sreach listen die s'"

inductive_simps sstep_iff: "sstep listen die s s'"

text \<open>\<open>GetCtx\<close>: the logger that a handler's context gets, as the stream's id: the one named by the metadata of the request, if it is
  registered.\<close>

definition GetCtx :: "(string \<rightharpoonup> string list) option \<Rightarrow> registry \<Rightarrow> string option" where
  "GetCtx md r =
     (case md of
        None \<Rightarrow> None
      | Some m \<Rightarrow> (case m ''log-id'' of Some (lid # _) \<Rightarrow> GetLogStream lid r | _ \<Rightarrow> None))"

section \<open>The invariant\<close>

fun returned :: "start_pc \<Rightarrow> bool" where
  "returned Selecting = False"
| "returned AwaitAddr = False"
| "returned _ = True"

text \<open>The server's program points before the address was handed over.\<close>

fun before_addr :: "goerr + string \<Rightarrow> serve_pc \<Rightarrow> bool" where
  "before_addr listen AtListen = True"
| "before_addr listen (AtError e) = (listen = Inl e)"
| "before_addr listen (AtSendAddr a) = (listen = Inr a)"
| "before_addr listen _ = False"

fun after_addr :: "grpc_field \<Rightarrow> serve_pc \<Rightarrow> bool" where
  "after_addr NilServer pc = (pc = AtNewServer)"
| "after_addr _ pc = (pc \<in> {AtServe, InServe, ServeDone} \<or> (\<exists>e. pc = AtError e))"

definition sinv :: "goerr + string \<Rightarrow> bool \<Rightarrow> GrpcServer \<Rightarrow> bool" where
  "sinv listen die s \<longleftrightarrow>
     (case sv_starter s of
        Selecting \<Rightarrow> \<not> die \<and> before_addr listen (sv_serve s) \<and> grpcServer s = NilServer
      | AwaitAddr \<Rightarrow> before_addr listen (sv_serve s) \<and> grpcServer s = NilServer
      | StartErr e \<Rightarrow> \<not> die \<and> listen = Inl e \<and> sv_serve s = ServeDone \<and> grpcServer s = NilServer
      | Exited e \<Rightarrow> die \<and> sv_serve s = ServeDone
      | Started a \<Rightarrow> listen = Inr a \<and> after_addr (grpcServer s) (sv_serve s)
      | StopPanic \<Rightarrow> \<not> die \<and> (\<exists>a. listen = Inr a) \<and> grpcServer s \<noteq> StoppedServer \<and> after_addr (grpcServer s) (sv_serve s)
      | StopDone \<Rightarrow> \<not> die \<and> (\<exists>a. listen = Inr a) \<and> grpcServer s = StoppedServer \<and> after_addr StoppedServer (sv_serve s))"

lemma sinv_step:
  assumes "sstep listen die s s'" "sinv listen die s"
  shows "sinv listen die s'"
  using assms by (cases rule: sstep.cases; cases "grpcServer s") (auto simp: sinv_def split: start_pc.splits)

lemma sinv_reach: "sreach listen die s \<Longrightarrow> sinv listen die s"
proof (induction rule: sreach.induct)
  case start
  show ?case by (simp add: sinv_def NewServer_def)
next
  case (step s s')
  then show ?case using sinv_step by blast
qed

section \<open>Termination\<close>

text \<open>Every step moves one of the two processes forward.\<close>

fun start_rank :: "start_pc \<Rightarrow> nat" where
  "start_rank Selecting = 3"
| "start_rank AwaitAddr = 2"
| "start_rank (Started a) = 1"
| "start_rank _ = 0"

fun serve_rank :: "serve_pc \<Rightarrow> nat" where
  "serve_rank AtListen = 6"
| "serve_rank (AtSendAddr a) = 5"
| "serve_rank AtNewServer = 4"
| "serve_rank AtServe = 3"
| "serve_rank InServe = 2"
| "serve_rank (AtError e) = 1"
| "serve_rank ServeDone = 0"

definition rank :: "GrpcServer \<Rightarrow> nat" where
  "rank s = start_rank (sv_starter s) + serve_rank (sv_serve s)"

lemma sstep_rank: "sstep listen die s s' \<Longrightarrow> sinv listen die s \<Longrightarrow> rank s' < rank s"
  by (induction rule: sstep.induct) (auto simp: rank_def sinv_def split: start_pc.splits)

lemma run_bounded:
  "(sstep listen die ^^ n) s s' \<Longrightarrow> sreach listen die s \<Longrightarrow> n + rank s' \<le> rank s \<and> sreach listen die s'"
proof (induction n arbitrary: s')
  case (Suc n)
  then obtain t where t: "(sstep listen die ^^ n) s t" "sstep listen die t s'" by auto
  from Suc.IH[OF t(1) Suc.prems(2)] have "n + rank t \<le> rank s" "sreach listen die t" by auto
  with sstep_rank[OF t(2) sinv_reach] sreach.step[OF _ t(2)] show ?case by fastforce
qed simp

lemma rank_NewServer: "rank (NewServer False) = 9"
  by (simp add: rank_def NewServer_def)

section \<open>Where nothing can happen\<close>

lemma stuck_before_return:
  assumes "sinv listen die s" "\<not> returned (sv_starter s)"
  shows "(\<nexists>s'. sstep listen die s s') \<longleftrightarrow> \<not> die \<and> sv_starter s = AwaitAddr \<and> (\<exists>e. sv_serve s = AtError e)"
proof (cases "sv_starter s")
  case Selecting
  then show ?thesis using sstep.timeout[of s listen die] by auto
next
  case AwaitAddr
  then have b: "before_addr listen (sv_serve s)" using assms(1) by (simp add: sinv_def)
  show ?thesis
  proof (cases "sv_serve s")
    case AtListen
    then show ?thesis using sstep.listen_err[of s listen _ die] sstep.listen_ok[of s listen _ die] by (cases listen) auto
  next
    case (AtError e)
    then show ?thesis using sstep.fatal[of die s e listen] AwaitAddr by (cases die) (auto elim: sstep.cases)
  next
    case (AtSendAddr a)
    then show ?thesis using sstep.send_addr[of s a listen die] AwaitAddr by auto
  qed (use b in simp_all)
qed (use assms(2) in simp_all)

section \<open>Properties\<close>

text \<open>C13. A built-in driver that can listen is started: every run of the server and its starter has at most nine steps,
  \<open>Start\<close> never fails and never answers an address other than the one listened on, and when nothing more can
  happen it has returned.\<close>

theorem serve_start_returns:
  assumes "(sstep (Inr a) False ^^ n) (NewServer False) s"
  shows "n \<le> 9 \<and> sv_starter s \<in> {Selecting, AwaitAddr, Started a, StopPanic, StopDone} \<and>
     ((\<nexists>s'. sstep (Inr a) False s s') \<longrightarrow> returned (sv_starter s))"
proof -
  have r: "n + rank s \<le> 9" "sreach (Inr a) False s"
    using run_bounded[OF assms sreach.start] by (simp_all add: rank_NewServer)
  have i: "sinv (Inr a) False s" by (rule sinv_reach[OF r(2)])
  have "sv_starter s \<in> {Selecting, AwaitAddr, Started a, StopPanic, StopDone}"
    using i by (auto simp: sinv_def split: start_pc.splits)
  moreover have "\<not> (sv_starter s = AwaitAddr \<and> (\<exists>e. sv_serve s = AtError e))"
    using i by (auto simp: sinv_def)
  ultimately show ?thesis using r(1) stuck_before_return[OF i] by auto
qed

text \<open>The runs up to the point where the starter waits and the server has listened.\<close>

abbreviation waiting :: "serve_pc \<Rightarrow> GrpcServer" where
  "waiting pc \<equiv> \<lparr>sv_starter = AwaitAddr, sv_serve = pc, grpcServer = NilServer\<rparr>"

lemma waiting_steps:
  "sstep listen False (NewServer False) (waiting AtListen)"
  "sstep listen False (waiting AtListen) (waiting (case listen of Inl e \<Rightarrow> AtError e | Inr a \<Rightarrow> AtSendAddr a))"
  "sstep listen False (waiting (AtSendAddr a)) \<lparr>sv_starter = Started a, sv_serve = AtNewServer, grpcServer = NilServer\<rparr>"
  by (simp_all add: sstep_iff NewServer_def split: sum.split)

lemma waiting_reach: "sreach listen False (waiting (case listen of Inl e \<Rightarrow> AtError e | Inr a \<Rightarrow> AtSendAddr a))"
  by (rule sreach.step[OF sreach.step[OF sreach.start] waiting_steps(2)]) (rule waiting_steps(1))

lemma started_reach: "sreach (Inr a) False \<lparr>sv_starter = Started a, sv_serve = AtNewServer, grpcServer = NilServer\<rparr>"
  by (rule sreach.step[OF _ waiting_steps(3)]) (use waiting_reach[of "Inr a"] in simp)

theorem serve_start_returns_witness:
  "\<exists>s. (sstep (Inr ''127.0.0.1:4711'') False ^^ 3) (NewServer False) s \<and>
     sv_starter s \<in> {Selecting, AwaitAddr, Started ''127.0.0.1:4711'', StopPanic, StopDone}"
proof -
  let ?R = "sstep (Inr ''127.0.0.1:4711'') False"
  let ?s = "\<lparr>sv_starter = Started ''127.0.0.1:4711'', sv_serve = AtNewServer, grpcServer = NilServer\<rparr>"
  have "?R (NewServer False) (waiting AtListen)" "?R (waiting AtListen) (waiting (AtSendAddr ''127.0.0.1:4711''))"
    "?R (waiting (AtSendAddr ''127.0.0.1:4711'')) ?s"
    using waiting_steps[of "Inr ''127.0.0.1:4711''"] by simp_all
  then have "(?R ^^ Suc (Suc (Suc 0))) (NewServer False) ?s" by auto
  then have "(?R ^^ 3) (NewServer False) ?s" by (simp only: numeral_3_eq_3)
  with serve_start_returns[OF this] show ?thesis by blast
qed

text \<open>C23. The one deadlock of starting a built-in driver: \<open>Start\<close> waits forever exactly when the server could not
  listen and the starter had stopped waiting for errors. It can happen for every error, when it comes later than
  the five seconds; with \<open>ServeOrDie\<close> there is none.\<close>

theorem serve_start_deadlock:
  "(sreach listen die s \<and> \<not> returned (sv_starter s) \<and> (\<nexists>s'. sstep listen die s s')) \<longleftrightarrow>
     \<not> die \<and> (\<exists>e. listen = Inl e \<and> s = \<lparr>sv_starter = AwaitAddr, sv_serve = AtError e, grpcServer = NilServer\<rparr>)"
proof
  assume l: "sreach listen die s \<and> \<not> returned (sv_starter s) \<and> (\<nexists>s'. sstep listen die s s')"
  then have i: "sinv listen die s" using sinv_reach by blast
  from l stuck_before_return[OF i] obtain e where "\<not> die" "sv_starter s = AwaitAddr" "sv_serve s = AtError e" by auto
  with i show "\<not> die \<and> (\<exists>e. listen = Inl e \<and> s = \<lparr>sv_starter = AwaitAddr, sv_serve = AtError e, grpcServer = NilServer\<rparr>)"
    by (auto simp: sinv_def intro!: GrpcServer.equality)
next
  assume r: "\<not> die \<and> (\<exists>e. listen = Inl e \<and> s = \<lparr>sv_starter = AwaitAddr, sv_serve = AtError e, grpcServer = NilServer\<rparr>)"
  then obtain e where e: "\<not> die" "listen = Inl e" "s = waiting (AtError e)" by blast
  have s: "sreach listen die s" using waiting_reach[of "Inl e"] e by simp
  with stuck_before_return[OF sinv_reach[OF s]] e
  show "sreach listen die s \<and> \<not> returned (sv_starter s) \<and> (\<nexists>s'. sstep listen die s s')" by simp
qed

text \<open>C24. \<open>Stop\<close> races with the server: the address is handed over before the server is made, so a \<open>Stop\<close> that
  follows at once calls a nil server and panics. A \<open>Stop\<close> panics in no other state.\<close>

theorem stop_panics_iff:
  "(\<exists>s. sreach (Inr a) False s \<and> sv_starter s = StopPanic) \<and>
   (sreach listen False s \<and> sv_starter s = Started a \<longrightarrow>
      (\<exists>s'. sstep listen False s s' \<and> sv_starter s' = StopPanic) = (sv_serve s = AtNewServer))"
proof (intro conjI impI)
  have "sstep (Inr a) False \<lparr>sv_starter = Started a, sv_serve = AtNewServer, grpcServer = NilServer\<rparr>
      \<lparr>sv_starter = StopPanic, sv_serve = AtNewServer, grpcServer = NilServer\<rparr>"
    by (simp add: sstep_iff)
  from sreach.step[OF started_reach this] show "\<exists>s. sreach (Inr a) False s \<and> sv_starter s = StopPanic" by fastforce
next
  assume l: "sreach listen False s \<and> sv_starter s = Started a"
  then have "after_addr (grpcServer s) (sv_serve s)" using sinv_reach[of listen False s] by (simp add: sinv_def)
  then have n: "sv_serve s = AtNewServer \<longleftrightarrow> grpcServer s = NilServer" by (cases "grpcServer s") auto
  show "(\<exists>s'. sstep listen False s s' \<and> sv_starter s' = StopPanic) = (sv_serve s = AtNewServer)"
    using l n sstep.stop[of False s a listen] by (auto simp: sstep_iff)
qed

theorem stop_panics_iff_witness:
  "\<exists>s'. sstep (Inr ''a'') False \<lparr>sv_starter = Started ''a'', sv_serve = AtNewServer, grpcServer = NilServer\<rparr> s' \<and>
     sv_starter s' = StopPanic"
  using stop_panics_iff[of "''a''" "Inr ''a''" "\<lparr>sv_starter = Started ''a'', sv_serve = AtNewServer, grpcServer = NilServer\<rparr>"]
    started_reach[of "''a''"] by simp

end
