(* ===== verification/Example.thy ===== *)
theory Example
  imports Service CliStore
begin

text \<open>
  The sample client of the engine (\<open>example/example.go\<close>): it reads the Google credentials, creates a cluster through the
  engine over the file store, prints how to reach it and removes it again. \<open>logrus.Fatal\<close> ends the process; the exit is
  a value of \<open>example_exit\<close>. The values of the spec are given by their JSON form, which is all that \<open>toMap\<close> reads of
  them; a pointer to a boolean marshals as the boolean.
\<close>

section \<open>The program\<close>

datatype example_exit =
    ExampleDone
  | ExampleFatal goerr
  | ExamplePanic string

definition example_spec :: "string \<Rightarrow> cluster_spec" where
  "example_spec data = \<lparr>ImportedConfig = None, RancherKubernetesEngineConfig = None,
     GenericEngineConfig = Some [
       (''projectId'', JStr ''rancher-dev''),
       (''zone'', JStr ''us-central1-a''),
       (''nodeCount'', JNum ''1''),
       (''enableKubernetesDashboard'', JBool True),
       (''enableHttpLoadBalancing'', JBool True),
       (''imageType'', JStr ''ubuntu''),
       (''enableLegacyAbac'', JBool True),
       (''locations'', JArr [JStr ''us-central1-a'', JStr ''us-central1-b'']),
       (''credential'', JStr data)],
     DisplayName = []\<rparr>"

text \<open>The zero value of \<open>v3.KontainerDriver\<close>.\<close>

definition zero_driver :: kontainer_driver where
  "zero_driver = \<lparr>kd_Name = [], kd_BuiltIn = False, kd_ExecutablePath = []\<rparr>"

text \<open>The exit, the printed lines and the world after the program.\<close>

definition example_main :: "host \<Rightarrow> (string \<Rightarrow> string \<Rightarrow> goerr + 'd rpc_driver) \<Rightarrow> (rat \<Rightarrow> string) \<Rightarrow> yaml_codec
    \<Rightarrow> (fs, 'd) world \<Rightarrow> example_exit \<times> string list \<times> (fs, 'd) world" where
  "example_main h newClient fmt Y w =
     (let credentialPath = h_Getenv h ''GOOGLE_APPLICATION_CREDENTIALS'' in
      case ReadFile (fp_clean credentialPath) (w_store w) of
        Inl err \<Rightarrow> (ExampleFatal err, [], w)
      | Inr data \<Rightarrow>
          (let spec = example_spec data;
               service = NewEngineService h newClient fmt (CLIPersistStore Y) in
           case svc_Create service ''daishan-test'' zero_driver spec w of
             (Panic m, w1) \<Rightarrow> (ExamplePanic m, [], w1)
           | (Ret (Inl err), w1) \<Rightarrow> (ExampleFatal err, [], w1)
           | (Ret (Inr (endpoint, token, cert)), w1) \<Rightarrow>
               (case svc_Remove service ''daishan-test'' zero_driver spec True w1 of
                  (Panic m, w2) \<Rightarrow> (ExamplePanic m, [endpoint, token, cert], w2)
                | (Ret (Inl err), w2) \<Rightarrow> (ExampleFatal err, [endpoint, token, cert], w2)
                | (Ret (Inr _), w2) \<Rightarrow> (ExampleDone, [endpoint, token, cert], w2))))"

section \<open>Lemmas\<close>

text \<open>The spec names no driver, so the engine panics on it as soon as the driver process runs.\<close>

lemma example_spec_name: "driver_name (example_spec data) = Panic ''interface conversion: interface is not string''"
  by (simp add: driver_name_def example_spec_def)

lemma unnamed_spec_fails:
  assumes "driver_name spec = Panic m" "with_driver e name kd spec body w = (res, w')"
  shows "(\<exists>err. res = Ret (Inl err)) \<or> (\<exists>m'. res = Panic m')" "w_store w' = w_store w \<and> w_drv w' = w_drv w"
  using assms by (auto simp: with_driver_def convertCluster_def deferred_stop_def split: sum.splits prod.splits outcome.splits)

section \<open>Properties\<close>

text \<open>
  The sample never creates a cluster: whatever the host, the driver and the store do, it ends with an error or a
  panic, prints nothing, and leaves the store and the provider as they were.
\<close>

theorem example_never_creates:
  "\<exists>r w'. example_main h newClient fmt Y w = (r, [], w') \<and> r \<noteq> ExampleDone \<and> w_store w' = w_store w \<and> w_drv w' = w_drv w"
proof (cases "ReadFile (fp_clean (h_Getenv h ''GOOGLE_APPLICATION_CREDENTIALS'')) (w_store w)")
  case (Inr data)
  let ?e = "NewEngineService h newClient fmt (CLIPersistStore Y)"
  obtain res w' where c: "svc_Create ?e ''daishan-test'' zero_driver (example_spec data) w = (res, w')" by force
  note f = unnamed_spec_fails[OF example_spec_name c[unfolded svc_Create_def]]
  from f(1) show ?thesis
    by (rule disjE) (use Inr c f(2) in \<open>auto simp: example_main_def\<close>)
qed (simp add: example_main_def)

end
