(* ===== verification/DriverState.thy ===== *)
theory DriverState
  imports Cluster
begin

text \<open>
  The contract between the cloud drivers and the life cycle: a driver keeps its state as one
  entry of the cluster's metadata (\<open>storeState\<close>, \<open>getState\<close>). The locale \<open>driver_state\<close> has its laws, over the
  codec of the driver's state; its lemmas say that the state survives the translation between a cluster and
  an info, and the store. The Google, Amazon and Azure drivers interpret it.
\<close>

lemma gm_find_canon_meta [simp]: "gm_find (canon_meta m) k = gm_find m k"
proof -
  let ?l = "AList.clearjunk (gm_list m)"
  have d: "distinct (map fst (sort_key fst ?l))"
    by (metis distinct_clearjunk distinct_map distinct_sort set_sort)
  have "map_of (sort_key fst ?l) = map_of ?l"
    using map_of_inject_set[OF d distinct_clearjunk] by simp
  moreover have "gm_list (canon_meta m) = sort_key fst ?l"
    by (simp add: canon_meta_def gm_list_def split: list.split)
  ultimately show ?thesis by (simp add: gm_find_def map_of_clearjunk)
qed

lemma gm_str_canon_meta [simp]: "gm_str (canon_meta m) k = gm_str m k"
  by (simp add: gm_str_def)

text \<open>What the store keeps of an entry with an ASCII key.\<close>

lemma map_of_fixed:
  assumes "is_ascii k" "distinct (map fst l)"
  shows "map_of (rev (map (\<lambda>(k, v). (utf8_fix k, utf8_fix v)) l)) k = map_option utf8_fix (map_of l k)"
  using assms(2)
proof (induction l)
  case (Cons m l)
  obtain k' v where m: "m = (k', v)" by force
  have eq: "utf8_fix k' = k \<longleftrightarrow> k' = k" using assms(1) utf8_fix_eq_ascii[of k'] by auto
  have "map_of l k = None" if "k' = k" using Cons.prems that m by (auto simp: map_of_eq_None_iff)
  with Cons eq m show ?case by (auto simp: map_add_def split: option.split)
qed simp

lemma gm_str_saved_meta:
  assumes "is_ascii k"
  shows "gm_str (saved_meta m) k = utf8_fix (gm_str m k)"
proof (cases "canon_meta m")
  case None
  have "gm_str (canon_meta m) k = []" unfolding None by (simp add: gm_str_def gm_find_def)
  then have "gm_str m k = []" by simp
  then show ?thesis using None by (simp add: saved_meta_def gm_str_def[of None] gm_find_def)
next
  case (Some l)
  have "gm_find (saved_meta m) k = map_option utf8_fix (gm_find (canon_meta m) k)"
    using map_of_fixed[OF assms canon_meta_distinct[OF Some]] Some
    by (simp add: saved_meta_def gm_find_def map_of_last_wins del: gm_find_canon_meta)
  then show ?thesis by (simp add: gm_str_def split: option.split)
qed

locale driver_state =
  fixes marshal :: "'s \<Rightarrow> goerr + string"
    and unmarshal :: "string \<Rightarrow> goerr + 's"
    and store :: "cluster_info \<Rightarrow> 's \<Rightarrow> goerr + cluster_info"
    and get :: "cluster_info \<Rightarrow> goerr + 's"
  assumes store_ok:
      "marshal s = Inr data \<Longrightarrow> \<exists>m. store info s = Inr (info\<lparr>ci_Metadata := m\<rparr>) \<and> gm_str m ''state'' = data"
    and store_error: "marshal s = Inl e \<Longrightarrow> store info s = Inl e"
    and get_state: "get info = unmarshal (gm_str (ci_Metadata info) ''state'')"
begin

lemma get_store:
  assumes "marshal s = Inr data" "unmarshal data = Inr s"
  obtains info' where "store info s = Inr info'" "get info' = Inr s"
proof -
  obtain m where "store info s = Inr (info\<lparr>ci_Metadata := m\<rparr>)" "gm_str m ''state'' = data"
    using store_ok[OF assms(1)] by blast
  with assms(2) show ?thesis using that[of "info\<lparr>ci_Metadata := m\<rparr>"] by (simp add: get_state)
qed

text \<open>Only the metadata is written: credentials, version and status stay as they are.\<close>

lemma store_frame:
  assumes "store info s = Inr info'"
  shows "info' = info\<lparr>ci_Metadata := ci_Metadata info'\<rparr>"
proof (cases "marshal s")
  case (Inl e)
  with store_error[OF Inl] assms show ?thesis by simp
next
  case (Inr data)
  then obtain m where "store info s = Inr (info\<lparr>ci_Metadata := m\<rparr>)" using store_ok by blast
  with assms show ?thesis by auto
qed

text \<open>The text of the state is the output of \<open>json.Marshal\<close>, which is valid UTF-8.\<close>

lemma get_stored_cluster:
  "valid_utf8 (gm_str (ci_Metadata info) ''state'') \<Longrightarrow>
     get (toInfo (saved ((transformClusterInfo c info)\<lparr>Status := status\<rparr>))) = get info"
  by (simp add: get_state gm_str_saved_meta utf8_fix_valid)

end

end
