(* ===== verification/GkeFlags.thy ===== *)
theory GkeFlags
  imports Options
begin

text \<open>
  The option tables of the Google driver (\<open>gke_driver.go\<close>): the flags of \<open>GetDriverCreateOptions\<close>,
  in two halves, and of \<open>GetDriverUpdateOptions\<close>.
\<close>

definition gke_create_flags1 :: "(string \<times> flag) list" where
  "gke_create_flags1 = [
     (''name'', plain_flag StringType (''the internal name of the cluster in Rancher'')),
     (''display-name'', plain_flag StringType (''the name of the cluster that should be displayed to the user'')),
     (''project-id'', plain_flag StringType (''the ID of your project to use when creating a cluster'')),
     (''zone'', plain_flag StringType (''The zone to launch the cluster'')),
     (''region'', plain_flag StringType (''The region to launch the cluster'')),
     (''cluster-ipv4-cidr'', plain_flag StringType (''The IP address range of the container pods'')),
     (''description'', plain_flag StringType (''An optional description of this cluster'')),
     (''master-version'', plain_flag StringType (''The kubernetes master version'')),
     (''node-count'', ((plain_flag IntType (''The number of nodes to create in this cluster''))\<lparr>flag_Default := Some (zero_default\<lparr>DefaultInt := 3\<rparr>)\<rparr>)),
     (''disk-size-gb'', ((plain_flag IntType (''Size of the disk attached to each node''))\<lparr>flag_Default := Some (zero_default\<lparr>DefaultInt := 100\<rparr>)\<rparr>)),
     (''labels'', plain_flag StringSliceType (''The map of Kubernetes labels (key/value pairs) to be applied to each node'')),
     (''machine-type'', plain_flag StringType (''The machine type of a Google Compute Engine'')),
     (''enable-alpha-feature'', plain_flag BoolType (''To enable kubernetes alpha feature'')),
     (''enable-stackdriver-logging'', ((plain_flag BoolPointerType (''Disable stackdriver logging''))\<lparr>flag_Default := Some (zero_default\<lparr>DefaultBool := True\<rparr>)\<rparr>)),
     (''enable-stackdriver-monitoring'', ((plain_flag BoolPointerType (''Disable stackdriver monitoring''))\<lparr>flag_Default := Some (zero_default\<lparr>DefaultBool := True\<rparr>)\<rparr>)),
     (''kubernetes-dashboard'', plain_flag BoolType (''Enable the kubernetes dashboard'')),
     (''maintenance-window'', plain_flag StringType (''When to performance updates on the nodes, in 24-hour time (e.g. '' @ [CHR 0x22] @ ''19:00'' @ [CHR 0x22] @ '')'')),
     (''resource-labels'', plain_flag StringSliceType (''The map of Kubernetes labels (key/value pairs) to be applied to each cluster'')),
     (''enable-nodepool-autoscaling'', plain_flag BoolType (''Enable nodepool autoscaling'')),
     (''min-node-count'', plain_flag IntType (''Minimmum number of nodes in the NodePool. Must be >= 1 and <= maxNodeCount'')),
     (''max-node-count'', plain_flag IntType (''Maximum number of nodes in the NodePool. Must be >= minNodeCount. There has to enough quota to scale up the cluster'')),
     (''enable-auto-upgrade'', plain_flag BoolType (''Specifies whether node auto-upgrade is enabled for the node pool'')),
     (''enable-auto-repair'', plain_flag BoolType (''Specifies whether the node auto-repair is enabled for the node pool'')),
     (''local-ssd-count'', plain_flag IntType (''he number of local SSD disks to be attached to the node'')),
     (''preemptible'', plain_flag BoolType (''Whether the nodes are created as preemptible VM instances'')),
     (''disk-type'', plain_flag StringType (''Type of the disk attached to each node'')),
     (''taints'', plain_flag StringSliceType (''List of kubernetes taints to be applied to each node'')),
     (''service-account'', plain_flag StringType (''The Google Cloud Platform Service Account to be used by the node VMs'')),
     (''oauth-scopes'', plain_flag StringSliceType (''The set of Google API scopes to be made available on all of the node VMs under the default service account'')),
     (''issue-client-certificate'', plain_flag BoolType (''Issue a client certificate'')),
     (''enable-master-authorized-network'', plain_flag BoolType (''Whether or not master authorized network is enabled''))]"

definition gke_create_flags2 :: "(string \<times> flag) list" where
  "gke_create_flags2 = [
     (''master-authorized-network-cidr-blocks'', plain_flag StringSliceType (''Define up to 10 external networks that could access Kubernetes master through HTTPS'')),
     (''enable-private-endpoint'', plain_flag BoolType (''Whether the master'' @ [CHR 0x27] @ ''s internal IP address is used as the cluster endpoint'')),
     (''enable-private-nodes'', plain_flag BoolType (''Whether nodes have internal IP address only'')),
     (''master-ipv4-cidr-block'', plain_flag StringType (''The IP range in CIDR notation to use for the hosted master network'')),
     (''use-ip-aliases'', plain_flag BoolType (''Whether alias IPs will be used for pod IPs in the cluster'')),
     (''ip-policy-create-subnetwork'', plain_flag BoolType (''Whether a new subnetwork will be created automatically for the cluster'')),
     (''ip-policy-subnetwork-name'', plain_flag StringType (''A custom subnetwork name to be used if createSubnetwork is true'')),
     (''ip-policy-cluster-secondary-range-name'', plain_flag StringType (''The name of the secondary range to be used for the cluster CIDR block'')),
     (''ip-policy-services-secondary-range-name'', plain_flag StringType (''The name of the secondary range to be used for the services CIDR block'')),
     (''ip-policy-cluster-ipv4-cidr-block'', plain_flag StringType (''The IP address range for the cluster pod IPs'')),
     (''ip-policy-node-ipv4-cidr-block'', plain_flag StringType (''The IP address range of the instance IPs in this cluster'')),
     (''ip-policy-services-ipv4-cidr-block'', plain_flag StringType (''The IP address range of the services IPs in this cluster'')),
     (''node-pool'', plain_flag StringType (''The ID of the cluster node pool'')),
     (''node-version'', plain_flag StringType (''The version of kubernetes to use on the nodes'')),
     (''machine-type'', plain_flag StringType (''The machine type to use for the worker nodes'')),
     (''credential'', secret_flag StringType (''The contents of the GC credential file'')),
     (''enable-kubernetes-dashboard'', plain_flag BoolType (''Whether to enable the kubernetes dashboard'')),
     (''image-type'', plain_flag StringType (''The image to use for the worker nodes'')),
     (''network'', plain_flag StringType (''The network to use for the cluster'')),
     (''sub-network'', plain_flag StringType (''The sub-network to use for the cluster'')),
     (''enable-legacy-abac'', plain_flag BoolType (''Whether to enable legacy abac on the cluster'')),
     (''locations'', plain_flag StringSliceType (''Locations to use for the cluster'')),
     (''enable-horizontal-pod-autoscaling'', ((plain_flag BoolPointerType (''Enable horizontal pod autoscaling for the cluster''))\<lparr>flag_Default := Some (zero_default\<lparr>DefaultBool := True\<rparr>)\<rparr>)),
     (''enable-http-load-balancing'', ((plain_flag BoolPointerType (''Enable http load balancing for the cluster''))\<lparr>flag_Default := Some (zero_default\<lparr>DefaultBool := True\<rparr>)\<rparr>)),
     (''enable-network-policy-config'', ((plain_flag BoolPointerType (''Enable network policy config for the cluster''))\<lparr>flag_Default := Some (zero_default\<lparr>DefaultBool := True\<rparr>)\<rparr>))]"

definition gke_create_flags :: driver_flags where
  "gke_create_flags = flag_map (gke_create_flags1 @ gke_create_flags2)"

definition gke_update_flags :: driver_flags where
  "gke_update_flags = flag_map [
     (''node-count'', plain_flag IntType (''The node number for your cluster to update. 0 means no updates'')),
     (''master-version'', plain_flag StringType (''The kubernetes master version to update'')),
     (''node-version'', plain_flag StringType (''The kubernetes node version to update'')),
     (''credential'', secret_flag StringType (''The contents of the GC credential file''))]"

end
