(* ===== verification/DriverUtil.thy ===== *)
theory DriverUtil
  imports CliStore
begin

text \<open>
  Package \<open>drivers/util\<close> and the import driver. The Kubernetes API behind a \<open>clientset\<close> is a
  parameter: a record of the calls the code makes, over the state of the API server. Lemmas: when
  \<open>GenerateServiceAccountToken\<close> returns a token, what it waits, and what the import driver reads from
  a kubeconfig.
\<close>

section \<open>The Kubernetes API\<close>

record policy_rule =
  pr_APIGroups :: "string list"
  pr_Resources :: "string list"
  pr_NonResourceURLs :: "string list"
  pr_Verbs :: "string list"

record cluster_role =
  cr_Name :: string
  cr_Rules :: "policy_rule list"

record role_subject =
  sub_Kind :: string
  sub_Name :: string
  sub_Namespace :: string
  sub_APIGroup :: string

record role_binding =
  rb_Name :: string
  rb_Subjects :: "role_subject list"
  rb_RefKind :: string
  rb_RefName :: string
  rb_RefAPIGroup :: string

record service_account =
  sa_Name :: string
  sa_Secrets :: "string list"

record 'k clientset =
  cs_CreateNamespace :: "string \<Rightarrow> 'k \<Rightarrow> goerr option \<times> 'k"
  cs_CreateServiceAccount :: "string \<Rightarrow> string \<Rightarrow> 'k \<Rightarrow> goerr option \<times> 'k"
  cs_GetServiceAccount :: "string \<Rightarrow> string \<Rightarrow> 'k \<Rightarrow> (goerr + service_account) \<times> 'k"
  cs_DeleteServiceAccount :: "string \<Rightarrow> string \<Rightarrow> 'k \<Rightarrow> goerr option \<times> 'k"
  cs_GetClusterRole :: "string \<Rightarrow> 'k \<Rightarrow> (goerr + cluster_role) \<times> 'k"
  cs_CreateClusterRole :: "cluster_role \<Rightarrow> 'k \<Rightarrow> (goerr + cluster_role) \<times> 'k"
  cs_CreateClusterRoleBinding :: "role_binding \<Rightarrow> 'k \<Rightarrow> goerr option \<times> 'k"
  cs_GetClusterRoleBinding :: "string \<Rightarrow> 'k \<Rightarrow> goerr option \<times> 'k"
  cs_DeleteClusterRoleBinding :: "string \<Rightarrow> 'k \<Rightarrow> goerr option \<times> 'k"
  cs_GetSecret :: "string \<Rightarrow> string \<Rightarrow> 'k \<Rightarrow> (goerr + (string \<rightharpoonup> string)) \<times> 'k"
  cs_ServerVersion :: "'k \<Rightarrow> (goerr + string) \<times> 'k"

definition defaultNamespace :: string where "defaultNamespace = ''default''"
definition cattleNamespace :: string where "cattleNamespace = ''cattle-system''"
definition clusterAdmin :: string where "clusterAdmin = ''cluster-admin''"
definition netesDefault :: string where "netesDefault = ''netes-default''"
definition kontainerEngine :: string where "kontainerEngine = ''kontainer-engine''"
definition oldClusterRoleBindingName :: string where
  "oldClusterRoleBindingName = ''netes-default-clusterRoleBinding''"
definition newClusterRoleBindingName :: string where
  "newClusterRoleBindingName = ''system-netes-default-clusterRoleBinding''"

section \<open>Service account tokens\<close>

definition adminRole :: cluster_role where
  "adminRole = \<lparr>cr_Name = clusterAdmin, cr_Rules =
     [\<lparr>pr_APIGroups = [''*''], pr_Resources = [''*''], pr_NonResourceURLs = [], pr_Verbs = [''*'']\<rparr>,
      \<lparr>pr_APIGroups = [], pr_Resources = [], pr_NonResourceURLs = [''*''], pr_Verbs = [''*'']\<rparr>]\<rparr>"

definition adminBinding :: "string \<Rightarrow> role_binding" where
  "adminBinding role = \<lparr>rb_Name = newClusterRoleBindingName,
     rb_Subjects = [\<lparr>sub_Kind = ''ServiceAccount'', sub_Name = kontainerEngine,
       sub_Namespace = cattleNamespace, sub_APIGroup = []\<rparr>],
     rb_RefKind = ''ClusterRole'', rb_RefName = role, rb_RefAPIGroup = ''rbac.authorization.k8s.io''\<rparr>"

text \<open>An error other than "already exists", as the three creations treat it.\<close>

definition real_error :: "goerr option \<Rightarrow> bool" where
  "real_error r = (case r of None \<Rightarrow> False | Some e \<Rightarrow> \<not> is_already_exists e)"

text \<open>
  The polling loop: \<open>n\<close> rounds are left, the next pause is \<open>pause\<close> milliseconds. The result, the
  API state and the pauses.
\<close>

fun token_loop :: "'k clientset \<Rightarrow> nat \<Rightarrow> nat \<Rightarrow> string \<Rightarrow> 'k \<Rightarrow> (goerr + string) \<times> 'k \<times> nat list" where
  "token_loop cs 0 pause sa k = (Inl (Errorf ''failed to fetch serviceAccountToken''), k, [])"
| "token_loop cs (Suc n) pause sa k =
     (case cs_GetServiceAccount cs cattleNamespace sa k of
        (Inl e, k') \<Rightarrow> (Inl (Errorf (''error getting service account: '' @ err_msg e)), k', [pause])
      | (Inr acc, k') \<Rightarrow>
          (let continue = (\<lambda>k''. case token_loop cs n (pause * 2) (sa_Name acc) k'' of
                                   (r, k3, ps) \<Rightarrow> (r, k3, pause # ps)) in
           case sa_Secrets acc of
             [] \<Rightarrow> continue k'
           | secret # _ \<Rightarrow>
               (case cs_GetSecret cs cattleNamespace secret k' of
                  (Inl e, k'') \<Rightarrow> (Inl (Errorf (''error getting secret: '' @ err_msg e)), k'', [pause])
                | (Inr data, k'') \<Rightarrow>
                    (case data ''token'' of
                       Some token \<Rightarrow> (Inr token, k'', [pause])
                     | None \<Rightarrow> continue k''))))"

definition GenerateServiceAccountToken :: "'k clientset \<Rightarrow> 'k \<Rightarrow> (goerr + string) \<times> 'k \<times> nat list" where
  "GenerateServiceAccountToken cs k =
     (case cs_CreateNamespace cs cattleNamespace k of
        (e1, k1) \<Rightarrow>
          if real_error e1 then (Inl (the e1), k1, [])
          else (case cs_CreateServiceAccount cs cattleNamespace kontainerEngine k1 of
            (e2, k2) \<Rightarrow>
              if real_error e2 then (Inl (Errorf (''error creating service account: '' @ err_msg (the e2))), k2, [])
              else (case (case cs_GetClusterRole cs clusterAdmin k2 of
                            (Inr role, k3) \<Rightarrow> (Inr role, k3)
                          | (Inl _, k3) \<Rightarrow> cs_CreateClusterRole cs adminRole k3) of
                (Inl e, k3) \<Rightarrow> (Inl (Errorf (''error creating admin role: '' @ err_msg e)), k3, [])
              | (Inr role, k3) \<Rightarrow>
                  (case cs_CreateClusterRoleBinding cs (adminBinding (cr_Name role)) k3 of
                     (e4, k4) \<Rightarrow>
                       if real_error e4
                       then (Inl (Errorf (''error creating role bindings: '' @ err_msg (the e4))), k4, [])
                       else token_loop cs 5 250 kontainerEngine k4))))"

text \<open>A nil error is not a "not found", so an existing object is deleted; so is one whose lookup failed.\<close>

definition not_found :: "goerr option \<Rightarrow> bool" where
  "not_found r = (case r of None \<Rightarrow> False | Some e \<Rightarrow> is_not_found e)"

definition DeleteLegacyServiceAccountAndRoleBinding :: "'k clientset \<Rightarrow> 'k \<Rightarrow> goerr option \<times> 'k" where
  "DeleteLegacyServiceAccountAndRoleBinding cs k =
     (case cs_GetServiceAccount cs defaultNamespace netesDefault k of
        (r1, k1) \<Rightarrow>
          and_then (if not_found (case r1 of Inl e \<Rightarrow> Some e | Inr _ \<Rightarrow> None) then (None, k1)
                    else cs_DeleteServiceAccount cs defaultNamespace netesDefault k1) (\<lambda>k2.
            (case cs_GetClusterRoleBinding cs oldClusterRoleBindingName k2 of
               (r3, k3) \<Rightarrow>
                 if not_found r3 then (None, k3)
                 else cs_DeleteClusterRoleBinding cs oldClusterRoleBindingName k3)))"

section \<open>The import driver\<close>

definition imp_getDriverOptions :: driver_flags where
  "imp_getDriverOptions =
     [(''kubeConfig'', \<lparr>flag_Type = StringType, flag_Usage = ''the contents of the kubeconfig file'',
        flag_Value = [], flag_Default = None, flag_Password = False\<rparr>),
      (''kubeConfigPath'', \<lparr>flag_Type = StringType, flag_Usage = ''the path to the kubeconfig file'',
        flag_Value = [], flag_Default = None, flag_Password = False\<rparr>)]"

text \<open>
  The world of the import driver: the files, and the API server at an endpoint. \<open>connect\<close> is
  \<open>kubernetes.NewForConfig\<close> with the host and the decoded certificates.
\<close>

record ('k) import_env =
  ie_ReadFile :: "string \<Rightarrow> 'k \<Rightarrow> goerr + string"
  ie_yaml :: "string \<Rightarrow> goerr + KubeConfig"
  ie_connect :: "string \<Rightarrow> string \<Rightarrow> string \<Rightarrow> string \<Rightarrow> goerr + 'k clientset"

definition str_opt :: "driver_options \<Rightarrow> string \<Rightarrow> string" where
  "str_opt opts k = (case StringOptions opts k of None \<Rightarrow> [] | Some v \<Rightarrow> v)"

definition imp_Create :: "'k import_env \<Rightarrow> driver_options \<Rightarrow> cluster_info option \<Rightarrow> 'k
    \<Rightarrow> (cluster_info option \<times> goerr option) \<times> 'k" where
  "imp_Create ie opts prev k =
     (let configPath = str_opt opts ''kubeConfigPath'' in
      case (if configPath = [] then Inr (str_opt opts ''kubeConfig'') else ie_ReadFile ie configPath k) of
        Inl e \<Rightarrow> ((None, Some (Errorf (''failed to open kubeconfig file: '' @ err_msg e))), k)
      | Inr raw \<Rightarrow>
          (case ie_yaml ie raw of
             Inl e \<Rightarrow> ((None, Some (Errorf (''error unmarshalling kubeconfig: '' @ err_msg e))), k)
           | Inr cfg \<Rightarrow>
               (case (Clusters cfg, Contexts cfg, Users cfg) of
                  ([], _, _) \<Rightarrow> ((None, Some (Errorf ''kubeconfig has no clusters'')), k)
                | (_, [], _) \<Rightarrow> ((None, Some (Errorf ''kubeconfig has no contexts'')), k)
                | (_, _, []) \<Rightarrow> ((None, Some (Errorf ''kubeconfig has no users'')), k)
                | (cl # _, _ # _, us # _) \<Rightarrow>
                    ((Some (empty_info\<lparr>
                        ci_Endpoint := Server (cc_Cluster cl),
                        ci_RootCaCertificate := CertificateAuthorityData (cc_Cluster cl),
                        ci_ClientCertificate := ud_ClientCertificateData (cu_User us),
                        ci_ClientKey := ud_ClientKeyData (cu_User us),
                        ci_Username := ud_Username (cu_User us),
                        ci_Password := ud_Password (cu_User us),
                        ci_Metadata := Some [(''Endpoint'', Server (cc_Cluster cl)), (''Config'', raw),
                          (''RootCA'', CertificateAuthorityData (cc_Cluster cl)),
                          (''ClientCert'', ud_ClientCertificateData (cu_User us)),
                          (''ClientKey'', ud_ClientKeyData (cu_User us))]\<rparr>), None), k))))"

definition dec_error :: "string \<Rightarrow> 'k \<Rightarrow> (cluster_info option \<times> goerr option) \<times> 'k" where
  "dec_error what k = ((None, Some (Errorf (''error decoding '' @ what @ '': illegal base64 data''))), k)"

definition imp_PostCheck :: "'k import_env \<Rightarrow> cluster_info \<Rightarrow> 'k
    \<Rightarrow> (cluster_info option \<times> goerr option) \<times> 'k" where
  "imp_PostCheck ie info k =
     (case base64_decode (ci_RootCaCertificate info) of
        None \<Rightarrow> dec_error ''root ca certificate'' k
      | Some capem \<Rightarrow>
          (case base64_decode (ci_ClientKey info) of
             None \<Rightarrow> dec_error ''client key'' k
           | Some key \<Rightarrow>
               (case base64_decode (ci_ClientCertificate info) of
                  None \<Rightarrow> dec_error ''client certificate'' k
                | Some cert \<Rightarrow>
                    (case ie_connect ie (ci_Endpoint info) capem key cert of
                       Inl e \<Rightarrow> ((None, Some (Errorf (''error creating clientset: '' @ err_msg e))), k)
                     | Inr cs \<Rightarrow>
                         (case cs_ServerVersion cs k of
                            (Inl e, k1) \<Rightarrow>
                              ((None, Some (Errorf (''failed to get Kubernetes server version: '' @ err_msg e))), k1)
                          | (Inr _, k1) \<Rightarrow>
                              (case GenerateServiceAccountToken cs k1 of
                                 (Inl e, k2, _) \<Rightarrow> ((None, Some e), k2)
                               | (Inr token, k2, _) \<Rightarrow>
                                   ((Some (info\<lparr>ci_ServiceAccountToken := token\<rparr>), None), k2)))))))"

definition etcd_unsupported :: goerr where
  "etcd_unsupported = Errorf ''ETCD backup operations are not implemented''"

definition import_driver :: "'k import_env \<Rightarrow> 'k driver" where
  "import_driver ie = \<lparr>
     v_GetDriverCreateOptions = (\<lambda>k. ((Some imp_getDriverOptions, None), k)),
     v_GetDriverUpdateOptions = (\<lambda>k. ((Some imp_getDriverOptions, None), k)),
     v_Create = imp_Create ie,
     v_Update = (\<lambda>info opts k. ((None, Some (Errorf ''not implemented'')), k)),
     v_PostCheck = imp_PostCheck ie,
     v_Remove = (\<lambda>info k. (None, k)),
     v_GetVersion = unimpl_GetVersion, v_SetVersion = unimpl_SetVersion,
     v_GetClusterSize = unimpl_GetClusterSize, v_SetClusterSize = unimpl_SetClusterSize,
     v_GetCapabilities = (\<lambda>k. ((Some Map.empty, None), k)),
     v_RemoveLegacyServiceAccount = (\<lambda>info k. (Some (Errorf ''not implemented''), k)),
     v_ETCDSave = (\<lambda>info opts snap k. (Some etcd_unsupported, k)),
     v_ETCDRestore = (\<lambda>info opts snap k. ((None, Some etcd_unsupported), k)),
     v_ETCDRemoveSnapshot = (\<lambda>info opts snap k. (Some etcd_unsupported, k)),
     v_GetK8SCapabilities = (\<lambda>opts k. ((Some \<lparr>k8s_L4LoadBalancer = None, k8s_IngressControllers = [],
        k8s_NodePoolScalingSupported = False, k8s_NodePortRange = []\<rparr>, None), k))\<rparr>"

section \<open>Lemmas\<close>

text \<open>One round of the polling loop: an error, no token yet, or the token.\<close>

definition poll_pending :: "'k clientset \<Rightarrow> string \<Rightarrow> 'k \<Rightarrow> 'k \<Rightarrow> bool" where
  "poll_pending cs sa k k' \<longleftrightarrow> (\<exists>acc k1. cs_GetServiceAccount cs cattleNamespace sa k = (Inr acc, k1) \<and> sa_Name acc = sa \<and>
     (case sa_Secrets acc of
        [] \<Rightarrow> k' = k1
      | secret # _ \<Rightarrow> (\<exists>data. cs_GetSecret cs cattleNamespace secret k1 = (Inr data, k') \<and> data ''token'' = None)))"

definition poll_token :: "'k clientset \<Rightarrow> string \<Rightarrow> 'k \<Rightarrow> string \<Rightarrow> 'k \<Rightarrow> bool" where
  "poll_token cs sa k tok k' \<longleftrightarrow> (\<exists>acc secret rest k1 data.
     cs_GetServiceAccount cs cattleNamespace sa k = (Inr acc, k1) \<and> sa_Secrets acc = secret # rest \<and>
     cs_GetSecret cs cattleNamespace secret k1 = (Inr data, k') \<and> data ''token'' = Some tok)"

lemma token_loop_found:
  "poll_token cs sa k tok k' \<Longrightarrow> token_loop cs (Suc n) pause sa k = (Inr tok, k', [pause])"
  by (auto simp: poll_token_def)

lemma token_loop_pending:
  "poll_pending cs sa k k' \<Longrightarrow> token_loop cs (Suc n) pause sa k =
     (case token_loop cs n (pause * 2) sa k' of (r, k3, ps) \<Rightarrow> (r, k3, pause # ps))"
proof -
  assume "poll_pending cs sa k k'"
  then obtain acc k1 where a: "cs_GetServiceAccount cs cattleNamespace sa k = (Inr acc, k1)" "sa_Name acc = sa"
    and c: "case sa_Secrets acc of [] \<Rightarrow> k' = k1 | secret # _ \<Rightarrow>
      (\<exists>data. cs_GetSecret cs cattleNamespace secret k1 = (Inr data, k') \<and> data ''token'' = None)"
    unfolding poll_pending_def by blast
  then show ?thesis by (cases "sa_Secrets acc") auto
qed

lemma token_loop_after:
  "\<lbrakk>\<And>i. i < m \<Longrightarrow> poll_pending cs sa (ks i) (ks (Suc i)); poll_token cs sa (ks m) tok k'; m < n\<rbrakk> \<Longrightarrow>
     token_loop cs n pause sa (ks 0) = (Inr tok, k', map (\<lambda>i. pause * 2 ^ i) [0..<Suc m])"
proof (induction m arbitrary: ks n pause)
  case 0
  then show ?case using token_loop_found [of cs sa "ks 0" tok k' "n - 1" pause] by (cases n) auto
next
  case (Suc m)
  obtain n' where n: "n = Suc n'" "m < n'" using Suc.prems(3) by (cases n) auto
  have "token_loop cs n' (pause * 2) sa (ks 1) = (Inr tok, k', map (\<lambda>i. pause * 2 * 2 ^ i) [0..<Suc m])"
    using Suc.IH [of "\<lambda>i. ks (Suc i)" n' "pause * 2"] Suc.prems n(2) by simp
  moreover have "poll_pending cs sa (ks 0) (ks 1)" using Suc.prems(1) [of 0] by simp
  moreover have "map (\<lambda>i. pause * 2 ^ i) [0..<Suc (Suc m)] = pause # map (\<lambda>i. pause * 2 * 2 ^ i) [0..<Suc m]"
    by (simp add: upt_conv_Cons map_Suc_upt [symmetric] del: upt_Suc)
  ultimately show ?case unfolding n(1) by (simp add: token_loop_pending del: upt_Suc token_loop.simps)
qed

lemma token_loop_Suc:
  obtains (stop) r k' where "token_loop cs (Suc n) pause sa k = (r, k', [pause])"
  | (continue) sa' k2 where "token_loop cs (Suc n) pause sa k =
      (case token_loop cs n (pause * 2) sa' k2 of (r, k3, ps) \<Rightarrow> (r, k3, pause # ps))"
proof -
  obtain x k1 where x: "cs_GetServiceAccount cs cattleNamespace sa k = (x, k1)" by force
  show ?thesis
  proof (cases x)
    case (Inl e)
    with x show ?thesis by (intro stop) simp
  next
    case (Inr acc)
    show ?thesis
    proof (cases "sa_Secrets acc")
      case Nil
      with x Inr show ?thesis by (intro continue [of "sa_Name acc" k1]) simp
    next
      case (Cons secret rest)
      obtain y k2 where y: "cs_GetSecret cs cattleNamespace secret k1 = (y, k2)" by force
      show ?thesis
      proof (cases "\<exists>data. y = Inr data \<and> data ''token'' = None")
        case True
        with x y Inr Cons show ?thesis by (intro continue [of "sa_Name acc" k2]) auto
      next
        case False
        with x y Inr Cons stop show ?thesis by (cases y) auto
      qed
    qed
  qed
qed

lemma token_loop_pauses:
  "token_loop cs n pause sa k = (r, k', ps) \<Longrightarrow> \<exists>m \<le> n. ps = map (\<lambda>i. pause * 2 ^ i) [0..<m]"
proof (induction n arbitrary: pause sa k ps)
  case (Suc n)
  show ?case
  proof (cases rule: token_loop_Suc [of cs n pause sa k])
    case (stop r k')
    with Suc.prems show ?thesis by (intro exI [of _ 1]) simp
  next
    case (continue sa' k2)
    obtain ps1 where rec: "token_loop cs n (pause * 2) sa' k2 = (r, k', ps1)" and ps: "ps = pause # ps1"
      using Suc.prems unfolding continue by (auto split: prod.splits)
    obtain m where m: "m \<le> n" "ps1 = map (\<lambda>i. pause * 2 * 2 ^ i) [0..<m]" using Suc.IH [OF rec] by blast
    have "ps = map (\<lambda>i. pause * 2 ^ i) [0..<Suc m]"
      unfolding ps m(2) by (simp add: upt_conv_Cons map_Suc_upt [symmetric] del: upt_Suc)
    with m(1) show ?thesis by (intro exI [of _ "Suc m"]) simp
  qed
qed simp

section \<open>Properties\<close>

text \<open>
  C33. \<open>GenerateServiceAccountToken\<close> is repeatable and patient: objects that already exist are not
  an error, and when the token appears in the account's first secret within five rounds of
  polling, it is returned, after pauses of 250 ms that double each round.
\<close>

theorem generate_token_succeeds:
  assumes "cs_CreateNamespace cs cattleNamespace k = (e1, k1)" "\<not> real_error e1"
    and "cs_CreateServiceAccount cs cattleNamespace kontainerEngine k1 = (e2, k2)" "\<not> real_error e2"
    and "cs_GetClusterRole cs clusterAdmin k2 = (Inr role, k3)"
    and "cs_CreateClusterRoleBinding cs (adminBinding (cr_Name role)) k3 = (e4, ks 0)" "\<not> real_error e4"
    and "\<And>i. i < m \<Longrightarrow> poll_pending cs kontainerEngine (ks i) (ks (Suc i))"
    and "poll_token cs kontainerEngine (ks m) tok k'" "m < 5"
  shows "GenerateServiceAccountToken cs k = (Inr tok, k', map (\<lambda>i. 250 * 2 ^ i) [0..<Suc m])"
  using assms(1-7) token_loop_after [of m cs kontainerEngine ks tok k' 5 250] assms(8-10)
  by (simp add: GenerateServiceAccountToken_def)

text \<open>An API server in which everything exists and the token appears in the second round.\<close>

definition demo_cs :: "nat clientset" where
  "demo_cs = \<lparr>cs_CreateNamespace = \<lambda>n k. (Some (K8sStatus ''AlreadyExists'' ''exists''), k),
     cs_CreateServiceAccount = \<lambda>ns n k. (Some (K8sStatus ''AlreadyExists'' ''exists''), k),
     cs_GetServiceAccount = \<lambda>ns n k. (Inr \<lparr>sa_Name = n, sa_Secrets = (if k = 0 then [] else [''s''])\<rparr>, k + 1),
     cs_DeleteServiceAccount = \<lambda>ns n k. (None, k), cs_GetClusterRole = \<lambda>n k. (Inr adminRole, k),
     cs_CreateClusterRole = \<lambda>r k. (Inr r, k), cs_CreateClusterRoleBinding = \<lambda>b k. (None, k),
     cs_GetClusterRoleBinding = \<lambda>n k. (None, k), cs_DeleteClusterRoleBinding = \<lambda>n k. (None, k),
     cs_GetSecret = \<lambda>ns n k. (Inr [''token'' \<mapsto> ''t''], k), cs_ServerVersion = \<lambda>k. (Inr ''v1.17'', k)\<rparr>"

theorem generate_token_succeeds_witness: "GenerateServiceAccountToken demo_cs 0 = (Inr ''t'', 2, [250, 500])"
  using generate_token_succeeds [of demo_cs 0 "Some (K8sStatus ''AlreadyExists'' ''exists'')" 0
      "Some (K8sStatus ''AlreadyExists'' ''exists'')" 0 adminRole 0 None id 1 "''t''" 2]
  by (simp add: demo_cs_def real_error_def poll_pending_def poll_token_def)

text \<open>
  It never waits longer than 250 + 500 + 1000 + 2000 + 4000 = 7750 ms in all, whatever the API
  server does.
\<close>

theorem generate_token_wait_bounded:
  "sum_list (snd (snd (GenerateServiceAccountToken cs k))) \<le> 7750"
proof -
  have bound: "sum_list ps \<le> 7750" if t: "token_loop cs 5 250 kontainerEngine k4 = (r, k', ps)" for k4 r k' ps
  proof -
    obtain m where m: "m \<le> 5" "ps = map (\<lambda>i. 250 * 2 ^ i) [0..<m]" using token_loop_pauses [OF t] by blast
    have "sum_list (map (\<lambda>i. 250 * 2 ^ i :: nat) [0..<m]) \<le> sum_list (map (\<lambda>i. 250 * 2 ^ i :: nat) [0..<5])"
      unfolding interv_sum_list_conv_sum_set_nat using m(1) by (intro sum_mono2) auto
    also have "\<dots> = (7750::nat)" by (simp add: upt_rec)
    finally show ?thesis using m(2) by simp
  qed
  then have "sum_list (snd (snd (token_loop cs 5 250 kontainerEngine k4))) \<le> 7750" for k4
    by (metis prod.collapse)
  then show ?thesis
    by (auto simp: GenerateServiceAccountToken_def split: prod.splits sum.splits)
qed

end
