(* ===== verification/Polling.thy ===== *)
theory Polling
  imports Types
begin

text \<open>
  What the handlers of the cloud drivers share: computations over the state of a cloud, which may
  return an error, panic, or never return (\<open>None\<close>); and loops that ask the cloud for a status until
  it is final (\<open>poll_until\<close>). The locale \<open>poll_loop\<close> has the laws of such a loop and
  shows when it returns, with what, and after how many calls.
\<close>

section \<open>Computations\<close>

type_synonym ('a, 'g) run = "'g \<Rightarrow> ((goerr + 'a) outcome \<times> 'g) option"

definition gret :: "'a \<Rightarrow> ('a, 'g) run" where
  "gret x = (\<lambda>g. Some (Ret (Inr x), g))"
definition gpure :: "goerr + 'a \<Rightarrow> ('a, 'g) run" where
  "gpure r = (\<lambda>g. Some (Ret r, g))"
definition gpanic :: "string \<Rightarrow> ('a, 'g) run" where
  "gpanic m = (\<lambda>g. Some (Panic m, g))"
definition gcall :: "('g \<Rightarrow> (goerr + 'a) \<times> 'g) \<Rightarrow> ('a, 'g) run" where
  "gcall f = (\<lambda>g. case f g of (r, g') \<Rightarrow> Some (Ret r, g'))"
definition gdo :: "('g \<Rightarrow> goerr option \<times> 'g) \<Rightarrow> (unit, 'g) run" where
  "gdo f = (\<lambda>g. case f g of (None, g') \<Rightarrow> Some (Ret (Inr ()), g') | (Some e, g') \<Rightarrow> Some (Ret (Inl e), g'))"
definition gbind :: "('a, 'g) run \<Rightarrow> ('a \<Rightarrow> ('b, 'g) run) \<Rightarrow> ('b, 'g) run" where
  "gbind m f = (\<lambda>g. case m g of
     None \<Rightarrow> None
   | Some (Ret (Inr x), g') \<Rightarrow> f x g'
   | Some (Ret (Inl e), g') \<Rightarrow> Some (Ret (Inl e), g')
   | Some (Panic p, g') \<Rightarrow> Some (Panic p, g'))"

text \<open>A pointer that the code dereferences without a test for nil.\<close>

definition deref :: "'a option \<Rightarrow> ('a, 'g) run" where
  "deref p = (case p of None \<Rightarrow> gpanic ''nil pointer dereference'' | Some x \<Rightarrow> gret x)"

text \<open>\<open>fmt.Errorf("prefix: %v", err)\<close> around a computation.\<close>

definition gwrap :: "string \<Rightarrow> ('a, 'g) run \<Rightarrow> ('a, 'g) run" where
  "gwrap prefix m = (\<lambda>g. case m g of
     Some (Ret (Inl e), g') \<Rightarrow> Some (Ret (Inl (Errorf (prefix @ err_msg e))), g') | r \<Rightarrow> r)"

lemma run_simps [simp]:
  "gret x g = Some (Ret (Inr x), g)" "gpure r g = Some (Ret r, g)" "gpanic m g = Some (Panic m, g)"
  by (simp_all add: gret_def gpure_def gpanic_def)

lemma gbind_simps:
  "m g = Some (Ret (Inr x), g') \<Longrightarrow> gbind m f g = f x g'"
  "m g = Some (Ret (Inl e), g') \<Longrightarrow> gbind m f g = Some (Ret (Inl e), g')"
  "m g = Some (Panic p, g') \<Longrightarrow> gbind m f g = Some (Panic p, g')"
  "m g = None \<Longrightarrow> gbind m f g = None"
  by (simp_all add: gbind_def)

lemma deref_Some [simp]: "deref (Some x) = gret x"
  by (simp add: deref_def)

lemma gdo_ok: "f g = (None, g') \<Longrightarrow> gdo f g = Some (Ret (Inr ()), g')"
  by (simp add: gdo_def)

lemma gcall_ok: "f g = (r, g') \<Longrightarrow> gcall f g = Some (Ret r, g')"
  by (simp add: gcall_def)

lemma gbind_assoc: "gbind (gbind m f) h = gbind m (\<lambda>x. gbind (f x) h)"
  by (auto simp: gbind_def fun_eq_iff split: option.splits prod.splits outcome.splits sum.splits)

lemma gbind_gret [simp]: "gbind (gret x) f = f x"
  by (simp add: gbind_def fun_eq_iff)

section \<open>Polling loops\<close>

text \<open>
  One poll asks the cloud and either ends the loop with a result or goes on (\<open>None\<close>).
  \<open>poll_until\<close> repeats it; it is \<open>None\<close> when no poll ever ends the loop.
\<close>

partial_function (option) poll_until :: "('g \<Rightarrow> 'r option \<times> 'g) \<Rightarrow> 'g \<Rightarrow> ('r \<times> 'g) option" where
  "poll_until poll g =
     (case poll g of (Some r, g') \<Rightarrow> Some (r, g') | (None, g') \<Rightarrow> poll_until poll g')"

definition poll_ends :: "('g \<Rightarrow> 'r option \<times> 'g) \<Rightarrow> 'g \<Rightarrow> bool" where
  "poll_ends poll g = (fst (poll g) \<noteq> None)"

definition after_polls :: "('g \<Rightarrow> 'r option \<times> 'g) \<Rightarrow> nat \<Rightarrow> 'g \<Rightarrow> 'g" where
  "after_polls poll k g = ((\<lambda>g. snd (poll g)) ^^ k) g"

lemma after_polls_0 [simp]: "after_polls poll 0 g = g"
  by (simp add: after_polls_def)

lemma after_polls_Suc: "after_polls poll (Suc k) g = after_polls poll k (snd (poll g))"
  by (simp add: after_polls_def funpow_Suc_right del: funpow.simps)

lemma after_polls_step: "after_polls poll (Suc k) g = snd (poll (after_polls poll k g))"
  by (simp add: after_polls_def)

text \<open>
  The contract of a polling loop, and what a client may conclude from it: the loop is the least
  function that repeats the poll, so what holds at every final poll, and is kept backwards by the
  others, holds wherever it returns.
\<close>

locale poll_loop =
  fixes poll :: "'g \<Rightarrow> 'r option \<times> 'g"
    and loop :: "'g \<Rightarrow> ('r \<times> 'g) option"
  assumes loop_end: "poll_ends poll g \<Longrightarrow> loop g = Some (the (fst (poll g)), snd (poll g))"
    and loop_next: "\<not> poll_ends poll g \<Longrightarrow> loop g = loop (snd (poll g))"
    and loop_least: "\<lbrakk>loop g = Some r; \<And>g. poll_ends poll g \<Longrightarrow> P g;
        \<And>g. \<lbrakk>\<not> poll_ends poll g; P (snd (poll g))\<rbrakk> \<Longrightarrow> P g\<rbrakk> \<Longrightarrow> P g"
begin

lemma returns_after:
  "\<lbrakk>\<forall>i<k. \<not> poll_ends poll (after_polls poll i g); fst (poll (after_polls poll k g)) = Some r\<rbrakk> \<Longrightarrow>
   loop g = Some (r, after_polls poll (Suc k) g)"
proof (induction k arbitrary: g)
  case 0
  then show ?case by (simp add: loop_end after_polls_Suc poll_ends_def)
next
  case (Suc k)
  have "\<not> poll_ends poll g" using Suc.prems(1)[rule_format, of 0] by simp
  moreover have "loop (snd (poll g)) = Some (r, after_polls poll (Suc k) (snd (poll g)))"
  proof (rule Suc.IH)
    show "\<forall>i<k. \<not> poll_ends poll (after_polls poll i (snd (poll g)))"
    proof (intro allI impI)
      fix i assume "i < k"
      then show "\<not> poll_ends poll (after_polls poll i (snd (poll g)))"
        using Suc.prems(1)[rule_format, of "Suc i"] by (simp add: after_polls_Suc)
    qed
    show "fst (poll (after_polls poll k (snd (poll g)))) = Some r"
      using Suc.prems(2) by (simp add: after_polls_Suc)
  qed
  ultimately show ?case by (simp add: loop_next after_polls_Suc)
qed

lemma returns_iff: "loop g \<noteq> None \<longleftrightarrow> (\<exists>k. poll_ends poll (after_polls poll k g))"
proof
  assume "loop g \<noteq> None"
  then obtain r where "loop g = Some r" by auto
  then show "\<exists>k. poll_ends poll (after_polls poll k g)"
  proof (rule loop_least)
    fix g assume "poll_ends poll g"
    then show "\<exists>k. poll_ends poll (after_polls poll k g)" by (intro exI[of _ 0]) simp
  next
    fix g assume "\<exists>k. poll_ends poll (after_polls poll k (snd (poll g)))"
    then show "\<exists>k. poll_ends poll (after_polls poll k g)" by (metis after_polls_Suc)
  qed
next
  assume "\<exists>k. poll_ends poll (after_polls poll k g)"
  then obtain k where "poll_ends poll (after_polls poll k g)"
    "\<forall>i<k. \<not> poll_ends poll (after_polls poll i g)"
    using exists_least_iff[of "\<lambda>k. poll_ends poll (after_polls poll k g)"] by blast
  then obtain r where "fst (poll (after_polls poll k g)) = Some r"
    "\<forall>i<k. \<not> poll_ends poll (after_polls poll i g)" by (auto simp: poll_ends_def)
  then show "loop g \<noteq> None" by (simp add: returns_after)
qed

text \<open>The result is always the one of the last poll.\<close>

lemma result_of_poll:
  assumes "loop g = Some (r, g')"
  obtains k where "\<forall>i<k. \<not> poll_ends poll (after_polls poll i g)"
    "fst (poll (after_polls poll k g)) = Some r" "g' = after_polls poll (Suc k) g"
proof -
  from assms have "\<exists>k. poll_ends poll (after_polls poll k g)"
    using returns_iff[of g] by auto
  then obtain k where k: "poll_ends poll (after_polls poll k g)"
    "\<forall>i<k. \<not> poll_ends poll (after_polls poll i g)"
    using exists_least_iff[of "\<lambda>k. poll_ends poll (after_polls poll k g)"] by blast
  then obtain r' where r': "fst (poll (after_polls poll k g)) = Some r'"
    by (auto simp: poll_ends_def)
  from returns_after[OF k(2) r'] assms k r' that show ?thesis by auto
qed

end

lemma poll_until_least:
  assumes "poll_until poll g = Some r"
    and e: "\<And>g. poll_ends poll g \<Longrightarrow> P g"
    and n: "\<And>g. \<lbrakk>\<not> poll_ends poll g; P (snd (poll g))\<rbrakk> \<Longrightarrow> P g"
  shows "P g"
proof -
  have "poll' = poll \<longrightarrow> P g" if "poll_until poll' g = Some r" for poll'
    using that
  proof (rule poll_until.raw_induct[rotated])
    fix self poll' g r
    assume IH: "\<And>poll' g r. self poll' g = Some r \<Longrightarrow> poll' = poll \<longrightarrow> P g"
      and step: "(case poll' g of (Some r, g') \<Rightarrow> Some (r, g') | (None, g') \<Rightarrow> self poll' g') = Some r"
    show "poll' = poll \<longrightarrow> P g"
      using e[of g] n[of g] IH[where r = r] step
      by (auto simp: poll_ends_def split: prod.splits option.splits)
  qed
  with assms(1) show ?thesis by blast
qed

interpretation pu: poll_loop poll "poll_until poll"
proof unfold_locales
  fix g
  show "poll_ends poll g \<Longrightarrow> poll_until poll g = Some (the (fst (poll g)), snd (poll g))"
    by (subst poll_until.simps) (auto simp: poll_ends_def split: prod.splits option.splits)
  show "\<not> poll_ends poll g \<Longrightarrow> poll_until poll g = poll_until poll (snd (poll g))"
    by (subst poll_until.simps) (auto simp: poll_ends_def split: prod.splits option.splits)
qed (rule poll_until_least)

end
