(* ===== verification/Gke.thy ===== *)
theory Gke
  imports GkeFlags DriverUtil Polling DriverState
begin

text \<open>
  The Google driver (\<open>drivers/gke/gke_driver.go\<close>). Google's API client, the OAuth library and the
  JSON form of the driver's state (whose struct embeds the API library's types) are parameters:
  the records \<open>gke_api\<close> and \<open>gke_env\<close>. A handler is a computation \<open>'g \<Rightarrow> ('a outcome \<times> 'g) option\<close>
  over the state of the cloud: \<open>None\<close> when a waiting loop never ends, \<open>Panic\<close> when the code would
  index an empty list of node pools. Lemmas: what the option reader and the validation accept, what
  the create request holds, when the waiting loops end and how often they call, and what an update
  changes.
\<close>

section \<open>Data\<close>

record node_taint =
  nt_Effect :: string
  nt_Key :: string
  nt_Value :: string

record np_autoscaling =
  as_Enabled :: bool
  as_MinNodeCount :: int64
  as_MaxNodeCount :: int64

record node_config =
  nc_DiskSizeGb :: int64
  nc_MachineType :: string
  nc_DiskType :: string
  nc_LocalSsdCount :: int64
  nc_Preemptible :: bool
  nc_ServiceAccount :: string
  nc_ImageType :: string
  nc_Labels :: "string \<rightharpoonup> string"
  nc_OauthScopes :: "string list"
  nc_Taints :: "node_taint list"

record node_pool =
  np_Name :: string
  np_InitialNodeCount :: int64
  np_Config :: node_config
  np_AutoRepair :: bool
  np_AutoUpgrade :: bool
  np_Autoscaling :: "np_autoscaling option"

record master_networks =
  mn_Enabled :: bool
  mn_CidrBlocks :: "string list"

record private_cluster =
  pc_EnablePrivateEndpoint :: bool
  pc_EnablePrivateNodes :: bool
  pc_MasterIpv4CidrBlock :: string

record ip_policy =
  ip_UseIpAliases :: bool
  ip_CreateSubnetwork :: bool
  ip_SubnetworkName :: string
  ip_ClusterSecondaryRangeName :: string
  ip_ServicesSecondaryRangeName :: string
  ip_ClusterIpv4CidrBlock :: string
  ip_NodeIpv4CidrBlock :: string
  ip_ServicesIpv4CidrBlock :: string

text \<open>The driver's \<open>state\<close>; the pointers the code tests for nil are options.\<close>

record gke_state =
  gs_DisplayName :: string
  gs_ProjectID :: string
  gs_Zone :: string
  gs_Region :: string
  gs_ClusterIpv4Cidr :: string
  gs_Description :: string
  gs_MasterVersion :: string
  gs_MasterAuthUsername :: string
  gs_IssueClientCertificate :: bool
  gs_NodeVersion :: string
  gs_Name :: string
  gs_MasterNetworks :: master_networks
  gs_ResourceLabels :: "string \<rightharpoonup> string"
  gs_PrivateCluster :: "private_cluster option"
  gs_NodePool :: "node_pool option"
  gs_IPPolicy :: ip_policy
  gs_CredentialContent :: string
  gs_EnableAlphaFeature :: bool
  gs_EnableHTTPLoadBalancing :: "bool option"
  gs_EnableHorizontalPodAutoscaling :: "bool option"
  gs_EnableKubernetesDashboard :: bool
  gs_EnableNetworkPolicyConfig :: "bool option"
  gs_Locations :: "string list"
  gs_Network :: string
  gs_SubNetwork :: string
  gs_LegacyAbac :: bool
  gs_NodePoolID :: string
  gs_EnableStackdriverLogging :: "bool option"
  gs_EnableStackdriverMonitoring :: "bool option"
  gs_MaintenanceWindow :: string

definition location :: "gke_state \<Rightarrow> string" where
  "location s = (if gs_Region s \<noteq> [] then gs_Region s else gs_Zone s)"

definition gke_capabilities :: capabilities where
  "gke_capabilities =
     AddCapability (cap_num SetClusterSizeCapability)
       (AddCapability (cap_num GetClusterSizeCapability)
         (AddCapability (cap_num SetVersionCapability)
           (AddCapability (cap_num GetVersionCapability) Map.empty)))"

section \<open>Options\<close>

text \<open>\<open>k=v\<close> entries of a label list; entries without exactly one \<open>=\<close> are skipped.\<close>

definition add_label :: "string \<Rightarrow> (string \<rightharpoonup> string) \<Rightarrow> (string \<rightharpoonup> string)" where
  "add_label part m =
     (case split_on (CHR ''='') part of [k, v] \<Rightarrow> m(k \<mapsto> v) | _ \<Rightarrow> m)"

definition label_map :: "string list \<Rightarrow> (string \<rightharpoonup> string)" where
  "label_map parts = fold add_label parts Map.empty"

text \<open>\<open>effect:key=value\<close>; a malformed entry still adds a taint, with the missing parts empty.\<close>

definition parse_taint :: "string \<Rightarrow> node_taint" where
  "parse_taint part =
     (case split_on (CHR '':'') part of
        [eff, rest] \<Rightarrow>
          (case split_on (CHR ''='') rest of
             [k, v] \<Rightarrow> \<lparr>nt_Effect = eff, nt_Key = k, nt_Value = v\<rparr>
           | _ \<Rightarrow> \<lparr>nt_Effect = eff, nt_Key = [], nt_Value = []\<rparr>)
      | _ \<Rightarrow> \<lparr>nt_Effect = [], nt_Key = [], nt_Value = []\<rparr>)"

definition gke_node_pool :: "driver_options \<Rightarrow> node_pool" where
  "gke_node_pool opts = \<lparr>
     np_Name = ''default-0'',
     np_InitialNodeCount = opt_int opts [''node-count'', ''nodeCount''],
     np_Config = \<lparr>
       nc_DiskSizeGb = opt_int opts [''disk-size-gb'', ''diskSizeGb''],
       nc_MachineType = opt_str opts [''machine-type'', ''machineType''],
       nc_DiskType = opt_str opts [''disk-type'', ''diskType''],
       nc_LocalSsdCount = opt_int opts [''local-ssd-count'', ''localSsdCount''],
       nc_Preemptible = opt_bool opts [''preemptible''],
       nc_ServiceAccount = opt_str opts [''service-account'', ''serviceAccount''],
       nc_ImageType = opt_str opts [''imageType''],
       nc_Labels = label_map (opt_slice opts [''labels'']),
       nc_OauthScopes = opt_slice opts [''oauth-scopes'', ''oauthScopes''],
       nc_Taints = map parse_taint (opt_slice opts [''taints''])\<rparr>,
     np_AutoRepair = opt_bool opts [''enable-auto-repair'', ''enableAutoRepair''],
     np_AutoUpgrade = opt_bool opts [''enable-auto-upgrade'', ''enableAutoUpgrade''],
     np_Autoscaling = Some \<lparr>
       as_Enabled = opt_bool opts [''enable-nodepool-autoscaling'', ''enableNodepoolAutoscaling''],
       as_MinNodeCount = opt_int opts [''min-node-count'', ''minNodeCount''],
       as_MaxNodeCount = opt_int opts [''max-node-count'', ''maxNodeCount'']\<rparr>\<rparr>"

definition gke_ip_policy :: "driver_options \<Rightarrow> ip_policy" where
  "gke_ip_policy opts = \<lparr>
     ip_UseIpAliases = opt_bool opts [''use-ip-aliases'', ''useIpAliases''],
     ip_CreateSubnetwork = opt_bool opts [''ip-policy-create-subnetwork'', ''ipPolicyCreateSubnetwork''],
     ip_SubnetworkName = opt_str opts [''ip-policy-subnetwork-name'', ''ipPolicySubnetworkName''],
     ip_ClusterSecondaryRangeName =
       opt_str opts [''ip-policy-cluster-secondary-range-name'', ''ipPolicyClusterSecondaryRangeName''],
     ip_ServicesSecondaryRangeName =
       opt_str opts [''ip-policy-services-secondary-range-name'', ''ipPolicyServicesSecondaryRangeName''],
     ip_ClusterIpv4CidrBlock = opt_str opts [''ip-policy-cluster-ipv4-cidr-block'', ''ipPolicyClusterIpv4CidrBlock''],
     ip_NodeIpv4CidrBlock = opt_str opts [''ip-policy-node-ipv4-cidr-block'', ''ipPolicyNodeIpv4CidrBlock''],
     ip_ServicesIpv4CidrBlock =
       opt_str opts [''ip-policy-services-ipv4-cidr-block'', ''ipPolicyServicesIpv4CidrBlock'']\<rparr>"

definition gke_read_opts :: "driver_options \<Rightarrow> gke_state" where
  "gke_read_opts opts = \<lparr>
     gs_DisplayName = opt_str opts [''display-name'', ''displayName''],
     gs_ProjectID = opt_str opts [''project-id'', ''projectId''],
     gs_Zone = opt_str opts [''zone''],
     gs_Region = opt_str opts [''region''],
     gs_ClusterIpv4Cidr = opt_str opts [''cluster-ipv4-cidr'', ''clusterIpv4Cidr''],
     gs_Description = opt_str opts [''description''],
     gs_MasterVersion = opt_str opts [''master-version'', ''masterVersion''],
     gs_MasterAuthUsername = ''admin'',
     gs_IssueClientCertificate = opt_bool opts [''issue-client-certificate'', ''issueClientCertificate''],
     gs_NodeVersion = opt_str opts [''node-version'', ''nodeVersion''],
     gs_Name = opt_str opts [''name''],
     gs_MasterNetworks = \<lparr>
       mn_Enabled = opt_bool opts [''enable-master-authorized-network'', ''enableMasterAuthorizedNetwork''],
       mn_CidrBlocks = opt_slice opts [''master-authorized-network-cidr-blocks'', ''masterAuthorizedNetworkCidrBlocks'']\<rparr>,
     gs_ResourceLabels = label_map (opt_slice opts [''resource-labels'', ''resourceLabels'']),
     gs_PrivateCluster = Some \<lparr>
       pc_EnablePrivateEndpoint = opt_bool opts [''enable-private-endpoint'', ''enablePrivateEndpoint''],
       pc_EnablePrivateNodes = opt_bool opts [''enable-private-nodes'', ''enablePrivateNodes''],
       pc_MasterIpv4CidrBlock = opt_str opts [''master-ipv4-cidr-block'', ''masterIpv4CidrBlock'']\<rparr>,
     gs_NodePool = Some (gke_node_pool opts),
     gs_IPPolicy = gke_ip_policy opts,
     gs_CredentialContent = opt_str opts [''credential''],
     gs_EnableAlphaFeature = opt_bool opts [''enable-alpha-feature'', ''enableAlphaFeature''],
     gs_EnableHTTPLoadBalancing = opt_bool_ptr opts [''enable-http-load-balancing'', ''enableHttpLoadBalancing''],
     gs_EnableHorizontalPodAutoscaling = opt_bool_ptr opts [''enableHorizontalPodAutoscaling''],
     gs_EnableKubernetesDashboard = opt_bool opts [''kubernetes-dashboard'', ''enableKubernetesDashboard''],
     gs_EnableNetworkPolicyConfig = opt_bool_ptr opts [''enableNetworkPolicyConfig''],
     gs_Locations = opt_slice opts [''locations''],
     gs_Network = opt_str opts [''network''],
     gs_SubNetwork = opt_str opts [''subNetwork''],
     gs_LegacyAbac = opt_bool opts [''enable-legacy-abac'', ''enableLegacyAbac''],
     gs_NodePoolID = opt_str opts [''nodePool''],
     gs_EnableStackdriverLogging = opt_bool_ptr opts [''enable-stackdriver-logging'', ''enableStackdriverLogging''],
     gs_EnableStackdriverMonitoring =
       opt_bool_ptr opts [''enable-stackdriver-monitoring'', ''enableStackdriverMonitoring''],
     gs_MaintenanceWindow = opt_str opts [''maintenance-window'', ''maintenanceWindow'']\<rparr>"

text \<open>Signed comparison of the node counts, as Go's \<open>int64\<close> has it.\<close>

definition bad_autoscaling :: "node_pool option \<Rightarrow> bool" where
  "bad_autoscaling np =
     (case np of
        None \<Rightarrow> False
      | Some p \<Rightarrow>
          (case np_Autoscaling p of
             None \<Rightarrow> False
           | Some a \<Rightarrow> as_Enabled a \<and>
               (sint (as_MinNodeCount a) < 1 \<or> sint (as_MaxNodeCount a) < sint (as_MinNodeCount a))))"

definition gke_validate :: "gke_state \<Rightarrow> goerr option" where
  "gke_validate s =
     (if gs_ProjectID s = [] then Some (Errorf ''project ID is required'')
      else if gs_Zone s = [] \<and> gs_Region s = [] then Some (Errorf ''zone or region is required'')
      else if gs_Zone s \<noteq> [] \<and> gs_Region s \<noteq> []
      then Some (Errorf ''only one of zone or region must be specified'')
      else if gs_Name s = [] then Some (Errorf ''cluster name is required'')
      else if bad_autoscaling (gs_NodePool s)
      then Some (Errorf ''minNodeCount in the NodePool must be >= 1 and <= maxNodeCount'')
      else if (case gs_PrivateCluster s of
                 None \<Rightarrow> False
               | Some p \<Rightarrow> pc_EnablePrivateEndpoint p \<and> \<not> pc_EnablePrivateNodes p)
      then Some (Errorf ''private endpoint requires private nodes'')
      else None)"

definition gke_getStateFromOpts :: "driver_options \<Rightarrow> goerr + gke_state" where
  "gke_getStateFromOpts opts =
     (let s = gke_read_opts opts in case gke_validate s of Some e \<Rightarrow> Inl e | None \<Rightarrow> Inr s)"

section \<open>Resource names and requests\<close>

definition locationRRN :: "string \<Rightarrow> string \<Rightarrow> string" where
  "locationRRN projectID loc = ''projects/'' @ projectID @ ''/locations/'' @ loc"

definition clusterRRN :: "string \<Rightarrow> string \<Rightarrow> string \<Rightarrow> string" where
  "clusterRRN projectID loc clusterName = locationRRN projectID loc @ ''/clusters/'' @ clusterName"

definition nodePoolRRN :: "string \<Rightarrow> string \<Rightarrow> string \<Rightarrow> string \<Rightarrow> string" where
  "nodePoolRRN projectID loc clusterName nodePool = clusterRRN projectID loc clusterName @ ''/nodePools/'' @ nodePool"

record create_request =
  cq_Name :: string
  cq_InitialClusterVersion :: string
  cq_Description :: string
  cq_EnableKubernetesAlpha :: bool
  cq_ClusterIpv4Cidr :: string
  cq_HttpLoadBalancingDisabled :: bool
  cq_HorizontalPodAutoscalingDisabled :: bool
  cq_KubernetesDashboardDisabled :: bool
  cq_NetworkPolicyDisabled :: bool
  cq_Network :: string
  cq_Subnetwork :: string
  cq_LegacyAbac :: bool
  cq_MasterAuthUsername :: string
  cq_IssueClientCertificate :: bool
  cq_NodePools :: "node_pool option list"
  cq_ResourceLabels :: "string \<rightharpoonup> string"
  cq_MasterNetworks :: "master_networks option"
  cq_PrivateCluster :: "private_cluster option"
  cq_IpAllocationPolicy :: ip_policy
  cq_LoggingService :: string
  cq_MonitoringService :: string
  cq_MaintenanceStartTime :: "string option"
  cq_Locations :: "string list"

definition off :: "bool option \<Rightarrow> bool" where
  "off b = (b = Some False)"

text \<open>
  \<open>strings.ToLower\<close>: ASCII strings letter by letter; \<open>uni\<close> is the Unicode mapping of the others.
\<close>

definition ToLower :: "(string \<Rightarrow> string) \<Rightarrow> string \<Rightarrow> string" where
  "ToLower uni s = (if is_ascii s then to_lower s else uni s)"

definition generateClusterCreateRequest :: "(string \<Rightarrow> string) \<Rightarrow> gke_state \<Rightarrow> create_request" where
  "generateClusterCreateRequest uni s = \<lparr>
     cq_Name = gs_Name s,
     cq_InitialClusterVersion = gs_MasterVersion s,
     cq_Description = gs_Description s,
     cq_EnableKubernetesAlpha = gs_EnableAlphaFeature s,
     cq_ClusterIpv4Cidr =
       (if ip_UseIpAliases (gs_IPPolicy s) \<and> ip_ClusterIpv4CidrBlock (gs_IPPolicy s) \<noteq> [] then []
        else gs_ClusterIpv4Cidr s),
     cq_HttpLoadBalancingDisabled = off (gs_EnableHTTPLoadBalancing s),
     cq_HorizontalPodAutoscalingDisabled = off (gs_EnableHorizontalPodAutoscaling s),
     cq_KubernetesDashboardDisabled = (\<not> gs_EnableKubernetesDashboard s),
     cq_NetworkPolicyDisabled = off (gs_EnableNetworkPolicyConfig s),
     cq_Network = gs_Network s,
     cq_Subnetwork = gs_SubNetwork s,
     cq_LegacyAbac = gs_LegacyAbac s,
     cq_MasterAuthUsername = gs_MasterAuthUsername s,
     cq_IssueClientCertificate = gs_IssueClientCertificate s,
     cq_NodePools = [gs_NodePool s],
     cq_ResourceLabels = (gs_ResourceLabels s)(''display-name'' \<mapsto> ToLower uni (gs_DisplayName s)),
     cq_MasterNetworks = (if mn_Enabled (gs_MasterNetworks s) then Some (gs_MasterNetworks s) else None),
     cq_PrivateCluster =
       (case gs_PrivateCluster s of Some p \<Rightarrow> if pc_EnablePrivateNodes p then Some p else None | None \<Rightarrow> None),
     cq_IpAllocationPolicy = gs_IPPolicy s,
     cq_LoggingService = (if off (gs_EnableStackdriverLogging s) then ''none'' else []),
     cq_MonitoringService = (if off (gs_EnableStackdriverMonitoring s) then ''none'' else []),
     cq_MaintenanceStartTime = (if gs_MaintenanceWindow s \<noteq> [] then Some (gs_MaintenanceWindow s) else None),
     cq_Locations = gs_Locations s\<rparr>"

section \<open>The cloud\<close>

record raw_node_pool =
  rn_Name :: string
  rn_InitialNodeCount :: int64
  rn_Status :: string

record raw_cluster =
  rc_Name :: string
  rc_Status :: string
  rc_Endpoint :: string
  rc_CurrentMasterVersion :: string
  rc_CurrentNodeCount :: int64
  rc_AuthUsername :: string
  rc_AuthPassword :: string
  rc_ClusterCaCertificate :: string
  rc_ClientCertificate :: string
  rc_ClientKey :: string
  rc_NodePools :: "raw_node_pool list"

datatype cluster_update = DesiredMasterVersion string | DesiredNodeVersion string

text \<open>
  Google's API as the driver calls it. A service client is bound to the credential it was made
  with, so every call takes the credential.
\<close>

record 'g gke_api =
  ga_Credentials :: "string \<Rightarrow> goerr option"
  ga_NewService :: "goerr option"
  ga_Token :: "string \<Rightarrow> 'g \<Rightarrow> (goerr + string) \<times> 'g"
  ga_Create :: "string \<Rightarrow> string \<Rightarrow> create_request \<Rightarrow> 'g \<Rightarrow> goerr option \<times> 'g"
  ga_Get :: "string \<Rightarrow> string \<Rightarrow> 'g \<Rightarrow> (goerr + raw_cluster) \<times> 'g"
  ga_ZonesGet :: "string \<Rightarrow> string \<Rightarrow> string \<Rightarrow> string \<Rightarrow> 'g \<Rightarrow> (goerr + raw_cluster) \<times> 'g"
  ga_Update :: "string \<Rightarrow> string \<Rightarrow> cluster_update \<Rightarrow> 'g \<Rightarrow> goerr option \<times> 'g"
  ga_Delete :: "string \<Rightarrow> string \<Rightarrow> 'g \<Rightarrow> goerr option \<times> 'g"
  ga_NpGet :: "string \<Rightarrow> string \<Rightarrow> 'g \<Rightarrow> (goerr + raw_node_pool) \<times> 'g"
  ga_NpUpdate :: "string \<Rightarrow> string \<Rightarrow> string \<Rightarrow> 'g \<Rightarrow> goerr option \<times> 'g"
  ga_NpSetSize :: "string \<Rightarrow> string \<Rightarrow> int64 \<Rightarrow> 'g \<Rightarrow> goerr option \<times> 'g"
  ga_NpSetAutoscaling :: "string \<Rightarrow> string \<Rightarrow> np_autoscaling option \<Rightarrow> 'g \<Rightarrow> goerr option \<times> 'g"
  ga_NewForConfig :: "string \<Rightarrow> string \<Rightarrow> string \<Rightarrow> goerr + 'g clientset"

text \<open>The environment of a handler: the API, and \<open>json.Marshal\<close> and \<open>json.Unmarshal\<close> of the state.\<close>

record 'g gke_env =
  ge_api :: "'g gke_api"
  ge_Marshal :: "gke_state \<Rightarrow> goerr + string"
  ge_Unmarshal :: "string \<Rightarrow> goerr + gke_state"
  ge_ToLower :: "string \<Rightarrow> string"

section \<open>Waiting\<close>

definition runningStatus :: string where "runningStatus = ''RUNNING''"

text \<open>The bodies of the two polling loops; a pause of five seconds follows every poll that goes on.\<close>

definition gke_poll :: "'g gke_api \<Rightarrow> string \<Rightarrow> string \<Rightarrow> 'g \<Rightarrow> (goerr + unit) outcome option \<times> 'g" where
  "gke_poll api svc rrn g =
     (case ga_Get api svc rrn g of
        (Inl e, g') \<Rightarrow> (Some (Ret (Inl e)), g')
      | (Inr c, g') \<Rightarrow> (if rc_Status c = runningStatus then Some (Ret (Inr ())) else None, g'))"

definition waitCluster :: "'g gke_api \<Rightarrow> string \<Rightarrow> string \<Rightarrow> (unit, 'g) run" where
  "waitCluster api svc rrn = poll_until (gke_poll api svc rrn)"

definition np_poll :: "'g gke_api \<Rightarrow> string \<Rightarrow> string \<Rightarrow> 'g \<Rightarrow> (goerr + unit) outcome option \<times> 'g" where
  "np_poll api svc rrn g =
     (case ga_NpGet api svc rrn g of
        (Inl e, g') \<Rightarrow> (Some (Ret (Inl e)), g')
      | (Inr p, g') \<Rightarrow> (if rn_Status p = runningStatus then Some (Ret (Inr ())) else None, g'))"

definition waitNodePool :: "'g gke_api \<Rightarrow> string \<Rightarrow> string \<Rightarrow> (unit, 'g) run" where
  "waitNodePool api svc rrn = poll_until (np_poll api svc rrn)"

text \<open>
  \<open>waitClusterRemoveExp\<close>: the rounds that are left, and the error of the previous one. The result, the
  cloud and the pauses in seconds.
\<close>

fun remove_rounds :: "'g gke_api \<Rightarrow> string \<Rightarrow> string \<Rightarrow> nat list \<Rightarrow> goerr option \<Rightarrow> 'g \<Rightarrow> goerr option \<times> 'g \<times> nat list" where
  "remove_rounds api svc rrn [] err g = (err, g, [])"
| "remove_rounds api svc rrn (i # is) err g =
     (case ga_Delete api svc rrn g of
        (None, g') \<Rightarrow> (None, g', [i * i])
      | (Some e, g') \<Rightarrow>
          (if \<not> contains (err_msg e) ''Please wait and try again once it is done'' then (Some e, g', [i * i])
           else (case remove_rounds api svc rrn is (Some e) g' of (r, g'', ps) \<Rightarrow> (r, g'', i * i # ps))))"

definition waitClusterRemoveExp :: "'g gke_api \<Rightarrow> string \<Rightarrow> gke_state \<Rightarrow> 'g \<Rightarrow> goerr option \<times> 'g \<times> nat list" where
  "waitClusterRemoveExp api svc s g =
     remove_rounds api svc (clusterRRN (gs_ProjectID s) (location s) (gs_Name s)) [1..<12] None g"

section \<open>Handlers\<close>

definition state_rrn :: "gke_state \<Rightarrow> string" where
  "state_rrn s = clusterRRN (gs_ProjectID s) (location s) (gs_Name s)"

definition pool_rrn :: "gke_state \<Rightarrow> string" where
  "pool_rrn s = nodePoolRRN (gs_ProjectID s) (location s) (gs_Name s) (gs_NodePoolID s)"

definition storeState :: "'g gke_env \<Rightarrow> cluster_info \<Rightarrow> gke_state \<Rightarrow> goerr + cluster_info" where
  "storeState ge info s =
     (case ge_Marshal ge s of
        Inl e \<Rightarrow> Inl e
      | Inr bytes \<Rightarrow>
          Inr (info\<lparr>ci_Metadata :=
            gm_put ''region'' (gs_Region s) (gm_put ''zone'' (gs_Zone s)
              (gm_put ''project-id'' (gs_ProjectID s) (gm_put ''state'' bytes (ci_Metadata info))))\<rparr>))"

definition gke_getState :: "'g gke_env \<Rightarrow> cluster_info \<Rightarrow> goerr + gke_state" where
  "gke_getState ge info = ge_Unmarshal ge (gm_str (ci_Metadata info) ''state'')"

text \<open>The service client is the credential it is bound to.\<close>

definition GetTokenSource :: "'g gke_env \<Rightarrow> string \<Rightarrow> goerr + string" where
  "GetTokenSource ge cred = (case ga_Credentials (ge_api ge) cred of Some e \<Rightarrow> Inl e | None \<Rightarrow> Inr cred)"

definition getServiceClientWithTokenSource :: "'g gke_env \<Rightarrow> string \<Rightarrow> goerr + string" where
  "getServiceClientWithTokenSource ge ts = (case ga_NewService (ge_api ge) of Some e \<Rightarrow> Inl e | None \<Rightarrow> Inr ts)"

definition getServiceClient :: "'g gke_env \<Rightarrow> string \<Rightarrow> goerr + string" where
  "getServiceClient ge cred =
     (case GetTokenSource ge cred of Inl e \<Rightarrow> Inl e | Inr ts \<Rightarrow> getServiceClientWithTokenSource ge ts)"

text \<open>\<open>Create\<close> returns the info beside the error, so that a failed attempt can be cleaned up.\<close>

definition gke_Create :: "'g gke_env \<Rightarrow> driver_options \<Rightarrow> 'g
    \<Rightarrow> ((cluster_info option \<times> goerr option) outcome \<times> 'g) option" where
  "gke_Create ge opts g =
     (case gke_getStateFromOpts opts of
        Inl e \<Rightarrow> Some (Ret (None, Some e), g)
      | Inr s \<Rightarrow>
          (case storeState ge empty_info s of
             Inl e \<Rightarrow> Some (Ret (Some empty_info, Some e), g)
           | Inr info \<Rightarrow>
               (case getServiceClient ge (gs_CredentialContent s) of
                  Inl e \<Rightarrow> Some (Ret (Some info, Some e), g)
                | Inr svc \<Rightarrow>
                    (case ga_Create (ge_api ge) svc (locationRRN (gs_ProjectID s) (location s))
                            (generateClusterCreateRequest (ge_ToLower ge) s) g of
                       (r, g1) \<Rightarrow>
                         (if (case r of Some e \<Rightarrow> \<not> contains (err_msg e) ''alreadyExists'' | None \<Rightarrow> False)
                          then Some (Ret (Some info, r), g1)
                          else (case waitCluster (ge_api ge) svc (state_rrn s) g1 of
                                  None \<Rightarrow> None
                                | Some (Ret (Inl e), g2) \<Rightarrow> Some (Ret (Some info, Some e), g2)
                                | Some (Ret (Inr _), g2) \<Rightarrow> Some (Ret (Some info, None), g2)
                                | Some (Panic p, g2) \<Rightarrow> Some (Panic p, g2)))))))"

text \<open>The steps of \<open>Update\<close>.\<close>

definition first_pool :: "raw_cluster \<Rightarrow> (raw_node_pool, 'g) run" where
  "first_pool c = (case rc_NodePools c of [] \<Rightarrow> gpanic ''index out of range'' | p # _ \<Rightarrow> gret p)"

definition upd_pool_id :: "'g gke_env \<Rightarrow> string \<Rightarrow> gke_state \<Rightarrow> (gke_state, 'g) run" where
  "upd_pool_id ge svc s =
     (if gs_NodePoolID s = [] then
        gbind (gcall (ga_Get (ge_api ge) svc (state_rrn s))) (\<lambda>c.
        gbind (first_pool c) (\<lambda>p. gret (s\<lparr>gs_NodePoolID := rn_Name p\<rparr>)))
      else gret s)"

definition upd_master :: "'g gke_env \<Rightarrow> string \<Rightarrow> gke_state \<Rightarrow> gke_state \<Rightarrow> (gke_state, 'g) run" where
  "upd_master ge svc new s =
     (if gs_MasterVersion new \<noteq> [] then
        gbind (gdo (ga_Update (ge_api ge) svc (state_rrn s) (DesiredMasterVersion (gs_MasterVersion new)))) (\<lambda>_.
        gbind (waitCluster (ge_api ge) svc (state_rrn s)) (\<lambda>_.
        gret (s\<lparr>gs_MasterVersion := gs_MasterVersion new\<rparr>)))
      else gret s)"

definition upd_nodes :: "'g gke_env \<Rightarrow> string \<Rightarrow> gke_state \<Rightarrow> gke_state \<Rightarrow> (gke_state, 'g) run" where
  "upd_nodes ge svc new s =
     (if gs_NodeVersion new \<noteq> [] then
        gbind (gdo (ga_NpUpdate (ge_api ge) svc (pool_rrn s) (gs_NodeVersion s))) (\<lambda>_.
        gbind (waitNodePool (ge_api ge) svc (pool_rrn s)) (\<lambda>_.
        gret (s\<lparr>gs_NodeVersion := gs_NodeVersion new\<rparr>)))
      else gret s)"

definition upd_size :: "'g gke_env \<Rightarrow> string \<Rightarrow> gke_state \<Rightarrow> gke_state \<Rightarrow> (unit, 'g) run" where
  "upd_size ge svc new s =
     (case gs_NodePool new of
        None \<Rightarrow> gret ()
      | Some np \<Rightarrow>
          (if np_InitialNodeCount np \<noteq> 0 then
             gbind (gdo (ga_NpSetSize (ge_api ge) svc (pool_rrn s) (np_InitialNodeCount np))) (\<lambda>_.
             waitCluster (ge_api ge) svc (state_rrn s))
           else gret ()))"

definition upd_autoscaling :: "'g gke_env \<Rightarrow> string \<Rightarrow> gke_state \<Rightarrow> gke_state \<Rightarrow> (unit, 'g) run" where
  "upd_autoscaling ge svc new s =
     (case gs_NodePool new of
        None \<Rightarrow> gret ()
      | Some np \<Rightarrow>
          (case np_Autoscaling np of
             None \<Rightarrow> gret ()
           | Some a \<Rightarrow>
               (if as_Enabled a then
                  gbind (gdo (ga_NpSetAutoscaling (ge_api ge) svc (pool_rrn s) (Some a))) (\<lambda>_.
                  waitCluster (ge_api ge) svc (state_rrn s))
                else gret ())))"

definition gke_Update :: "'g gke_env \<Rightarrow> cluster_info \<Rightarrow> driver_options \<Rightarrow> (cluster_info, 'g) run" where
  "gke_Update ge info opts =
     gbind (gpure (gke_getState ge info)) (\<lambda>s0.
     gbind (gpure (gke_getStateFromOpts opts)) (\<lambda>new.
     gbind (gpure (getServiceClient ge (gs_CredentialContent s0))) (\<lambda>svc.
     gbind (upd_pool_id ge svc s0) (\<lambda>s1.
     gbind (upd_master ge svc new s1) (\<lambda>s2.
     gbind (upd_nodes ge svc new s2) (\<lambda>s3.
     gbind (upd_size ge svc new s3) (\<lambda>_.
     gbind (upd_autoscaling ge svc new s3) (\<lambda>_.
     gpure (storeState ge info s3)))))))))"

definition gke_PostCheck :: "'g gke_env \<Rightarrow> cluster_info \<Rightarrow> (cluster_info, 'g) run" where
  "gke_PostCheck ge info =
     gbind (gpure (gke_getState ge info)) (\<lambda>s.
     gbind (gpure (GetTokenSource ge (gs_CredentialContent s))) (\<lambda>ts.
     gbind (gpure (getServiceClientWithTokenSource ge ts)) (\<lambda>svc.
     gbind (waitCluster (ge_api ge) svc (state_rrn s)) (\<lambda>_.
     gbind (gcall (ga_Get (ge_api ge) svc (state_rrn s))) (\<lambda>c.
     gbind (gcall (ga_Token (ge_api ge) ts)) (\<lambda>token.
     gbind (first_pool c) (\<lambda>p.
     if ci_Metadata info = None then gpanic ''assignment to entry in nil map''
     else gret (info\<lparr>
       ci_Endpoint := rc_Endpoint c, ci_Version := rc_CurrentMasterVersion c,
       ci_Username := rc_AuthUsername c, ci_Password := rc_AuthPassword c,
       ci_RootCaCertificate := rc_ClusterCaCertificate c, ci_ClientCertificate := rc_ClientCertificate c,
       ci_ClientKey := rc_ClientKey c, ci_NodeCount := rc_CurrentNodeCount c,
       ci_Metadata := gm_put ''nodePool'' (rn_Name p) (ci_Metadata info),
       ci_ServiceAccountToken := token\<rparr>))))))))"

definition gke_Remove :: "'g gke_env \<Rightarrow> cluster_info \<Rightarrow> (unit, 'g) run" where
  "gke_Remove ge info =
     gbind (gpure (gke_getState ge info)) (\<lambda>s.
     gbind (gpure (getServiceClient ge (gs_CredentialContent s))) (\<lambda>svc.
     \<lambda>g. (case waitClusterRemoveExp (ge_api ge) svc s g of
            (Some e, g', _) \<Rightarrow>
              (if contains (err_msg e) ''notFound'' then Some (Ret (Inr ()), g') else Some (Ret (Inl e), g'))
          | (None, g', _) \<Rightarrow> Some (Ret (Inr ()), g'))))"

definition getClusterStats :: "'g gke_env \<Rightarrow> cluster_info \<Rightarrow> (raw_cluster, 'g) run" where
  "getClusterStats ge info =
     gbind (gpure (gke_getState ge info)) (\<lambda>s.
     gbind (gpure (getServiceClient ge (gs_CredentialContent s))) (\<lambda>svc.
     gcall (\<lambda>g. (case ga_ZonesGet (ge_api ge) svc (gs_ProjectID s) (location s) (gs_Name s) g of
        (Inl e, g') \<Rightarrow> (Inl (Errorf (''error getting cluster info: '' @ err_msg e)), g')
      | (Inr c, g') \<Rightarrow> (Inr c, g')))))"

definition gke_GetClusterSize :: "'g gke_env \<Rightarrow> cluster_info \<Rightarrow> (int64, 'g) run" where
  "gke_GetClusterSize ge info =
     gbind (getClusterStats ge info) (\<lambda>c. gbind (first_pool c) (\<lambda>p. gret (rn_InitialNodeCount p)))"

definition gke_GetVersion :: "'g gke_env \<Rightarrow> cluster_info \<Rightarrow> (string, 'g) run" where
  "gke_GetVersion ge info = gbind (getClusterStats ge info) (\<lambda>c. gret (rc_CurrentMasterVersion c))"

definition gke_SetClusterSize :: "'g gke_env \<Rightarrow> cluster_info \<Rightarrow> int64 \<Rightarrow> (unit, 'g) run" where
  "gke_SetClusterSize ge info n =
     gbind (getClusterStats ge info) (\<lambda>c.
     gbind (gpure (gke_getState ge info)) (\<lambda>s.
     gbind (gpure (getServiceClient ge (gs_CredentialContent s))) (\<lambda>svc.
     gbind (first_pool c) (\<lambda>p.
     gbind (gdo (ga_NpSetSize (ge_api ge) svc
              (nodePoolRRN (gs_ProjectID s) (location s) (rc_Name c) (rn_Name p)) n)) (\<lambda>_.
     waitCluster (ge_api ge) svc (state_rrn s))))))"

definition updateAndWait :: "'g gke_env \<Rightarrow> cluster_info \<Rightarrow> cluster_update \<Rightarrow> (unit, 'g) run" where
  "updateAndWait ge info upd =
     gbind (getClusterStats ge info) (\<lambda>c.
     gbind (gpure (gke_getState ge info)) (\<lambda>s.
     gbind (gpure (getServiceClient ge (gs_CredentialContent s))) (\<lambda>svc.
     gbind (gdo (\<lambda>g. (case ga_Update (ge_api ge) svc (clusterRRN (gs_ProjectID s) (location s) (rc_Name c)) upd g of
        (Some e, g') \<Rightarrow> (Some (Errorf (''error while updating cluster: '' @ err_msg e)), g')
      | (None, g') \<Rightarrow> (None, g')))) (\<lambda>_.
     waitCluster (ge_api ge) svc (state_rrn s)))))"

definition gke_SetVersion :: "'g gke_env \<Rightarrow> cluster_info \<Rightarrow> string \<Rightarrow> (unit, 'g) run" where
  "gke_SetVersion ge info v =
     gbind (updateAndWait ge info (DesiredMasterVersion v)) (\<lambda>_.
     updateAndWait ge info (DesiredNodeVersion v))"

definition gke_GetK8SCapabilities :: "driver_options \<Rightarrow> goerr + k8s_capabilities" where
  "gke_GetK8SCapabilities opts =
     (case gke_getStateFromOpts opts of
        Inl e \<Rightarrow> Inl e
      | Inr s \<Rightarrow>
          Inr \<lparr>k8s_L4LoadBalancer = Some \<lparr>lb_Enabled = True, lb_Provider = ''GCLB'',
                 lb_ProtocolsSupported = [''TCP'', ''UDP''], lb_HealthCheckSupported = True\<rparr>,
               k8s_IngressControllers =
                 (if gs_EnableHTTPLoadBalancing s = Some True
                  then [\<lparr>ing_IngressProvider = ''GCLB'', ing_CustomDefaultBackend = True\<rparr>] else []),
               k8s_NodePoolScalingSupported = False, k8s_NodePortRange = []\<rparr>)"

definition gke_getClientset :: "'g gke_env \<Rightarrow> raw_cluster \<Rightarrow> string \<Rightarrow> goerr + 'g clientset" where
  "gke_getClientset ge c ts =
     (case base64_decode (rc_ClusterCaCertificate c) of
        None \<Rightarrow> Inl (Errorf ''illegal base64 data'')
      | Some capem \<Rightarrow>
          ga_NewForConfig (ge_api ge)
            (if has_prefix (rc_Endpoint c) ''https://'' then rc_Endpoint c else ''https://'' @ rc_Endpoint c) capem ts)"

definition gke_RemoveLegacyServiceAccount :: "'g gke_env \<Rightarrow> cluster_info \<Rightarrow> (unit, 'g) run" where
  "gke_RemoveLegacyServiceAccount ge info =
     gbind (gpure (gke_getState ge info)) (\<lambda>s.
     gbind (gpure (GetTokenSource ge (gs_CredentialContent s))) (\<lambda>ts.
     gbind (gpure (getServiceClientWithTokenSource ge ts)) (\<lambda>svc.
     gbind (gcall (ga_Get (ge_api ge) svc (state_rrn s))) (\<lambda>c.
     gbind (gpure (gke_getClientset ge c ts)) (\<lambda>cs.
     gdo (DeleteLegacyServiceAccountAndRoleBinding cs))))))"

definition gke_ETCDSave :: "(unit, 'g) run" where
  "gke_ETCDSave = gpure (Inl etcd_unsupported)"
definition gke_ETCDRestore :: "(cluster_info, 'g) run" where
  "gke_ETCDRestore = gpure (Inl etcd_unsupported)"
definition gke_ETCDRemoveSnapshot :: "(unit, 'g) run" where
  "gke_ETCDRemoveSnapshot = gpure (Inl etcd_unsupported)"

section \<open>Lemmas: waiting\<close>

lemma gke_poll_ends:
  "poll_ends (gke_poll api svc rrn) g \<longleftrightarrow>
   (case fst (ga_Get api svc rrn g) of Inl e \<Rightarrow> True | Inr c \<Rightarrow> rc_Status c = ''RUNNING'')"
  by (auto simp: poll_ends_def gke_poll_def runningStatus_def split: prod.splits sum.splits)

section \<open>Lemmas: options and requests\<close>

lemma gke_accepted:
  "gke_getStateFromOpts opts = Inr s \<longleftrightarrow> s = gke_read_opts opts \<and> gke_validate s = None"
  by (auto simp: gke_getStateFromOpts_def Let_def split: option.splits)

lemma gke_validD:
  assumes "gke_validate s = None"
  shows "gs_ProjectID s \<noteq> []" "gs_Name s \<noteq> []" "location s \<noteq> []" "(gs_Zone s = []) \<noteq> (gs_Region s = [])"
    "\<not> bad_autoscaling (gs_NodePool s)"
    "\<And>p. \<lbrakk>gs_PrivateCluster s = Some p; pc_EnablePrivateEndpoint p\<rbrakk> \<Longrightarrow> pc_EnablePrivateNodes p"
  using assms by (auto simp: gke_validate_def location_def split: if_splits option.splits)

lemma gke_read_opts_pool: "gs_NodePool (gke_read_opts opts) = Some (gke_node_pool opts)"
  by (simp add: gke_read_opts_def)

lemma gke_pool_autoscaling: "\<exists>a. np_Autoscaling (gke_node_pool opts) = Some a"
  by (simp add: gke_node_pool_def)

section \<open>Lemmas: the client and the stored state\<close>

lemma getServiceClient_ok:
  "\<lbrakk>ga_Credentials (ge_api ge) c = None; ga_NewService (ge_api ge) = None\<rbrakk> \<Longrightarrow> getServiceClient ge c = Inr c"
  by (simp add: getServiceClient_def GetTokenSource_def getServiceClientWithTokenSource_def)

interpretation gke: driver_state "ge_Marshal ge" "ge_Unmarshal ge" "storeState ge" "gke_getState ge"
  by unfold_locales (auto simp: storeState_def gke_getState_def)

section \<open>Lemmas: removing\<close>

definition delete_step :: "'g gke_api \<Rightarrow> string \<Rightarrow> string \<Rightarrow> 'g \<Rightarrow> 'g" where
  "delete_step api svc rrn g = snd (ga_Delete api svc rrn g)"

definition told_to_wait :: "goerr option \<Rightarrow> bool" where
  "told_to_wait r = (case r of None \<Rightarrow> False
     | Some e \<Rightarrow> contains (err_msg e) ''Please wait and try again once it is done'')"

lemma remove_rounds_trace:
  assumes "remove_rounds api svc rrn is err g = (r, g', ps)" "is \<noteq> []"
  shows "ps \<noteq> [] \<and> ps = map (\<lambda>i. i * i) (take (length ps) is) \<and> length ps \<le> length is \<and>
    g' = (delete_step api svc rrn ^^ length ps) g \<and>
    r = fst (ga_Delete api svc rrn ((delete_step api svc rrn ^^ (length ps - 1)) g)) \<and>
    (\<forall>j<length ps - 1. told_to_wait (fst (ga_Delete api svc rrn ((delete_step api svc rrn ^^ j) g)))) \<and>
    (told_to_wait r \<longrightarrow> length ps = length is)"
  using assms
proof (induction "is" arbitrary: err g ps)
  case Nil
  then show ?case by simp
next
  case (Cons i "is")
  obtain r1 g1 where d: "ga_Delete api svc rrn g = (r1, g1)" by fastforce
  show ?case
  proof (cases "told_to_wait r1 \<and> is \<noteq> []")
    case False
    with Cons.prems d show ?thesis
      by (cases "is") (auto simp: told_to_wait_def delete_step_def split: option.splits if_splits)
  next
    case True
    then obtain e where r1: "r1 = Some e" by (cases r1) (auto simp: told_to_wait_def)
    with True d Cons.prems(1) obtain ps' where
      rest: "remove_rounds api svc rrn is (Some e) g1 = (r, g', ps')" and ps: "ps = i * i # ps'"
      by (auto simp: told_to_wait_def split: prod.splits)
    note IH = Cons.IH[OF rest] True
    from d have g1: "g1 = delete_step api svc rrn g" by (simp add: delete_step_def)
    from IH have ne: "ps' \<noteq> []" by blast
    then obtain m where m: "length ps' = Suc m" by (cases ps') auto
    have "\<forall>j<length ps'. told_to_wait (fst (ga_Delete api svc rrn ((delete_step api svc rrn ^^ j) g)))"
    proof (intro allI impI)
      fix j assume "j < length ps'"
      then show "told_to_wait (fst (ga_Delete api svc rrn ((delete_step api svc rrn ^^ j) g)))"
        using IH True d m by (cases j) (auto simp: g1 funpow_Suc_right simp del: funpow.simps)
    qed
    with IH m show ?thesis
      by (auto simp: ps g1 funpow_Suc_right simp del: funpow.simps)
  qed
qed

text \<open>A small cloud for the witnesses: the state is the number of calls, a cluster runs after two
  polls and a delete is accepted after three; the codec keeps the node version only.\<close>

definition demo_gke_opts :: driver_options where
  "demo_gke_opts = \<lparr>BoolOptions = Map.empty,
     StringOptions = [''project-id'' \<mapsto> ''p'', ''zone'' \<mapsto> ''z'', ''name'' \<mapsto> ''c'', ''nodePool'' \<mapsto> ''np'',
                      ''credential'' \<mapsto> ''cred'', ''node-version'' \<mapsto> ''1.9''],
     IntOptions = Map.empty, StringSliceOptions = Map.empty\<rparr>"

definition demo_raw_pool :: raw_node_pool where
  "demo_raw_pool = \<lparr>rn_Name = ''np'', rn_InitialNodeCount = 3, rn_Status = ''RUNNING''\<rparr>"

definition demo_raw_cluster :: "string \<Rightarrow> raw_cluster" where
  "demo_raw_cluster st = \<lparr>rc_Name = ''c'', rc_Status = st, rc_Endpoint = ''1.2.3.4'', rc_CurrentMasterVersion = ''1.9'',
     rc_CurrentNodeCount = 3, rc_AuthUsername = ''admin'', rc_AuthPassword = ''pw'', rc_ClusterCaCertificate = [],
     rc_ClientCertificate = [], rc_ClientKey = [], rc_NodePools = [demo_raw_pool]\<rparr>"

definition demo_gke_api :: "nat gke_api" where
  "demo_gke_api = \<lparr>
     ga_Credentials = \<lambda>c. None, ga_NewService = None, ga_Token = \<lambda>ts n. (Inr ''tok'', n),
     ga_Create = \<lambda>svc loc q n. (None, n),
     ga_Get = \<lambda>svc rrn n. (Inr (demo_raw_cluster (if 2 \<le> n then ''RUNNING'' else ''PROVISIONING'')), Suc n),
     ga_ZonesGet = \<lambda>svc p z c n. (Inr (demo_raw_cluster ''RUNNING''), n),
     ga_Update = \<lambda>svc rrn u n. (None, n),
     ga_Delete = \<lambda>svc rrn n.
       (if n < 3 then Some (Errorf ''Please wait and try again once it is done'') else None, Suc n),
     ga_NpGet = \<lambda>svc rrn n. (Inr demo_raw_pool, Suc n),
     ga_NpUpdate = \<lambda>svc rrn v n. (None, n), ga_NpSetSize = \<lambda>svc rrn k n. (None, n),
     ga_NpSetAutoscaling = \<lambda>svc rrn a n. (None, n),
     ga_NewForConfig = \<lambda>h c t. Inl (Errorf ''no cluster'')\<rparr>"

definition demo_gke_env :: "nat gke_env" where
  "demo_gke_env = \<lparr>ge_api = demo_gke_api, ge_Marshal = \<lambda>s. Inr (gs_NodeVersion s),
     ge_Unmarshal = \<lambda>b. Inr ((gke_read_opts demo_gke_opts)\<lparr>gs_NodeVersion := b\<rparr>), ge_ToLower = id\<rparr>"

lemmas demo_gke_defs = demo_gke_env_def demo_gke_api_def demo_raw_cluster_def demo_raw_pool_def

lemma demo_gke_accepted [simp]: "gke_getStateFromOpts demo_gke_opts = Inr (gke_read_opts demo_gke_opts)"
  by (simp add: gke_accepted gke_validate_def gke_read_opts_def demo_gke_opts_def gke_node_pool_def bad_autoscaling_def)

lemma demo_gke_fields [simp]:
  "gs_NodeVersion (gke_read_opts demo_gke_opts) = ''1.9''" "gs_NodePoolID (gke_read_opts demo_gke_opts) = ''np''"
  "gs_MasterVersion (gke_read_opts demo_gke_opts) = []"
  "np_InitialNodeCount (gke_node_pool demo_gke_opts) = 0"
  "(gke_read_opts demo_gke_opts)\<lparr>gs_NodeVersion := ''1.9''\<rparr> = gke_read_opts demo_gke_opts"
  by (simp_all add: gke_read_opts_def demo_gke_opts_def gke_node_pool_def)

section \<open>Properties\<close>

text \<open>C25. \<open>waitCluster\<close> has no bound of its own: it returns if and only if, after some number of polls,
  the cloud answers an error or reports the cluster RUNNING; a cluster that stays in another state
  (for example ERROR) keeps it waiting forever.\<close>

theorem waitCluster_returns_iff:
  "waitCluster api svc rrn g \<noteq> None \<longleftrightarrow>
   (\<exists>k. case fst (ga_Get api svc rrn (after_polls (gke_poll api svc rrn) k g)) of
      Inl e \<Rightarrow> True | Inr c \<Rightarrow> rc_Status c = ''RUNNING'')"
  unfolding waitCluster_def pu.returns_iff gke_poll_ends ..

text \<open>C11. \<open>Create\<close> of the Google driver: accepted options, a good credential, a create call that the cloud
  accepts or answers with \<open>alreadyExists\<close>, and a cluster that is reported RUNNING after \<open>k\<close> polls that
  say something else: the driver returns without an error after exactly \<open>k + 1\<close> polls, and the
  returned info holds the state it was created with.\<close>

theorem gke_create_succeeds:
  assumes "gke_getStateFromOpts opts = Inr s"
    and "ge_Marshal ge s = Inr bytes" "ge_Unmarshal ge bytes = Inr s"
    and "ga_Credentials (ge_api ge) (gs_CredentialContent s) = None" "ga_NewService (ge_api ge) = None"
    and "ga_Create (ge_api ge) (gs_CredentialContent s) (locationRRN (gs_ProjectID s) (location s))
           (generateClusterCreateRequest (ge_ToLower ge) s) g = (r, g1)"
    and "case r of None \<Rightarrow> True | Some e \<Rightarrow> contains (err_msg e) ''alreadyExists''"
    and "\<forall>i<k. \<not> poll_ends (gke_poll (ge_api ge) (gs_CredentialContent s) (state_rrn s))
                 (after_polls (gke_poll (ge_api ge) (gs_CredentialContent s) (state_rrn s)) i g1)"
    and "fst (gke_poll (ge_api ge) (gs_CredentialContent s) (state_rrn s)
                (after_polls (gke_poll (ge_api ge) (gs_CredentialContent s) (state_rrn s)) k g1)) = Some (Ret (Inr ()))"
  shows "\<exists>info. gke_Create ge opts g =
      Some (Ret (Some info, None),
        after_polls (gke_poll (ge_api ge) (gs_CredentialContent s) (state_rrn s)) (Suc k) g1) \<and>
    gke_getState ge info = Inr s"
proof -
  let ?p = "gke_poll (ge_api ge) (gs_CredentialContent s) (state_rrn s)"
  obtain info where info: "storeState ge empty_info s = Inr info" "gke_getState ge info = Inr s"
    by (rule gke.get_store[OF assms(2,3)])
  have "waitCluster (ge_api ge) (gs_CredentialContent s) (state_rrn s) g1 =
      Some (Ret (Inr ()), after_polls ?p (Suc k) g1)"
    unfolding waitCluster_def by (rule pu.returns_after[OF assms(8,9)])
  then show ?thesis
    using assms(1,6,7) info getServiceClient_ok[OF assms(4,5)]
    by (auto simp: gke_Create_def split: option.splits)
qed

theorem gke_create_succeeds_witness:
  "\<exists>info. gke_Create demo_gke_env demo_gke_opts 0 = Some (Ret (Some info, None), 3) \<and>
     gke_getState demo_gke_env info = Inr (gke_read_opts demo_gke_opts)"
proof -
  have polls: "after_polls (gke_poll demo_gke_api c r) i 0 = i" for c r i
    by (induction i) (simp_all add: after_polls_step gke_poll_def demo_gke_defs)
  have "\<exists>info. gke_Create demo_gke_env demo_gke_opts 0 =
      Some (Ret (Some info, None), after_polls (gke_poll (ge_api demo_gke_env)
        (gs_CredentialContent (gke_read_opts demo_gke_opts)) (state_rrn (gke_read_opts demo_gke_opts))) (Suc 2) 0) \<and>
    gke_getState demo_gke_env info = Inr (gke_read_opts demo_gke_opts)"
    by (rule gke_create_succeeds[where r = None and bytes = "''1.9''"])
      (simp_all add: demo_gke_env_def polls gke_poll_ends, simp_all add: gke_poll_def demo_gke_defs runningStatus_def)
  then show ?thesis by (simp add: demo_gke_env_def polls)
qed

text \<open>Removing a Google cluster is bounded: \<open>waitClusterRemoveExp\<close> calls Delete between one and eleven
  times, pauses one, four, nine, ... seconds before the calls (at most 506 seconds in all), calls again
  only after an answer that tells it to wait, and returns the answer of its last call; only eleven
  such answers make it give up with that error.\<close>

theorem waitClusterRemoveExp_bounded:
  "case waitClusterRemoveExp api svc s g of (r, g', pauses) \<Rightarrow>
     let n = length pauses; D = delete_step api svc (state_rrn s) in
     1 \<le> n \<and> n \<le> 11 \<and> pauses = map (\<lambda>i. i * i) [1..<Suc n] \<and> sum_list pauses \<le> 506 \<and>
     g' = (D ^^ n) g \<and> r = fst (ga_Delete api svc (state_rrn s) ((D ^^ (n - 1)) g)) \<and>
     (\<forall>j. j < n - 1 \<longrightarrow> told_to_wait (fst (ga_Delete api svc (state_rrn s) ((D ^^ j) g)))) \<and>
     (told_to_wait r \<longrightarrow> n = 11)"
proof -
  obtain r g' ps where w: "remove_rounds api svc (state_rrn s) [1..<12] None g = (r, g', ps)"
    by (metis prod_cases3)
  have "[1..<12::nat] \<noteq> []" by simp
  note t = remove_rounds_trace[OF w this]
  from t have "ps \<noteq> []" "length ps \<le> length [1..<12::nat]" by blast+
  then have len: "1 \<le> length ps" "length ps \<le> 11" by (simp_all add: Suc_le_eq)
  have "ps = map (\<lambda>i. i * i) (take (length ps) [1..<12])" using t by blast
  also have "take (length ps) [1..<12] = [1..<Suc (length ps)]" using len by (simp add: take_upt)
  finally have ps: "ps = map (\<lambda>i. i * i) [1..<Suc (length ps)]" .
  have "sum_list ps \<le> sum_list (map (\<lambda>i. i * i) [1..<12])"
  proof -
    have "[1..<12] = [1..<Suc (length ps)] @ [Suc (length ps)..<12]"
      using len upt_add_eq_append[of 1 "Suc (length ps)" "11 - length ps"] by simp
    then have "sum_list (map (\<lambda>i. i * i) [1..<Suc (length ps)]) \<le> sum_list (map (\<lambda>i. i * i) [1..<12])"
      by (metis le_add1 map_append sum_list.append)
    with ps show ?thesis by argo
  qed
  then have sum: "sum_list ps \<le> 506" by (simp add: upt_rec)
  have res: "waitClusterRemoveExp api svc s g = (r, g', ps)"
    using w by (simp add: waitClusterRemoveExp_def state_rrn_def)
  from t have "told_to_wait r \<longrightarrow> length ps = length [1..<12::nat]" by blast
  then have give_up: "told_to_wait r \<longrightarrow> length ps = 11" by simp
  have trace: "g' = (delete_step api svc (state_rrn s) ^^ length ps) g"
    "r = fst (ga_Delete api svc (state_rrn s) ((delete_step api svc (state_rrn s) ^^ (length ps - 1)) g))"
    "\<forall>j. j < length ps - 1 \<longrightarrow>
       told_to_wait (fst (ga_Delete api svc (state_rrn s) ((delete_step api svc (state_rrn s) ^^ j) g)))"
    using t by blast+
  show ?thesis unfolding res prod.case Let_def by (intro conjI len ps sum trace give_up)
qed

theorem waitClusterRemoveExp_bounded_witness:
  "waitClusterRemoveExp demo_gke_api ''cred'' (gke_read_opts demo_gke_opts) 0 = (None, 4, [1, 4, 9, 16]) \<and>
   [1, 4, 9, 16] = map (\<lambda>i. i * i) [1..<Suc (length [1, 4, 9, 16::nat])] \<and> sum_list [1, 4, 9, 16::nat] \<le> 506"
proof -
  have ev: "waitClusterRemoveExp demo_gke_api ''cred'' (gke_read_opts demo_gke_opts) 0 = (None, 4, [1, 4, 9, 16])"
    by (simp add: waitClusterRemoveExp_def demo_gke_defs upt_rec has_prefix_def)
  from waitClusterRemoveExp_bounded[of demo_gke_api "''cred''" "gke_read_opts demo_gke_opts" 0]
  show ?thesis unfolding ev prod.case Let_def by blast
qed

text \<open>C34. What the driver asks Google for is well-formed: for accepted options the create request has a
  name, its parent is \<open>projects/P/locations/L\<close> for a non-empty project and the region or else the zone, it has exactly one
  node pool, whose autoscaling (if enabled) has signed bounds \<open>1 \<le> min \<le> max\<close>; a private endpoint is only asked for
  together with private nodes; and when IP aliases are on, a pod range is not given both in the allocation
  policy and for the cluster.\<close>

theorem gke_request_valid:
  assumes "gke_getStateFromOpts opts = Inr s"
  shows "cq_Name (generateClusterCreateRequest uni s) \<noteq> [] \<and>
    (\<exists>P L. P \<noteq> [] \<and> L \<noteq> [] \<and> L = (if gs_Region s \<noteq> [] then gs_Region s else gs_Zone s) \<and>
       locationRRN (gs_ProjectID s) (location s) = ''projects/'' @ P @ ''/locations/'' @ L) \<and>
    (\<exists>p a. cq_NodePools (generateClusterCreateRequest uni s) = [Some p] \<and> np_Autoscaling p = Some a \<and>
       (as_Enabled a \<longrightarrow> 1 \<le> sint (as_MinNodeCount a) \<and> sint (as_MinNodeCount a) \<le> sint (as_MaxNodeCount a))) \<and>
    (\<forall>pc. gs_PrivateCluster s = Some pc \<and> pc_EnablePrivateEndpoint pc \<longrightarrow>
       cq_PrivateCluster (generateClusterCreateRequest uni s) = Some pc \<and> pc_EnablePrivateNodes pc) \<and>
    (ip_UseIpAliases (cq_IpAllocationPolicy (generateClusterCreateRequest uni s)) \<longrightarrow>
       ip_ClusterIpv4CidrBlock (cq_IpAllocationPolicy (generateClusterCreateRequest uni s)) = [] \<or>
       cq_ClusterIpv4Cidr (generateClusterCreateRequest uni s) = [])"
proof -
  from assms have s: "s = gke_read_opts opts" and v: "gke_validate s = None" by (auto simp: gke_accepted)
  obtain a where a: "np_Autoscaling (gke_node_pool opts) = Some a" using gke_pool_autoscaling by blast
  have "\<not> bad_autoscaling (Some (gke_node_pool opts))"
    using gke_validD(5)[OF v] by (simp add: s gke_read_opts_pool)
  then have "as_Enabled a \<longrightarrow> 1 \<le> sint (as_MinNodeCount a) \<and> sint (as_MinNodeCount a) \<le> sint (as_MaxNodeCount a)"
    using a by (auto simp: bad_autoscaling_def)
  moreover have "cq_NodePools (generateClusterCreateRequest uni s) = [Some (gke_node_pool opts)]"
    by (simp add: generateClusterCreateRequest_def s gke_read_opts_pool)
  ultimately show ?thesis
    using gke_validD[OF v] a by (auto simp: generateClusterCreateRequest_def locationRRN_def location_def)
qed

definition demo_range_opts :: driver_options where
  "demo_range_opts = demo_gke_opts\<lparr>
     BoolOptions := [''use-ip-aliases'' \<mapsto> True, ''enable-nodepool-autoscaling'' \<mapsto> True],
     StringOptions := (StringOptions demo_gke_opts)(''cluster-ipv4-cidr'' \<mapsto> ''10.0.0.0/14'',
       ''ip-policy-cluster-ipv4-cidr-block'' \<mapsto> ''10.4.0.0/14''),
     IntOptions := [''min-node-count'' \<mapsto> 1, ''max-node-count'' \<mapsto> 3]\<rparr>"

lemma demo_range_ip:
  "ip_UseIpAliases (gs_IPPolicy (gke_read_opts demo_range_opts))"
  "ip_ClusterIpv4CidrBlock (gs_IPPolicy (gke_read_opts demo_range_opts)) = ''10.4.0.0/14''"
  by (simp_all add: gke_read_opts_def gke_ip_policy_def demo_range_opts_def demo_gke_opts_def)

lemma demo_range_accepted: "gke_getStateFromOpts demo_range_opts = Inr (gke_read_opts demo_range_opts)"
  by (simp add: gke_accepted gke_validate_def gke_read_opts_def demo_range_opts_def demo_gke_opts_def gke_node_pool_def bad_autoscaling_def)

text \<open>With aliases on and both ranges given, the request carries only the one of the policy.\<close>

theorem gke_request_valid_witness:
  "cq_ClusterIpv4Cidr (generateClusterCreateRequest id (gke_read_opts demo_range_opts)) = [] \<and>
   ip_ClusterIpv4CidrBlock (cq_IpAllocationPolicy (generateClusterCreateRequest id (gke_read_opts demo_range_opts))) = ''10.4.0.0/14'' \<and>
   (\<exists>p a. cq_NodePools (generateClusterCreateRequest id (gke_read_opts demo_range_opts)) = [Some p] \<and> np_Autoscaling p = Some a \<and>
      (as_Enabled a \<longrightarrow> 1 \<le> sint (as_MinNodeCount a) \<and> sint (as_MinNodeCount a) \<le> sint (as_MaxNodeCount a)))"
proof -
  have "cq_IpAllocationPolicy (generateClusterCreateRequest id s) = gs_IPPolicy s" for s
    by (simp add: generateClusterCreateRequest_def)
  with gke_request_valid[OF demo_range_accepted, of id] demo_range_ip show ?thesis by auto
qed

text \<open>The names of the second half of the create options.\<close>

lemma gke_flags2_keys: "fst ` set gke_create_flags2 =
  {''master-authorized-network-cidr-blocks'', ''enable-private-endpoint'', ''enable-private-nodes'', ''master-ipv4-cidr-block'', ''use-ip-aliases'',
   ''ip-policy-create-subnetwork'', ''ip-policy-subnetwork-name'', ''ip-policy-cluster-secondary-range-name'', ''ip-policy-services-secondary-range-name'', ''ip-policy-cluster-ipv4-cidr-block'',
   ''ip-policy-node-ipv4-cidr-block'', ''ip-policy-services-ipv4-cidr-block'', ''node-pool'', ''node-version'', ''machine-type'',
   ''credential'', ''enable-kubernetes-dashboard'', ''image-type'', ''network'', ''sub-network'',
   ''enable-legacy-abac'', ''locations'', ''enable-horizontal-pod-autoscaling'', ''enable-http-load-balancing'', ''enable-network-policy-config''}"
  by (simp only: gke_create_flags2_def list.set image_insert image_empty fst_conv)

text \<open>Six options that \<open>GetDriverCreateOptions\<close> declares are never read under their declared name
  (only a camel-case alias is): setting one leaves the driver's state, or its error, as it was.\<close>

theorem gke_declared_options_ignored:
  assumes "k \<in> {''image-type'', ''sub-network'', ''node-pool'', ''enable-kubernetes-dashboard'',
                ''enable-horizontal-pod-autoscaling'', ''enable-network-policy-config''}"
  shows "k \<in> fst ` set gke_create_flags \<and>
    gke_getStateFromOpts (opts\<lparr>StringOptions := (StringOptions opts)(k \<mapsto> v),
                               BoolOptions := (BoolOptions opts)(k \<mapsto> b)\<rparr>) = gke_getStateFromOpts opts"
proof
  show "k \<in> fst ` set gke_create_flags"
    using assms unfolding gke_create_flags_def flag_map_keys set_append image_Un gke_flags2_keys
    by (elim insertE emptyE) (simp_all only: Un_iff insert_iff simp_thms)
  have "gke_read_opts (opts\<lparr>StringOptions := (StringOptions opts)(k \<mapsto> v),
                            BoolOptions := (BoolOptions opts)(k \<mapsto> b)\<rparr>) = gke_read_opts opts"
    using assms by (elim insertE emptyE) (simp_all add: gke_read_opts_def gke_node_pool_def gke_ip_policy_def first_key_other del: first_key.simps)
  then show "gke_getStateFromOpts (opts\<lparr>StringOptions := (StringOptions opts)(k \<mapsto> v),
                            BoolOptions := (BoolOptions opts)(k \<mapsto> b)\<rparr>) = gke_getStateFromOpts opts"
    by (simp add: gke_getStateFromOpts_def)
qed

theorem gke_declared_options_ignored_witness:
  "''image-type'' \<in> fst ` set gke_create_flags \<and>
   gke_getStateFromOpts (demo_gke_opts\<lparr>StringOptions := (StringOptions demo_gke_opts)(''image-type'' \<mapsto> ''COS''),
     BoolOptions := (BoolOptions demo_gke_opts)(''image-type'' \<mapsto> True)\<rparr>) = Inr (gke_read_opts demo_gke_opts)"
  using gke_declared_options_ignored[of "''image-type''" demo_gke_opts, where v = "''COS''" and b = True] by simp

text \<open>C40. A node version update asks for the wrong version: with a stored state that has a node pool and
  version \<open>v0\<close>, and accepted options that ask only for another version, the driver sends \<open>v0\<close> to the
  cloud and, once the pool is running, stores the requested version as if it had been sent.\<close>

theorem gke_update_sends_old_node_version:
  assumes "gke_getState ge info = Inr s0" "gke_getStateFromOpts opts = Inr new"
    and "ga_Credentials (ge_api ge) (gs_CredentialContent s0) = None" "ga_NewService (ge_api ge) = None"
    and "gs_NodePoolID s0 \<noteq> []" "gs_MasterVersion new = []" "gs_NodeVersion new \<noteq> []"
    and "np_InitialNodeCount (gke_node_pool opts) = 0" "\<not> opt_bool opts [''enable-nodepool-autoscaling'', ''enableNodepoolAutoscaling'']"
    and "ga_NpUpdate (ge_api ge) (gs_CredentialContent s0) (pool_rrn s0) (gs_NodeVersion s0) g = (None, g1)"
    and "ga_NpGet (ge_api ge) (gs_CredentialContent s0) (pool_rrn s0) g1 = (Inr p, g2)" "rn_Status p = ''RUNNING''"
    and "ge_Marshal ge (s0\<lparr>gs_NodeVersion := gs_NodeVersion new\<rparr>) = Inr bytes"
    and "ge_Unmarshal ge bytes = Inr (s0\<lparr>gs_NodeVersion := gs_NodeVersion new\<rparr>)"
  shows "\<exists>info'. gke_Update ge info opts g = Some (Ret (Inr info'), g2) \<and>
    gke_getState ge info' = Inr (s0\<lparr>gs_NodeVersion := gs_NodeVersion new\<rparr>)"
proof -
  let ?svc = "gs_CredentialContent s0" and ?s = "s0\<lparr>gs_NodeVersion := gs_NodeVersion new\<rparr>"
  have new: "gs_NodePool new = Some (gke_node_pool opts)"
    using assms(2) by (auto simp: gke_accepted gke_read_opts_pool)
  have off: "\<And>a. np_Autoscaling (gke_node_pool opts) = Some a \<Longrightarrow> \<not> as_Enabled a"
    using assms(9) by (auto simp: gke_node_pool_def)
  obtain info' where st: "storeState ge info ?s = Inr info'" and "gke_getState ge info' = Inr ?s"
    by (rule gke.get_store[OF assms(13,14)])
  moreover have "waitNodePool (ge_api ge) ?svc (pool_rrn s0) g1 = Some (Ret (Inr ()), g2)"
    using assms(11,12) unfolding waitNodePool_def by (subst poll_until.simps) (simp add: np_poll_def runningStatus_def)
  then have "upd_nodes ge ?svc new s0 g = Some (Ret (Inr ?s), g2)"
    using assms(7,10) by (simp add: upd_nodes_def gbind_simps gdo_ok)
  moreover have "upd_pool_id ge ?svc s0 = gret s0" "upd_master ge ?svc new s0 = gret s0"
    using assms(5,6) by (simp_all add: upd_pool_id_def upd_master_def)
  moreover have "upd_size ge ?svc new ?s = gret ()" "upd_autoscaling ge ?svc new ?s = gret ()"
    using assms(8) new off by (auto simp: upd_size_def upd_autoscaling_def split: option.splits)
  ultimately show ?thesis
    using assms(1,2) getServiceClient_ok[OF assms(3,4)]
    by (simp add: gke_Update_def gbind_simps)
qed

theorem gke_update_sends_old_node_version_witness:
  "\<exists>info'. gke_Update demo_gke_env (empty_info\<lparr>ci_Metadata := Some [(''state'', ''1.8'')]\<rparr>) demo_gke_opts 0 =
     Some (Ret (Inr info'), 1) \<and>
   gke_getState demo_gke_env info' = Inr (gke_read_opts demo_gke_opts)"
proof -
  let ?s0 = "(gke_read_opts demo_gke_opts)\<lparr>gs_NodeVersion := ''1.8''\<rparr>"
    and ?info = "empty_info\<lparr>ci_Metadata := Some [(''state'', ''1.8'')]\<rparr>"
  have st: "gke_getState demo_gke_env ?info = Inr ?s0"
    by (simp add: gke_getState_def gm_str_def gm_find_def demo_gke_env_def)
  have "\<not> opt_bool demo_gke_opts [''enable-nodepool-autoscaling'', ''enableNodepoolAutoscaling'']"
    by (simp add: demo_gke_opts_def)
  then have "\<exists>info'. gke_Update demo_gke_env ?info demo_gke_opts 0 = Some (Ret (Inr info'), 1) \<and>
     gke_getState demo_gke_env info' = Inr (?s0\<lparr>gs_NodeVersion := gs_NodeVersion (gke_read_opts demo_gke_opts)\<rparr>)"
    by (intro gke_update_sends_old_node_version[OF st demo_gke_accepted, where g = 0 and ?g1.0 = 0 and ?g2.0 = 1
        and p = demo_raw_pool and bytes = "''1.9''"]) (simp_all add: demo_gke_defs)
  then show ?thesis by simp
qed

end
