(* ===== verification/EksData.thy ===== *)
theory EksData
  imports Options
begin

text \<open>
  The tables of the Amazon driver (\<open>eks_driver.go\<close>): the default machine images by Kubernetes
  version and region, and the option tables of \<open>GetDriverCreateOptions\<close> and
  \<open>GetDriverUpdateOptions\<close>.
\<close>

definition amis_1_18 :: "(string \<times> string) list" where
  "amis_1_18 = [
     (''af-south-1'', ''ami-0dcfa2d757494da7c''),
     (''eu-north-1'', ''ami-0a674c329567c6456''),
     (''ap-south-1'', ''ami-0b53169adb5906e18''),
     (''eu-west-3'', ''ami-02444825d174fbd7b''),
     (''eu-west-2'', ''ami-062c2b6eee26e5603''),
     (''eu-south-1'', ''ami-0d236a46607b78f5e''),
     (''eu-west-1'', ''ami-0ca9e57915fd7e017''),
     (''ap-northeast-2'', ''ami-09b14b49f6e5be4a1''),
     (''me-south-1'', ''ami-058f6a482ed37d011''),
     (''ap-northeast-1'', ''ami-0e9f5606a6d10ffb1''),
     (''sa-east-1'', ''ami-0bfae48e8718fde5f''),
     (''ca-central-1'', ''ami-0becc01e0dd0dd238''),
     (''ap-east-1'', ''ami-0824aac4c54c763d3''),
     (''ap-southeast-1'', ''ami-0042bc79e92fb3c8a''),
     (''ap-southeast-2'', ''ami-0dadf836fc8220165''),
     (''eu-central-1'', ''ami-045e4ecd708ac12ba''),
     (''us-east-1'', ''ami-0fae38e27c6113140''),
     (''us-east-2'', ''ami-0dc6bc43da1b962d8''),
     (''us-west-1'', ''ami-002e04ca6d86d255e''),
     (''us-west-2'', ''ami-04f0f3d381d07e0b6''),
     (''cn-north-1'', ''ami-05f4602d53296019a''),
     (''cn-northwest-1'', ''ami-0fd4593eac92f686f'')]"

definition amis_1_17 :: "(string \<times> string) list" where
  "amis_1_17 = [
     (''af-south-1'', ''ami-00e923e1e72dd6127''),
     (''eu-north-1'', ''ami-067bfa3d76de7a6b7''),
     (''ap-south-1'', ''ami-0cd8562db082e8c1a''),
     (''eu-west-3'', ''ami-0c1f4efd77302f897''),
     (''eu-west-2'', ''ami-08c210420094a901b''),
     (''eu-south-1'', ''ami-03c6f34023cdadbfe''),
     (''eu-west-1'', ''ami-0c504dda1302b182f''),
     (''ap-northeast-2'', ''ami-025592e84db381916''),
     (''me-south-1'', ''ami-01b2fefee93216e1a''),
     (''ap-northeast-1'', ''ami-0aa15614ef924fd1e''),
     (''sa-east-1'', ''ami-040a741cd6e254cad''),
     (''ca-central-1'', ''ami-032321703c4a51e39''),
     (''ap-east-1'', ''ami-068cd0572b507ae91''),
     (''ap-southeast-1'', ''ami-084ea7596600d9844''),
     (''ap-southeast-2'', ''ami-056a5f106add4d37a''),
     (''eu-central-1'', ''ami-06cfd5b2a2d58e09a''),
     (''us-east-1'', ''ami-07250434f8a7bc5f1''),
     (''us-east-2'', ''ami-0135903686f192ffe''),
     (''us-west-1'', ''ami-05bfd72ad17ebedb8''),
     (''us-west-2'', ''ami-0c62450bce8f4f57f''),
     (''cn-north-1'', ''ami-05f4602d53296019a''),
     (''cn-northwest-1'', ''ami-0fd4593eac92f686f'')]"

definition amis_1_16 :: "(string \<times> string) list" where
  "amis_1_16 = [
     (''af-south-1'', ''ami-004caadd8fd18aee6''),
     (''eu-north-1'', ''ami-0b483af7cd3079758''),
     (''ap-south-1'', ''ami-0c37aec140141b5fa''),
     (''eu-west-3'', ''ami-0d1badbc7843bf2eb''),
     (''eu-west-2'', ''ami-0afeda8fcb3e79571''),
     (''eu-south-1'', ''ami-0cfe17838ad3a6710''),
     (''eu-west-1'', ''ami-0313d49570831d7f4''),
     (''ap-northeast-2'', ''ami-024c291fb23ec5253''),
     (''me-south-1'', ''ami-06c259406da782e50''),
     (''ap-northeast-1'', ''ami-0e75cf37211a7b9c1''),
     (''sa-east-1'', ''ami-073549ba2423737e4''),
     (''ca-central-1'', ''ami-0215927206ce98fed''),
     (''ap-east-1'', ''ami-0bf06ed6ab00bdc8b''),
     (''ap-southeast-1'', ''ami-071bba9de77f5666a''),
     (''ap-southeast-2'', ''ami-02fdbc9449e2edac5''),
     (''eu-central-1'', ''ami-0951ecbcce367c97b''),
     (''us-east-1'', ''ami-0b0dffffb5ba92f97''),
     (''us-east-2'', ''ami-0f8d6052f6e3a19d2''),
     (''us-west-1'', ''ami-009a9a6ad7a1670c6''),
     (''us-west-2'', ''ami-04445f1c3b2132901''),
     (''cn-north-1'', ''ami-0d8224847193197f7''),
     (''cn-northwest-1'', ''ami-0664d08e603e6e72e'')]"

definition amis_1_15 :: "(string \<times> string) list" where
  "amis_1_15 = [
     (''af-south-1'', ''ami-04072d5b282afb06b''),
     (''eu-north-1'', ''ami-0b88d4ed6217a3018''),
     (''ap-south-1'', ''ami-0d93857f3c351a307''),
     (''eu-west-3'', ''ami-01c1194e8e2743a0b''),
     (''eu-west-2'', ''ami-0af730da10ac8b0b7''),
     (''eu-south-1'', ''ami-0e1ac6e3bac59db7a''),
     (''eu-west-1'', ''ami-0e454bb2832574b25''),
     (''ap-northeast-2'', ''ami-03de2b93e19fc1e32''),
     (''me-south-1'', ''ami-07ba1047a42f3ff55''),
     (''ap-northeast-1'', ''ami-0fad58b4886213487''),
     (''sa-east-1'', ''ami-0fae027dad99aaefa''),
     (''ca-central-1'', ''ami-04957e41a52bfc38f''),
     (''ap-east-1'', ''ami-05581693aaba1f770''),
     (''ap-southeast-1'', ''ami-0aaecfe8a45d922dd''),
     (''ap-southeast-2'', ''ami-086f3dbe335a7bc71''),
     (''eu-central-1'', ''ami-010266493fc743a3d''),
     (''us-east-1'', ''ami-0ef76ba092ce4e253''),
     (''us-east-2'', ''ami-0eda59dcbd424485d''),
     (''us-west-1'', ''ami-0a8d9b717b89fdd17''),
     (''us-west-2'', ''ami-0d552892d1327b499''),
     (''cn-north-1'', ''ami-08a0b75e41967d789''),
     (''cn-northwest-1'', ''ami-02112f277d6eb2c4c'')]"

definition amis_1_14 :: "(string \<times> string) list" where
  "amis_1_14 = [
     (''af-south-1'', ''ami-016b65c518c4d3419''),
     (''eu-north-1'', ''ami-059855484758944d6''),
     (''ap-south-1'', ''ami-0c16646c85f24652d''),
     (''eu-west-3'', ''ami-0cac45c390722111a''),
     (''eu-west-2'', ''ami-02832b3dffa1f8432''),
     (''eu-south-1'', ''ami-08f6162a9cfbb1e0c''),
     (''eu-west-1'', ''ami-0f5a80cfb11fbda5b''),
     (''ap-northeast-2'', ''ami-08449bd0854b50a4a''),
     (''me-south-1'', ''ami-0adacffc1cb1840cd''),
     (''ap-northeast-1'', ''ami-0c04b46d5b7c69191''),
     (''sa-east-1'', ''ami-038f4c5db2d62203f''),
     (''ca-central-1'', ''ami-048c87a0c93e3bd79''),
     (''ap-east-1'', ''ami-03e902f04ba30efb5''),
     (''ap-southeast-1'', ''ami-0cb794a6e40561558''),
     (''ap-southeast-2'', ''ami-087315adc4086bcef''),
     (''eu-central-1'', ''ami-0e941b21b7ccd9fff''),
     (''us-east-1'', ''ami-0fc7c80d4d288ab2c''),
     (''us-east-2'', ''ami-08984d8491de17ca0''),
     (''us-west-1'', ''ami-0e796ccc93168da3a''),
     (''us-west-2'', ''ami-0f8fb024d10446ce1''),
     (''cn-north-1'', ''ami-0e4cb8067782b693a''),
     (''cn-northwest-1'', ''ami-047594a1f70bab3e2'')]"

definition amiForRegionAndVersion :: "string \<rightharpoonup> (string \<rightharpoonup> string)" where
  "amiForRegionAndVersion = map_of [(''1.18'', map_of amis_1_18), (''1.17'', map_of amis_1_17), (''1.16'', map_of amis_1_16), (''1.15'', map_of amis_1_15), (''1.14'', map_of amis_1_14)]"

definition eks_create_flags :: driver_flags where
  "eks_create_flags = flag_map [
     (''display-name'', plain_flag StringType (''The displayed name of the cluster in the Rancher UI'')),
     (''access-key'', plain_flag StringType (''The AWS Client ID to use'')),
     (''secret-key'', secret_flag StringType (''The AWS Client Secret associated with the Client ID'')),
     (''session-token'', plain_flag StringType (''A session token to use with the client key and secret if applicable.'')),
     (''region'', ((plain_flag StringType (''The AWS Region to create the EKS cluster in''))\<lparr>flag_Default := Some (zero_default\<lparr>DefaultString := ''us-west-2''\<rparr>)\<rparr>)),
     (''instance-type'', ((plain_flag StringType (''The type of machine to use for worker nodes''))\<lparr>flag_Default := Some (zero_default\<lparr>DefaultString := ''t2.medium''\<rparr>)\<rparr>)),
     (''minimum-nodes'', ((plain_flag IntType (''The minimum number of worker nodes''))\<lparr>flag_Default := Some (zero_default\<lparr>DefaultInt := 1\<rparr>)\<rparr>)),
     (''maximum-nodes'', ((plain_flag IntType (''The maximum number of worker nodes''))\<lparr>flag_Default := Some (zero_default\<lparr>DefaultInt := 3\<rparr>)\<rparr>)),
     (''desired-nodes'', ((plain_flag IntType (''The desired number of worker nodes''))\<lparr>flag_Default := Some (zero_default\<lparr>DefaultInt := 3\<rparr>)\<rparr>)),
     (''node-volume-size'', ((plain_flag IntPointerType (''The volume size for each node''))\<lparr>flag_Default := Some (zero_default\<lparr>DefaultInt := 20\<rparr>)\<rparr>)),
     (''virtual-network'', plain_flag StringType (''The name of the virtual network to use'')),
     (''subnets'', ((plain_flag StringSliceType (''Comma-separated list of subnets in the virtual network to use''))\<lparr>flag_Default := Some (zero_default\<lparr>DefaultStringSlice := Some []\<rparr>)\<rparr>)),
     (''service-role'', plain_flag StringType (''The service role to use to perform the cluster operations in AWS'')),
     (''security-groups'', plain_flag StringSliceType (''Comma-separated list of security groups to use for the cluster'')),
     (''ami'', plain_flag StringType (''A custom AMI ID to use for the worker nodes instead of the default'')),
     (''associate-worker-node-public-ip'', ((plain_flag BoolPointerType (''A custom AMI ID to use for the worker nodes instead of the default''))\<lparr>flag_Default := Some (zero_default\<lparr>DefaultBool := True\<rparr>)\<rparr>)),
     (''user-data'', ((plain_flag StringType (''Pass user-data to the nodes to perform automated configuration tasks''))\<lparr>flag_Default := Some (zero_default\<lparr>DefaultString :=
        ''#!/bin/bash'' @ [CHR 0x0A] @ ''set -o xtrace'' @ [CHR 0x0A] @
        ''/etc/eks/bootstrap.sh ${ClusterName} ${BootstrapArguments}'' @ [CHR 0x0A] @
        ''/opt/aws/bin/cfn-signal --exit-code $? '' @ ''--stack  ${AWS::StackName} '' @
        ''--resource NodeGroup --region ${AWS::Region}''\<rparr>)\<rparr>)),
     (''keyPairName'', ((plain_flag StringType (''Allow user to specify key name to use''))\<lparr>flag_Default := Some (zero_default\<lparr>DefaultString := []\<rparr>)\<rparr>)),
     (''kubernetes-version'', ((plain_flag StringType (''The kubernetes master version''))\<lparr>flag_Default := Some (zero_default\<lparr>DefaultString := ''1.13''\<rparr>)\<rparr>)),
     (''ebs-encryption'', ((plain_flag BoolType (''Enables EBS encryption of worker nodes''))\<lparr>flag_Default := Some (zero_default\<lparr>DefaultBool := False\<rparr>)\<rparr>))]"

definition eks_update_flags :: driver_flags where
  "eks_update_flags = flag_map [
     (''kubernetes-version'', ((plain_flag StringType (''The kubernetes version to update''))\<lparr>flag_Default := Some (zero_default\<lparr>DefaultString := ''1.13''\<rparr>)\<rparr>)),
     (''access-key'', plain_flag StringType (''The AWS Client ID to use'')),
     (''secret-key'', secret_flag StringType (''The AWS Client Secret associated with the Client ID'')),
     (''session-token'', plain_flag StringType (''A session token to use with the client key and secret if applicable.''))]"

end
