(* ===== verification/EksTemplates.thy ===== *)
theory EksTemplates
  imports GoJson
begin

text \<open>
  The CloudFormation templates of the Amazon driver (\<open>drivers/eks/templates.go\<close>), line by line, and the
  formatting that puts the endpoint and the user data into the template of the worker nodes: \<open>fmt.Sprintf\<close> with the verbs
  \<open>%s\<close> and \<open>%q\<close>. A template is read as far as the driver depends on it: its sections, the keys in a section,
  which parameters have a default, and the references \<open>!Ref\<close>. Lemmas: the formatted template is
  the template with the two texts in place, and a quoted text is read back from a double-quoted YAML scalar.
\<close>

section \<open>The texts\<close>

definition vpc_parameters :: "string list" where
  \<open>vpc_parameters =
    [''---'',
     ''AWSTemplateFormatVersion: '2010-09-09'' @ [CHR 0x27],
     ''Description: 'Amazon EKS Sample VPC'' @ [CHR 0x27],
     [],
     ''Parameters:'',
     [],
     ''  VpcBlock:'',
     ''    Type: String'',
     ''    Default: 192.168.0.0/16'',
     ''    Description: The CIDR range for the VPC. This should be a valid private (RFC 1918) CIDR range.'',
     [],
     ''  Subnet01Block:'',
     ''    Type: String'',
     ''    Default: 192.168.64.0/18'',
     ''    Description: CidrBlock for subnet 01 within the VPC'',
     [],
     ''  Subnet02Block:'',
     ''    Type: String'',
     ''    Default: 192.168.128.0/18'',
     ''    Description: CidrBlock for subnet 02 within the VPC'',
     [],
     ''  Subnet03Block:'',
     ''    Type: String'',
     ''    Default: 192.168.192.0/18'',
     ''    Description: CidrBlock for subnet 03 within the VPC. This is used only if the region has more than 2 AZs.'',
     [],
     ''Metadata:'',
     ''  AWS::CloudFormation::Interface:'',
     ''    ParameterGroups:'',
     ''      -'',
     ''        Label:'',
     ''          default: "Worker Network Configuration"'',
     ''        Parameters:'',
     ''          - VpcBlock'',
     ''          - Subnet01Block'',
     ''          - Subnet02Block'',
     ''          - Subnet03Block'',
     [],
     ''Conditions:'',
     ''  Has2Azs:'',
     ''    Fn::Or:'',
     ''      - Fn::Equals:'',
     ''        - {Ref: 'AWS::Region'}'',
     ''        - ap-south-1'',
     ''      - Fn::Equals:'',
     ''        - {Ref: 'AWS::Region'}'',
     ''        - ap-northeast-2'',
     ''      - Fn::Equals:'',
     ''        - {Ref: 'AWS::Region'}'',
     ''        - ca-central-1'',
     ''      - Fn::Equals:'',
     ''        - {Ref: 'AWS::Region'}'',
     ''        - cn-north-1'',
     [],
     ''  HasMoreThan2Azs:'',
     ''    Fn::Not:'',
     ''      - Condition: Has2Azs'',
     []]\<close>

definition vpc_resources :: "string list" where
  \<open>vpc_resources =
    [''Resources:'',
     ''  VPC:'',
     ''    Type: AWS::EC2::VPC'',
     ''    Properties:'',
     ''      CidrBlock:  !Ref VpcBlock'',
     ''      EnableDnsSupport: true'',
     ''      EnableDnsHostnames: true'',
     ''      Tags:'',
     ''      - Key: Name'',
     ''        Value: !Sub '${AWS::StackName}-VPC'' @ [CHR 0x27],
     [],
     ''  InternetGateway:'',
     ''    Type: "AWS::EC2::InternetGateway"'',
     [],
     ''  VPCGatewayAttachment:'',
     ''    Type: "AWS::EC2::VPCGatewayAttachment"'',
     ''    Properties:'',
     ''      InternetGatewayId: !Ref InternetGateway'',
     ''      VpcId: !Ref VPC'',
     [],
     ''  RouteTable:'',
     ''    Type: AWS::EC2::RouteTable'',
     ''    Properties:'',
     ''      VpcId: !Ref VPC'',
     ''      Tags:'',
     ''      - Key: Name'',
     ''        Value: Public Subnets'',
     ''      - Key: Network'',
     ''        Value: Public'',
     [],
     ''  Route:'',
     ''    DependsOn: VPCGatewayAttachment'',
     ''    Type: AWS::EC2::Route'',
     ''    Properties:'',
     ''      RouteTableId: !Ref RouteTable'',
     ''      DestinationCidrBlock: 0.0.0.0/0'',
     ''      GatewayId: !Ref InternetGateway'',
     [],
     ''  Subnet01:'',
     ''    Type: AWS::EC2::Subnet'',
     ''    Metadata:'',
     ''      Comment: Subnet 01'',
     ''    Properties:'',
     ''      AvailabilityZone:'',
     ''        Fn::Select:'',
     ''        - '0'' @ [CHR 0x27],
     ''        - Fn::GetAZs:'',
     ''            Ref: AWS::Region'',
     ''      CidrBlock:'',
     ''        Ref: Subnet01Block'',
     ''      VpcId:'',
     ''        Ref: VPC'',
     ''      Tags:'',
     ''      - Key: Name'',
     ''        Value: !Sub "${AWS::StackName}-Subnet01"'',
     [],
     ''  Subnet02:'',
     ''    Type: AWS::EC2::Subnet'',
     ''    Metadata:'',
     ''      Comment: Subnet 02'',
     ''    Properties:'',
     ''      AvailabilityZone:'',
     ''        Fn::Select:'',
     ''        - '1'' @ [CHR 0x27],
     ''        - Fn::GetAZs:'',
     ''            Ref: AWS::Region'',
     ''      CidrBlock:'',
     ''        Ref: Subnet02Block'',
     ''      VpcId:'',
     ''        Ref: VPC'',
     ''      Tags:'',
     ''      - Key: Name'',
     ''        Value: !Sub "${AWS::StackName}-Subnet02"'',
     [],
     ''  Subnet03:'',
     ''    Condition: HasMoreThan2Azs'',
     ''    Type: AWS::EC2::Subnet'',
     ''    Metadata:'',
     ''      Comment: Subnet 03'',
     ''    Properties:'',
     ''      AvailabilityZone:'',
     ''        Fn::Select:'',
     ''        - '2'' @ [CHR 0x27],
     ''        - Fn::GetAZs:'',
     ''            Ref: AWS::Region'',
     ''      CidrBlock:'',
     ''        Ref: Subnet03Block'',
     ''      VpcId:'',
     ''        Ref: VPC'',
     ''      Tags:'',
     ''      - Key: Name'',
     ''        Value: !Sub "${AWS::StackName}-Subnet03"'',
     [],
     ''  Subnet01RouteTableAssociation:'',
     ''    Type: AWS::EC2::SubnetRouteTableAssociation'',
     ''    Properties:'',
     ''      SubnetId: !Ref Subnet01'',
     ''      RouteTableId: !Ref RouteTable'',
     [],
     ''  Subnet02RouteTableAssociation:'',
     ''    Type: AWS::EC2::SubnetRouteTableAssociation'',
     ''    Properties:'',
     ''      SubnetId: !Ref Subnet02'',
     ''      RouteTableId: !Ref RouteTable'',
     [],
     ''  Subnet03RouteTableAssociation:'',
     ''    Condition: HasMoreThan2Azs'',
     ''    Type: AWS::EC2::SubnetRouteTableAssociation'',
     ''    Properties:'',
     ''      SubnetId: !Ref Subnet03'',
     ''      RouteTableId: !Ref RouteTable'',
     [],
     ''  ControlPlaneSecurityGroup:'',
     ''    Type: AWS::EC2::SecurityGroup'',
     ''    Properties:'',
     ''      GroupDescription: Cluster communication with worker nodes'',
     ''      VpcId: !Ref VPC'',
     []]\<close>

definition vpc_outputs :: "string list" where
  \<open>vpc_outputs =
    [''Outputs:'',
     [],
     ''  SubnetIds:'',
     ''    Description: All subnets in the VPC'',
     ''    Value:'',
     ''      Fn::If:'',
     ''      - HasMoreThan2Azs'',
     ''      - !Join [ ",", [ !Ref Subnet01, !Ref Subnet02, !Ref Subnet03 ] ]'',
     ''      - !Join [ ",", [ !Ref Subnet01, !Ref Subnet02 ] ]'',
     [],
     ''  SecurityGroups:'',
     ''    Description: Security group for the cluster control plane communication with worker nodes'',
     ''    Value: !Join [ ",", [ !Ref ControlPlaneSecurityGroup ] ]'',
     [],
     ''  VpcId:'',
     ''    Description: The VPC Id'',
     ''    Value: !Ref VPC'']\<close>

definition worker_head :: "string list" where
  \<open>worker_head =
    [''---'',
     ''AWSTemplateFormatVersion: 2010-09-09'',
     ''Description: Amazon EKS - Node Group'',
     [],
     ''Parameters:'',
     [],
     ''  KeyName:'',
     ''    Description: The EC2 Key Pair to allow SSH access to the instances'',
     ''    Type: AWS::EC2::KeyPair::KeyName'',
     [],
     ''  NodeImageId:'',
     ''    Description: AMI id for the node instances.'',
     ''    Type: AWS::EC2::Image::Id'',
     [],
     ''  NodeInstanceType:'',
     ''    Description: EC2 instance type for the node instances'',
     ''    Type: String'',
     ''    Default: t3.medium'',
     ''    ConstraintDescription: Must be a valid EC2 instance type'',
     ''    AllowedValues:'']\<close>

definition instance_types1 :: "string list" where
  \<open>instance_types1 =
    [''c1.medium'', ''c1.xlarge'', ''c3.large'', ''c3.xlarge'', ''c3.2xlarge'', ''c3.4xlarge'',
     ''c3.8xlarge'', ''c4.large'', ''c4.xlarge'', ''c4.2xlarge'', ''c4.4xlarge'', ''c4.8xlarge'',
     ''c5.large'', ''c5.xlarge'', ''c5.2xlarge'', ''c5.4xlarge'', ''c5.9xlarge'', ''c5.12xlarge'',
     ''c5.18xlarge'', ''c5.24xlarge'', ''c5.metal'', ''c5d.large'', ''c5d.xlarge'', ''c5d.2xlarge'',
     ''c5d.4xlarge'', ''c5d.9xlarge'', ''c5d.18xlarge'', ''c5n.large'', ''c5n.xlarge'', ''c5n.2xlarge'',
     ''c5n.4xlarge'', ''c5n.9xlarge'', ''c5n.18xlarge'', ''cc2.8xlarge'', ''cr1.8xlarge'', ''d2.xlarge'',
     ''d2.2xlarge'', ''d2.4xlarge'', ''d2.8xlarge'', ''f1.2xlarge'', ''f1.4xlarge'', ''f1.16xlarge'',
     ''g2.2xlarge'', ''g2.8xlarge'', ''g3s.xlarge'', ''g3.4xlarge'', ''g3.8xlarge'', ''g3.16xlarge'',
     ''h1.2xlarge'', ''h1.4xlarge'', ''h1.8xlarge'', ''h1.16xlarge'', ''hs1.8xlarge'', ''i2.xlarge'',
     ''i2.2xlarge'', ''i2.4xlarge'', ''i2.8xlarge'', ''i3.large'', ''i3.xlarge'', ''i3.2xlarge'',
     ''i3.4xlarge'', ''i3.8xlarge'', ''i3.16xlarge'', ''i3.metal'', ''i3en.large'', ''i3en.xlarge'',
     ''i3en.2xlarge'', ''i3en.3xlarge'', ''i3en.6xlarge'', ''i3en.12xlarge'', ''i3en.24xlarge'', ''m1.small'',
     ''m1.medium'', ''m1.large'', ''m1.xlarge'', ''m2.xlarge'', ''m2.2xlarge'', ''m2.4xlarge'',
     ''m3.medium'', ''m3.large'', ''m3.xlarge'', ''m3.2xlarge'', ''m4.large'', ''m4.xlarge'',
     ''m4.2xlarge'', ''m4.4xlarge'', ''m4.10xlarge'', ''m4.16xlarge'', ''m5.large'', ''m5.xlarge'',
     ''m5.2xlarge'', ''m5.4xlarge'', ''m5.8xlarge'', ''m5.12xlarge'', ''m5.16xlarge'', ''m5.24xlarge'',
     ''m5.metal'', ''m5a.large'', ''m5a.xlarge'', ''m5a.2xlarge'', ''m5a.4xlarge'', ''m5a.8xlarge'',
     ''m5a.12xlarge'', ''m5a.16xlarge'', ''m5a.24xlarge'', ''m5ad.large'', ''m5ad.xlarge'', ''m5ad.2xlarge'',
     ''m5ad.4xlarge'', ''m5ad.12xlarge'']\<close>

definition instance_types2 :: "string list" where
  \<open>instance_types2 =
    [''m5ad.24xlarge'', ''m5d.large'', ''m5d.xlarge'', ''m5d.2xlarge'', ''m5d.4xlarge'', ''m5d.8xlarge'',
     ''m5d.12xlarge'', ''m5d.16xlarge'', ''m5d.24xlarge'', ''m5d.metal'', ''p2.xlarge'', ''p2.8xlarge'',
     ''p2.16xlarge'', ''p3.2xlarge'', ''p3.8xlarge'', ''p3.16xlarge'', ''p3dn.24xlarge'', ''g4dn.xlarge'',
     ''g4dn.2xlarge'', ''g4dn.4xlarge'', ''g4dn.8xlarge'', ''g4dn.12xlarge'', ''g4dn.16xlarge'', ''g4dn.metal'',
     ''r3.large'', ''r3.xlarge'', ''r3.2xlarge'', ''r3.4xlarge'', ''r3.8xlarge'', ''r4.large'',
     ''r4.xlarge'', ''r4.2xlarge'', ''r4.4xlarge'', ''r4.8xlarge'', ''r4.16xlarge'', ''r5.large'',
     ''r5.xlarge'', ''r5.2xlarge'', ''r5.4xlarge'', ''r5.8xlarge'', ''r5.12xlarge'', ''r5.16xlarge'',
     ''r5.24xlarge'', ''r5.metal'', ''r5a.large'', ''r5a.xlarge'', ''r5a.2xlarge'', ''r5a.4xlarge'',
     ''r5a.8xlarge'', ''r5a.12xlarge'', ''r5a.16xlarge'', ''r5a.24xlarge'', ''r5ad.large'', ''r5ad.xlarge'',
     ''r5ad.2xlarge'', ''r5ad.4xlarge'', ''r5ad.12xlarge'', ''r5ad.24xlarge'', ''r5d.large'', ''r5d.xlarge'',
     ''r5d.2xlarge'', ''r5d.4xlarge'', ''r5d.8xlarge'', ''r5d.12xlarge'', ''r5d.16xlarge'', ''r5d.24xlarge'',
     ''r5d.metal'', ''t1.micro'', ''t2.nano'', ''t2.micro'', ''t2.small'', ''t2.medium'',
     ''t2.large'', ''t2.xlarge'', ''t2.2xlarge'', ''t3.nano'', ''t3.micro'', ''t3.small'',
     ''t3.medium'', ''t3.large'', ''t3.xlarge'', ''t3.2xlarge'', ''t3a.nano'', ''t3a.micro'',
     ''t3a.small'', ''t3a.medium'', ''t3a.large'', ''t3a.xlarge'', ''t3a.2xlarge'', ''u-6tb1.metal'',
     ''u-9tb1.metal'', ''u-12tb1.metal'', ''x1.16xlarge'', ''x1.32xlarge'', ''x1e.xlarge'', ''x1e.2xlarge'',
     ''x1e.4xlarge'', ''x1e.8xlarge'', ''x1e.16xlarge'', ''x1e.32xlarge'', ''z1d.large'', ''z1d.xlarge'',
     ''z1d.2xlarge'', ''z1d.3xlarge'', ''z1d.6xlarge'', ''z1d.12xlarge'', ''z1d.metal'']\<close>

definition worker_parameters :: "string list" where
  \<open>worker_parameters =
    [[],
     ''  NodeAutoScalingGroupMinSize:'',
     ''    Description: Minimum size of Node Group ASG.'',
     ''    Type: Number'',
     ''    Default: 1'',
     [],
     ''  NodeAutoScalingGroupMaxSize:'',
     ''    Description: Maximum size of Node Group ASG. Set to at least 1 greater than NodeAutoScalingGroupDesiredCapacity.'',
     ''    Type: Number'',
     ''    Default: 4'',
     [],
     ''  NodeAutoScalingGroupDesiredCapacity:'',
     ''    Description: Desired capacity of Node Group ASG.'',
     ''    Type: Number'',
     ''    Default: 3'',
     [],
     ''  NodeVolumeSize:'',
     ''    Description: Node volume size'',
     ''    Type: Number'',
     ''    Default: 20'',
     [],
     ''  ClusterName:'',
     ''    Description: The cluster name provided when the cluster was created. If it is incorrect, nodes will not be able to join the cluster.'',
     ''    Type: String'',
     [],
     ''  BootstrapArguments:'',
     ''    Description: Arguments to pass to the bootstrap script. See files/bootstrap.sh in https://github.com/awslabs/amazon-eks-ami'',
     ''    Type: String'',
     ''    Default: ""'',
     [],
     ''  NodeGroupName:'',
     ''    Description: Unique identifier for the Node Group.'',
     ''    Type: String'',
     [],
     ''  ClusterControlPlaneSecurityGroup:'',
     ''    Description: The security group of the cluster control plane.'',
     ''    Type: AWS::EC2::SecurityGroup::Id'',
     [],
     ''  VpcId:'',
     ''    Description: The VPC of the worker instances'',
     ''    Type: AWS::EC2::VPC::Id'',
     [],
     ''  Subnets:'',
     ''    Description: The subnets where workers can be created.'',
     ''    Type: List<AWS::EC2::Subnet::Id>'',
     [],
     ''  PublicIp:'',
     ''    Description: Associate the public IP addresses of the worker nodes'',
     ''    Type: String'',
     ''    Default: "true"'',
     [],
     ''  EBSEncryption:'',
     ''    Description: Encrypt EBS volumes of worker nodes'',
     ''    Type: String'',
     ''    Default: "false"'',
     []]\<close>

definition worker_metadata :: "string list" where
  \<open>worker_metadata =
    [''Metadata:'',
     [],
     ''  AWS::CloudFormation::Interface:'',
     ''    ParameterGroups:'',
     ''      - Label:'',
     ''          default: EKS Cluster'',
     ''        Parameters:'',
     ''          - ClusterName'',
     ''          - ClusterControlPlaneSecurityGroup'',
     ''      - Label:'',
     ''          default: Worker Node Configuration'',
     ''        Parameters:'',
     ''          - NodeGroupName'',
     ''          - NodeAutoScalingGroupMinSize'',
     ''          - NodeAutoScalingGroupDesiredCapacity'',
     ''          - NodeAutoScalingGroupMaxSize'',
     ''          - NodeInstanceType'',
     ''          - NodeImageId'',
     ''          - NodeVolumeSize'',
     ''          - KeyName'',
     ''          - BootstrapArguments'',
     ''      - Label:'',
     ''          default: Worker Network Configuration'',
     ''        Parameters:'',
     ''          - VpcId'',
     ''          - Subnets'',
     []]\<close>

definition worker_resources1 :: "string list" where
  \<open>worker_resources1 =
    [''Resources:'',
     [],
     ''  NodeInstanceProfile:'',
     ''    Type: AWS::IAM::InstanceProfile'',
     ''    Properties:'',
     ''      Path: "/"'',
     ''      Roles:'',
     ''        - !Ref NodeInstanceRole'',
     [],
     ''  NodeInstanceRole:'',
     ''    Type: AWS::IAM::Role'',
     ''    Properties:'',
     ''      AssumeRolePolicyDocument:'',
     ''        Version: 2012-10-17'',
     ''        Statement:'',
     ''          - Effect: Allow'',
     ''            Principal:'',
     ''              Service: %s'',
     ''            Action: sts:AssumeRole'',
     ''      Path: "/"'',
     ''      ManagedPolicyArns:'',
     ''        - arn:aws:iam::aws:policy/AmazonEKSWorkerNodePolicy'',
     ''        - arn:aws:iam::aws:policy/AmazonEKS_CNI_Policy'',
     ''        - arn:aws:iam::aws:policy/AmazonEC2ContainerRegistryReadOnly'',
     [],
     ''  NodeSecurityGroup:'',
     ''    Type: AWS::EC2::SecurityGroup'',
     ''    Properties:'',
     ''      GroupDescription: Security group for all nodes in the cluster'',
     ''      VpcId: !Ref VpcId'',
     ''      Tags:'',
     ''        - Key: !Sub kubernetes.io/cluster/${ClusterName}'',
     ''          Value: owned'',
     [],
     ''  NodeSecurityGroupIngress:'',
     ''    Type: AWS::EC2::SecurityGroupIngress'',
     ''    DependsOn: NodeSecurityGroup'',
     ''    Properties:'',
     ''      Description: Allow node to communicate with each other'',
     ''      GroupId: !Ref NodeSecurityGroup'',
     ''      SourceSecurityGroupId: !Ref NodeSecurityGroup'',
     ''      IpProtocol: -1'',
     ''      FromPort: 0'',
     ''      ToPort: 65535'',
     [],
     ''  NodeSecurityGroupFromControlPlaneIngress:'',
     ''    Type: AWS::EC2::SecurityGroupIngress'',
     ''    DependsOn: NodeSecurityGroup'',
     ''    Properties:'',
     ''      Description: Allow worker Kubelets and pods to receive communication from the cluster control plane'',
     ''      GroupId: !Ref NodeSecurityGroup'',
     ''      SourceSecurityGroupId: !Ref ClusterControlPlaneSecurityGroup'',
     ''      IpProtocol: tcp'',
     ''      FromPort: 1025'',
     ''      ToPort: 65535'',
     [],
     ''  ControlPlaneEgressToNodeSecurityGroup:'',
     ''    Type: AWS::EC2::SecurityGroupEgress'',
     ''    DependsOn: NodeSecurityGroup'',
     ''    Properties:'',
     ''      Description: Allow the cluster control plane to communicate with worker Kubelet and pods'',
     ''      GroupId: !Ref ClusterControlPlaneSecurityGroup'',
     ''      DestinationSecurityGroupId: !Ref NodeSecurityGroup'',
     ''      IpProtocol: tcp'',
     ''      FromPort: 1025'',
     ''      ToPort: 65535'',
     [],
     ''  NodeSecurityGroupFromControlPlaneOn443Ingress:'',
     ''    Type: AWS::EC2::SecurityGroupIngress'',
     ''    DependsOn: NodeSecurityGroup'',
     ''    Properties:'',
     ''      Description: Allow pods running extension API servers on port 443 to receive communication from cluster control plane'',
     ''      GroupId: !Ref NodeSecurityGroup'',
     ''      SourceSecurityGroupId: !Ref ClusterControlPlaneSecurityGroup'',
     ''      IpProtocol: tcp'',
     ''      FromPort: 443'',
     ''      ToPort: 443'',
     [],
     ''  ControlPlaneEgressToNodeSecurityGroupOn443:'',
     ''    Type: AWS::EC2::SecurityGroupEgress'',
     ''    DependsOn: NodeSecurityGroup'',
     ''    Properties:'',
     ''      Description: Allow the cluster control plane to communicate with pods running extension API servers on port 443'',
     ''      GroupId: !Ref ClusterControlPlaneSecurityGroup'',
     ''      DestinationSecurityGroupId: !Ref NodeSecurityGroup'',
     ''      IpProtocol: tcp'',
     ''      FromPort: 443'',
     ''      ToPort: 443'',
     []]\<close>

definition worker_resources2 :: "string list" where
  \<open>worker_resources2 =
    [''  ClusterControlPlaneSecurityGroupIngress:'',
     ''    Type: AWS::EC2::SecurityGroupIngress'',
     ''    DependsOn: NodeSecurityGroup'',
     ''    Properties:'',
     ''      Description: Allow pods to communicate with the cluster API Server'',
     ''      GroupId: !Ref ClusterControlPlaneSecurityGroup'',
     ''      SourceSecurityGroupId: !Ref NodeSecurityGroup'',
     ''      IpProtocol: tcp'',
     ''      ToPort: 443'',
     ''      FromPort: 443'',
     [],
     ''  NodeSecurityGroupFromControlPlaneOn80Ingress:'',
     ''    Type: AWS::EC2::SecurityGroupIngress'',
     ''    DependsOn: NodeSecurityGroup'',
     ''    Properties:'',
     ''      Description: Allow pods to receive communication from cluster control plane via HTTP service proxy on port 80'',
     ''      GroupId: !Ref NodeSecurityGroup'',
     ''      SourceSecurityGroupId: !Ref ClusterControlPlaneSecurityGroup'',
     ''      IpProtocol: tcp'',
     ''      FromPort: 80'',
     ''      ToPort: 80'',
     [],
     ''  ControlPlaneEgressToNodeSecurityGroupOn80:'',
     ''    Type: AWS::EC2::SecurityGroupEgress'',
     ''    DependsOn: NodeSecurityGroup'',
     ''    Properties:'',
     ''      Description: Allow the cluster control plane to communicate with pods via HTTP service proxy on port 80'',
     ''      GroupId: !Ref ClusterControlPlaneSecurityGroup'',
     ''      DestinationSecurityGroupId: !Ref NodeSecurityGroup'',
     ''      IpProtocol: tcp'',
     ''      FromPort: 80'',
     ''      ToPort: 80'',
     [],
     ''  NodeGroup:'',
     ''    Type: AWS::AutoScaling::AutoScalingGroup'',
     ''    Properties:'',
     ''      DesiredCapacity: !Ref NodeAutoScalingGroupDesiredCapacity'',
     ''      LaunchConfigurationName: !Ref NodeLaunchConfig'',
     ''      MinSize: !Ref NodeAutoScalingGroupMinSize'',
     ''      MaxSize: !Ref NodeAutoScalingGroupMaxSize'',
     ''      VPCZoneIdentifier: !Ref Subnets'',
     ''      Tags:'',
     ''        - Key: Name'',
     ''          Value: !Sub ${ClusterName}-${NodeGroupName}-Node'',
     ''          PropagateAtLaunch: true'',
     ''        - Key: !Sub kubernetes.io/cluster/${ClusterName}'',
     ''          Value: owned'',
     ''          PropagateAtLaunch: true'',
     ''    UpdatePolicy:'',
     ''      AutoScalingRollingUpdate:'',
     ''        MaxBatchSize: 1'',
     ''        MinInstancesInService: !Ref NodeAutoScalingGroupDesiredCapacity'',
     ''        PauseTime: PT5M'',
     [],
     ''  NodeLaunchConfig:'',
     ''    Type: AWS::AutoScaling::LaunchConfiguration'',
     ''    Properties:'',
     ''      AssociatePublicIpAddress: !Ref PublicIp'',
     ''      IamInstanceProfile: !Ref NodeInstanceProfile'',
     ''      ImageId: !Ref NodeImageId'',
     ''      InstanceType: !Ref NodeInstanceType'',
     ''      KeyName: !Ref KeyName'',
     ''      SecurityGroups:'',
     ''        - !Ref NodeSecurityGroup'',
     ''      BlockDeviceMappings:'',
     ''        - DeviceName: /dev/xvda'',
     ''          Ebs:'',
     ''            VolumeSize: !Ref NodeVolumeSize'',
     ''            VolumeType: gp2'',
     ''            DeleteOnTermination: true'',
     ''            Encrypted: !Ref EBSEncryption'',
     ''      UserData: !Base64'',
     ''        'Fn::Sub': %q'',
     []]\<close>

definition worker_outputs :: "string list" where
  \<open>worker_outputs =
    [''Outputs:'',
     [],
     ''  NodeInstanceRole:'',
     ''    Description: The node instance role'',
     ''    Value: !GetAtt NodeInstanceRole.Arn'',
     [],
     ''  NodeSecurityGroup:'',
     ''    Description: The security group for the node group'',
     ''    Value: !Ref NodeSecurityGroup'']\<close>

definition role_lines :: "string list" where
  \<open>role_lines =
    [''---'',
     ''AWSTemplateFormatVersion: '2010-09-09'' @ [CHR 0x27],
     ''Description: 'Amazon EKS Service Role'' @ [CHR 0x27],
     [],
     [],
     ''Resources:'',
     [],
     ''  AWSServiceRoleForAmazonEKS:'',
     ''    Type: AWS::IAM::Role'',
     ''    Properties:'',
     ''      AssumeRolePolicyDocument:'',
     ''        Version: '2012-10-17'' @ [CHR 0x27],
     ''        Statement:'',
     ''        - Effect: Allow'',
     ''          Principal:'',
     ''            Service:'',
     ''            - eks.amazonaws.com'',
     ''          Action:'',
     ''          - sts:AssumeRole'',
     ''      ManagedPolicyArns:'',
     ''        - arn:aws:iam::aws:policy/AmazonEKSServicePolicy'',
     ''        - arn:aws:iam::aws:policy/AmazonEKSClusterPolicy'',
     [],
     ''Outputs:'',
     [],
     ''  RoleArn:'',
     ''    Description: The role that EKS will use to create AWS resources for Kubernetes clusters'',
     ''    Value: !GetAtt AWSServiceRoleForAmazonEKS.Arn'',
     ''    Export:'',
     ''      Name: !Sub "${AWS::StackName}-RoleArn"'',
     []]\<close>

definition text_of :: "string list \<Rightarrow> string" where
  "text_of ls = concat (map (\<lambda>l. l @ [CHR 0x0A]) ls)"

definition vpc_lines :: "string list" where
  "vpc_lines = vpc_parameters @ vpc_resources @ vpc_outputs"

definition type_line :: "string \<Rightarrow> string" where
  "type_line t = ''      - '' @ t"

definition worker_lines :: "string list" where
  "worker_lines = worker_head @ map type_line (instance_types1 @ instance_types2) @ worker_parameters @
     worker_metadata @ worker_resources1 @ worker_resources2 @ worker_outputs"

definition vpcTemplate :: string where "vpcTemplate = text_of vpc_lines"
definition workerNodesTemplate :: string where "workerNodesTemplate = text_of worker_lines"
definition serviceRoleTemplate :: string where "serviceRoleTemplate = text_of role_lines"

section \<open>Formatting\<close>

text \<open>\<open>strconv.Quote\<close>. Bytes above 127 belong to multi-byte characters, of which it keeps the printable ones; \<open>uni\<close> renders a run
  of them.\<close>

definition quote_char :: "char \<Rightarrow> string" where
  "quote_char c =
     (if c = DQ then [BS, DQ]
      else if c = BS then [BS, BS]
      else if c = CHR 0x07 then [BS, CHR ''a'']
      else if c = CHR 0x08 then [BS, CHR ''b'']
      else if c = CHR 0x0C then [BS, CHR ''f'']
      else if c = CHR 0x0A then [BS, CHR ''n'']
      else if c = CHR 0x0D then [BS, CHR ''r'']
      else if c = CHR 0x09 then [BS, CHR ''t'']
      else if c = CHR 0x0B then [BS, CHR ''v'']
      else if (of_char c :: nat) < 32 \<or> c = CHR 0x7F
      then [BS, CHR ''x'', hex_char (of_char c div 16), hex_char (of_char c mod 16)]
      else [c])"

definition ascii :: "char \<Rightarrow> bool" where
  "ascii c \<longleftrightarrow> (of_char c :: nat) < 128"

function quote_body :: "(string \<Rightarrow> string) \<Rightarrow> string \<Rightarrow> string" where
  "quote_body uni s =
     (case s of
        [] \<Rightarrow> []
      | c # cs \<Rightarrow>
          (if ascii c then quote_char c @ quote_body uni cs
           else uni (takeWhile (\<lambda>x. \<not> ascii x) s) @ quote_body uni (dropWhile (\<lambda>x. \<not> ascii x) s)))"
  by pat_completeness auto
termination
  by (relation "measure (\<lambda>(uni, s). length s)") (auto simp: le_imp_less_Suc length_dropWhile_le)

declare quote_body.simps [simp del]

definition go_quote :: "(string \<Rightarrow> string) \<Rightarrow> string \<Rightarrow> string" where
  "go_quote uni s = DQ # quote_body uni s @ [DQ]"

text \<open>\<open>fmt.Sprintf\<close> with string arguments and verbs without flags; arguments that are left over or missing are reported in the text.\<close>

fun Sprintf :: "(string \<Rightarrow> string) \<Rightarrow> string \<Rightarrow> string list \<Rightarrow> string" where
  "Sprintf uni [] as =
     (if as = [] then [] else ''%!(EXTRA '' @ join_with '', '' (map (\<lambda>a. ''string='' @ a) as) @ '')'')"
| "Sprintf uni [c] as = (if c = CHR ''%'' then ''%!(NOVERB)'' else [c]) @ Sprintf uni [] as"
| "Sprintf uni (c # v # f) as =
     (if c \<noteq> CHR ''%'' then c # Sprintf uni (v # f) as
      else if v = CHR ''%'' then CHR ''%'' # Sprintf uni f as
      else (case as of
              [] \<Rightarrow> ''%!'' @ [v] @ ''(MISSING)'' @ Sprintf uni f []
            | a # as' \<Rightarrow>
                (if v = CHR ''s'' then a
                 else if v = CHR ''q'' then go_quote uni a
                 else ''%!'' @ [v] @ ''(string='' @ a @ '')'') @ Sprintf uni f as'))"

section \<open>Reading a template\<close>

definition indented :: "string \<Rightarrow> bool" where
  "indented l \<longleftrightarrow> l = [] \<or> hd l = CHR '' ''"

definition section_of :: "string \<Rightarrow> string list \<Rightarrow> string list" where
  "section_of h ls = takeWhile indented (drop 1 (dropWhile (\<lambda>l. l \<noteq> h) ls))"

definition is_key :: "string \<Rightarrow> bool" where
  "is_key l \<longleftrightarrow> has_prefix l ''  '' \<and> length l > 3 \<and> l ! 2 \<noteq> CHR '' '' \<and> last l = CHR '':''"

definition key_of :: "string \<Rightarrow> string" where
  "key_of l = butlast (drop 2 l)"

definition keys_of :: "string \<Rightarrow> string list \<Rightarrow> string list" where
  "keys_of h ls = map key_of (filter is_key (section_of h ls))"

text \<open>The parameters without a default: \<open>pending\<close> is the key whose entry is being read, while no default was seen.\<close>

definition read_param :: "string list \<times> string option \<Rightarrow> string \<Rightarrow> string list \<times> string option" where
  "read_param st l =
     (case st of (req, pending) \<Rightarrow>
        if is_key l then (req @ (case pending of Some k \<Rightarrow> [k] | None \<Rightarrow> []), Some (key_of l))
        else if has_prefix l ''    Default:'' then (req, None) else (req, pending))"

definition required_parameters :: "string list \<Rightarrow> string list" where
  "required_parameters ls =
     (case foldl read_param ([], None) (section_of ''Parameters:'' ls) of (req, pending) \<Rightarrow>
        req @ (case pending of Some k \<Rightarrow> [k] | None \<Rightarrow> []))"

definition name_char :: "char \<Rightarrow> bool" where
  "name_char c \<longleftrightarrow> (let n = of_char c :: nat in 48 \<le> n \<and> n \<le> 57 \<or> 65 \<le> n \<and> n \<le> 90 \<or> 97 \<le> n \<and> n \<le> 122)"

fun refs_in :: "string \<Rightarrow> string list" where
  "refs_in [] = []"
| "refs_in (c # cs) =
     (if c = CHR ''!'' \<and> has_prefix cs ''Ref '' then takeWhile name_char (drop 4 cs) # refs_in cs else refs_in cs)"

definition refs_of :: "string list \<Rightarrow> string list" where
  "refs_of ls = concat (map refs_in ls)"

section \<open>Lemmas: reading in parts\<close>

lemma section_of_parts:
  assumes "list_all (\<lambda>l. l \<noteq> h) a" "list_all indented b" "\<not> indented c"
  shows "section_of h (a @ h # b @ c # d) = b"
  using assms by (simp add: section_of_def list_all_iff dropWhile_append takeWhile_append takeWhile_eq_all_conv[THEN iffD2]
      dropWhile_eq_Nil_conv[THEN iffD2])

lemma section_of_last:
  assumes "list_all (\<lambda>l. l \<noteq> h) a" "list_all indented b"
  shows "section_of h (a @ h # b) = b"
  using assms by (simp add: section_of_def list_all_iff dropWhile_append takeWhile_eq_all_conv[THEN iffD2]
      dropWhile_eq_Nil_conv[THEN iffD2])

lemma type_lines: "indented (type_line t)" "\<not> is_key (type_line t)" "\<not> has_prefix (type_line t) ''    Default:''"
  by (simp_all add: type_line_def indented_def is_key_def has_prefix_def)

lemma type_lines_all:
  "list_all indented (map type_line ts)" "filter is_key (map type_line ts) = []" "foldl read_param st (map type_line ts) = st"
  by (induction ts) (simp_all add: read_param_def type_lines split: prod.split)

section \<open>Lemmas: the three templates\<close>

lemma worker_parts:
  "worker_head = take 4 worker_head @ ''Parameters:'' # drop 5 worker_head" "worker_metadata = ''Metadata:'' # tl worker_metadata"
  "worker_resources1 = ''Resources:'' # tl worker_resources1" "worker_outputs = ''Outputs:'' # tl worker_outputs"
  by (simp_all add: worker_head_def worker_metadata_def worker_resources1_def worker_outputs_def)

lemma worker_indented:
  "list_all (\<lambda>l. l \<noteq> ''Parameters:'') (take 4 worker_head)" "list_all indented (drop 5 worker_head)"
  "list_all indented worker_parameters" "list_all indented (tl worker_metadata)"
  "list_all indented (tl worker_resources1)" "list_all indented worker_resources2" "list_all indented (tl worker_outputs)"
  by code_simp+

lemma worker_no_header:
  "list_all (\<lambda>l. l \<noteq> ''Resources:'' \<and> l \<noteq> ''Outputs:'') worker_head"
  "list_all (\<lambda>l. l \<noteq> ''Resources:'' \<and> l \<noteq> ''Outputs:'') worker_metadata"
  by code_simp+

lemma indented_no_header: "list_all indented ls \<Longrightarrow> list_all (\<lambda>l. l \<noteq> ''Resources:'' \<and> l \<noteq> ''Outputs:'') ls"
  by (auto simp: list_all_iff indented_def)

lemma headers: "\<not> indented ''Metadata:''" "\<not> indented ''Outputs:''" "\<not> indented ''Resources:''"
  by (simp_all add: indented_def)

lemma worker_sections:
  "section_of ''Parameters:'' worker_lines =
     drop 5 worker_head @ map type_line (instance_types1 @ instance_types2) @ worker_parameters" (is ?P)
  "section_of ''Resources:'' worker_lines = tl worker_resources1 @ worker_resources2" (is ?R)
  "section_of ''Outputs:'' worker_lines = tl worker_outputs" (is ?O)
proof -
  let ?T = "map type_line (instance_types1 @ instance_types2)"
  have T: "list_all indented ?T" by (rule type_lines_all)
  note no_header = worker_no_header indented_no_header[OF T] indented_no_header[OF worker_indented(3)]
  have p: "worker_lines = take 4 worker_head @ ''Parameters:'' # (drop 5 worker_head @ ?T @ worker_parameters) @
      ''Metadata:'' # tl worker_metadata @ worker_resources1 @ worker_resources2 @ worker_outputs"
    unfolding worker_lines_def by (subst worker_parts(1), subst worker_parts(2)) simp
  show ?P unfolding p
    by (rule section_of_parts) (use worker_indented T headers in \<open>simp_all only: list_all_append simp_thms\<close>)
  let ?before = "worker_head @ ?T @ worker_parameters @ worker_metadata"
  have r: "worker_lines = ?before @ ''Resources:'' # (tl worker_resources1 @ worker_resources2) @ ''Outputs:'' # tl worker_outputs"
    unfolding worker_lines_def by (subst worker_parts(3), subst worker_parts(4)) simp
  show ?R unfolding r
    by (rule section_of_parts) (use worker_indented headers no_header in \<open>auto simp only: list_all_iff set_append Un_iff ball_Un\<close>)
  have o: "worker_lines = (?before @ worker_resources1 @ worker_resources2) @ ''Outputs:'' # tl worker_outputs"
    unfolding worker_lines_def by (subst worker_parts(4)) simp
  have "list_all (\<lambda>l. l \<noteq> ''Outputs:'') worker_resources1"
    by (subst worker_parts(3)) (use indented_no_header[OF worker_indented(5)] in \<open>auto simp: list_all_iff\<close>)
  then show ?O unfolding o
    by (intro section_of_last) (use worker_indented no_header indented_no_header[OF worker_indented(6)] in
        \<open>auto simp only: list_all_iff set_append Un_iff ball_Un\<close>)
qed

lemma filter_keys:
  "map key_of (filter is_key (drop 5 worker_head)) = [''KeyName'', ''NodeImageId'', ''NodeInstanceType'']"
  "map key_of (filter is_key worker_parameters) = [''NodeAutoScalingGroupMinSize'',
     ''NodeAutoScalingGroupMaxSize'', ''NodeAutoScalingGroupDesiredCapacity'', ''NodeVolumeSize'', ''ClusterName'',
     ''BootstrapArguments'', ''NodeGroupName'', ''ClusterControlPlaneSecurityGroup'', ''VpcId'', ''Subnets'', ''PublicIp'',
     ''EBSEncryption'']"
  "map key_of (filter is_key (tl worker_outputs)) = [''NodeInstanceRole'', ''NodeSecurityGroup'']"
  "map key_of (filter is_key (tl worker_resources1)) = [''NodeInstanceProfile'', ''NodeInstanceRole'', ''NodeSecurityGroup'',
     ''NodeSecurityGroupIngress'', ''NodeSecurityGroupFromControlPlaneIngress'', ''ControlPlaneEgressToNodeSecurityGroup'',
     ''NodeSecurityGroupFromControlPlaneOn443Ingress'', ''ControlPlaneEgressToNodeSecurityGroupOn443'']"
  "map key_of (filter is_key worker_resources2) = [''ClusterControlPlaneSecurityGroupIngress'',
     ''NodeSecurityGroupFromControlPlaneOn80Ingress'', ''ControlPlaneEgressToNodeSecurityGroupOn80'', ''NodeGroup'', ''NodeLaunchConfig'']"
  by code_simp+

lemma worker_keys:
  "keys_of ''Parameters:'' worker_lines = [''KeyName'', ''NodeImageId'', ''NodeInstanceType'', ''NodeAutoScalingGroupMinSize'',
     ''NodeAutoScalingGroupMaxSize'', ''NodeAutoScalingGroupDesiredCapacity'', ''NodeVolumeSize'', ''ClusterName'',
     ''BootstrapArguments'', ''NodeGroupName'', ''ClusterControlPlaneSecurityGroup'', ''VpcId'', ''Subnets'', ''PublicIp'',
     ''EBSEncryption'']"
  "keys_of ''Outputs:'' worker_lines = [''NodeInstanceRole'', ''NodeSecurityGroup'']"
  by (simp_all only: keys_of_def worker_sections filter_append map_append type_lines_all filter_keys list.map append.simps)

lemma read_parts:
  "foldl read_param ([], None) (drop 5 worker_head) = ([''KeyName'', ''NodeImageId''], None)"
  "foldl read_param ([''KeyName'', ''NodeImageId''], None) worker_parameters =
     ([''KeyName'', ''NodeImageId'', ''ClusterName'', ''NodeGroupName'', ''ClusterControlPlaneSecurityGroup'', ''VpcId'', ''Subnets''], None)"
  by code_simp+

lemma worker_required:
  "required_parameters worker_lines =
     [''KeyName'', ''NodeImageId'', ''ClusterName'', ''NodeGroupName'', ''ClusterControlPlaneSecurityGroup'', ''VpcId'', ''Subnets'']"
  by (simp only: required_parameters_def worker_sections foldl_append type_lines_all read_parts prod.case option.case append_Nil2)

lemma vpc_reading:
  "keys_of ''Parameters:'' vpc_lines = [''VpcBlock'', ''Subnet01Block'', ''Subnet02Block'', ''Subnet03Block'']"
  "required_parameters vpc_lines = []"
  "keys_of ''Outputs:'' vpc_lines = [''SubnetIds'', ''SecurityGroups'', ''VpcId'']"
  "List.member (keys_of ''Resources:'' vpc_lines) ''VPC''"
  by code_simp+

lemma role_reading: "keys_of ''Parameters:'' role_lines = []" "keys_of ''Outputs:'' role_lines = [''RoleArn'']"
  by code_simp+

text \<open>The names a reference \<open>!Ref\<close> of the worker template can have.\<close>

definition worker_names :: "string list" where
  "worker_names = keys_of ''Parameters:'' worker_lines @ keys_of ''Resources:'' worker_lines"

lemma worker_names_eq: "worker_names = [''KeyName'', ''NodeImageId'', ''NodeInstanceType'', ''NodeAutoScalingGroupMinSize'',
     ''NodeAutoScalingGroupMaxSize'', ''NodeAutoScalingGroupDesiredCapacity'', ''NodeVolumeSize'', ''ClusterName'',
     ''BootstrapArguments'', ''NodeGroupName'', ''ClusterControlPlaneSecurityGroup'', ''VpcId'', ''Subnets'', ''PublicIp'',
     ''EBSEncryption'', ''NodeInstanceProfile'', ''NodeInstanceRole'', ''NodeSecurityGroup'',
     ''NodeSecurityGroupIngress'', ''NodeSecurityGroupFromControlPlaneIngress'', ''ControlPlaneEgressToNodeSecurityGroup'',
     ''NodeSecurityGroupFromControlPlaneOn443Ingress'', ''ControlPlaneEgressToNodeSecurityGroupOn443'',
     ''ClusterControlPlaneSecurityGroupIngress'', ''NodeSecurityGroupFromControlPlaneOn80Ingress'',
     ''ControlPlaneEgressToNodeSecurityGroupOn80'', ''NodeGroup'', ''NodeLaunchConfig'']"
  by (simp only: worker_names_def keys_of_def worker_sections filter_append map_append type_lines_all filter_keys list.map append.simps)

lemma part_refs:
  "refs_of worker_head = []" "refs_of worker_parameters = []" "refs_of worker_metadata = []"
  "refs_of (map type_line instance_types1) = []" "refs_of (map type_line instance_types2) = []"
  "refs_of worker_outputs = [''NodeSecurityGroup'']"
  by code_simp+

lemma resource_refs:
  "refs_of worker_resources1 = [''NodeInstanceRole'', ''VpcId'', ''NodeSecurityGroup'', ''NodeSecurityGroup'', ''NodeSecurityGroup'',
     ''ClusterControlPlaneSecurityGroup'', ''ClusterControlPlaneSecurityGroup'', ''NodeSecurityGroup'', ''NodeSecurityGroup'',
     ''ClusterControlPlaneSecurityGroup'', ''ClusterControlPlaneSecurityGroup'', ''NodeSecurityGroup'']"
  "refs_of worker_resources2 = [''ClusterControlPlaneSecurityGroup'', ''NodeSecurityGroup'', ''NodeSecurityGroup'',
     ''ClusterControlPlaneSecurityGroup'', ''ClusterControlPlaneSecurityGroup'', ''NodeSecurityGroup'',
     ''NodeAutoScalingGroupDesiredCapacity'', ''NodeLaunchConfig'', ''NodeAutoScalingGroupMinSize'', ''NodeAutoScalingGroupMaxSize'',
     ''Subnets'', ''NodeAutoScalingGroupDesiredCapacity'', ''PublicIp'', ''NodeInstanceProfile'', ''NodeImageId'', ''NodeInstanceType'',
     ''KeyName'', ''NodeSecurityGroup'', ''NodeVolumeSize'', ''EBSEncryption'']"
  by code_simp+

lemma refs_of_append: "refs_of (a @ b) = refs_of a @ refs_of b"
  by (simp add: refs_of_def)

lemma worker_refs: "set (refs_of worker_lines) \<subseteq> set worker_names"
  by (simp add: worker_lines_def refs_of_append part_refs resource_refs worker_names_eq)

section \<open>Lemmas: formatting\<close>

text \<open>Text without a verb is copied.\<close>

lemma Sprintf_copy: "CHR ''%'' \<notin> set t \<Longrightarrow> Sprintf uni (t @ f) as = t @ Sprintf uni f as"
proof (induction t)
  case (Cons c t)
  then have ih: "c \<noteq> CHR ''%''" "Sprintf uni (t @ f) as = t @ Sprintf uni f as" by auto
  show ?case
  proof (cases "t @ f")
    case Nil
    then show ?thesis using ih(1) by simp
  next
    case (Cons v g)
    then show ?thesis using ih by simp
  qed
qed simp

lemma Sprintf_verbs:
  "Sprintf uni (''%s'' @ f) (a # as) = a @ Sprintf uni f as"
  "Sprintf uni (''%q'' @ f) (a # as) = go_quote uni a @ Sprintf uni f as"
  by simp_all

text \<open>A double-quoted scalar of YAML: the text up to the closing quote, with its escapes undone, and what follows.\<close>

fun hex_digit :: "char \<Rightarrow> nat" where
  "hex_digit c = (if (of_char c :: nat) < 58 then of_char c - 48 else of_char c - 87)"

fun dq_scalar :: "string \<Rightarrow> (string \<times> string) option" where
  "dq_scalar (c # s) =
     (if c = DQ then Some ([], s)
      else if c \<noteq> BS then map_option (\<lambda>(t, r). (c # t, r)) (dq_scalar s)
      else (case s of
              CHR 0x78 # h # l # s' \<Rightarrow>
                map_option (\<lambda>(t, r). (char_of (16 * hex_digit h + hex_digit l) # t, r)) (dq_scalar s')
            | e # s' \<Rightarrow>
                (case map_of [(DQ, DQ), (BS, BS), (CHR ''a'', CHR 0x07), (CHR ''b'', CHR 0x08), (CHR ''f'', CHR 0x0C),
                        (CHR ''n'', CHR 0x0A), (CHR ''r'', CHR 0x0D), (CHR ''t'', CHR 0x09), (CHR ''v'', CHR 0x0B)] e of
                   None \<Rightarrow> None
                 | Some d \<Rightarrow> map_option (\<lambda>(t, r). (d # t, r)) (dq_scalar s'))
            | [] \<Rightarrow> None))"
| "dq_scalar [] = None"

lemma verb_lines:
  "worker_resources1 = take 17 worker_resources1 @ (''              Service: '' @ ''%s'') # drop 18 worker_resources1"
  "worker_resources2 = take 72 worker_resources2 @ (''        '' @ [CHR 0x27] @ ''Fn::Sub'' @ [CHR 0x27] @ '': '' @ ''%q'') # drop 73 worker_resources2"
  by (simp_all add: worker_resources1_def worker_resources2_def)

abbreviation no_verb :: "string list \<Rightarrow> bool" where
  "no_verb ls \<equiv> list_all (\<lambda>l. list_all (\<lambda>c. c \<noteq> CHR ''%'') l) ls"

lemma no_verbs:
  "no_verb worker_head" "no_verb (map type_line instance_types1)" "no_verb (map type_line instance_types2)"
  "no_verb worker_parameters" "no_verb worker_metadata" "no_verb (take 17 worker_resources1)" "no_verb (drop 18 worker_resources1)"
  "no_verb (take 71 worker_resources2)" "no_verb (drop 73 worker_resources2)" "no_verb worker_outputs"
  by code_simp+

lemma text_no_verb: "no_verb ls \<Longrightarrow> CHR ''%'' \<notin> set (text_of ls)"
  by (auto simp: text_of_def list_all_iff)

lemma text_of_append: "text_of (a @ b) = text_of a @ text_of b"
  by (simp add: text_of_def)

definition user_data_key :: string where
  "user_data_key = ''      UserData: !Base64'' @ CHR 0x0A # ''        '' @ [CHR 0x27] @ ''Fn::Sub'' @ [CHR 0x27] @ '': ''"

lemma user_data_line: "take 72 worker_resources2 = take 71 worker_resources2 @ [''      UserData: !Base64'']"
  unfolding worker_resources2_def by simp

lemma worker_template_split:
  obtains before between after
  where "workerNodesTemplate = before @ ''%s'' @ (between @ user_data_key) @ ''%q'' @ after"
    "CHR ''%'' \<notin> set before" "CHR ''%'' \<notin> set (between @ user_data_key)" "CHR ''%'' \<notin> set after"
proof -
  let ?A = "worker_head @ map type_line instance_types1 @ map type_line instance_types2 @ worker_parameters @ worker_metadata @
    take 17 worker_resources1"
  let ?B = "drop 18 worker_resources1 @ take 71 worker_resources2"
  let ?C = "drop 73 worker_resources2 @ worker_outputs"
  let ?u = "''      UserData: !Base64''"
  let ?q = "''        '' @ [CHR 0x27] @ ''Fn::Sub'' @ [CHR 0x27] @ '': ''"
  have e: "worker_lines = ?A @ (''              Service: '' @ ''%s'') # (?B @ [?u]) @ (?q @ ''%q'') # ?C"
    unfolding worker_lines_def by (subst verb_lines(1), subst verb_lines(2)) (simp add: user_data_line del: append.simps)
  have t: "workerNodesTemplate = (text_of ?A @ ''              Service: '') @ ''%s'' @ ((CHR 0x0A # text_of ?B) @ user_data_key) @
      ''%q'' @ (CHR 0x0A # text_of ?C)"
    unfolding workerNodesTemplate_def e user_data_key_def by (simp add: text_of_def)
  have n: "CHR ''%'' \<notin> set (text_of ?A)" "CHR ''%'' \<notin> set (text_of ?B)" "CHR ''%'' \<notin> set (text_of ?C)"
    by (rule text_no_verb, simp only: list_all_append no_verbs simp_thms)+
  show ?thesis by (rule that[OF t]) (use n in \<open>simp_all add: user_data_key_def\<close>)
qed

text \<open>A quoted text is read back.\<close>

lemma hex_digit_char: "k < 16 \<Longrightarrow> hex_digit (hex_char k) = k"
  by (simp add: hex_char_def)

lemma dq_scalar_quote_char:
  assumes "ascii c"
  shows "dq_scalar (quote_char c @ t) = map_option (\<lambda>(x, r). (c # x, r)) (dq_scalar t)"
proof (cases "(of_char c :: nat) < 32 \<or> c = CHR 0x7F")
  case True
  then have "(of_char c :: nat) < 128" by auto
  then have "char_of (16 * hex_digit (hex_char (of_char c div 16)) + hex_digit (hex_char (of_char c mod 16))) = c"
    by (simp add: hex_digit_char del: hex_digit.simps)
  with True show ?thesis by (auto simp: quote_char_def simp del: hex_digit.simps)
next
  case False
  then show ?thesis by (simp add: quote_char_def)
qed

lemma dq_scalar_quote: "list_all ascii s \<Longrightarrow> dq_scalar (quote_body uni s @ DQ # r) = Some (s, r)"
proof (induction s)
  case Nil
  then show ?case by (subst quote_body.simps) simp
next
  case (Cons c s)
  then show ?case by (subst quote_body.simps) (simp add: dq_scalar_quote_char del: dq_scalar.simps)
qed

section \<open>Properties\<close>

text \<open>C22. ASCII user data becomes the argument of \<open>Fn::Sub\<close> in the \<open>UserData\<close> property of the worker nodes, byte for byte:
  formatting the template puts the endpoint for \<open>%s\<close> and the quoted user data for \<open>%q\<close> and copies the rest, the \<open>%q\<close> stands
  right behind \<open>UserData: !Base64\<close> and the key \<open>Fn::Sub\<close>, and the double-quoted scalar there is read back as exactly the
  configured text, whatever quotes, line breaks and control characters it contains; the template goes on behind it.
  The substitution of the \<open>${...}\<close> in this text (on which the default user data relies) is CloudFormation's and comes
  after it.\<close>

theorem user_data_embedded:
  assumes "list_all ascii userData"
  shows "\<exists>before between after scalar. workerNodesTemplate = before @ ''%s'' @ between @ user_data_key @ ''%q'' @ after \<and>
     Sprintf uni workerNodesTemplate [endpoint, userData] = before @ endpoint @ between @ user_data_key @ DQ # scalar \<and>
     dq_scalar scalar = Some (userData, after)"
proof -
  obtain before between after
    where t: "workerNodesTemplate = before @ ''%s'' @ (between @ user_data_key) @ ''%q'' @ after"
    and n: "CHR ''%'' \<notin> set before" "CHR ''%'' \<notin> set (between @ user_data_key)" "CHR ''%'' \<notin> set after"
    by (rule worker_template_split)
  have "Sprintf uni after [] = after" using Sprintf_copy[OF n(3), of uni "[]" "[]"] by simp
  then have "Sprintf uni workerNodesTemplate [endpoint, userData] =
      before @ endpoint @ between @ user_data_key @ DQ # (quote_body uni userData @ DQ # after)"
    unfolding t by (simp add: Sprintf_copy[OF n(1)] Sprintf_copy[OF n(2)] go_quote_def del: append_assoc)
  moreover have "workerNodesTemplate = before @ ''%s'' @ between @ user_data_key @ ''%q'' @ after"
    unfolding t by simp
  ultimately show ?thesis using dq_scalar_quote[OF assms, of uni after] by blast
qed

theorem user_data_embedded_witness:
  "\<exists>before between after scalar. workerNodesTemplate = before @ ''%s'' @ between @ user_data_key @ ''%q'' @ after \<and>
     Sprintf id workerNodesTemplate [''ec2.amazonaws.com'', ''echo ${ClusterName}'' @ [DQ, CHR 0x0A]] =
       before @ ''ec2.amazonaws.com'' @ between @ user_data_key @ DQ # scalar \<and>
     dq_scalar scalar = Some (''echo ${ClusterName}'' @ [DQ, CHR 0x0A], after)"
  by (rule user_data_embedded) (simp add: ascii_def)

end
