(* ===== verification/Eks.thy ===== *)
theory Eks
  imports EksData EksTemplates DriverUtil Polling DriverState
begin

text \<open>
  The Amazon driver (\<open>drivers/eks/eks_driver.go\<close>). The AWS client library, the token generator
  and the JSON form of the driver's state are parameters: the records \<open>aws_api\<close> and \<open>eks_env\<close>. A handler is a computation over \<open>aws_world\<close>: the
  state of the cloud, the files and the environment variable that \<open>getEKSToken\<close> uses. A pointer that
  the code dereferences without a test is an option, and \<open>deref\<close> panics on \<open>None\<close>. The mutex of
  \<open>getEKSToken\<close> serialises its calls, so a call is one uninterrupted computation. Lemmas: what the
  validation accepts, when the waiting loops end, and that no credentials stay on disk.
\<close>

section \<open>Data\<close>

record eks_state =
  es_ClusterName :: string
  es_DisplayName :: string
  es_ClientID :: string
  es_ClientSecret :: string
  es_SessionToken :: string
  es_KeyPairName :: string
  es_KubernetesVersion :: string
  es_MinimumASGSize :: int64
  es_MaximumASGSize :: int64
  es_DesiredASGSize :: int64
  es_NodeVolumeSize :: "int64 option"
  es_EBSEncryption :: bool
  es_UserData :: string
  es_InstanceType :: string
  es_Region :: string
  es_VirtualNetwork :: string
  es_Subnets :: "string list"
  es_SecurityGroups :: "string list"
  es_ServiceRole :: string
  es_AMI :: string
  es_AssociateWorkerNodePublicIP :: "bool option"

definition eks_capabilities :: capabilities where
  "eks_capabilities =
     AddCapability (cap_num SetVersionCapability) (AddCapability (cap_num GetVersionCapability) Map.empty)"

definition eks_read_opts :: "driver_options \<Rightarrow> eks_state" where
  "eks_read_opts opts = \<lparr>
     es_ClusterName = opt_str opts [''name''],
     es_DisplayName = opt_str opts [''display-name'', ''displayName''],
     es_ClientID = opt_str opts [''client-id'', ''accessKey''],
     es_ClientSecret = opt_str opts [''client-secret'', ''secretKey''],
     es_SessionToken = opt_str opts [''session-token'', ''sessionToken''],
     es_KeyPairName = opt_str opts [''keyPairName''],
     es_KubernetesVersion = opt_str opts [''kubernetes-version'', ''kubernetesVersion''],
     es_MinimumASGSize = opt_int opts [''minimum-nodes'', ''minimumNodes''],
     es_MaximumASGSize = opt_int opts [''maximum-nodes'', ''maximumNodes''],
     es_DesiredASGSize = opt_int opts [''desired-nodes'', ''desiredNodes''],
     es_NodeVolumeSize = opt_int_ptr opts [''node-volume-size'', ''nodeVolumeSize''],
     es_EBSEncryption = opt_bool opts [''ebsEncryption'', ''EBSEncryption''],
     es_UserData = opt_str opts [''user-data'', ''userData''],
     es_InstanceType = opt_str opts [''instance-type'', ''instanceType''],
     es_Region = opt_str opts [''region''],
     es_VirtualNetwork = opt_str opts [''virtual-network'', ''virtualNetwork''],
     es_Subnets = opt_slice opts [''subnets''],
     es_SecurityGroups = opt_slice opts [''security-groups'', ''securityGroups''],
     es_ServiceRole = opt_str opts [''service-role'', ''serviceRole''],
     es_AMI = opt_str opts [''ami''],
     es_AssociateWorkerNodePublicIP =
       opt_bool_ptr opts [''associate-worker-node-public-ip'', ''associateWorkerNodePublicIp'']\<rparr>"

text \<open>\<open>amiForRegion[state.Region]\<close> with \<open>amiForRegion\<close> nil for an unknown version.\<close>

definition getLocalAMI :: "eks_state \<Rightarrow> string" where
  "getLocalAMI s =
     (case amiForRegionAndVersion (es_KubernetesVersion s) of
        None \<Rightarrow> []
      | Some amis \<Rightarrow> (case amis (es_Region s) of None \<Rightarrow> [] | Some ami \<Rightarrow> ami))"

definition validate_ami :: "eks_state \<Rightarrow> goerr option" where
  "validate_ami s =
     (if es_KubernetesVersion s \<noteq> [] then
        (if amiForRegionAndVersion (es_KubernetesVersion s) = None \<and> es_AMI s = []
         then Some (Errorf (''default ami of region '' @ es_Region s @ '' for kubernetes version '' @
                es_KubernetesVersion s @ '' is not set''))
         else if getLocalAMI s = [] \<and> es_AMI s = []
         then Some (Errorf (''rancher does not support region '' @ es_Region s @ '', no entry for ami lookup''))
         else None)
      else None)"

definition validate_sizes :: "eks_state \<Rightarrow> goerr option" where
  "validate_sizes s =
     (let mn = sint (es_MinimumASGSize s); mx = sint (es_MaximumASGSize s); ds = sint (es_DesiredASGSize s) in
      if mn < 1 then Some (Errorf ''minimum nodes must be greater than 0'')
      else if mx < 1 then Some (Errorf ''maximum nodes must be greater than 0'')
      else if ds < 1 then Some (Errorf ''desired nodes must be greater than 0'')
      else if mx < mn then Some (Errorf ''maximum nodes cannot be less than minimum nodes'')
      else if ds < mn then Some (Errorf ''desired nodes cannot be less than minimum nodes'')
      else if ds > mx then Some (Errorf ''desired nodes cannot be greater than maximum nodes'')
      else (case es_NodeVolumeSize s of
              None \<Rightarrow> None
            | Some v \<Rightarrow> (if sint v < 1 then Some (Errorf ''node volume size must be greater than 0'') else None)))"

definition validate_network :: "eks_state \<Rightarrow> goerr option" where
  "validate_network s =
     (let networkEmpty = (es_VirtualNetwork s = []);
          subnetEmpty = (length (es_Subnets s) = 0);
          securityGroupEmpty = (length (es_SecurityGroups s) = 0) in
      if \<not> (networkEmpty = subnetEmpty \<and> subnetEmpty = securityGroupEmpty)
      then Some (Errorf ''virtual network, subnet, and security group must all be set together'')
      else if es_AssociateWorkerNodePublicIP s = Some False \<and>
              (es_VirtualNetwork s = [] \<or> length (es_Subnets s) = 0)
      then Some (Errorf ''if AssociateWorkerNodePublicIP is set to false a VPC and subnets must also be provided'')
      else None)"

definition eks_validate :: "eks_state \<Rightarrow> goerr option" where
  "eks_validate s =
     (if es_DisplayName s = [] then Some (Errorf ''display name is required'')
      else if es_ClientID s = [] then Some (Errorf ''client id is required'')
      else if es_ClientSecret s = [] then Some (Errorf ''client secret is required'')
      else (case validate_ami s of
              Some e \<Rightarrow> Some e
            | None \<Rightarrow> (case validate_sizes s of Some e \<Rightarrow> Some e | None \<Rightarrow> validate_network s)))"

definition eks_getStateFromOptions :: "driver_options \<Rightarrow> goerr + eks_state" where
  "eks_getStateFromOptions opts =
     (let s = eks_read_opts opts in case eks_validate s of Some e \<Rightarrow> Inl e | None \<Rightarrow> Inr s)"

section \<open>The cloud\<close>

record aws_session =
  ss_Region :: string
  ss_ClientID :: string
  ss_ClientSecret :: string
  ss_SessionToken :: string

record cf_stack =
  sk_StackStatus :: "string option"
  sk_Outputs :: "(string \<times> string) list"

record stack_event =
  se_ResourceStatus :: "string option"
  se_LogicalResourceId :: "string option"
  se_ResourceStatusReason :: "string option"

record eks_cluster =
  ec_Name :: string
  ec_Arn :: string
  ec_Status :: "string option"
  ec_Endpoint :: "string option"
  ec_Version :: "string option"
  ec_CertificateData :: "string option"

record eks_create_input =
  in_Name :: string
  in_RoleArn :: string
  in_SecurityGroupIds :: "string list"
  in_SubnetIds :: "string list"
  in_Version :: string

record ec2_image =
  im_State :: string
  im_ImageType :: string
  im_Public :: bool
  im_Name :: "string option"
  im_ImageId :: string

text \<open>
  The AWS API as the driver calls it, the token generator and the Kubernetes client of a cluster.
  \<open>aa_GeneratorGet\<close> sees the credentials file and the environment variable; \<open>aa_QuoteRunes\<close> is how \<open>%q\<close> prints
  characters beyond ASCII.
\<close>

record 'g aws_api =
  aa_NewSession :: "aws_session \<Rightarrow> goerr option"
  aa_CreateStack :: "aws_session \<Rightarrow> string \<Rightarrow> string \<Rightarrow> string \<Rightarrow> string list \<Rightarrow> (string \<times> string) list \<Rightarrow> 'g \<Rightarrow> goerr option \<times> 'g"
  aa_DescribeStacks :: "aws_session \<Rightarrow> string \<Rightarrow> 'g \<Rightarrow> (goerr + cf_stack list) \<times> 'g"
  aa_DescribeStackEvents :: "aws_session \<Rightarrow> string \<Rightarrow> 'g \<Rightarrow> (goerr + stack_event list) \<times> 'g"
  aa_DescribeStackResources :: "aws_session \<Rightarrow> string \<Rightarrow> 'g \<Rightarrow> (goerr + (string \<times> string) list) \<times> 'g"
  aa_DeleteStack :: "aws_session \<Rightarrow> string \<Rightarrow> 'g \<Rightarrow> goerr option \<times> 'g"
  aa_GetRole :: "aws_session \<Rightarrow> string \<Rightarrow> 'g \<Rightarrow> (goerr + string) \<times> 'g"
  aa_CreateCluster :: "aws_session \<Rightarrow> eks_create_input \<Rightarrow> 'g \<Rightarrow> goerr option \<times> 'g"
  aa_DescribeCluster :: "aws_session \<Rightarrow> string \<Rightarrow> 'g \<Rightarrow> (goerr + eks_cluster option) \<times> 'g"
  aa_DeleteCluster :: "aws_session \<Rightarrow> string \<Rightarrow> 'g \<Rightarrow> goerr option \<times> 'g"
  aa_UpdateClusterVersion :: "aws_session \<Rightarrow> string \<Rightarrow> string option \<Rightarrow> 'g \<Rightarrow> (goerr + string) \<times> 'g"
  aa_DescribeUpdate :: "aws_session \<Rightarrow> string \<Rightarrow> string \<Rightarrow> 'g \<Rightarrow> (goerr + string option option) \<times> 'g"
  aa_CreateKeyPair :: "aws_session \<Rightarrow> string \<Rightarrow> 'g \<Rightarrow> goerr option \<times> 'g"
  aa_DescribeKeyPairs :: "aws_session \<Rightarrow> string \<Rightarrow> 'g \<Rightarrow> goerr option \<times> 'g"
  aa_DeleteKeyPair :: "aws_session \<Rightarrow> string \<Rightarrow> 'g \<Rightarrow> goerr option \<times> 'g"
  aa_DescribeImages :: "aws_session \<Rightarrow> string \<Rightarrow> 'g \<Rightarrow> (goerr + ec2_image list) \<times> 'g"
  aa_PartitionSuffix :: "string \<Rightarrow> string option"
  aa_NewGenerator :: "goerr option"
  aa_GeneratorGet :: "string \<Rightarrow> goerr + string \<Rightarrow> string option \<Rightarrow> 'g \<Rightarrow> (goerr + string) \<times> 'g"
  aa_NewForConfig :: "string \<Rightarrow> string \<Rightarrow> string \<Rightarrow> goerr + 'g clientset"
  aa_MarshalMapRoles :: "(string \<times> string \<times> string list) list \<Rightarrow> goerr + string"
  aa_CreateConfigMap :: "'g clientset \<Rightarrow> string \<Rightarrow> string \<Rightarrow> string \<Rightarrow> 'g \<Rightarrow> goerr option \<times> 'g"
  aa_QuoteRunes :: "string \<Rightarrow> string"

record 'g eks_env =
  ee_api :: "'g aws_api"
  ee_Marshal :: "eks_state \<Rightarrow> goerr + string"
  ee_Unmarshal :: "string \<Rightarrow> goerr + eks_state"

record 'g aws_world =
  aw_cloud :: 'g
  aw_fs :: fs
  aw_SharedCredentialsFile :: "string option"

definition in_cloud :: "('a, 'g) run \<Rightarrow> ('a, 'g aws_world) run" where
  "in_cloud m = (\<lambda>w. case m (aw_cloud w) of
     None \<Rightarrow> None | Some (r, g) \<Rightarrow> Some (r, w\<lparr>aw_cloud := g\<rparr>))"

section \<open>Errors and names\<close>

definition aws_code :: "string \<Rightarrow> goerr \<Rightarrow> bool" where
  "aws_code code e = (case e of AwsErr c m \<Rightarrow> c = code | _ \<Rightarrow> False)"

definition alreadyExistsInCloudFormationError :: "goerr \<Rightarrow> bool" where
  "alreadyExistsInCloudFormationError e = aws_code ''AlreadyExistsException'' e"
definition isClusterConflict :: "goerr \<Rightarrow> bool" where
  "isClusterConflict e = aws_code ''ResourceInUseException'' e"
definition eks_notFound :: "goerr \<Rightarrow> bool" where
  "eks_notFound e = aws_code ''ResourceNotFoundException'' e"
definition invalidParam :: "goerr \<Rightarrow> bool" where
  "invalidParam e = aws_code ''InvalidParameterException'' e"
definition isDuplicateKeyError :: "goerr \<Rightarrow> bool" where
  "isDuplicateKeyError e = contains (err_msg e) ''already exists''"
definition doesNotExist :: "goerr option \<Rightarrow> bool" where
  "doesNotExist r = (case r of Some e \<Rightarrow> contains (err_msg e) ''does not exist'' | None \<Rightarrow> False)"

text \<open>\<open>errors.IsConflict\<close> and \<open>errors.IsUnauthorized\<close> of the Kubernetes library.\<close>

definition k8s_reason :: "string \<Rightarrow> goerr \<Rightarrow> bool" where
  "k8s_reason reason e = (case e of K8sStatus r m \<Rightarrow> r = reason | _ \<Rightarrow> False)"

definition getEC2KeyPairName :: "string \<Rightarrow> string" where "getEC2KeyPairName name = name @ ''-ec2-key-pair''"
definition getServiceRoleName :: "string \<Rightarrow> string" where "getServiceRoleName name = name @ ''-eks-service-role''"
definition getVPCStackName :: "string \<Rightarrow> string" where "getVPCStackName name = name @ ''-eks-vpc''"
definition getWorkNodeName :: "string \<Rightarrow> string" where "getWorkNodeName name = name @ ''-eks-worker-nodes''"

definition getEC2ServiceEndpoint :: "'g aws_api \<Rightarrow> string \<Rightarrow> string" where
  "getEC2ServiceEndpoint api region =
     (case aa_PartitionSuffix api region of Some suffix \<Rightarrow> ''ec2.'' @ suffix | None \<Rightarrow> ''ec2.amazonaws.com'')"

definition getParameterValueFromOutput :: "string \<Rightarrow> (string \<times> string) list \<Rightarrow> string" where
  "getParameterValueFromOutput key outputs = (case map_of outputs key of None \<Rightarrow> [] | Some v \<Rightarrow> v)"

definition eks_session :: "eks_state \<Rightarrow> aws_session" where
  "eks_session s = \<lparr>ss_Region = es_Region s, ss_ClientID = es_ClientID s,
     ss_ClientSecret = es_ClientSecret s, ss_SessionToken = es_SessionToken s\<rparr>"

definition NewSession :: "'g eks_env \<Rightarrow> eks_state \<Rightarrow> goerr + aws_session" where
  "NewSession ee s = (case aa_NewSession (ee_api ee) (eks_session s) of Some e \<Rightarrow> Inl e | None \<Rightarrow> Inr (eks_session s))"

section \<open>Stacks\<close>

text \<open>The reason of a failed stack: \<open>CREATE_FAILED\<close> ends the search, a rollback is only remembered.\<close>

fun fail_reason :: "stack_event list \<Rightarrow> string \<Rightarrow> string" where
  "fail_reason [] reason = reason"
| "fail_reason (ev # evs) reason =
     (case (se_ResourceStatus ev, se_LogicalResourceId ev, se_ResourceStatusReason ev) of
        (Some st, Some _, Some why) \<Rightarrow>
          (if st = ''CREATE_FAILED'' then why
           else fail_reason evs (if st = ''ROLLBACK_IN_PROGRESS'' then why else reason))
      | _ \<Rightarrow> fail_reason evs reason)"

definition stack_poll :: "'g aws_api \<Rightarrow> aws_session \<Rightarrow> string \<Rightarrow> 'g \<Rightarrow> (goerr + cf_stack list) outcome option \<times> 'g" where
  "stack_poll api svc name g =
     (case aa_DescribeStacks api svc name g of
        (Inl e, g') \<Rightarrow> (Some (Ret (Inl (Errorf (''error polling stack info: '' @ err_msg e)))), g')
      | (Inr [], g') \<Rightarrow> (Some (Panic ''index out of range''), g')
      | (Inr (st # sts), g') \<Rightarrow>
          (case sk_StackStatus st of
             None \<Rightarrow> (Some (Panic ''nil pointer dereference''), g')
           | Some status \<Rightarrow> (if status = ''CREATE_IN_PROGRESS'' then None else Some (Ret (Inr (st # sts))), g')))"

definition createStack :: "'g aws_api \<Rightarrow> aws_session \<Rightarrow> string \<Rightarrow> string \<Rightarrow> string \<Rightarrow> string list \<Rightarrow> (string \<times> string) list
    \<Rightarrow> (cf_stack, 'g) run" where
  "createStack api svc name displayName templateBody caps params = (\<lambda>g.
     (case aa_CreateStack api svc name displayName templateBody caps params g of
        (r, g1) \<Rightarrow>
          (if (case r of Some e \<Rightarrow> \<not> alreadyExistsInCloudFormationError e | None \<Rightarrow> False)
           then Some (Ret (Inl (Errorf (''error creating master: '' @ err_msg (the r)))), g1)
           else gbind (poll_until (stack_poll api svc name)) (\<lambda>stacks.
                  (case stacks of
                     [] \<Rightarrow> gpure (Inl (Errorf ''stack did not have output: <nil>''))
                   | st # _ \<Rightarrow>
                       (if sk_StackStatus st \<noteq> Some ''CREATE_COMPLETE''
                        then (\<lambda>g. (case aa_DescribeStackEvents api svc name g of
                                (r, g') \<Rightarrow> Some (Ret (Inl (Errorf (''stack failed to create: '' @
                                  (case r of Inl _ \<Rightarrow> ''reason unknown''
                                   | Inr evs \<Rightarrow> fail_reason evs ''reason unknown'')))), g')))
                        else gret st))) g1)))"

definition deleteStack :: "'g aws_api \<Rightarrow> aws_session \<Rightarrow> string \<Rightarrow> string \<Rightarrow> 'g \<Rightarrow> goerr option \<times> 'g" where
  "deleteStack api svc newStyleName oldStyleName g =
     (case aa_DescribeStacks api svc newStyleName g of
        (r, g1) \<Rightarrow>
          (let name = (if doesNotExist (case r of Inl e \<Rightarrow> Some e | Inr _ \<Rightarrow> None) then oldStyleName else newStyleName) in
           case aa_DeleteStack api svc name g1 of
             (Some e, g2) \<Rightarrow> (Some (Errorf (''error deleting stack: '' @ err_msg e)), g2)
           | (None, g2) \<Rightarrow> (None, g2)))"

section \<open>Tokens and clients\<close>

definition awsCredentialsDirectory :: string where "awsCredentialsDirectory = ''./management-state/aws''"
definition awsCredentialsPath :: string where "awsCredentialsPath = awsCredentialsDirectory @ ''/credentials''"

definition credentialsContent :: "eks_state \<Rightarrow> string" where
  "credentialsContent s =
     ''[default]'' @ [CHR 0x0A] @ ''aws_access_key_id='' @ es_ClientID s @ [CHR 0x0A] @
     ''aws_secret_access_key='' @ es_ClientSecret s @ [CHR 0x0A] @
     (if es_SessionToken s = [] then [] else ''aws_session_token='' @ es_SessionToken s @ [CHR 0x0A]) @
     ''region='' @ es_Region s"

text \<open>The deferred clean-up; its errors are ignored.\<close>

definition token_cleanup :: "'g aws_world \<Rightarrow> 'g aws_world" where
  "token_cleanup w = w\<lparr>
     aw_fs := snd (os_Remove (fp_clean awsCredentialsDirectory)
                (snd (os_Remove (fp_clean awsCredentialsPath) (aw_fs w)))),
     aw_SharedCredentialsFile := None\<rparr>"

definition getEKSToken :: "'g aws_api \<Rightarrow> string \<Rightarrow> eks_state \<Rightarrow> (string, 'g aws_world) run" where
  "getEKSToken api name s = (\<lambda>w.
     (case aa_NewGenerator api of
        Some e \<Rightarrow> Some (Ret (Inl (Errorf (''error creating generator: '' @ err_msg e))), w)
      | None \<Rightarrow>
          (let w1 = w\<lparr>aw_SharedCredentialsFile := Some awsCredentialsPath\<rparr> in
           case os_MkdirAll (fp_clean awsCredentialsDirectory) (aw_fs w1) of
             (Some e, fs1) \<Rightarrow>
               Some (Ret (Inl (Errorf (''error creating credentials directory: '' @ err_msg e))),
                     token_cleanup (w1\<lparr>aw_fs := fs1\<rparr>))
           | (None, fs1) \<Rightarrow>
               (case WriteFile (fp_clean awsCredentialsPath) (credentialsContent s) fs1 of
                  (Some e, fs2) \<Rightarrow>
                    Some (Ret (Inl (Errorf (''error writing credentials file: '' @ err_msg e))),
                          token_cleanup (w1\<lparr>aw_fs := fs2\<rparr>))
                | (None, fs2) \<Rightarrow>
                    (case aa_GeneratorGet api name (ReadFile (fp_clean awsCredentialsPath) fs2)
                            (aw_SharedCredentialsFile w1) (aw_cloud w1) of
                       (r, g) \<Rightarrow> Some (Ret r, token_cleanup (w1\<lparr>aw_fs := fs2, aw_cloud := g\<rparr>)))))))"

definition createClientset :: "'g aws_api \<Rightarrow> string \<Rightarrow> eks_state \<Rightarrow> string \<Rightarrow> string \<Rightarrow> ('g clientset, 'g aws_world) run" where
  "createClientset api name s endpoint capem =
     gbind (gwrap ''error generating token: '' (getEKSToken api name s)) (\<lambda>token.
     gwrap ''error creating clientset: '' (gpure (aa_NewForConfig api endpoint capem token)))"

definition createConfigMap :: "'g aws_api \<Rightarrow> eks_state \<Rightarrow> string \<Rightarrow> string \<Rightarrow> string \<Rightarrow> (unit, 'g aws_world) run" where
  "createConfigMap api s endpoint capem nodeInstanceRole =
     gbind (gwrap ''error creating clientset: '' (createClientset api (es_DisplayName s) s endpoint capem)) (\<lambda>cs.
     gbind (gwrap ''error marshalling map roles: '' (gpure (aa_MarshalMapRoles api
       [(nodeInstanceRole, ''system:node:{{EC2PrivateDNSName}}'', [''system:bootstrappers'', ''system:nodes''])]))) (\<lambda>mapRoles.
     in_cloud (gdo (\<lambda>g. (case aa_CreateConfigMap api cs ''kube-system'' ''aws-auth'' mapRoles g of
        (Some e, g') \<Rightarrow>
          (if k8s_reason ''Conflict'' e then None else Some (Errorf (''error creating config map: '' @ err_msg e)), g')
      | (None, g') \<Rightarrow> (None, g'))))))"

section \<open>Waiting\<close>

definition eks_poll :: "'g aws_api \<Rightarrow> aws_session \<Rightarrow> eks_state \<Rightarrow> 'g \<Rightarrow> (goerr + eks_cluster) outcome option \<times> 'g" where
  "eks_poll api svc s g =
     (case aa_DescribeCluster api svc (es_DisplayName s) g of
        (Inl e, g') \<Rightarrow> (Some (Ret (Inl (Errorf (''error polling cluster state: '' @ err_msg e)))), g')
      | (Inr None, g') \<Rightarrow> (Some (Ret (Inl (Errorf ''no cluster data was returned''))), g')
      | (Inr (Some c), g') \<Rightarrow>
          (case ec_Status c of
             None \<Rightarrow> (Some (Ret (Inl (Errorf ''no cluster status was returned''))), g')
           | Some status \<Rightarrow>
               (if status = ''FAILED''
                then Some (Ret (Inl (Errorf (''creation failed for cluster named '' @ [CHR 0x22] @ ec_Name c @ [CHR 0x22] @
                       '' with ARN '' @ [CHR 0x22] @ ec_Arn c @ [CHR 0x22]))))
                else if status = ''ACTIVE'' then Some (Ret (Inr c)) else None, g')))"

definition waitForClusterReady :: "'g aws_api \<Rightarrow> aws_session \<Rightarrow> eks_state \<Rightarrow> (eks_cluster, 'g) run" where
  "waitForClusterReady api svc s = poll_until (eks_poll api svc s)"

definition describe_update :: "'g aws_api \<Rightarrow> aws_session \<Rightarrow> eks_state \<Rightarrow> string \<Rightarrow> 'g
    \<Rightarrow> (goerr + string option option) \<times> 'g" where
  "describe_update api svc s updateID g =
     (case aa_DescribeUpdate api svc (es_DisplayName s) updateID g of
        (Inl e, g1) \<Rightarrow>
          (if eks_notFound e then aa_DescribeUpdate api svc (es_ClusterName s) updateID g1 else (Inl e, g1))
      | r \<Rightarrow> r)"

definition upd_poll :: "'g aws_api \<Rightarrow> aws_session \<Rightarrow> eks_state \<Rightarrow> string \<Rightarrow> 'g \<Rightarrow> (goerr + unit) outcome option \<times> 'g" where
  "upd_poll api svc s updateID g =
     (case describe_update api svc s updateID g of
        (Inl e, g') \<Rightarrow> (Some (Ret (Inl (Errorf (''error polling cluster update state: '' @ err_msg e)))), g')
      | (Inr None, g') \<Rightarrow> (Some (Ret (Inl (Errorf ''no cluster update data was returned''))), g')
      | (Inr (Some None), g') \<Rightarrow> (Some (Ret (Inl (Errorf ''no cluster update status aws returned''))), g')
      | (Inr (Some (Some status)), g') \<Rightarrow> (if status = ''Successful'' then Some (Ret (Inr ())) else None, g'))"

definition waitForClusterUpdateReady :: "'g aws_api \<Rightarrow> aws_session \<Rightarrow> eks_state \<Rightarrow> string \<Rightarrow> (unit, 'g) run" where
  "waitForClusterUpdateReady api svc s updateID = poll_until (upd_poll api svc s updateID)"

section \<open>Images\<close>

definition amiNamePrefix :: string where "amiNamePrefix = ''amazon-eks-node-''"

text \<open>The largest id, in string order, among the images that fit.\<close>

fun best_image :: "string \<Rightarrow> ec2_image list \<Rightarrow> string \<Rightarrow> string" where
  "best_image prefix [] rtnImage = rtnImage"
| "best_image prefix (im # ims) rtnImage =
     best_image prefix ims
       (if im_State im \<noteq> ''available'' \<or> im_ImageType im \<noteq> ''machine'' \<or> \<not> im_Public im \<or>
           (case im_Name im of None \<Rightarrow> True | Some n \<Rightarrow> \<not> has_prefix n prefix)
        then rtnImage
        else if im_ImageId im > rtnImage then im_ImageId im else rtnImage)"

definition getAMIs :: "'g aws_api \<Rightarrow> aws_session \<Rightarrow> eks_state \<Rightarrow> 'g \<Rightarrow> string \<times> 'g" where
  "getAMIs api svc s g =
     (if getLocalAMI s \<noteq> [] then (getLocalAMI s, g)
      else (let prefix = amiNamePrefix @ es_KubernetesVersion s in
            case aa_DescribeImages api svc (prefix @ ''*'') g of
              (Inl e, g') \<Rightarrow> ([], g')
            | (Inr images, g') \<Rightarrow> (best_image prefix images [], g')))"

section \<open>Handlers\<close>

definition eks_storeState :: "'g eks_env \<Rightarrow> cluster_info \<Rightarrow> eks_state \<Rightarrow> goerr + cluster_info" where
  "eks_storeState ee info s =
     (case ee_Marshal ee s of
        Inl e \<Rightarrow> Inl e
      | Inr data \<Rightarrow> Inr (info\<lparr>ci_Metadata := gm_put ''state'' data (ci_Metadata info)\<rparr>))"

definition eks_getState :: "'g eks_env \<Rightarrow> cluster_info \<Rightarrow> goerr + eks_state" where
  "eks_getState ee info = ee_Unmarshal ee (gm_str (ci_Metadata info) ''state'')"

text \<open>The steps of \<open>Create\<close>: the network (VPC id, subnets, security groups), the role, the cluster,
  the key pair and the worker nodes.\<close>

definition eks_network :: "'g aws_api \<Rightarrow> aws_session \<Rightarrow> eks_state \<Rightarrow> (string \<times> string list \<times> string list, 'g) run" where
  "eks_network api svc s =
     (if es_VirtualNetwork s = [] then
        gbind (gwrap ''error creating stack with VPC template: ''
          (createStack api svc (getVPCStackName (es_DisplayName s)) (es_DisplayName s) vpcTemplate [] [])) (\<lambda>st.
        let securityGroupsString = getParameterValueFromOutput ''SecurityGroups'' (sk_Outputs st);
            subnetIdsString = getParameterValueFromOutput ''SubnetIds'' (sk_Outputs st) in
        if securityGroupsString = [] \<or> subnetIdsString = []
        then gpure (Inl (Errorf ''no security groups or subnet ids were returned''))
        else (\<lambda>g. (case aa_DescribeStackResources api svc (es_DisplayName s @ ''-eks-vpc'') g of
               (Inl e, g') \<Rightarrow> Some (Ret (Inl (Errorf ''error getting stack resoures'')), g')
             | (Inr resources, g') \<Rightarrow>
                 Some (Ret (Inr (fold (\<lambda>(lid, pid) vpcid. if lid = ''VPC'' then pid else vpcid) resources [],
                   split_on (CHR '','') subnetIdsString, split_on (CHR '','') securityGroupsString)), g'))))
      else gret (es_VirtualNetwork s, es_Subnets s, es_SecurityGroups s))"

definition eks_role :: "'g aws_api \<Rightarrow> aws_session \<Rightarrow> eks_state \<Rightarrow> (string, 'g) run" where
  "eks_role api svc s =
     (if es_ServiceRole s = [] then
        gbind (gwrap ''error creating stack with service role template: ''
          (createStack api svc (getServiceRoleName (es_DisplayName s)) (es_DisplayName s)
             serviceRoleTemplate [''CAPABILITY_IAM''] [])) (\<lambda>st.
        let roleARN = getParameterValueFromOutput ''RoleArn'' (sk_Outputs st) in
        if roleARN = [] then gpure (Inl (Errorf ''no RoleARN was returned'')) else gret roleARN)
      else gwrap ''error getting role: '' (gcall (aa_GetRole api svc (es_ServiceRole s))))"

definition eks_create_cluster :: "'g aws_api \<Rightarrow> aws_session \<Rightarrow> eks_state \<Rightarrow> string \<Rightarrow> string list \<Rightarrow> string list
    \<Rightarrow> (eks_cluster, 'g) run" where
  "eks_create_cluster api svc s roleARN subnetIds securityGroups =
     gbind (gdo (\<lambda>g. (case aa_CreateCluster api svc
         \<lparr>in_Name = es_DisplayName s, in_RoleArn = roleARN, in_SecurityGroupIds = securityGroups,
          in_SubnetIds = subnetIds, in_Version = es_KubernetesVersion s\<rparr> g of
        (Some e, g') \<Rightarrow>
          (if isClusterConflict e then None else Some (Errorf (''error creating cluster: '' @ err_msg e)), g')
      | (None, g') \<Rightarrow> (None, g')))) (\<lambda>_.
     waitForClusterReady api svc s)"

definition eks_keypair :: "'g aws_api \<Rightarrow> aws_session \<Rightarrow> eks_state \<Rightarrow> (string, 'g) run" where
  "eks_keypair api svc s =
     (let keyPairName = (if es_KeyPairName s = [] then getEC2KeyPairName (es_DisplayName s) else es_KeyPairName s) in
      gbind (gdo (\<lambda>g. (case aa_CreateKeyPair api svc keyPairName g of
          (Some e, g') \<Rightarrow>
            (if isDuplicateKeyError e then None else Some (Errorf (''error creating key pair '' @ err_msg e)), g')
        | (None, g') \<Rightarrow> (None, g')))) (\<lambda>_. gret keyPairName))"

definition worker_params :: "eks_state \<Rightarrow> string \<Rightarrow> string list \<Rightarrow> string list \<Rightarrow> string \<Rightarrow> string \<Rightarrow> (string \<times> string) list" where
  "worker_params s vpcid subnetIds securityGroups amiID keyPairName =
     (let publicIP = (case es_AssociateWorkerNodePublicIP s of None \<Rightarrow> True | Some b \<Rightarrow> b);
          volumeSize = (case es_NodeVolumeSize s of None \<Rightarrow> 20 | Some v \<Rightarrow> v) in
      [(''ClusterName'', es_DisplayName s),
       (''ClusterControlPlaneSecurityGroup'', join_with '','' securityGroups),
       (''NodeGroupName'', es_DisplayName s @ ''-node-group''),
       (''NodeAutoScalingGroupMinSize'', int_text (sint (es_MinimumASGSize s))),
       (''NodeAutoScalingGroupMaxSize'', int_text (sint (es_MaximumASGSize s))),
       (''NodeAutoScalingGroupDesiredCapacity'', int_text (sint (es_DesiredASGSize s))),
       (''NodeVolumeSize'', int_text (sint volumeSize)),
       (''NodeInstanceType'', es_InstanceType s),
       (''NodeImageId'', amiID),
       (''KeyName'', keyPairName),
       (''VpcId'', vpcid),
       (''Subnets'', join_with '','' subnetIds),
       (''PublicIp'', bool_text publicIP),
       (''EBSEncryption'', bool_text (es_EBSEncryption s))])"

definition eks_workers :: "'g aws_api \<Rightarrow> aws_session \<Rightarrow> eks_state \<Rightarrow> string \<Rightarrow> string list \<Rightarrow> string list \<Rightarrow> string
    \<Rightarrow> (string, 'g) run" where
  "eks_workers api svc s vpcid subnetIds securityGroups keyPairName =
     gbind (if es_AMI s \<noteq> [] then gret (es_AMI s) else (\<lambda>g. case getAMIs api svc s g of (ami, g') \<Rightarrow> Some (Ret (Inr ami), g'))) (\<lambda>amiID.
     gbind (gwrap ''error creating stack with worker nodes template: ''
       (createStack api svc (getWorkNodeName (es_DisplayName s)) (es_DisplayName s)
          (Sprintf (aa_QuoteRunes api) workerNodesTemplate [getEC2ServiceEndpoint api (es_Region s), es_UserData s]) [''CAPABILITY_IAM'']
          (worker_params s vpcid subnetIds securityGroups amiID keyPairName))) (\<lambda>st.
     let nodeInstanceRole = getParameterValueFromOutput ''NodeInstanceRole'' (sk_Outputs st) in
     if nodeInstanceRole = [] then gpure (Inl (Errorf ''no node instance role returned in output: <nil>''))
     else gret nodeInstanceRole))"

definition decode_ca :: "string \<Rightarrow> (string, 'g) run" where
  "decode_ca data =
     (case base64_decode data of
        None \<Rightarrow> gpure (Inl (Errorf ''error parsing CA data: illegal base64 data'')) | Some capem \<Rightarrow> gret capem)"

definition eks_provision :: "'g eks_env \<Rightarrow> eks_state \<Rightarrow> (unit, 'g aws_world) run" where
  "eks_provision ee s = (let api = ee_api ee in
     gbind (gwrap ''error getting new aws session: '' (gpure (NewSession ee s))) (\<lambda>svc.
     gbind (in_cloud (eks_network api svc s)) (\<lambda>(vpcid, subnetIds, securityGroups).
     gbind (in_cloud (eks_role api svc s)) (\<lambda>roleARN.
     gbind (in_cloud (eks_create_cluster api svc s roleARN subnetIds securityGroups)) (\<lambda>c.
     gbind (deref (ec_CertificateData c)) (\<lambda>data.
     gbind (decode_ca data) (\<lambda>capem.
     gbind (in_cloud (eks_keypair api svc s)) (\<lambda>keyPairName.
     gbind (in_cloud (eks_workers api svc s vpcid subnetIds securityGroups keyPairName)) (\<lambda>nodeInstanceRole.
     gbind (deref (ec_Endpoint c)) (\<lambda>endpoint.
     createConfigMap api s endpoint capem nodeInstanceRole))))))))))"

definition eks_Create :: "'g eks_env \<Rightarrow> driver_options \<Rightarrow> 'g aws_world
    \<Rightarrow> ((cluster_info option \<times> goerr option) outcome \<times> 'g aws_world) option" where
  "eks_Create ee opts w =
     (case eks_getStateFromOptions opts of
        Inl e \<Rightarrow> Some (Ret (None, Some (Errorf (''error parsing state: '' @ err_msg e))), w)
      | Inr s \<Rightarrow>
          (case eks_storeState ee empty_info s of
             Inl e \<Rightarrow> Some (Ret (None, Some (Errorf ''error storing eks state'')), w)
           | Inr info \<Rightarrow>
               (case eks_provision ee s w of
                  None \<Rightarrow> None
                | Some (Ret (Inl e), w') \<Rightarrow> Some (Ret (Some info, Some e), w')
                | Some (Ret (Inr _), w') \<Rightarrow> Some (Ret (Some info, None), w')
                | Some (Panic p, w') \<Rightarrow> Some (Panic p, w'))))"

text \<open>The version an update call names; the empty string leaves the field out.\<close>

definition updateClusterAndWait :: "'g eks_env \<Rightarrow> eks_state \<Rightarrow> (unit, 'g) run" where
  "updateClusterAndWait ee s = (let api = ee_api ee;
       version = (if es_KubernetesVersion s = [] then None else Some (es_KubernetesVersion s)) in
     gbind (gpure (NewSession ee s)) (\<lambda>svc g.
       (case (case aa_UpdateClusterVersion api svc (es_DisplayName s) version g of
                (Inl e, g1) \<Rightarrow>
                  (if eks_notFound e then (es_ClusterName s, aa_UpdateClusterVersion api svc (es_ClusterName s) version g1)
                   else (es_DisplayName s, (Inl e, g1)))
              | r \<Rightarrow> (es_DisplayName s, r)) of
          (name, Inr updateID, g2) \<Rightarrow> waitForClusterUpdateReady api svc s updateID g2
        | (name, Inl e, g2) \<Rightarrow>
            (if invalidParam e then
               (case aa_DescribeCluster api svc name g2 of
                  (Inr (Some c), g3) \<Rightarrow>
                    (if ec_Version c = Some (es_KubernetesVersion s) then Some (Ret (Inr ()), g3) else Some (Ret (Inl e), g3))
                | (_, g3) \<Rightarrow> Some (Ret (Inl e), g3))
             else Some (Ret (Inl e), g2)))))"

text \<open>
  The merge of the new options into the stored state. The handlers answer an error without the info
  that the code returns beside it; the caller drops that info (\<open>rpc_server.go\<close> sends only the error).
\<close>

definition eks_update_state :: "eks_state \<Rightarrow> eks_state \<Rightarrow> eks_state" where
  "eks_update_state s new =
     (let s1 = (if es_KubernetesVersion new \<noteq> [] \<and> es_KubernetesVersion new \<noteq> es_KubernetesVersion s
                then s\<lparr>es_KubernetesVersion := es_KubernetesVersion new\<rparr> else s);
          s2 = (if es_ClientID new \<noteq> [] \<and> es_ClientID new \<noteq> es_ClientID s1
                then s1\<lparr>es_ClientID := es_ClientID new\<rparr> else s1) in
      if es_ClientSecret new \<noteq> [] \<and> es_ClientSecret new \<noteq> es_ClientSecret s2
      then s2\<lparr>es_ClientSecret := es_ClientSecret new\<rparr> else s2)"

definition eks_Update :: "'g eks_env \<Rightarrow> cluster_info \<Rightarrow> driver_options \<Rightarrow> (cluster_info, 'g) run" where
  "eks_Update ee info opts =
     gbind (gpure (eks_getState ee info)) (\<lambda>s.
     gbind (gpure (eks_getStateFromOptions opts)) (\<lambda>new.
     let s' = eks_update_state s new;
         sendUpdate = (es_KubernetesVersion new \<noteq> [] \<and> es_KubernetesVersion new \<noteq> es_KubernetesVersion s) in
     if \<not> sendUpdate then gpure (eks_storeState ee info s')
     else gbind (updateClusterAndWait ee s') (\<lambda>_. gpure (eks_storeState ee info s'))))"

text \<open>\<open>getClientset\<close> also fills in the info it is given; the filled-in info is its second result.\<close>

definition describe_either :: "'g aws_api \<Rightarrow> aws_session \<Rightarrow> eks_state \<Rightarrow> (eks_cluster option, 'g) run" where
  "describe_either api svc s = (\<lambda>g.
     (case (case aa_DescribeCluster api svc (es_DisplayName s) g of
              (Inl e, g1) \<Rightarrow> (if eks_notFound e then aa_DescribeCluster api svc (es_ClusterName s) g1 else (Inl e, g1))
            | r \<Rightarrow> r) of
        (Inl e, g2) \<Rightarrow> Some (Ret (Inl (Errorf (''error getting cluster: '' @ err_msg e))), g2)
      | (Inr c, g2) \<Rightarrow> Some (Ret (Inr c), g2)))"

definition eks_getClientset :: "'g eks_env \<Rightarrow> cluster_info \<Rightarrow> ('g clientset \<times> cluster_info, 'g aws_world) run" where
  "eks_getClientset ee info = (let api = ee_api ee in
     gbind (gpure (eks_getState ee info)) (\<lambda>s.
     gbind (gwrap ''error creating new session: '' (gpure (NewSession ee s))) (\<lambda>svc.
     gbind (in_cloud (describe_either api svc s)) (\<lambda>cl.
     gbind (deref cl) (\<lambda>c.
     gbind (deref (ec_CertificateData c)) (\<lambda>data.
     gbind (decode_ca data) (\<lambda>capem.
     gbind (deref (ec_Endpoint c)) (\<lambda>endpoint.
     gbind (deref (ec_Version c)) (\<lambda>version.
     let info' = info\<lparr>ci_Endpoint := endpoint, ci_Version := version, ci_RootCaCertificate := data\<rparr> in
     gbind (gwrap ''error creating clientset: '' (createClientset api (es_DisplayName s) s endpoint capem)) (\<lambda>cs w.
       (case cs_ServerVersion cs (aw_cloud w) of
          (Inr _, g) \<Rightarrow> Some (Ret (Inr (cs, info')), w\<lparr>aw_cloud := g\<rparr>)
        | (Inl e, g) \<Rightarrow>
            (if k8s_reason ''Unauthorized'' e then
               gbind (createClientset api (es_ClusterName s) s endpoint capem) (\<lambda>cs'.
               gbind (in_cloud (gcall (cs_ServerVersion cs'))) (\<lambda>_. gret (cs', info'))) (w\<lparr>aw_cloud := g\<rparr>)
             else Some (Ret (Inl e), w\<lparr>aw_cloud := g\<rparr>)))))))))))))"

definition eks_PostCheck :: "'g eks_env \<Rightarrow> cluster_info \<Rightarrow> (cluster_info, 'g aws_world) run" where
  "eks_PostCheck ee info =
     gbind (eks_getClientset ee info) (\<lambda>(cs, info').
     gbind (gwrap ''error generating service account token: ''
       (in_cloud (gcall (\<lambda>g. case GenerateServiceAccountToken cs g of (r, g', _) \<Rightarrow> (r, g'))))) (\<lambda>token.
     gret (info'\<lparr>ci_ServiceAccountToken := token\<rparr>)))"

definition eks_RemoveLegacyServiceAccount :: "'g eks_env \<Rightarrow> cluster_info \<Rightarrow> (unit, 'g aws_world) run" where
  "eks_RemoveLegacyServiceAccount ee info = (\<lambda>w.
     (case eks_getClientset ee info w of
        None \<Rightarrow> None
      | Some (Ret (Inl e), w') \<Rightarrow> Some (Ret (Inr ()), w')
      | Some (Ret (Inr (cs, info')), w') \<Rightarrow> in_cloud (gdo (DeleteLegacyServiceAccountAndRoleBinding cs)) w'
      | Some (Panic p, w') \<Rightarrow> Some (Panic p, w')))"

definition eks_delete_cluster :: "'g aws_api \<Rightarrow> aws_session \<Rightarrow> eks_state \<Rightarrow> 'g \<Rightarrow> goerr option \<times> 'g" where
  "eks_delete_cluster api svc s g =
     (case aa_DeleteCluster api svc (es_DisplayName s) g of
        (None, g1) \<Rightarrow> (None, g1)
      | (Some e, g1) \<Rightarrow>
          (case (if eks_notFound e then aa_DeleteCluster api svc (es_ClusterName s) g1 else (Some e, g1)) of
             (None, g2) \<Rightarrow> (None, g2)
           | (Some e2, g2) \<Rightarrow>
               (if eks_notFound e2 then None else Some (Errorf (''error deleting cluster: '' @ err_msg e2)), g2)))"

definition eks_delete_keypair :: "'g aws_api \<Rightarrow> aws_session \<Rightarrow> eks_state \<Rightarrow> 'g \<Rightarrow> goerr option \<times> 'g" where
  "eks_delete_keypair api svc s g =
     (case aa_DescribeKeyPairs api svc (getEC2KeyPairName (es_DisplayName s)) g of
        (r, g1) \<Rightarrow>
          (case aa_DeleteKeyPair api svc
                  (getEC2KeyPairName (if doesNotExist r then es_ClusterName s else es_DisplayName s)) g1 of
             (Some e, g2) \<Rightarrow> (Some (Errorf (''error deleting key pair: '' @ err_msg e)), g2)
           | (None, g2) \<Rightarrow> (None, g2)))"

definition eks_Remove :: "'g eks_env \<Rightarrow> cluster_info \<Rightarrow> (unit, 'g) run" where
  "eks_Remove ee info = (let api = ee_api ee in
     gbind (gwrap ''error getting state: '' (gpure (eks_getState ee info))) (\<lambda>s.
     gbind (gwrap ''error getting new aws session: '' (gpure (NewSession ee s))) (\<lambda>svc.
     gbind (gdo (eks_delete_cluster api svc s)) (\<lambda>_.
     gbind (gwrap ''error deleting service role stack: ''
       (gdo (deleteStack api svc (getServiceRoleName (es_DisplayName s)) (getServiceRoleName (es_ClusterName s))))) (\<lambda>_.
     gbind (gwrap ''error deleting vpc stack: ''
       (gdo (deleteStack api svc (getVPCStackName (es_DisplayName s)) (getVPCStackName (es_ClusterName s))))) (\<lambda>_.
     gbind (gwrap ''error deleting worker node stack: ''
       (gdo (deleteStack api svc (getWorkNodeName (es_DisplayName s)) (getWorkNodeName (es_ClusterName s))))) (\<lambda>_.
     gdo (eks_delete_keypair api svc s))))))))"

definition eks_getClusterStats :: "'g eks_env \<Rightarrow> cluster_info \<Rightarrow> (eks_cluster option, 'g) run" where
  "eks_getClusterStats ee info =
     gbind (gpure (eks_getState ee info)) (\<lambda>s.
     gbind (gpure (NewSession ee s)) (\<lambda>svc.
     gcall (aa_DescribeCluster (ee_api ee) svc (es_DisplayName s))))"

definition eks_GetVersion :: "'g eks_env \<Rightarrow> cluster_info \<Rightarrow> (string, 'g) run" where
  "eks_GetVersion ee info =
     gbind (eks_getClusterStats ee info) (\<lambda>cl. gbind (deref cl) (\<lambda>c. deref (ec_Version c)))"

definition eks_SetVersion :: "'g eks_env \<Rightarrow> cluster_info \<Rightarrow> string \<Rightarrow> (unit, 'g) run" where
  "eks_SetVersion ee info version =
     gbind (gpure (eks_getState ee info)) (\<lambda>s. updateClusterAndWait ee (s\<lparr>es_KubernetesVersion := version\<rparr>))"

definition eks_GetK8SCapabilities :: k8s_capabilities where
  "eks_GetK8SCapabilities = \<lparr>k8s_L4LoadBalancer = Some \<lparr>lb_Enabled = True, lb_Provider = ''ELB'',
       lb_ProtocolsSupported = [''TCP''], lb_HealthCheckSupported = True\<rparr>,
     k8s_IngressControllers = [], k8s_NodePoolScalingSupported = False, k8s_NodePortRange = []\<rparr>"

definition eks_ETCDSave :: "(unit, 'g) run" where
  "eks_ETCDSave = gpure (Inl etcd_unsupported)"
definition eks_ETCDRestore :: "(cluster_info, 'g) run" where
  "eks_ETCDRestore = gpure (Inl etcd_unsupported)"
definition eks_ETCDRemoveSnapshot :: "(unit, 'g) run" where
  "eks_ETCDRemoveSnapshot = gpure (Inl etcd_unsupported)"

section \<open>Lemmas\<close>

interpretation eks: driver_state "ee_Marshal ee" "ee_Unmarshal ee" "eks_storeState ee" "eks_getState ee"
  by unfold_locales (auto simp: eks_storeState_def eks_getState_def)

lemma eks_accepted:
  "eks_getStateFromOptions opts = Inr s \<longleftrightarrow> s = eks_read_opts opts \<and> eks_validate s = None"
  by (auto simp: eks_getStateFromOptions_def Let_def split: option.splits)

lemma eks_validate_None:
  "eks_validate s = None \<longleftrightarrow>
     es_DisplayName s \<noteq> [] \<and> es_ClientID s \<noteq> [] \<and> es_ClientSecret s \<noteq> [] \<and>
     validate_ami s = None \<and> validate_sizes s = None \<and> validate_network s = None"
  by (auto simp: eks_validate_def split: option.splits if_splits)

lemma validate_sizes_None:
  "validate_sizes s = None \<longleftrightarrow>
     1 \<le> sint (es_MinimumASGSize s) \<and> sint (es_MinimumASGSize s) \<le> sint (es_DesiredASGSize s) \<and>
     sint (es_DesiredASGSize s) \<le> sint (es_MaximumASGSize s) \<and>
     (case es_NodeVolumeSize s of None \<Rightarrow> True | Some v \<Rightarrow> 1 \<le> sint v)"
  by (auto simp: validate_sizes_def Let_def split: option.splits if_splits)

lemma validate_ami_None:
  "validate_ami s = None \<longleftrightarrow> es_KubernetesVersion s = [] \<or> es_AMI s \<noteq> [] \<or> getLocalAMI s \<noteq> []"
  by (auto simp: validate_ami_def getLocalAMI_def split: option.splits if_splits)

lemma validate_network_None:
  "validate_network s = None \<longleftrightarrow>
     ((es_VirtualNetwork s = []) = (es_Subnets s = [])) \<and> ((es_Subnets s = []) = (es_SecurityGroups s = [])) \<and>
     (es_AssociateWorkerNodePublicIP s = Some False \<longrightarrow> es_VirtualNetwork s \<noteq> [])"
  by (auto simp: validate_network_def Let_def)

lemma credentials_paths:
  "fp_clean awsCredentialsDirectory = [''management-state'', ''aws'']"
  "fp_clean awsCredentialsPath = [''management-state'', ''aws'', ''credentials'']"
  by (simp_all add: fp_clean_def fp_join_def join_seg_def has_prefix_def awsCredentialsDirectory_def awsCredentialsPath_def)

lemma token_cleanup_gone:
  assumes "Deny (aw_fs w) OpUnlink (fp_clean awsCredentialsPath) = None"
    and "node_at (aw_fs w) (fp_clean awsCredentialsPath) \<noteq> Some FDir"
  shows "node_at (aw_fs (token_cleanup w)) (fp_clean awsCredentialsPath) = None"
    and "aw_SharedCredentialsFile (token_cleanup w) = None"
proof -
  let ?c = "fp_clean awsCredentialsPath" and ?d = "fp_clean awsCredentialsDirectory"
  have "node_at (snd (os_Remove ?c (aw_fs w))) ?c = None"
    using assms by (auto simp: os_Remove_def credentials_paths split: option.splits node.splits)
  moreover have "node_at (snd (os_Remove ?d fs)) ?c = node_at fs ?c" for fs
    by (rule touches_node[OF touches_os_Remove[of _ "{?d}" "{}"]]) (simp_all add: credentials_paths)
  ultimately show "node_at (aw_fs (token_cleanup w)) ?c = None" by (simp add: token_cleanup_def)
qed (simp add: token_cleanup_def)

lemma credentials_written:
  assumes "node_at fs (fp_clean awsCredentialsPath) \<noteq> Some FDir"
    and "os_MkdirAll (fp_clean awsCredentialsDirectory) fs = (r, fs1)"
  shows "same_env fs fs1" "node_at fs1 (fp_clean awsCredentialsPath) \<noteq> Some FDir"
    and "WriteFile (fp_clean awsCredentialsPath) data fs1 = (r', fs2) \<Longrightarrow>
           same_env fs fs2 \<and> node_at fs2 (fp_clean awsCredentialsPath) \<noteq> Some FDir"
proof -
  let ?c = "fp_clean awsCredentialsPath" and ?d = "fp_clean awsCredentialsDirectory"
  have t: "touches {} (set (prefixes_of ?d)) fs fs1"
    using touches_mkdirs[of "prefixes_of ?d" _ "{}" fs] assms(2) by (metis os_MkdirAll_def snd_conv subset_refl)
  have "?c \<notin> set (prefixes_of ?d)" by (auto simp: in_prefixes_of credentials_paths)
  then have n1: "node_at fs1 ?c \<noteq> Some FDir" using touches_node[OF t] assms(1) by simp
  have e1: "same_env fs fs1" by (rule touches_env[OF t])
  show "same_env fs fs1" "node_at fs1 ?c \<noteq> Some FDir" by fact+
  assume w: "WriteFile ?c data fs1 = (r', fs2)"
  have "same_env fs1 fs2" using touches_env[OF touches_WriteFile[of ?c "{?c}" "{}" fs1 data]] w by simp
  moreover have "node_at fs2 ?c \<noteq> Some FDir" using not_dir_calls(1)[OF n1, of ?c data] w by simp
  ultimately show "same_env fs fs2 \<and> node_at fs2 ?c \<noteq> Some FDir" using e1 same_env_trans by blast
qed

lemma upd_poll_ends:
  "poll_ends (upd_poll api svc s updateID) g \<longleftrightarrow>
   (case fst (describe_update api svc s updateID g) of
      Inr (Some (Some status)) \<Rightarrow> status = ''Successful'' | _ \<Rightarrow> True)"
  by (auto simp: poll_ends_def upd_poll_def split: prod.splits sum.splits option.splits)

text \<open>What the search for the reason of a failed stack finds, stated directly.\<close>

definition event_reason :: "string \<Rightarrow> stack_event \<Rightarrow> string option" where
  "event_reason status ev =
     (if se_ResourceStatus ev = Some status \<and> se_LogicalResourceId ev \<noteq> None then se_ResourceStatusReason ev else None)"

definition failure_cause :: "stack_event list \<Rightarrow> string \<Rightarrow> string" where
  "failure_cause evs unknown =
     (case List.map_filter (event_reason ''CREATE_FAILED'') evs of
        why # _ \<Rightarrow> why
      | [] \<Rightarrow> last (unknown # List.map_filter (event_reason ''ROLLBACK_IN_PROGRESS'') evs))"

lemma fail_reason_cause: "fail_reason evs unknown = failure_cause evs unknown"
  by (induction evs arbitrary: unknown)
    (auto simp: failure_cause_def event_reason_def List.map_filter_simps split: option.splits list.splits)

lemma stack_poll_state:
  assumes "fst (aa_DescribeStacks api svc name g) = Inr (st # sts)" "sk_StackStatus st = Some status"
  shows "stack_poll api svc name g =
     (if status = ''CREATE_IN_PROGRESS'' then None else Some (Ret (Inr (st # sts))),
      snd (aa_DescribeStacks api svc name g))"
  using assms by (cases "aa_DescribeStacks api svc name g") (simp add: stack_poll_def)

text \<open>Inputs for the witnesses.\<close>

definition demo_eks_opts :: driver_options where
  "demo_eks_opts = \<lparr>BoolOptions = Map.empty,
     StringOptions = [''display-name'' \<mapsto> ''c'', ''client-id'' \<mapsto> ''id'', ''client-secret'' \<mapsto> ''key'',
                      ''kubernetes-version'' \<mapsto> ''1.18'', ''region'' \<mapsto> ''us-west-2''],
     IntOptions = [''minimum-nodes'' \<mapsto> 1, ''maximum-nodes'' \<mapsto> 3, ''desired-nodes'' \<mapsto> 2],
     StringSliceOptions = Map.empty\<rparr>"

definition demo_declared_opts :: driver_options where
  "demo_declared_opts = demo_eks_opts\<lparr>StringOptions := [''display-name'' \<mapsto> ''c'', ''access-key'' \<mapsto> ''id'',
     ''secret-key'' \<mapsto> ''key'', ''kubernetes-version'' \<mapsto> ''1.18'', ''region'' \<mapsto> ''us-west-2'']\<rparr>"

definition demo_aws_api :: "nat aws_api" where
  "demo_aws_api = \<lparr>
     aa_NewSession = \<lambda>s. None,
     aa_CreateStack = \<lambda>s n d t c p g. (None, g),
     aa_DescribeStacks = \<lambda>s n g. (Inr [\<lparr>sk_StackStatus = Some ''CREATE_COMPLETE'', sk_Outputs = [(''RoleArn'', ''arn'')]\<rparr>], g),
     aa_DescribeStackEvents = \<lambda>s n g. (Inr [], g),
     aa_DescribeStackResources = \<lambda>s n g. (Inr [], g),
     aa_DeleteStack = \<lambda>s n g. (None, g),
     aa_GetRole = \<lambda>s n g. (Inr ''arn'', g),
     aa_CreateCluster = \<lambda>s i g. (None, g),
     aa_DescribeCluster = \<lambda>s n g. (Inr None, g),
     aa_DeleteCluster = \<lambda>s n g. (Some (AwsErr ''ResourceNotFoundException'' ''No cluster found''), g),
     aa_UpdateClusterVersion = \<lambda>s n v g. (Inr ''u1'', g),
     aa_DescribeUpdate = \<lambda>s n u g. (Inr (Some (Some ''Successful'')), g),
     aa_CreateKeyPair = \<lambda>s n g. (None, g),
     aa_DescribeKeyPairs = \<lambda>s n g. (Some (Errorf ''The key pair does not exist''), g),
     aa_DeleteKeyPair = \<lambda>s n g. (None, g),
     aa_DescribeImages = \<lambda>s n g. (Inr [], g),
     aa_PartitionSuffix = \<lambda>r. None,
     aa_NewGenerator = None,
     aa_GeneratorGet = \<lambda>n f v g. (f, Suc g),
     aa_NewForConfig = \<lambda>h c t. Inl (Errorf ''no cluster''),
     aa_MarshalMapRoles = \<lambda>r. Inr [],
     aa_CreateConfigMap = \<lambda>cs ns n d g. (None, g),
     aa_QuoteRunes = id\<rparr>"

definition demo_aws_world :: "nat aws_world" where
  "demo_aws_world = \<lparr>aw_cloud = 0, aw_fs = plain_fs [], aw_SharedCredentialsFile = None\<rparr>"

section \<open>Properties\<close>

text \<open>C21. The parameters and outputs of the stacks match the templates, as the code requires: every parameter passed for
  the worker nodes is declared in their template, and every declared one without a default is passed; the other two templates
  need none; every output and resource that \<open>Create\<close> looks up exists; and every reference \<open>!Ref\<close> of the worker template
  names a parameter or a resource of it.\<close>

theorem eks_templates_match:
  "distinct (map fst (worker_params s vpcid subnets groups ami key)) \<and>
   set (map fst (worker_params s vpcid subnets groups ami key)) \<subseteq> set (keys_of ''Parameters:'' worker_lines) \<and>
   set (required_parameters worker_lines) \<subseteq> set (map fst (worker_params s vpcid subnets groups ami key)) \<and>
   required_parameters vpc_lines = [] \<and> keys_of ''Parameters:'' role_lines = [] \<and>
   {''SecurityGroups'', ''SubnetIds''} \<subseteq> set (keys_of ''Outputs:'' vpc_lines) \<and> ''VPC'' \<in> set (keys_of ''Resources:'' vpc_lines) \<and>
   ''RoleArn'' \<in> set (keys_of ''Outputs:'' role_lines) \<and> ''NodeInstanceRole'' \<in> set (keys_of ''Outputs:'' worker_lines) \<and>
   set (refs_of worker_lines) \<subseteq> set (keys_of ''Parameters:'' worker_lines @ keys_of ''Resources:'' worker_lines)"
proof (intro conjI)
  let ?ps = "worker_params s vpcid subnets groups ami key"
  have ps: "map fst ?ps = [''ClusterName'', ''ClusterControlPlaneSecurityGroup'', ''NodeGroupName'', ''NodeAutoScalingGroupMinSize'',
      ''NodeAutoScalingGroupMaxSize'', ''NodeAutoScalingGroupDesiredCapacity'', ''NodeVolumeSize'', ''NodeInstanceType'', ''NodeImageId'',
      ''KeyName'', ''VpcId'', ''Subnets'', ''PublicIp'', ''EBSEncryption'']"
    by (simp add: worker_params_def Let_def)
  show "distinct (map fst ?ps)" unfolding ps by simp
  show "set (map fst ?ps) \<subseteq> set (keys_of ''Parameters:'' worker_lines)" unfolding ps worker_keys by simp
  show "set (required_parameters worker_lines) \<subseteq> set (map fst ?ps)" unfolding ps worker_required by simp
  show "''VPC'' \<in> set (keys_of ''Resources:'' vpc_lines)" using vpc_reading(4) by (simp only: List.member_iff)
  show "set (refs_of worker_lines) \<subseteq> set (keys_of ''Parameters:'' worker_lines @ keys_of ''Resources:'' worker_lines)"
    using worker_refs by (simp only: worker_names_def)
qed (simp_all add: vpc_reading(1-3) role_reading worker_keys)

text \<open>C32. What the Amazon driver accepts: names and credentials are set, the node counts are signed
  numbers with \<open>1 \<le> minimum \<le> desired \<le> maximum\<close>, the volume is positive, the network is given
  completely or not at all, nodes without public addresses come with a network, and an image is known
  unless the version is empty.\<close>

theorem eks_accepts_exactly:
  "eks_getStateFromOptions opts = Inr s \<longleftrightarrow> s = eks_read_opts opts \<and>
     es_DisplayName s \<noteq> [] \<and> es_ClientID s \<noteq> [] \<and> es_ClientSecret s \<noteq> [] \<and>
     1 \<le> sint (es_MinimumASGSize s) \<and> sint (es_MinimumASGSize s) \<le> sint (es_DesiredASGSize s) \<and>
     sint (es_DesiredASGSize s) \<le> sint (es_MaximumASGSize s) \<and>
     (case es_NodeVolumeSize s of None \<Rightarrow> True | Some v \<Rightarrow> 1 \<le> sint v) \<and>
     ((es_VirtualNetwork s = []) = (es_Subnets s = [])) \<and> ((es_Subnets s = []) = (es_SecurityGroups s = [])) \<and>
     (es_AssociateWorkerNodePublicIP s = Some False \<longrightarrow> es_VirtualNetwork s \<noteq> []) \<and>
     (es_KubernetesVersion s = [] \<or> es_AMI s \<noteq> [] \<or> getLocalAMI s \<noteq> [])"
  unfolding eks_accepted eks_validate_None validate_sizes_None validate_ami_None validate_network_None by blast

theorem eks_accepts_exactly_witness:
  "eks_getStateFromOptions demo_eks_opts = Inr (eks_read_opts demo_eks_opts) \<and>
   getLocalAMI (eks_read_opts demo_eks_opts) = ''ami-04f0f3d381d07e0b6''"
proof -
  have ami: "getLocalAMI (eks_read_opts demo_eks_opts) = ''ami-04f0f3d381d07e0b6''"
    by (simp add: getLocalAMI_def eks_read_opts_def demo_eks_opts_def amiForRegionAndVersion_def amis_1_18_def)
  then show ?thesis
    unfolding eks_accepts_exactly by (simp add: eks_read_opts_def demo_eks_opts_def)
qed

text \<open>No options under the declared names are ever accepted: \<open>GetDriverCreateOptions\<close> declares
  \<open>access-key\<close> and \<open>secret-key\<close>, but the driver reads the credentials only from \<open>client-id\<close> or
  \<open>accessKey\<close> and \<open>client-secret\<close> or \<open>secretKey\<close>.\<close>

theorem eks_declared_options_rejected:
  assumes "dom (StringOptions opts) \<subseteq> insert ''name'' (fst ` set eks_create_flags)"
  shows "\<exists>e. eks_getStateFromOptions opts = Inl e"
proof -
  have undeclared: "k \<notin> insert ''name'' (fst ` set eks_create_flags)" if "k \<in> {''client-id'', ''accessKey''}" for k
    using that unfolding eks_create_flags_def flag_map_keys by auto
  have "StringOptions opts k = None" if "k \<in> {''client-id'', ''accessKey''}" for k
    using assms undeclared[OF that] by (meson domIff subsetD)
  then have "es_ClientID (eks_read_opts opts) = []" by (simp add: eks_read_opts_def)
  then have "eks_getStateFromOptions opts \<noteq> Inr s" for s
    by (auto simp: eks_accepted eks_validate_None)
  then show ?thesis by (cases "eks_getStateFromOptions opts") auto
qed

theorem eks_declared_options_rejected_witness: "\<exists>e. eks_getStateFromOptions demo_declared_opts = Inl e"
proof (rule eks_declared_options_rejected)
  show "dom (StringOptions demo_declared_opts) \<subseteq> insert ''name'' (fst ` set eks_create_flags)"
    unfolding eks_create_flags_def flag_map_keys by (simp add: demo_declared_opts_def)
qed

text \<open>C16. \<open>getEKSToken\<close> leaves no credentials behind: whatever fails in between, unless the file cannot
  be unlinked, the credentials file is gone and the environment variable is unset when it returns.\<close>

theorem getEKSToken_leaves_no_credentials:
  assumes "getEKSToken api name s w = Some (r, w')" "aa_NewGenerator api = None"
    and "Deny (aw_fs w) OpUnlink (fp_clean awsCredentialsPath) = None"
    and "node_at (aw_fs w) (fp_clean awsCredentialsPath) \<noteq> Some FDir"
  shows "node_at (aw_fs w') (fp_clean awsCredentialsPath) = None \<and> aw_SharedCredentialsFile w' = None"
proof -
  obtain r1 fs1 where m: "os_MkdirAll (fp_clean awsCredentialsDirectory) (aw_fs w) = (r1, fs1)" by fastforce
  obtain r2 fs2 where wr: "WriteFile (fp_clean awsCredentialsPath) (credentialsContent s) fs1 = (r2, fs2)" by fastforce
  note k = credentials_written[OF assms(4) m]
  have good: "node_at (aw_fs (token_cleanup v)) (fp_clean awsCredentialsPath) = None \<and>
      aw_SharedCredentialsFile (token_cleanup v) = None" if "aw_fs v \<in> {fs1, fs2}" for v
    using that assms(3) k(1,2) k(3)[OF wr] by (auto intro!: token_cleanup_gone simp: same_envD)
  show ?thesis
  proof (cases r1)
    case (Some e)
    then show ?thesis using assms(1,2) m by (auto simp: getEKSToken_def Let_def intro!: good[THEN conjunct1] good[THEN conjunct2])
  next
    case None
    then show ?thesis using assms(1,2) m wr
      by (cases r2) (auto simp: getEKSToken_def Let_def intro!: good[THEN conjunct1] good[THEN conjunct2] split: prod.splits)
  qed
qed

theorem getEKSToken_leaves_no_credentials_witness:
  "\<exists>w'. getEKSToken demo_aws_api ''c'' (eks_read_opts demo_eks_opts) demo_aws_world =
     Some (Ret (Inr (credentialsContent (eks_read_opts demo_eks_opts))), w') \<and>
   node_at (aw_fs w') (fp_clean awsCredentialsPath) = None \<and> aw_SharedCredentialsFile w' = None"
proof -
  have "\<exists>w'. getEKSToken demo_aws_api ''c'' (eks_read_opts demo_eks_opts) demo_aws_world =
     Some (Ret (Inr (credentialsContent (eks_read_opts demo_eks_opts))), w')"
    by (simp add: getEKSToken_def demo_aws_api_def demo_aws_world_def credentials_paths os_MkdirAll_def
        prefixes_of_def node_at_def plain_fs_def set_node_def WriteFile_def ReadFile_def fp_dir_def upt_rec)
  then obtain w' where w': "getEKSToken demo_aws_api ''c'' (eks_read_opts demo_eks_opts) demo_aws_world =
     Some (Ret (Inr (credentialsContent (eks_read_opts demo_eks_opts))), w')" by blast
  have "node_at (aw_fs w') (fp_clean awsCredentialsPath) = None \<and> aw_SharedCredentialsFile w' = None"
    by (rule getEKSToken_leaves_no_credentials[OF w'])
      (simp_all add: demo_aws_api_def demo_aws_world_def plain_fs_def node_at_def credentials_paths)
  with w' show ?thesis by blast
qed

text \<open>Waiting for a version update returns if and only if, after some number of polls, a poll fails,
  carries no status, or reports \<open>Successful\<close>: an update that AWS reports as \<open>Failed\<close> or \<open>Cancelled\<close> keeps
  the driver waiting forever.\<close>

theorem waitForClusterUpdateReady_returns_iff:
  "waitForClusterUpdateReady api svc s updateID g \<noteq> None \<longleftrightarrow>
   (\<exists>k. case fst (describe_update api svc s updateID (after_polls (upd_poll api svc s updateID) k g)) of
      Inr (Some (Some status)) \<Rightarrow> status = ''Successful'' | _ \<Rightarrow> True)"
  unfolding waitForClusterUpdateReady_def pu.returns_iff upd_poll_ends ..

text \<open>C18. Creating a stack, also one that exists already from an earlier attempt, waits as long as the
  stack is being created and then gives the created stack; if the stack ended in another status the error
  names the first \<open>CREATE_FAILED\<close> reason among the events, or else the last reason for a rollback.\<close>

theorem createStack_waits:
  assumes "aa_CreateStack api svc name dn body caps ps g = (r, g1)"
    and "case r of None \<Rightarrow> True | Some e \<Rightarrow> alreadyExistsInCloudFormationError e"
    and "\<forall>i<k. \<exists>st sts. fst (aa_DescribeStacks api svc name (after_polls (stack_poll api svc name) i g1)) = Inr (st # sts) \<and>
           sk_StackStatus st = Some ''CREATE_IN_PROGRESS''"
    and "fst (aa_DescribeStacks api svc name (after_polls (stack_poll api svc name) k g1)) = Inr (st # sts)"
    and "sk_StackStatus st = Some status" "status \<noteq> ''CREATE_IN_PROGRESS''"
  shows "createStack api svc name dn body caps ps g =
    (let g2 = after_polls (stack_poll api svc name) (Suc k) g1 in
     if status = ''CREATE_COMPLETE'' then Some (Ret (Inr st), g2)
     else (case aa_DescribeStackEvents api svc name g2 of (evs, g3) \<Rightarrow>
       Some (Ret (Inl (Errorf (''stack failed to create: '' @
         (case evs of Inl _ \<Rightarrow> ''reason unknown'' | Inr evs \<Rightarrow> failure_cause evs ''reason unknown'')))), g3)))"
proof -
  let ?p = "stack_poll api svc name"
  have "\<not> poll_ends ?p (after_polls ?p i g1)" if "i < k" for i
    using assms(3) that stack_poll_state[of api svc name "after_polls ?p i g1"] by (fastforce simp: poll_ends_def)
  then have "poll_until ?p g1 = Some (Ret (Inr (st # sts)), after_polls ?p (Suc k) g1)"
    by (intro pu.returns_after) (simp_all add: stack_poll_state[OF assms(4,5)] assms(6))
  then show ?thesis
    using assms(1,2,5) by (auto simp: createStack_def Let_def gbind_simps fail_reason_cause split: option.splits prod.splits sum.splits)
qed

theorem createStack_waits_witness:
  "createStack demo_aws_api (eks_session (eks_read_opts demo_eks_opts)) ''c-eks-vpc'' ''c'' [] [] [] 0 =
     Some (Ret (Inr \<lparr>sk_StackStatus = Some ''CREATE_COMPLETE'', sk_Outputs = [(''RoleArn'', ''arn'')]\<rparr>), 0)"
proof -
  let ?svc = "eks_session (eks_read_opts demo_eks_opts)"
    and ?st = "\<lparr>sk_StackStatus = Some ''CREATE_COMPLETE'', sk_Outputs = [(''RoleArn'', ''arn'')]\<rparr>"
  have "stack_poll demo_aws_api ?svc n 0 = (Some (Ret (Inr [?st])), 0)" for n
    by (simp add: stack_poll_def demo_aws_api_def)
  then have "after_polls (stack_poll demo_aws_api ?svc n) (Suc 0) 0 = 0" for n by (simp add: after_polls_Suc)
  then show ?thesis
    using createStack_waits[of demo_aws_api ?svc "''c-eks-vpc''" "''c''" "[]" "[]" "[]" 0 None 0 0 ?st "[]" "''CREATE_COMPLETE''"]
    by (simp add: demo_aws_api_def Let_def)
qed

end
