(* ===== verification/AksData.thy ===== *)
theory AksData
  imports Options
begin

text \<open>
  The tables of the Azure driver (\<open>aks_driver.go\<close>): the option tables of \<open>GetDriverCreateOptions\<close> (in two
  halves) and \<open>GetDriverUpdateOptions\<close>, and the regions of Log Analytics workspaces. Constants of the
  Azure library that appear as default values are written out.
\<close>

definition aks_create_flags1 :: "(string \<times> flag) list" where
  "aks_create_flags1 = [
     (''subscription-id'', plain_flag StringType (''Subscription credentials which uniquely identify Microsoft Azure subscription.'')),
     (''resource-group'', plain_flag StringType (''The name of the '' @ [CHR 0x27] @ ''Cluster'' @ [CHR 0x27] @ '' resource group.'')),
     (''name'', plain_flag StringType (''The name of the '' @ [CHR 0x27] @ ''Cluster'' @ [CHR 0x27] @ '' resource, and the internal name of the cluster in Rancher.'')),
     (''aad-client-app-id'', plain_flag StringType (''The ID of an Azure Active Directory client application of type '' @ [CHR 0x22] @ ''Native'' @ [CHR 0x22] @ ''. This application is for user login via kubectl.'')),
     (''aad-server-app-id'', plain_flag StringType (''The ID of an Azure Active Directory server application of type '' @ [CHR 0x22] @ ''Web app/API'' @ [CHR 0x22] @ ''. This application represents the managed cluster'' @ [CHR 0x27] @ ''s apiserver (Server application).'')),
     (''aad-server-app-secret'', plain_flag StringType (''The secret of an Azure Active Directory server application.'')),
     (''aad-tenant-id'', plain_flag StringType (''The ID of an Azure Active Directory tenant.'')),
     (''enable-http-application-routing'', ((plain_flag BoolType (''Enable the Kubernetes ingress with automatic public DNS name creation.''))\<lparr>flag_Default := Some (zero_default\<lparr>DefaultBool := False\<rparr>)\<rparr>)),
     (''enable-monitoring'', ((plain_flag BoolType (''Turn on Azure Log Analytics monitoring. Uses the Log Analytics '' @ [CHR 0x22] @ ''Default'' @ [CHR 0x22] @ '' workspace if it exists, else creates one. if using an existing workspace, specifies '' @ [CHR 0x22] @ ''log analytics workspace resource id'' @ [CHR 0x22] @ ''.''))\<lparr>flag_Default := Some (zero_default\<lparr>DefaultBool := True\<rparr>)\<rparr>)),
     (''log-analytics-workspace-resource-group'', plain_flag StringType (''The resource group of an existing Azure Log Analytics Workspace to use for storing monitoring data. If not specified, uses the '' @ [CHR 0x27] @ ''Cluster'' @ [CHR 0x27] @ '' resource group.'')),
     (''log-analytics-workspace'', plain_flag StringType (''The name of an existing Azure Log Analytics Workspace to use for storing monitoring data. If not specified, uses '' @ [CHR 0x27] @ ''{resource group}-{subscription id}-{location code}'' @ [CHR 0x27] @ ''.'')),
     (''count'', ((plain_flag IntType (''Number of machines (VMs) in the agent pool. Allowed values must be in the range of 1 to 100 (inclusive).''))\<lparr>flag_Default := Some (zero_default\<lparr>DefaultInt := 1\<rparr>)\<rparr>)),
     (''max-pods'', ((plain_flag IntType (''Maximum number of pods that can run on a node.''))\<lparr>flag_Default := Some (zero_default\<lparr>DefaultInt := 110\<rparr>)\<rparr>)),
     (''agent-pool-name'', ((plain_flag StringType (''Name for the agent pool, upto 12 alphanumeric characters.''))\<lparr>flag_Value := ''agentpool0''\<rparr>)),
     (''agent-osdisk-size'', plain_flag IntType (''GB size to be used to specify the disk for every machine in the agent pool. If you specify 0, it will apply the default according to the '' @ [CHR 0x22] @ ''agent vm size'' @ [CHR 0x22] @ '' specified.'')),
     (''agent-vm-size'', ((plain_flag StringType (''Size of machine in the agent pool.''))\<lparr>flag_Value := ''Standard_D1_v2''\<rparr>)),
     (''load-balancer-sku'', plain_flag StringType (''The LoadBalancer SKU of the cluster.'')),
     (''virtual-network-resource-group'', plain_flag StringType (''The resource group of an existing Azure Virtual Network. Composite of agent virtual network subnet ID.'')),
     (''virtual-network'', plain_flag StringType (''The name of an existing Azure Virtual Network. Composite of agent virtual network subnet ID.'')),
     (''subnet'', plain_flag StringType (''The name of an existing Azure Virtual Subnet. Composite of agent virtual network subnet ID.'')),
     (''admin-username'', ((plain_flag StringType (''The administrator username to use for Linux hosts.''))\<lparr>flag_Value := ''azureuser''\<rparr>)),
     (''ssh-public-key-contents'', plain_flag StringType (''Contents of the SSH public key used to authenticate with Linux hosts. Opposite to '' @ [CHR 0x22] @ ''ssh public key'' @ [CHR 0x22] @ ''.''))]"

definition aks_create_flags2 :: "(string \<times> flag) list" where
  "aks_create_flags2 = [
     (''dns-service-ip'', ((plain_flag StringType (''An IP address assigned to the Kubernetes DNS service. It must be within the Kubernetes Service address range specified in '' @ [CHR 0x22] @ ''service cidr'' @ [CHR 0x22] @ ''.''))\<lparr>flag_Value := ''10.0.0.10''\<rparr>)),
     (''docker-bridge-cidr'', ((plain_flag StringType (''A CIDR notation IP range assigned to the Docker bridge network. It must not overlap with any Subnet IP ranges or the Kubernetes Service address range specified in '' @ [CHR 0x22] @ ''service cidr'' @ [CHR 0x22] @ ''.''))\<lparr>flag_Value := ''172.17.0.1/16''\<rparr>)),
     (''network-plugin'', ((plain_flag StringType (''Network plugin used for building Kubernetes network. Chooses from [azure kubenet].''))\<lparr>flag_Value := ''azure''\<rparr>)),
     (''network-policy'', plain_flag StringType (''Network policy used for building Kubernetes network. Chooses from [azure calico].'')),
     (''pod-cidr'', ((plain_flag StringType (''A CIDR notation IP range from which to assign Kubernetes Pod IPs when '' @ [CHR 0x22] @ ''network plugin'' @ [CHR 0x22] @ '' is specified in '' @ [CHR 0x22] @ ''kubenet'' @ [CHR 0x22] @ ''.''))\<lparr>flag_Value := ''172.244.0.0/16''\<rparr>)),
     (''service-cidr'', ((plain_flag StringType (''A CIDR notation IP range from which to assign Kubernetes Service cluster IPs. It must not overlap with any Subnet IP ranges.''))\<lparr>flag_Value := ''10.0.0.0/16''\<rparr>)),
     (''location'', ((plain_flag StringType (''Azure Kubernetes cluster location.''))\<lparr>flag_Value := ''eastus''\<rparr>)),
     (''master-dns-prefix'', plain_flag StringType (''DNS prefix to use the Kubernetes cluster control pane.'')),
     (''kubernetes-version'', ((plain_flag StringType (''Specify the version of Kubernetes.''))\<lparr>flag_Value := ''1.11.5''\<rparr>)),
     (''tags'', plain_flag StringSliceType (''Tags for Kubernetes cluster. For example, foo=bar.'')),
     (''base-url'', ((plain_flag StringType (''Different resource management API url to use.''))\<lparr>flag_Value := ''https://management.azure.com/''\<rparr>)),
     (''auth-base-url'', ((plain_flag StringType (''Different authentication API url to use.''))\<lparr>flag_Value := ''https://login.microsoftonline.com/''\<rparr>)),
     (''client-id'', plain_flag StringType (''Azure client ID to use.'')),
     (''client-secret'', secret_flag StringType (''Azure client secret associated with the '' @ [CHR 0x22] @ ''client id'' @ [CHR 0x22] @ ''.'')),
     (''tenant-id'', plain_flag StringType (''Azure tenant ID to use.'')),
     (''display-name'', plain_flag StringType (''The displayed name of the cluster in the Rancher UI.''))]"

definition aks_create_flags :: driver_flags where
  "aks_create_flags = flag_map (aks_create_flags1 @ aks_create_flags2)"

definition aks_update_flags :: driver_flags where
  "aks_update_flags = flag_map [
     (''enable-http-application-routing'', ((plain_flag BoolType (''Enable the Kubernetes ingress with automatic public DNS name creation.''))\<lparr>flag_Default := Some (zero_default\<lparr>DefaultBool := False\<rparr>)\<rparr>)),
     (''enable-monitoring'', ((plain_flag BoolType (''Turn on Azure Log Analytics monitoring. Uses the Log Analytics '' @ [CHR 0x22] @ ''Default'' @ [CHR 0x22] @ '' workspace if it exists, else creates one. if using an existing workspace, specifies '' @ [CHR 0x22] @ ''log analytics workspace resource id'' @ [CHR 0x22] @ ''.''))\<lparr>flag_Default := Some (zero_default\<lparr>DefaultBool := True\<rparr>)\<rparr>)),
     (''log-analytics-workspace-resource-group'', plain_flag StringType (''The resource group of an existing Azure Log Analytics Workspace to use for storing monitoring data. If not specified, uses the '' @ [CHR 0x27] @ ''Cluster'' @ [CHR 0x27] @ '' resource group.'')),
     (''log-analytics-workspace'', plain_flag StringType (''The name of an existing Azure Log Analytics Workspace to use for storing monitoring data. If not specified, uses '' @ [CHR 0x27] @ ''{resource group}-{subscription id}-{location code}'' @ [CHR 0x27] @ ''.'')),
     (''count'', ((plain_flag IntType (''Number of machines (VMs) in the agent pool. Allowed values must be in the range of 1 to 100 (inclusive).''))\<lparr>flag_Default := Some (zero_default\<lparr>DefaultInt := 1\<rparr>)\<rparr>)),
     (''kubernetes-version'', ((plain_flag StringType (''Specify the version of Kubernetes.''))\<lparr>flag_Value := ''1.11.5''\<rparr>)),
     (''tags'', plain_flag StringSliceType (''Tags for Kubernetes cluster. For example, foo=bar.'')),
     (''client-id'', plain_flag StringType (''Azure client ID to use.'')),
     (''client-secret'', secret_flag StringType (''Azure client secret associated with the '' @ [CHR 0x22] @ ''client id'' @ [CHR 0x22] @ ''.''))]"

definition locationToOmsRegionCodeMap :: "(string \<times> string) list" where
  "locationToOmsRegionCodeMap = [
     (''australiasoutheast'', ''ASE''),
     (''australiaeast'', ''EAU''),
     (''australiacentral'', ''CAU''),
     (''canadacentral'', ''CCA''),
     (''centralindia'', ''CIN''),
     (''centralus'', ''CUS''),
     (''eastasia'', ''EA''),
     (''eastus'', ''EUS''),
     (''eastus2'', ''EUS2''),
     (''eastus2euap'', ''EAP''),
     (''francecentral'', ''PAR''),
     (''japaneast'', ''EJP''),
     (''koreacentral'', ''SE''),
     (''northeurope'', ''NEU''),
     (''southcentralus'', ''SCUS''),
     (''southeastasia'', ''SEA''),
     (''uksouth'', ''SUK''),
     (''usgovvirginia'', ''USGV''),
     (''westcentralus'', ''EUS''),
     (''westeurope'', ''WEU''),
     (''westus'', ''WUS''),
     (''westus2'', ''WUS2''),
     (''chinaeast'', ''EAST2''),
     (''chinaeast2'', ''EAST2''),
     (''chinanorth'', ''EAST2''),
     (''chinanorth2'', ''EAST2'')]"

definition regionToOmsRegionMap :: "(string \<times> string) list" where
  "regionToOmsRegionMap = [
     (''australiacentral'', ''australiacentral''),
     (''australiacentral2'', ''australiacentral''),
     (''australiaeast'', ''australiaeast''),
     (''australiasoutheast'', ''australiasoutheast''),
     (''brazilsouth'', ''southcentralus''),
     (''canadacentral'', ''canadacentral''),
     (''canadaeast'', ''canadacentral''),
     (''centralus'', ''centralus''),
     (''centralindia'', ''centralindia''),
     (''eastasia'', ''eastasia''),
     (''eastus'', ''eastus''),
     (''eastus2'', ''eastus2''),
     (''francecentral'', ''francecentral''),
     (''francesouth'', ''francecentral''),
     (''japaneast'', ''japaneast''),
     (''japanwest'', ''japaneast''),
     (''koreacentral'', ''koreacentral''),
     (''koreasouth'', ''koreacentral''),
     (''northcentralus'', ''eastus''),
     (''northeurope'', ''northeurope''),
     (''southafricanorth'', ''westeurope''),
     (''southafricawest'', ''westeurope''),
     (''southcentralus'', ''southcentralus''),
     (''southeastasia'', ''southeastasia''),
     (''southindia'', ''centralindia''),
     (''uksouth'', ''uksouth''),
     (''ukwest'', ''uksouth''),
     (''westcentralus'', ''eastus''),
     (''westeurope'', ''westeurope''),
     (''westindia'', ''centralindia''),
     (''westus'', ''westus''),
     (''westus2'', ''westus2''),
     (''chinaeast'', ''chinaeast2''),
     (''chinaeast2'', ''chinaeast2''),
     (''chinanorth'', ''chinaeast2''),
     (''chinanorth2'', ''chinaeast2'')]"

end
