(* ===== verification/Sha256.thy ===== *)
theory Sha256
  imports Prelude
begin

text \<open>
  The SHA-256 of Go's \<open>crypto/sha256\<close> on byte strings, as the Azure driver uses it to shorten names:
  32-bit words with wrap-around, and the hexadecimal text of the digest (\<open>%x\<close>).
\<close>

unbundle bit_operations_syntax

type_synonym w32 = "32 word"
type_synonym sha_state = "w32 \<times> w32 \<times> w32 \<times> w32 \<times> w32 \<times> w32 \<times> w32 \<times> w32"

definition rotr :: "nat \<Rightarrow> w32 \<Rightarrow> w32" where
  "rotr n x = drop_bit n x OR push_bit (32 - n) x"

definition sha_init :: sha_state where
  "sha_init = (0x6a09e667, 0xbb67ae85, 0x3c6ef372, 0xa54ff53a, 0x510e527f, 0x9b05688c, 0x1f83d9ab, 0x5be0cd19)"

definition sha_K :: "w32 list" where
  "sha_K = [
     0x428a2f98, 0x71374491, 0xb5c0fbcf, 0xe9b5dba5, 0x3956c25b, 0x59f111f1, 0x923f82a4, 0xab1c5ed5,
     0xd807aa98, 0x12835b01, 0x243185be, 0x550c7dc3, 0x72be5d74, 0x80deb1fe, 0x9bdc06a7, 0xc19bf174,
     0xe49b69c1, 0xefbe4786, 0x0fc19dc6, 0x240ca1cc, 0x2de92c6f, 0x4a7484aa, 0x5cb0a9dc, 0x76f988da,
     0x983e5152, 0xa831c66d, 0xb00327c8, 0xbf597fc7, 0xc6e00bf3, 0xd5a79147, 0x06ca6351, 0x14292967,
     0x27b70a85, 0x2e1b2138, 0x4d2c6dfc, 0x53380d13, 0x650a7354, 0x766a0abb, 0x81c2c92e, 0x92722c85,
     0xa2bfe8a1, 0xa81a664b, 0xc24b8b70, 0xc76c51a3, 0xd192e819, 0xd6990624, 0xf40e3585, 0x106aa070,
     0x19a4c116, 0x1e376c08, 0x2748774c, 0x34b0bcb5, 0x391c0cb3, 0x4ed8aa4a, 0x5b9cca4f, 0x682e6ff3,
     0x748f82ee, 0x78a5636f, 0x84c87814, 0x8cc70208, 0x90befffa, 0xa4506ceb, 0xbef9a3f7, 0xc67178f2]"

definition sha_round :: "w32 \<Rightarrow> w32 \<Rightarrow> sha_state \<Rightarrow> sha_state" where
  "sha_round k w st =
     (case st of (a, b, c, d, e, f, g, h) \<Rightarrow>
        let t1 = h + (rotr 6 e XOR rotr 11 e XOR rotr 25 e) + ((e AND f) XOR (NOT e AND g)) + k + w;
            t2 = (rotr 2 a XOR rotr 13 a XOR rotr 22 a) + ((a AND b) XOR (a AND c) XOR (b AND c)) in
        (t1 + t2, a, b, c, d + t1, e, f, g))"

text \<open>The rounds, with the message schedule as a window of its next sixteen words.\<close>

definition sha_next :: "w32 list \<Rightarrow> w32" where
  "sha_next ws =
     (rotr 17 (ws ! 14) XOR rotr 19 (ws ! 14) XOR drop_bit 10 (ws ! 14)) + ws ! 9 +
     (rotr 7 (ws ! 1) XOR rotr 18 (ws ! 1) XOR drop_bit 3 (ws ! 1)) + ws ! 0"

fun sha_rounds :: "w32 list \<Rightarrow> w32 list \<Rightarrow> sha_state \<Rightarrow> sha_state" where
  "sha_rounds [] ws st = st"
| "sha_rounds (k # ks) ws st = sha_rounds ks (tl ws @ [sha_next ws]) (sha_round k (hd ws) st)"

definition sha_add :: "sha_state \<Rightarrow> sha_state \<Rightarrow> sha_state" where
  "sha_add st st' =
     (case st of (a, b, c, d, e, f, g, h) \<Rightarrow> case st' of (a', b', c', d', e', f', g', h') \<Rightarrow>
        (a + a', b + b', c + c', d + d', e + e', f + f', g + g', h + h'))"

text \<open>Big-endian words of bytes; a byte is a word below 256.\<close>

fun be_words :: "w32 list \<Rightarrow> w32 list" where
  "be_words (a # b # c # d # bs) =
     (push_bit 24 a OR push_bit 16 b OR push_bit 8 c OR d) # be_words bs"
| "be_words _ = []"

text \<open>The padding: the bit 1, zeros, and the length in bits as eight bytes (a string has less than
  \<open>2^29\<close> bytes, so the four leading ones are 0).\<close>

definition sha_pad :: "w32 list \<Rightarrow> w32 list" where
  "sha_pad bs =
     (let n = length bs; bits = push_bit 3 (word_of_nat n) in
      bs @ [128] @ replicate ((119 - n mod 64) mod 64) 0 @ [0, 0, 0, 0] @
      map (\<lambda>i. drop_bit i bits AND 255) [24, 16, 8, 0])"

function sha_blocks :: "w32 list \<Rightarrow> sha_state \<Rightarrow> sha_state" where
  "sha_blocks ws st =
     (if length ws < 16 then st
      else sha_blocks (drop 16 ws) (sha_add st (sha_rounds sha_K (take 16 ws) st)))"
  by pat_completeness auto
termination by (relation "measure (\<lambda>(ws, st). length ws)") auto

definition hex_digit :: "w32 \<Rightarrow> char" where
  "hex_digit w = ''0123456789abcdef'' ! unat (w AND 15)"

definition word_hex :: "w32 \<Rightarrow> string" where
  "word_hex w = map (\<lambda>i. hex_digit (drop_bit i w)) [28, 24, 20, 16, 12, 8, 4, 0]"

definition state_hex :: "sha_state \<Rightarrow> string" where
  "state_hex st = (case st of (a, b, c, d, e, f, g, h) \<Rightarrow> concat (map word_hex [a, b, c, d, e, f, g, h]))"

definition sha256_hex :: "string \<Rightarrow> string" where
  "sha256_hex s = state_hex (sha_blocks (be_words (sha_pad (map of_char s))) sha_init)"

declare sha_blocks.simps [simp del]

lemma sha256_hex_length [simp]: "length (sha256_hex s) = 64"
  by (simp add: sha256_hex_def state_hex_def word_hex_def split: prod.splits)

end
