(* ===== verification/Aks.thy ===== *)
theory Aks
  imports AksData DriverUtil Polling Sha256 DriverState
begin

text \<open>
  The Azure driver (\<open>drivers/aks/aks_driver.go\<close>). Azure's client library, the parser of SSH keys, the
  YAML library and the JSON form of the driver's state are parameters: the records \<open>az_api\<close> and
  \<open>aks_env\<close>. Handlers are computations over the state of the cloud, as in the Google driver; \<open>deref\<close>
  panics where the code dereferences a nil pointer. Lemmas: what the validation accepts, names and
  their lengths, the numbers sent to Azure, and how the waiting loop of \<open>createOrUpdate\<close> ends.
\<close>

section \<open>Data\<close>

record aks_state =
  as_SubscriptionID :: string
  as_ResourceGroup :: string
  as_Name :: string
  as_AzureADClientAppID :: string
  as_AzureADServerAppID :: string
  as_AzureADServerAppSecret :: string
  as_AzureADTenantID :: string
  as_AddonEnableHTTPApplicationRouting :: bool
  as_AddonEnableMonitoring :: bool
  as_LogAnalyticsWorkspaceResourceGroup :: string
  as_LogAnalyticsWorkspace :: string
  as_AgentCount :: int64
  as_AgentMaxPods :: int64
  as_AgentName :: string
  as_AgentOsdiskSizeGB :: int64
  as_AgentVMSize :: string
  as_LoadBalancerSku :: string
  as_VirtualNetworkResourceGroup :: string
  as_VirtualNetwork :: string
  as_Subnet :: string
  as_LinuxAdminUsername :: string
  as_LinuxSSHPublicKeyContents :: string
  as_NetworkDNSServiceIP :: string
  as_NetworkDockerBridgeCIDR :: string
  as_NetworkPlugin :: string
  as_NetworkPolicy :: string
  as_NetworkPodCIDR :: string
  as_NetworkServiceCIDR :: string
  as_Location :: string
  as_DNSPrefix :: string
  as_KubernetesVersion :: string
  as_Tags :: "string \<rightharpoonup> string"
  as_BaseURL :: string
  as_AuthBaseURL :: string
  as_ClientID :: string
  as_ClientSecret :: string
  as_TenantID :: string
  as_DisplayName :: string

definition aks_capabilities :: capabilities where
  "aks_capabilities =
     AddCapability (cap_num SetClusterSizeCapability)
       (AddCapability (cap_num GetClusterSizeCapability)
         (AddCapability (cap_num SetVersionCapability)
           (AddCapability (cap_num GetVersionCapability) Map.empty)))"

section \<open>Options\<close>

text \<open>\<open>k=v\<close> entries; entries without exactly one \<open>=\<close> are skipped.\<close>

definition tag_map :: "string list \<Rightarrow> (string \<rightharpoonup> string)" where
  "tag_map parts =
     fold (\<lambda>part m. case split_on (CHR ''='') part of [k, v] \<Rightarrow> m(k \<mapsto> v) | _ \<Rightarrow> m) parts Map.empty"

definition aks_read_opts :: "driver_options \<Rightarrow> aks_state" where
  "aks_read_opts opts = \<lparr>
     as_SubscriptionID = opt_str opts [''subscription-id'', ''subscriptionId''],
     as_ResourceGroup = opt_str opts [''resource-group'', ''resourceGroup''],
     as_Name = opt_str opts [''name''],
     as_AzureADClientAppID = opt_str opts [''aad-client-app-id'', ''addClientAppId''],
     as_AzureADServerAppID = opt_str opts [''aad-server-app-id'', ''addServerAppId''],
     as_AzureADServerAppSecret = opt_str opts [''aad-server-app-secret'', ''addServerAppSecret''],
     as_AzureADTenantID = opt_str opts [''aad-tenant-id'', ''addTenantId''],
     as_AddonEnableHTTPApplicationRouting =
       opt_bool opts [''enable-http-application-routing'', ''enableHttpApplicationRouting''],
     as_AddonEnableMonitoring = opt_bool opts [''enable-monitoring'', ''enableMonitoring''],
     as_LogAnalyticsWorkspaceResourceGroup =
       opt_str opts [''log-analytics-workspace-resource-group'', ''logAnalyticsWorkspaceResourceGroup''],
     as_LogAnalyticsWorkspace = opt_str opts [''log-analytics-workspace'', ''logAnalyticsWorkspace''],
     as_AgentCount = opt_int opts [''count''],
     as_AgentMaxPods = opt_int opts [''max-pods'', ''maxPods''],
     as_AgentName = opt_str opts [''agent-pool-name'', ''agentPoolName''],
     as_AgentOsdiskSizeGB = opt_int opts [''agent-osdisk-size'', ''agentOsdiskSize'', ''os-disk-size'', ''osDiskSizeGb''],
     as_AgentVMSize = opt_str opts [''agent-vm-size'', ''agentVmSize''],
     as_LoadBalancerSku = opt_str opts [''load-balancer-sku'', ''loadBalancerSku''],
     as_VirtualNetworkResourceGroup = opt_str opts [''virtual-network-resource-group'', ''virtualNetworkResourceGroup''],
     as_VirtualNetwork = opt_str opts [''virtual-network'', ''virtualNetwork''],
     as_Subnet = opt_str opts [''subnet''],
     as_LinuxAdminUsername = opt_str opts [''admin-username'', ''adminUsername''],
     as_LinuxSSHPublicKeyContents =
       opt_str opts [''ssh-public-key-contents'', ''sshPublicKeyContents'', ''public-key-contents'', ''publicKeyContents''],
     as_NetworkDNSServiceIP = opt_str opts [''dns-service-ip'', ''dnsServiceIp''],
     as_NetworkDockerBridgeCIDR = opt_str opts [''docker-bridge-cidr'', ''dockerBridgeCidr''],
     as_NetworkPlugin = opt_str opts [''network-plugin'', ''networkPlugin''],
     as_NetworkPolicy = opt_str opts [''network-policy'', ''networkPolicy''],
     as_NetworkPodCIDR = opt_str opts [''pod-cidr'', ''podCidr''],
     as_NetworkServiceCIDR = opt_str opts [''service-cidr'', ''serviceCidr''],
     as_Location = opt_str opts [''location''],
     as_DNSPrefix = opt_str opts [''master-dns-prefix'', ''masterDnsPrefix''],
     as_KubernetesVersion = opt_str opts [''kubernetes-version'', ''kubernetesVersion''],
     as_Tags = tag_map (opt_slice opts [''tags'']),
     as_BaseURL = opt_str opts [''base-url'', ''baseUrl''],
     as_AuthBaseURL = opt_str opts [''auth-base-url'', ''authBaseUrl''],
     as_ClientID = opt_str opts [''client-id'', ''clientId''],
     as_ClientSecret = opt_str opts [''client-secret'', ''clientSecret''],
     as_TenantID = opt_str opts [''tenant-id'', ''tenantId''],
     as_DisplayName = opt_str opts [''display-name'', ''displayName'']\<rparr>"

definition required :: "string \<Rightarrow> goerr" where
  "required what = Errorf ([CHR 0x22] @ what @ [CHR 0x22] @ '' is required'')"

text \<open>\<open>parseKey\<close> is \<open>ssh.ParseAuthorizedKey\<close>.\<close>

definition aks_validate :: "(string \<Rightarrow> goerr option) \<Rightarrow> aks_state \<Rightarrow> goerr option" where
  "aks_validate parseKey s =
     (if as_SubscriptionID s = [] then Some (required ''subscription id'')
      else if as_ResourceGroup s = [] then Some (required ''resource group'')
      else if as_Name s = [] then Some (required ''name'')
      else if as_ClientID s = [] then Some (required ''client id'')
      else if as_ClientSecret s = [] then Some (required ''client secret'')
      else if as_Location s = [] then Some (required ''location'')
      else if as_LinuxSSHPublicKeyContents s = [] then Some (required ''ssh public key contents'')
      else (case parseKey (as_LinuxSSHPublicKeyContents s) of
              None \<Rightarrow> None
            | Some e \<Rightarrow>
                (if contains (as_LinuxSSHPublicKeyContents s) ''PRIVATE''
                 then Some (Errorf (''possible private key: '' @ err_msg e))
                 else Some (Errorf (''invalid ssh key: '' @ err_msg e)))))"

definition aks_getStateFromOptions :: "(string \<Rightarrow> goerr option) \<Rightarrow> driver_options \<Rightarrow> goerr + aks_state" where
  "aks_getStateFromOptions parseKey opts =
     (let s = aks_read_opts opts in case aks_validate parseKey s of Some e \<Rightarrow> Inl e | None \<Rightarrow> Inr s)"

section \<open>Names\<close>

text \<open>A slice expression panics on a negative bound.\<close>

definition safeSlice :: "string \<Rightarrow> int \<Rightarrow> string outcome" where
  "safeSlice toSlice index =
     (let size = int (length toSlice);
          i = (if index \<ge> size then size - 1 else index) in
      if i < 0 then Panic ''slice bounds out of range'' else Ret (take (nat i) toSlice))"

definition getDefaultDNSPrefix :: "aks_state \<Rightarrow> string outcome" where
  "getDefaultDNSPrefix s =
     (case safeSlice (as_Name s) 10 of
        Panic p \<Rightarrow> Panic p
      | Ret namePart \<Rightarrow>
          (case safeSlice (as_ResourceGroup s) 16 of
             Panic p \<Rightarrow> Panic p
           | Ret groupPart \<Rightarrow>
               (case safeSlice (as_SubscriptionID s) 6 of
                  Panic p \<Rightarrow> Panic p
                | Ret subscriptionPart \<Rightarrow> Ret (namePart @ ''-'' @ groupPart @ ''-'' @ subscriptionPart))))"

definition generateUniqueLogWorkspace :: "string \<Rightarrow> string outcome" where
  "generateUniqueLogWorkspace workspaceName =
     (if length workspaceName < 46 then Panic ''slice bounds out of range''
      else Ret (take 46 workspaceName @ ''-'' @ take 16 (sha256_hex workspaceName)))"

definition hasCustomVirtualNetwork :: "aks_state \<Rightarrow> bool" where
  "hasCustomVirtualNetwork s \<longleftrightarrow> as_VirtualNetwork s \<noteq> [] \<and> as_Subnet s \<noteq> []"
definition hasAzureActiveDirectoryProfile :: "aks_state \<Rightarrow> bool" where
  "hasAzureActiveDirectoryProfile s \<longleftrightarrow>
     as_AzureADClientAppID s \<noteq> [] \<and> as_AzureADServerAppID s \<noteq> [] \<and> as_AzureADServerAppSecret s \<noteq> []"
definition hasAgentPoolProfile :: "aks_state \<Rightarrow> bool" where
  "hasAgentPoolProfile s \<longleftrightarrow> as_AgentName s \<noteq> []"
definition hasLinuxProfile :: "aks_state \<Rightarrow> bool" where
  "hasLinuxProfile s \<longleftrightarrow> as_LinuxAdminUsername s \<noteq> [] \<and> as_LinuxSSHPublicKeyContents s \<noteq> []"
definition hasHTTPApplicationRoutingSupport :: "aks_state \<Rightarrow> bool" where
  "hasHTTPApplicationRoutingSupport s \<longleftrightarrow> \<not> has_prefix (as_Location s) ''china''"

section \<open>The cloud\<close>

record aad_profile =
  aad_ClientAppID :: string
  aad_ServerAppID :: string
  aad_ServerAppSecret :: "string option"
  aad_TenantID :: "string option"

record addon_profile =
  ad_Enabled :: bool
  ad_Config :: "string \<rightharpoonup> string"

record agent_pool =
  ap_Count :: "int32 option"
  ap_MaxPods :: "int32 option"
  ap_Name :: string
  ap_OsDiskSizeGB :: "int32 option"
  ap_OsType :: string
  ap_VMSize :: string
  ap_VnetSubnetID :: "string option"

record network_profile =
  nw_DNSServiceIP :: "string option"
  nw_DockerBridgeCidr :: "string option"
  nw_ServiceCidr :: "string option"
  nw_PodCidr :: "string option"
  nw_NetworkPlugin :: string
  nw_NetworkPolicy :: string
  nw_LoadBalancerSku :: string

record managed_cluster =
  mc_Location :: string
  mc_Tags :: "string \<rightharpoonup> string"
  mc_KubernetesVersion :: "string option"
  mc_DNSPrefix :: string
  mc_AadProfile :: "aad_profile option"
  mc_AddonProfiles :: "string \<rightharpoonup> addon_profile"
  mc_AgentPoolProfiles :: "agent_pool list option"
  mc_LinuxProfile :: "(string \<times> string) option"
  mc_NetworkProfile :: network_profile
  mc_ServicePrincipal :: "string \<times> string"
  mc_EnableRBAC :: "bool option"
  mc_ProvisioningState :: "string option"

text \<open>An authorizer is the settings it was made from; a client is an authorizer, a base URL and a
  subscription.\<close>

record authorizer =
  au_AuthBaseURL :: string
  au_TenantID :: string
  au_ClientID :: string
  au_ClientSecret :: string
  au_BaseURL :: string

record az_client =
  cl_Authorizer :: authorizer
  cl_BaseURL :: string
  cl_SubscriptionID :: string

text \<open>The kubeconfig that Azure returns: version, and per cluster the server and its CA, per user the
  certificate, the key and the token.\<close>

record aks_kubeconfig =
  kc_APIVersion :: string
  kc_Clusters :: "(string \<times> string) list"
  kc_Users :: "(string \<times> string \<times> string) list"

record 'g az_api =
  az_NewOAuthConfig :: "string \<Rightarrow> string \<Rightarrow> goerr option"
  az_NewServicePrincipalToken :: "authorizer \<Rightarrow> goerr option"
  az_CheckExistence :: "az_client \<Rightarrow> string \<Rightarrow> 'g \<Rightarrow> (goerr + nat) \<times> 'g"
  az_CreateGroup :: "az_client \<Rightarrow> string \<Rightarrow> string \<Rightarrow> 'g \<Rightarrow> goerr option \<times> 'g"
  az_WorkspaceGet :: "az_client \<Rightarrow> string \<Rightarrow> string \<Rightarrow> 'g \<Rightarrow> (goerr + string option) \<times> 'g"
  az_WorkspaceCreate :: "az_client \<Rightarrow> string \<Rightarrow> string \<Rightarrow> string \<Rightarrow> 'g \<Rightarrow> goerr option \<times> 'g"
  az_WorkspaceResult :: "az_client \<Rightarrow> string \<Rightarrow> string \<Rightarrow> 'g \<Rightarrow> (goerr + string option) \<times> 'g"
  az_CreateOrUpdate :: "az_client \<Rightarrow> string \<Rightarrow> string \<Rightarrow> managed_cluster \<Rightarrow> 'g \<Rightarrow> goerr option \<times> 'g"
  az_Get :: "az_client \<Rightarrow> string \<Rightarrow> string \<Rightarrow> 'g \<Rightarrow> (goerr + managed_cluster) \<times> 'g"
  az_GetAccessProfile :: "az_client \<Rightarrow> string \<Rightarrow> string \<Rightarrow> 'g \<Rightarrow> (goerr + string option) \<times> 'g"
  az_Delete :: "az_client \<Rightarrow> string \<Rightarrow> string \<Rightarrow> 'g \<Rightarrow> goerr option \<times> 'g"
  az_NewForConfig :: "string \<Rightarrow> string \<Rightarrow> string \<Rightarrow> string \<Rightarrow> goerr + 'g clientset"

record 'g aks_env =
  ae_api :: "'g az_api"
  ae_ParseAuthorizedKey :: "string \<Rightarrow> goerr option"
  ae_Marshal :: "aks_state \<Rightarrow> goerr + string"
  ae_Unmarshal :: "string \<Rightarrow> goerr + aks_state"
  ae_yaml :: "string \<Rightarrow> goerr + aks_kubeconfig"

definition az_ResourceManagerEndpoint :: string where
  "az_ResourceManagerEndpoint = ''https://management.azure.com/''"
definition az_ActiveDirectoryEndpoint :: string where
  "az_ActiveDirectoryEndpoint = ''https://login.microsoftonline.com/''"

section \<open>Clients\<close>

definition base_url :: "aks_state \<Rightarrow> string" where
  "base_url s = (if as_BaseURL s = [] then az_ResourceManagerEndpoint else as_BaseURL s)"

definition newClientAuthorizer :: "'g az_api \<Rightarrow> aks_state \<Rightarrow> goerr + authorizer" where
  "newClientAuthorizer api s =
     (let authBaseURL = (if as_AuthBaseURL s = [] then az_ActiveDirectoryEndpoint else as_AuthBaseURL s);
          a = \<lparr>au_AuthBaseURL = authBaseURL, au_TenantID = as_TenantID s, au_ClientID = as_ClientID s,
               au_ClientSecret = as_ClientSecret s, au_BaseURL = base_url s\<rparr> in
      case az_NewOAuthConfig api authBaseURL (as_TenantID s) of
        Some e \<Rightarrow> Inl e
      | None \<Rightarrow> (case az_NewServicePrincipalToken api a of Some e \<Rightarrow> Inl e | None \<Rightarrow> Inr a))"

text \<open>The three clients are built in the same way; a nil authorizer is made from the state.\<close>

definition newClient :: "'g az_api \<Rightarrow> authorizer option \<Rightarrow> aks_state \<Rightarrow> goerr + az_client" where
  "newClient api auth s =
     (case (case auth of Some a \<Rightarrow> Inr a | None \<Rightarrow> newClientAuthorizer api s) of
        Inl e \<Rightarrow> Inl e
      | Inr a \<Rightarrow> Inr \<lparr>cl_Authorizer = a, cl_BaseURL = base_url s, cl_SubscriptionID = as_SubscriptionID s\<rparr>)"

definition newClustersClient :: "'g az_api \<Rightarrow> authorizer option \<Rightarrow> aks_state \<Rightarrow> goerr + az_client" where
  "newClustersClient api auth s = newClient api auth s"
definition newResourceGroupsClient :: "'g az_api \<Rightarrow> authorizer option \<Rightarrow> aks_state \<Rightarrow> goerr + az_client" where
  "newResourceGroupsClient api auth s = newClient api auth s"
definition newOperationInsightsWorkspaceClient :: "'g az_api \<Rightarrow> authorizer option \<Rightarrow> aks_state \<Rightarrow> goerr + az_client" where
  "newOperationInsightsWorkspaceClient api auth s = newClient api auth s"

section \<open>The request\<close>

definition aks_tags :: "aks_state \<Rightarrow> (string \<rightharpoonup> string)" where
  "aks_tags s =
     (\<lambda>k. case as_Tags s k of Some v \<Rightarrow> (if v \<noteq> [] then Some v else None) | None \<Rightarrow> None)
       (''displayName'' \<mapsto> (if as_DisplayName s = [] then as_Name s else as_DisplayName s))"

definition aks_aad :: "aks_state \<Rightarrow> aad_profile option" where
  "aks_aad s =
     (if hasAzureActiveDirectoryProfile s
      then Some \<lparr>aad_ClientAppID = as_AzureADClientAppID s, aad_ServerAppID = as_AzureADServerAppID s,
             aad_ServerAppSecret = (if as_AzureADServerAppSecret s \<noteq> [] then Some (as_AzureADServerAppSecret s) else None),
             aad_TenantID = (if as_AzureADTenantID s \<noteq> [] then Some (as_AzureADTenantID s) else None)\<rparr>
      else None)"

text \<open>\<open>workspace\<close> is the resource id of the workspace when monitoring is enabled.\<close>

definition trim_suffix :: "string \<Rightarrow> string \<Rightarrow> string" where
  "trim_suffix s p = (if has_suffix s p then take (length s - length p) s else s)"

definition aks_addons :: "aks_state \<Rightarrow> string option \<Rightarrow> (string \<rightharpoonup> addon_profile)" where
  "aks_addons s workspace =
     (let config = (case workspace of
            None \<Rightarrow> Map.empty
          | Some w \<Rightarrow>
              (let w' = (if has_prefix w ''/'' then w else ''/'' @ w) in
               [''logAnalyticsWorkspaceResourceID'' \<mapsto> trim_suffix w' ''/'']));
          m = [''omsagent'' \<mapsto> \<lparr>ad_Enabled = as_AddonEnableMonitoring s, ad_Config = config\<rparr>,
               ''httpApplicationRouting'' \<mapsto>
                 \<lparr>ad_Enabled = as_AddonEnableHTTPApplicationRouting s, ad_Config = Map.empty\<rparr>] in
      if hasHTTPApplicationRoutingSupport s then m else m(''httpApplicationRouting'' := None))"

definition aks_subnet_id :: "aks_state \<Rightarrow> string option" where
  "aks_subnet_id s =
     (if hasCustomVirtualNetwork s
      then Some (''/subscriptions/'' @ as_SubscriptionID s @ ''/resourceGroups/'' @
             (if as_VirtualNetworkResourceGroup s \<noteq> [] then as_VirtualNetworkResourceGroup s else as_ResourceGroup s) @
             ''/providers/Microsoft.Network/virtualNetworks/'' @ as_VirtualNetwork s @ ''/subnets/'' @ as_Subnet s)
      else None)"

definition aks_network :: "aks_state \<Rightarrow> bool \<Rightarrow> network_profile" where
  "aks_network s isCreate =
     (let plugin = (if as_NetworkPlugin s = [] then ''azure'' else as_NetworkPlugin s);
          sku = (if isCreate \<and> as_LoadBalancerSku s = ''standard'' then as_LoadBalancerSku s else []) in
      if hasCustomVirtualNetwork s
      then \<lparr>nw_DNSServiceIP = Some (as_NetworkDNSServiceIP s), nw_DockerBridgeCidr = Some (as_NetworkDockerBridgeCIDR s),
            nw_ServiceCidr = Some (as_NetworkServiceCIDR s),
            nw_PodCidr = (if plugin = ''kubenet'' then Some (as_NetworkPodCIDR s) else None),
            nw_NetworkPlugin = plugin, nw_NetworkPolicy = as_NetworkPolicy s, nw_LoadBalancerSku = sku\<rparr>
      else \<lparr>nw_DNSServiceIP = None, nw_DockerBridgeCidr = None, nw_ServiceCidr = None, nw_PodCidr = None,
            nw_NetworkPlugin = [], nw_NetworkPolicy = [], nw_LoadBalancerSku = sku\<rparr>)"

text \<open>\<open>int32(x)\<close> keeps the low 32 bits.\<close>

definition to_int32 :: "int64 \<Rightarrow> int32" where
  "to_int32 x = ucast x"

definition aks_agent_pools :: "aks_state \<Rightarrow> agent_pool list option" where
  "aks_agent_pools s =
     (if hasAgentPoolProfile s
      then Some [\<lparr>ap_Count = Some (if sint (as_AgentCount s) > 0 then to_int32 (as_AgentCount s) else 1),
             ap_MaxPods = Some (if sint (as_AgentMaxPods s) > 0 then to_int32 (as_AgentMaxPods s) else 110),
             ap_Name = as_AgentName s,
             ap_OsDiskSizeGB = (if sint (as_AgentOsdiskSizeGB s) > 0 then Some (to_int32 (as_AgentOsdiskSizeGB s)) else None),
             ap_OsType = ''Linux'',
             ap_VMSize = (if as_AgentVMSize s \<noteq> [] then as_AgentVMSize s else ''Standard_D1_v2''),
             ap_VnetSubnetID = aks_subnet_id s\<rparr>]
      else None)"

definition aks_managed_cluster :: "aks_state \<Rightarrow> bool \<Rightarrow> string \<Rightarrow> string option \<Rightarrow> managed_cluster" where
  "aks_managed_cluster s isCreate masterDNSPrefix workspace = \<lparr>
     mc_Location = as_Location s, mc_Tags = aks_tags s,
     mc_KubernetesVersion = Some (as_KubernetesVersion s), mc_DNSPrefix = masterDNSPrefix,
     mc_AadProfile = aks_aad s, mc_AddonProfiles = aks_addons s workspace,
     mc_AgentPoolProfiles = aks_agent_pools s,
     mc_LinuxProfile = (if hasLinuxProfile s then Some (as_LinuxAdminUsername s, as_LinuxSSHPublicKeyContents s) else None),
     mc_NetworkProfile = aks_network s isCreate,
     mc_ServicePrincipal = (as_ClientID s, as_ClientSecret s),
     mc_EnableRBAC = (if isCreate then Some True else None), mc_ProvisioningState = None\<rparr>"

section \<open>Steps\<close>

definition resourceGroupExists :: "'g az_api \<Rightarrow> az_client \<Rightarrow> string \<Rightarrow> (bool, 'g) run" where
  "resourceGroupExists api cl groupName =
     gbind (gwrap (''error getting Resource Group '' @ [CHR 0x27] @ groupName @ [CHR 0x27] @ '': '')
       (gcall (az_CheckExistence api cl groupName))) (\<lambda>code. gret (code = 204))"

definition createResourceGroup :: "'g az_api \<Rightarrow> az_client \<Rightarrow> aks_state \<Rightarrow> (unit, 'g) run" where
  "createResourceGroup api cl s =
     gwrap (''error creating Resource Group '' @ [CHR 0x27] @ as_ResourceGroup s @ [CHR 0x27] @ '': '')
       (gdo (az_CreateGroup api cl (as_ResourceGroup s) (as_Location s)))"

definition workspace_name :: "aks_state \<Rightarrow> string \<Rightarrow> string outcome" where
  "workspace_name s regionCode =
     (let name = (if as_LogAnalyticsWorkspace s = [] then as_ResourceGroup s @ ''-'' @ regionCode
                  else as_LogAnalyticsWorkspace s) in
      if length name > 63 then generateUniqueLogWorkspace name else Ret name)"

text \<open>
  The closure given to \<open>wait.Poll\<close> never asks for another round, so it is called once, five seconds
  after the creation.
\<close>

definition ensureLogAnalyticsWorkspaceForMonitoring :: "'g az_api \<Rightarrow> az_client \<Rightarrow> aks_state \<Rightarrow> (string, 'g) run" where
  "ensureLogAnalyticsWorkspaceForMonitoring api cl s =
     (case map_of regionToOmsRegionMap (as_Location s) of
        None \<Rightarrow> gpure (Inl (Errorf (''region '' @ as_Location s @ '' not supported for Log Analytics workspace'')))
      | Some region \<Rightarrow>
          (case map_of locationToOmsRegionCodeMap region of
             None \<Rightarrow> gpure (Inl (Errorf (''region '' @ region @ '' not supported for Log Analytics workspace'')))
           | Some code \<Rightarrow>
               (let group = (if as_LogAnalyticsWorkspaceResourceGroup s = [] then as_ResourceGroup s
                             else as_LogAnalyticsWorkspaceResourceGroup s) in
                case workspace_name s code of
                  Panic p \<Rightarrow> gpanic p
                | Ret name \<Rightarrow> (\<lambda>g.
                    (case az_WorkspaceGet api cl group name g of
                       (Inr wid, g1) \<Rightarrow> deref wid g1
                     | (Inl _, g1) \<Rightarrow>
                         gbind (gdo (az_WorkspaceCreate api cl group name region)) (\<lambda>_.
                         gbind (gcall (az_WorkspaceResult api cl group name)) deref) g1)))))"

section \<open>Waiting\<close>

definition failedStatus :: string where "failedStatus = ''Failed''"
definition succeededStatus :: string where "succeededStatus = ''Succeeded''"
definition creatingStatus :: string where "creatingStatus = ''Creating''"
definition updatingStatus :: string where "updatingStatus = ''Updating''"
definition upgradingStatus :: string where "upgradingStatus = ''Upgrading''"

text \<open>One round of the loop at the end of \<open>createOrUpdate\<close>; \<open>failedCount\<close> is part of the loop's state.\<close>

definition aks_poll :: "'g az_api \<Rightarrow> az_client \<Rightarrow> aks_state \<Rightarrow> nat \<times> 'g \<Rightarrow> (goerr + unit) outcome option \<times> nat \<times> 'g" where
  "aks_poll api cl s = (\<lambda>(failedCount, g).
     (case az_Get api cl (as_ResourceGroup s) (as_Name s) g of
        (Inl e, g') \<Rightarrow> (Some (Ret (Inl e)), failedCount, g')
      | (Inr c, g') \<Rightarrow>
          (case mc_ProvisioningState c of
             None \<Rightarrow> (Some (Panic ''nil pointer dereference''), failedCount, g')
           | Some state \<Rightarrow>
               (if state = failedStatus \<and> failedCount > 3
                then (Some (Ret (Inl (Errorf (''cluster create has completed with status of '' @
                        [CHR 0x27] @ ''Failed'' @ [CHR 0x27])))), failedCount, g')
                else (let failedCount' = (if state = failedStatus then failedCount + 1 else failedCount) in
                      if state = succeededStatus then (Some (Ret (Inr ())), failedCount', g')
                      else if state \<noteq> creatingStatus \<and> state \<noteq> updatingStatus \<and> state \<noteq> upgradingStatus
                      then (Some (Ret (Inl (Errorf ''failed to provision Azure cluster''))), failedCount', g')
                      else (None, failedCount', g'))))))"

definition aks_wait :: "'g az_api \<Rightarrow> az_client \<Rightarrow> aks_state \<Rightarrow> (unit, 'g) run" where
  "aks_wait api cl s = (\<lambda>g.
     (case poll_until (aks_poll api cl s) (0, g) of
        None \<Rightarrow> None | Some (r, failedCount, g') \<Rightarrow> Some (r, g')))"

section \<open>Handlers\<close>

definition aks_storeState :: "'g aks_env \<Rightarrow> cluster_info \<Rightarrow> aks_state \<Rightarrow> goerr + cluster_info" where
  "aks_storeState ae info s =
     (case ae_Marshal ae s of
        Inl e \<Rightarrow> Inl e
      | Inr data \<Rightarrow>
          Inr (info\<lparr>ci_Metadata := gm_put ''location'' (as_Location s) (gm_put ''resource-group'' (as_ResourceGroup s)
            (gm_put ''state'' data (ci_Metadata info)))\<rparr>))"

definition aks_getState :: "'g aks_env \<Rightarrow> cluster_info \<Rightarrow> goerr + aks_state" where
  "aks_getState ae info = ae_Unmarshal ae (gm_str (ci_Metadata info) ''state'')"

definition aks_provision :: "'g aks_env \<Rightarrow> aks_state \<Rightarrow> bool \<Rightarrow> (unit, 'g) run" where
  "aks_provision ae s isCreate = (let api = ae_api ae in
     gbind (gpure (newClientAuthorizer api s)) (\<lambda>auth.
     gbind (gpure (newClustersClient api (Some auth) s)) (\<lambda>clusters.
     gbind (gpure (newResourceGroupsClient api (Some auth) s)) (\<lambda>groups.
     gbind (gpure (newOperationInsightsWorkspaceClient api (Some auth) s)) (\<lambda>workspaces.
     gbind (if as_DNSPrefix s \<noteq> [] then gret (as_DNSPrefix s)
            else (case getDefaultDNSPrefix s of Panic p \<Rightarrow> gpanic p | Ret p \<Rightarrow> gret (p @ ''-master''))) (\<lambda>masterDNSPrefix.
     gbind (resourceGroupExists api groups (as_ResourceGroup s)) (\<lambda>ex.
     gbind (if ex then gret () else createResourceGroup api groups s) (\<lambda>_.
     gbind (if as_AddonEnableMonitoring s
            then gbind (ensureLogAnalyticsWorkspaceForMonitoring api workspaces s) (\<lambda>w. gret (Some w))
            else gret None) (\<lambda>workspace.
     gbind (gdo (az_CreateOrUpdate api clusters (as_ResourceGroup s) (as_Name s)
              (aks_managed_cluster s isCreate masterDNSPrefix workspace))) (\<lambda>_.
     aks_wait api clusters s))))))))))"

definition createOrUpdate :: "'g aks_env \<Rightarrow> driver_options \<Rightarrow> bool \<Rightarrow> 'g
    \<Rightarrow> ((cluster_info option \<times> goerr option) outcome \<times> 'g) option" where
  "createOrUpdate ae opts isCreate g =
     (case aks_getStateFromOptions (ae_ParseAuthorizedKey ae) opts of
        Inl e \<Rightarrow> Some (Ret (None, Some e), g)
      | Inr s \<Rightarrow>
          (case aks_storeState ae empty_info s of
             Inl e \<Rightarrow> Some (Ret (Some empty_info, Some e), g)
           | Inr info \<Rightarrow>
               (case aks_provision ae s isCreate g of
                  None \<Rightarrow> None
                | Some (Ret (Inl e), g') \<Rightarrow> Some (Ret (Some info, Some e), g')
                | Some (Ret (Inr _), g') \<Rightarrow>
                    (case aks_storeState ae empty_info s of
                       Inl e \<Rightarrow> Some (Ret (Some empty_info, Some e), g')
                     | Inr info' \<Rightarrow> Some (Ret (Some info', None), g'))
                | Some (Panic p, g') \<Rightarrow> Some (Panic p, g'))))"

definition aks_Create where "aks_Create ae opts g = createOrUpdate ae opts True g"
definition aks_Update where "aks_Update ae (info :: cluster_info) opts g = createOrUpdate ae opts False g"

text \<open>The frame of the remaining handlers: the stored state and a client made from it.\<close>

definition with_client :: "'g aks_env \<Rightarrow> cluster_info \<Rightarrow> (aks_state \<Rightarrow> az_client \<Rightarrow> ('a, 'g) run) \<Rightarrow> ('a, 'g) run" where
  "with_client ae info body =
     gbind (gpure (aks_getState ae info)) (\<lambda>s.
     gbind (gpure (newClustersClient (ae_api ae) None s)) (body s))"

definition get_info :: "'g aks_env \<Rightarrow> aks_state \<Rightarrow> az_client \<Rightarrow> (managed_cluster, 'g) run" where
  "get_info ae s cl = gwrap ''error getting cluster info: '' (gcall (az_Get (ae_api ae) cl (as_ResourceGroup s) (as_Name s)))"

definition first_agent_pool :: "managed_cluster \<Rightarrow> (agent_pool \<times> agent_pool list, 'g) run" where
  "first_agent_pool c =
     gbind (deref (mc_AgentPoolProfiles c)) (\<lambda>pools.
       case pools of [] \<Rightarrow> gpanic ''index out of range'' | p # ps \<Rightarrow> gret (p, ps))"

definition aks_GetVersion :: "'g aks_env \<Rightarrow> cluster_info \<Rightarrow> (string, 'g) run" where
  "aks_GetVersion ae info =
     with_client ae info (\<lambda>s cl. gbind (get_info ae s cl) (\<lambda>c. deref (mc_KubernetesVersion c)))"

definition aks_SetVersion :: "'g aks_env \<Rightarrow> cluster_info \<Rightarrow> string \<Rightarrow> (unit, 'g) run" where
  "aks_SetVersion ae info version =
     with_client ae info (\<lambda>s cl. gbind (get_info ae s cl) (\<lambda>c.
       gwrap ''error updating kubernetes version: '' (gdo (az_CreateOrUpdate (ae_api ae) cl (as_ResourceGroup s) (as_Name s)
         (c\<lparr>mc_KubernetesVersion := Some version\<rparr>)))))"

definition aks_GetClusterSize :: "'g aks_env \<Rightarrow> cluster_info \<Rightarrow> (int64, 'g) run" where
  "aks_GetClusterSize ae info =
     with_client ae info (\<lambda>s cl. gbind (get_info ae s cl) (\<lambda>c.
       gbind (first_agent_pool c) (\<lambda>(p, _). gbind (deref (ap_Count p)) (\<lambda>n. gret (scast n)))))"

definition aks_SetClusterSize :: "'g aks_env \<Rightarrow> cluster_info \<Rightarrow> int64 \<Rightarrow> (unit, 'g) run" where
  "aks_SetClusterSize ae info nodes =
     with_client ae info (\<lambda>s cl. gbind (get_info ae s cl) (\<lambda>c.
       gbind (first_agent_pool c) (\<lambda>(p, ps).
       gwrap ''error updating cluster size: '' (gdo (az_CreateOrUpdate (ae_api ae) cl (as_ResourceGroup s) (as_Name s)
         (c\<lparr>mc_AgentPoolProfiles := Some (p\<lparr>ap_Count := Some (to_int32 nodes)\<rparr> # ps)\<rparr>))))))"

definition dec_b64 :: "string \<Rightarrow> string \<Rightarrow> (string, 'g) run" where
  "dec_b64 what data =
     (case base64_decode data of
        None \<Rightarrow> gpure (Inl (Errorf (''failed to decode '' @ what @ '': illegal base64 data''))) | Some x \<Rightarrow> gret x)"

text \<open>\<open>getClientset\<close> also fills in the info; the filled-in info is its second result.\<close>

definition aks_getClientset :: "'g aks_env \<Rightarrow> cluster_info \<Rightarrow> ('g clientset \<times> cluster_info, 'g) run" where
  "aks_getClientset ae info =
     with_client ae info (\<lambda>s cl.
     gbind (gcall (az_GetAccessProfile (ae_api ae) cl (as_ResourceGroup s) (as_Name s))) (\<lambda>kc.
     gbind (deref kc) (\<lambda>raw.
     gbind (gwrap ''failed to unmarshal kubeconfig: '' (gpure (ae_yaml ae raw))) (\<lambda>config.
       (case (kc_Clusters config, kc_Users config) of
          ((server, ca) # _, (cert, key, token) # _) \<Rightarrow>
            (let info' = info\<lparr>ci_Version := kc_APIVersion config, ci_Endpoint := server, ci_Password := token,
                   ci_RootCaCertificate := ca, ci_ClientCertificate := cert, ci_ClientKey := key\<rparr>;
                 host = (if has_prefix server ''https://'' then server else ''https://'' @ server) in
             gbind (dec_b64 ''CA'' ca) (\<lambda>capem.
             gbind (dec_b64 ''client key'' key) (\<lambda>keypem.
             gbind (dec_b64 ''client cert'' cert) (\<lambda>certpem.
             gbind (gwrap ''error creating clientset: '' (gpure (az_NewForConfig (ae_api ae) host capem keypem certpem))) (\<lambda>cs.
             gret (cs, info'))))))
        | _ \<Rightarrow> gpanic ''index out of range'')))))"

text \<open>The token is generated with up to \<open>retries = 5\<close> further attempts, 30 seconds apart. The result, the
  state, and the number of attempts.\<close>

fun aks_token :: "'g clientset \<Rightarrow> nat \<Rightarrow> 'g \<Rightarrow> (goerr + string) \<times> 'g \<times> nat" where
  "aks_token cs left g =
     (case GenerateServiceAccountToken cs g of
        (Inr token, g', _) \<Rightarrow> (Inr token, g', 1)
      | (Inl e, g', _) \<Rightarrow>
          (case left of
             0 \<Rightarrow> (Inl e, g', 1)
           | Suc l \<Rightarrow> (case aks_token cs l g' of (r, g'', n) \<Rightarrow> (r, g'', Suc n))))"

definition aks_PostCheck :: "'g aks_env \<Rightarrow> cluster_info \<Rightarrow> (cluster_info, 'g) run" where
  "aks_PostCheck ae info =
     gbind (aks_getClientset ae info) (\<lambda>(cs, info').
     gbind (gcall (\<lambda>g. case aks_token cs 5 g of (r, g', _) \<Rightarrow> (r, g'))) (\<lambda>token.
     gret (info'\<lparr>ci_ServiceAccountToken := token\<rparr>)))"

definition aks_Remove :: "'g aks_env \<Rightarrow> cluster_info \<Rightarrow> (unit, 'g) run" where
  "aks_Remove ae info =
     with_client ae info (\<lambda>s cl. gdo (az_Delete (ae_api ae) cl (as_ResourceGroup s) (as_Name s)))"

definition aks_RemoveLegacyServiceAccount :: "'g aks_env \<Rightarrow> cluster_info \<Rightarrow> (unit, 'g) run" where
  "aks_RemoveLegacyServiceAccount ae info =
     gbind (aks_getClientset ae info) (\<lambda>(cs, _). gdo (DeleteLegacyServiceAccountAndRoleBinding cs))"

definition aks_GetK8SCapabilities :: k8s_capabilities where
  "aks_GetK8SCapabilities = \<lparr>k8s_L4LoadBalancer = Some \<lparr>lb_Enabled = True, lb_Provider = ''Azure L4 LB'',
       lb_ProtocolsSupported = [''TCP'', ''UDP''], lb_HealthCheckSupported = True\<rparr>,
     k8s_IngressControllers = [], k8s_NodePoolScalingSupported = False, k8s_NodePortRange = []\<rparr>"

definition aks_ETCDSave :: "(unit, 'g) run" where
  "aks_ETCDSave = gpure (Inl etcd_unsupported)"
definition aks_ETCDRestore :: "(cluster_info, 'g) run" where
  "aks_ETCDRestore = gpure (Inl etcd_unsupported)"
definition aks_ETCDRemoveSnapshot :: "(unit, 'g) run" where
  "aks_ETCDRemoveSnapshot = gpure (Inl etcd_unsupported)"

section \<open>Lemmas\<close>

interpretation aks: driver_state "ae_Marshal ae" "ae_Unmarshal ae" "aks_storeState ae" "aks_getState ae"
  by unfold_locales (auto simp: aks_storeState_def aks_getState_def)

lemma aks_accepted:
  "aks_getStateFromOptions parseKey opts = Inr s \<longleftrightarrow> s = aks_read_opts opts \<and> aks_validate parseKey s = None"
  by (auto simp: aks_getStateFromOptions_def Let_def split: option.splits)

lemma aks_validate_None:
  "aks_validate parseKey s = None \<longleftrightarrow>
     as_SubscriptionID s \<noteq> [] \<and> as_ResourceGroup s \<noteq> [] \<and> as_Name s \<noteq> [] \<and> as_ClientID s \<noteq> [] \<and>
     as_ClientSecret s \<noteq> [] \<and> as_Location s \<noteq> [] \<and> as_LinuxSSHPublicKeyContents s \<noteq> [] \<and>
     parseKey (as_LinuxSSHPublicKeyContents s) = None"
  by (auto simp: aks_validate_def split: option.splits if_splits)

lemma safeSlice_cases:
  "0 \<le> i \<Longrightarrow> safeSlice s i =
     (if s = [] then Panic ''slice bounds out of range''
      else if int (length s) \<le> i then Ret (butlast s) else Ret (take (nat i) s))"
  by (cases s) (auto simp: safeSlice_def Let_def butlast_conv_take)

lemma generateUniqueLogWorkspace_length:
  "63 < length n \<Longrightarrow> \<exists>u. generateUniqueLogWorkspace n = Ret u \<and> length u = 63 \<and> take 46 u = take 46 n"
  by (auto simp: generateUniqueLogWorkspace_def)

lemma to_int32_low: "to_int32 x = word_of_int (sint x mod 2 ^ 32)"
proof -
  have "to_int32 x = word_of_int (take_bit 32 (sint x))"
    unfolding to_int32_def by transfer (simp add: take_bit_signed_take_bit)
  then show ?thesis by (simp add: take_bit_eq_mod)
qed

lemma sint_low: "1 \<le> k \<Longrightarrow> k < 2 ^ 31 \<Longrightarrow> sint (word_of_int (k mod 2 ^ 32) :: int32) = k"
  by (simp add: signed_of_int signed_take_bit_int_eq_self)

lemma to_int32_fits: "1 \<le> sint x \<Longrightarrow> sint x < 2 ^ 31 \<Longrightarrow> sint (to_int32 x) = sint x"
  by (simp only: to_int32_low sint_low)

text \<open>The states of the cloud seen by the waiting loop, and the statuses that keep it waiting.\<close>

definition az_after :: "'g az_api \<Rightarrow> az_client \<Rightarrow> aks_state \<Rightarrow> nat \<Rightarrow> 'g \<Rightarrow> 'g" where
  "az_after api cl s k g = ((\<lambda>g. snd (az_Get api cl (as_ResourceGroup s) (as_Name s) g)) ^^ k) g"

definition az_status :: "'g az_api \<Rightarrow> az_client \<Rightarrow> aks_state \<Rightarrow> 'g \<Rightarrow> string option" where
  "az_status api cl s g =
     (case fst (az_Get api cl (as_ResourceGroup s) (as_Name s) g) of Inl e \<Rightarrow> None | Inr c \<Rightarrow> mc_ProvisioningState c)"

definition in_progress :: "string \<Rightarrow> bool" where
  "in_progress st \<longleftrightarrow> st \<in> {creatingStatus, updatingStatus, upgradingStatus}"

lemmas status_defs = failedStatus_def succeededStatus_def creatingStatus_def updatingStatus_def upgradingStatus_def

lemma az_status_Some:
  assumes "az_status api cl s g = Some st"
  obtains c where "az_Get api cl (as_ResourceGroup s) (as_Name s) g = (Inr c, az_after api cl s 1 g)"
    and "mc_ProvisioningState c = Some st"
  using assms by (cases "az_Get api cl (as_ResourceGroup s) (as_Name s) g")
    (auto simp: az_status_def az_after_def split: sum.splits)

lemma status_distinct:
  "creatingStatus \<noteq> failedStatus" "updatingStatus \<noteq> failedStatus" "upgradingStatus \<noteq> failedStatus"
  "creatingStatus \<noteq> succeededStatus" "updatingStatus \<noteq> succeededStatus" "upgradingStatus \<noteq> succeededStatus"
  by (simp_all add: status_defs)

lemma aks_poll_progress:
  assumes "az_status api cl s g = Some st" "in_progress st"
  shows "aks_poll api cl s (n, g) = (None, n, az_after api cl s 1 g)"
  using assms(1) by (rule az_status_Some)
    (use assms(2) in \<open>auto simp: aks_poll_def in_progress_def status_distinct status_distinct(1-3)[symmetric]\<close>)

lemma aks_poll_final:
  assumes "az_status api cl s g = Some st" "\<not> in_progress st"
  shows "\<exists>n'. aks_poll api cl s (0, g) =
     (Some (Ret (if st = succeededStatus then Inr () else Inl (Errorf ''failed to provision Azure cluster''))),
      n', az_after api cl s 1 g)"
  using assms(1) by (rule az_status_Some) (use assms(2) in \<open>simp add: aks_poll_def in_progress_def Let_def\<close>)

lemma az_after_0 [simp]: "az_after api cl s 0 g = g"
  by (simp add: az_after_def)

lemma az_after_step: "az_after api cl s 1 (az_after api cl s k g) = az_after api cl s (Suc k) g"
  by (simp add: az_after_def)

lemma aks_polls_progress:
  assumes "\<forall>i<k. \<exists>st. az_status api cl s (az_after api cl s i g) = Some st \<and> in_progress st"
  shows "after_polls (aks_poll api cl s) k (0, g) = (0, az_after api cl s k g)"
  using assms
proof (induction k)
  case (Suc k)
  then have IH: "after_polls (aks_poll api cl s) k (0, g) = (0, az_after api cl s k g)" by simp
  obtain st where "az_status api cl s (az_after api cl s k g) = Some st" "in_progress st" using Suc.prems by blast
  then show ?case using az_after_step[of api cl s k g] by (simp add: after_polls_step IH aks_poll_progress)
qed simp

text \<open>Inputs for the witnesses: a cloud that reports \<open>Creating\<close> in its first state and \<open>Failed\<close> afterwards.\<close>

definition demo_aks_opts :: driver_options where
  "demo_aks_opts = \<lparr>BoolOptions = Map.empty,
     StringOptions = [''subscription-id'' \<mapsto> ''sub'', ''resource-group'' \<mapsto> ''group'', ''name'' \<mapsto> ''c'',
                      ''client-id'' \<mapsto> ''id'', ''client-secret'' \<mapsto> ''key'', ''location'' \<mapsto> ''eastus'',
                      ''ssh-public-key-contents'' \<mapsto> ''ssh-rsa AAAA'', ''agent-pool-name'' \<mapsto> ''pool''],
     IntOptions = [''count'' \<mapsto> 3], StringSliceOptions = Map.empty\<rparr>"

definition demo_aks_state :: aks_state where
  "demo_aks_state = aks_read_opts demo_aks_opts"

definition demo_az_api :: "nat az_api" where
  "demo_az_api = \<lparr>
     az_NewOAuthConfig = \<lambda>u t. None, az_NewServicePrincipalToken = \<lambda>a. None,
     az_CheckExistence = \<lambda>cl n g. (Inr 204, g), az_CreateGroup = \<lambda>cl n l g. (None, g),
     az_WorkspaceGet = \<lambda>cl gr n g. (Inr (Some ''id''), g),
     az_WorkspaceCreate = \<lambda>cl gr n l g. (None, g), az_WorkspaceResult = \<lambda>cl gr n g. (Inr (Some ''id''), g),
     az_CreateOrUpdate = \<lambda>cl gr n c g. (None, g),
     az_Get = \<lambda>cl gr n g. (Inr ((aks_managed_cluster demo_aks_state True [] None)
       \<lparr>mc_ProvisioningState := Some (if g = 0 then creatingStatus else failedStatus)\<rparr>), Suc g),
     az_GetAccessProfile = \<lambda>cl gr n g. (Inr None, g), az_Delete = \<lambda>cl gr n g. (None, 100 + g),
     az_NewForConfig = \<lambda>h ca k c. Inl (Errorf ''no cluster'')\<rparr>"

definition demo_aks_env :: "nat aks_env" where
  "demo_aks_env = \<lparr>ae_api = demo_az_api, ae_ParseAuthorizedKey = \<lambda>k. None, ae_Marshal = \<lambda>s. Inr ''{}'',
     ae_Unmarshal = \<lambda>d. Inr demo_aks_state, ae_yaml = \<lambda>y. Inl (Errorf ''yaml'')\<rparr>"

definition demo_client :: az_client where
  "demo_client = \<lparr>cl_Authorizer = \<lparr>au_AuthBaseURL = az_ActiveDirectoryEndpoint, au_TenantID = [], au_ClientID = ''id'',
     au_ClientSecret = ''key'', au_BaseURL = az_ResourceManagerEndpoint\<rparr>,
     cl_BaseURL = az_ResourceManagerEndpoint, cl_SubscriptionID = ''sub''\<rparr>"

lemmas demo_aks_defs = demo_aks_opts_def demo_aks_state_def demo_az_api_def demo_aks_env_def demo_client_def

lemma demo_env:
  "ae_api demo_aks_env = demo_az_api" "ae_ParseAuthorizedKey demo_aks_env = (\<lambda>k. None)"
  "ae_Marshal demo_aks_env s = Inr ''{}''" "ae_Unmarshal demo_aks_env d = Inr demo_aks_state"
  by (simp_all add: demo_aks_env_def)

lemma demo_aks_after: "az_after demo_az_api cl s k g = k + g"
  by (induction k) (auto simp: az_after_def demo_az_api_def)

lemma demo_aks_status:
  "az_status demo_az_api cl s g = Some (if g = 0 then creatingStatus else failedStatus)"
  by (simp add: az_status_def demo_az_api_def)

lemma demo_aks_accepted: "aks_getStateFromOptions (\<lambda>k. None) demo_aks_opts = Inr demo_aks_state"
  by (simp add: aks_accepted aks_validate_None demo_aks_state_def) (simp add: aks_read_opts_def demo_aks_opts_def)

lemma demo_aks_clients:
  "newClientAuthorizer demo_az_api demo_aks_state = Inr (cl_Authorizer demo_client)"
  "newClient demo_az_api None demo_aks_state = Inr demo_client"
  "newClient demo_az_api (Some (cl_Authorizer demo_client)) demo_aks_state = Inr demo_client"
  by (simp_all add: newClient_def newClientAuthorizer_def base_url_def demo_aks_defs aks_read_opts_def)

lemma demo_aks_steps:
  "resourceGroupExists demo_az_api cl n g = Some (Ret (Inr True), g)"
  "gdo (az_CreateOrUpdate demo_az_api cl gr n c) g = Some (Ret (Inr ()), g)"
  "\<not> as_AddonEnableMonitoring demo_aks_state" "as_DNSPrefix demo_aks_state = []"
  "getDefaultDNSPrefix demo_aks_state = Ret ''-grou-su''"
  by (simp_all add: resourceGroupExists_def gwrap_def gcall_def gbind_def gdo_def getDefaultDNSPrefix_def safeSlice_def
      demo_az_api_def demo_aks_state_def aks_read_opts_def demo_aks_opts_def)

lemma demo_aks_wait:
  "aks_wait demo_az_api cl s 0 = Some (Ret (Inl (Errorf ''failed to provision Azure cluster'')), 2)"
  by (simp add: aks_wait_def poll_until.simps aks_poll_def demo_az_api_def status_defs)

section \<open>Properties\<close>

text \<open>C31. The waiting loop of the Azure driver: while the cluster is reported as creating, updating or
  upgrading it goes on; the first other status ends it, with success for \<open>Succeeded\<close> and with an
  error for every other one. So a cluster that is reported \<open>Failed\<close> is given up at once: the
  retries that the loop counts for it never happen.\<close>

theorem aks_wait_first_final_status:
  assumes "\<forall>i<k. \<exists>st. az_status api cl s (az_after api cl s i g) = Some st \<and> in_progress st"
    and "az_status api cl s (az_after api cl s k g) = Some st" "\<not> in_progress st"
  shows "aks_wait api cl s g =
     Some (Ret (if st = succeededStatus then Inr () else Inl (Errorf ''failed to provision Azure cluster'')),
           az_after api cl s (Suc k) g)"
proof -
  let ?p = "aks_poll api cl s"
  have polls: "after_polls ?p i (0, g) = (0, az_after api cl s i g)" if "i \<le> k" for i
    by (rule aks_polls_progress) (use assms(1) that in auto)
  have "\<forall>i<k. \<not> poll_ends ?p (after_polls ?p i (0, g))"
  proof (intro allI impI)
    fix i assume "i < k"
    with assms(1) obtain st' where "az_status api cl s (az_after api cl s i g) = Some st'" "in_progress st'" by blast
    then show "\<not> poll_ends ?p (after_polls ?p i (0, g))"
      using \<open>i < k\<close> by (simp add: polls poll_ends_def aks_poll_progress)
  qed
  moreover obtain n' where last: "?p (0, az_after api cl s k g) =
      (Some (Ret (if st = succeededStatus then Inr () else Inl (Errorf ''failed to provision Azure cluster''))),
       n', az_after api cl s (Suc k) g)"
    using aks_poll_final[OF assms(2,3)] by (auto simp: az_after_step[simplified])
  ultimately have "poll_until ?p (0, g) =
      Some (Ret (if st = succeededStatus then Inr () else Inl (Errorf ''failed to provision Azure cluster'')),
        after_polls ?p (Suc k) (0, g))"
    by (intro pu.returns_after) (simp_all add: polls)
  then show ?thesis by (simp add: aks_wait_def after_polls_step polls last)
qed

theorem aks_wait_first_final_status_witness:
  "aks_wait demo_az_api demo_client demo_aks_state 0 = Some (Ret (Inl (Errorf ''failed to provision Azure cluster'')), 2)"
  using aks_wait_first_final_status[of 1 demo_az_api demo_client demo_aks_state 0 failedStatus]
  by (simp add: demo_aks_after demo_aks_status in_progress_def status_distinct status_distinct(1-3)[symmetric])
    (simp add: status_defs numeral_2_eq_2)

text \<open>C39. The name of a Log Analytics workspace is always defined and never longer than the 63 characters
  Azure allows, and every region that has a workspace region also has its code.\<close>

theorem workspace_name_fits:
  "(\<exists>name. workspace_name s code = Ret name \<and> length name \<le> 63) \<and>
   list_all (\<lambda>(loc, region). map_of locationToOmsRegionCodeMap region \<noteq> None) regionToOmsRegionMap"
proof
  let ?n = "if as_LogAnalyticsWorkspace s = [] then as_ResourceGroup s @ ''-'' @ code else as_LogAnalyticsWorkspace s"
  show "\<exists>name. workspace_name s code = Ret name \<and> length name \<le> 63"
  proof (cases "length ?n > 63")
    case True
    then show ?thesis using generateUniqueLogWorkspace_length[OF True] unfolding workspace_name_def Let_def by auto
  next
    case False
    then show ?thesis unfolding workspace_name_def Let_def by auto
  qed
  show "list_all (\<lambda>(loc, region). map_of locationToOmsRegionCodeMap region \<noteq> None) regionToOmsRegionMap"
    by (simp add: regionToOmsRegionMap_def locationToOmsRegionCodeMap_def)
qed

text \<open>For accepted options the default DNS prefix is always defined and at most 34 characters long,
  but a part that is not longer than its limit loses its last character.\<close>

theorem default_dns_prefix:
  assumes "aks_getStateFromOptions parseKey opts = Inr s"
  shows "\<exists>a b c. getDefaultDNSPrefix s = Ret (a @ ''-'' @ b @ ''-'' @ c) \<and>
     length (a @ ''-'' @ b @ ''-'' @ c) \<le> 34 \<and>
     a = (if length (as_Name s) \<le> 10 then butlast (as_Name s) else take 10 (as_Name s)) \<and>
     b = (if length (as_ResourceGroup s) \<le> 16 then butlast (as_ResourceGroup s) else take 16 (as_ResourceGroup s)) \<and>
     c = (if length (as_SubscriptionID s) \<le> 6 then butlast (as_SubscriptionID s) else take 6 (as_SubscriptionID s))"
proof -
  let ?a = "if length (as_Name s) \<le> 10 then butlast (as_Name s) else take 10 (as_Name s)"
  let ?b = "if length (as_ResourceGroup s) \<le> 16 then butlast (as_ResourceGroup s) else take 16 (as_ResourceGroup s)"
  let ?c = "if length (as_SubscriptionID s) \<le> 6 then butlast (as_SubscriptionID s) else take 6 (as_SubscriptionID s)"
  have "as_Name s \<noteq> []" "as_ResourceGroup s \<noteq> []" "as_SubscriptionID s \<noteq> []"
    using assms by (auto simp: aks_accepted aks_validate_None)
  then have "getDefaultDNSPrefix s = Ret (?a @ ''-'' @ ?b @ ''-'' @ ?c)"
    by (simp add: getDefaultDNSPrefix_def safeSlice_cases)
  moreover have "length ?a \<le> 10" "length ?b \<le> 16" "length ?c \<le> 6" by auto
  then have "length (?a @ ''-'' @ ?b @ ''-'' @ ?c) \<le> 34" by simp
  ultimately show ?thesis by blast
qed

theorem default_dns_prefix_witness:
  "\<exists>a b c. getDefaultDNSPrefix demo_aks_state = Ret (a @ ''-'' @ b @ ''-'' @ c) \<and> a = [] \<and> b = ''grou'' \<and> c = ''su''"
  using default_dns_prefix[OF demo_aks_accepted] by (simp add: demo_aks_state_def aks_read_opts_def demo_aks_opts_def)

text \<open>The node count sent to Azure is the requested one when that fits in 31 bits, and 1 when it is
  not positive; a larger count is truncated to its low 32 bits without an error.\<close>

theorem agent_count_sent:
  assumes "aks_agent_pools s = Some [p]"
  shows "(1 \<le> sint (as_AgentCount s) \<and> sint (as_AgentCount s) < 2 ^ 31 \<longrightarrow>
           map_option sint (ap_Count p) = Some (sint (as_AgentCount s))) \<and>
     (sint (as_AgentCount s) < 1 \<longrightarrow> ap_Count p = Some 1) \<and>
     (1 \<le> sint (as_AgentCount s) \<longrightarrow> ap_Count p = Some (word_of_int (sint (as_AgentCount s) mod 2 ^ 32)))"
proof -
  have p: "ap_Count p = Some (if sint (as_AgentCount s) > 0 then to_int32 (as_AgentCount s) else 1)"
    using assms by (auto simp: aks_agent_pools_def split: if_splits)
  show ?thesis
  proof (intro conjI impI)
    assume "1 \<le> sint (as_AgentCount s)"
    then show "ap_Count p = Some (word_of_int (sint (as_AgentCount s) mod 2 ^ 32))"
      unfolding to_int32_low[symmetric] using p by simp
  qed (auto simp: p to_int32_fits)
qed

theorem agent_count_sent_witness:
  "\<exists>p. aks_agent_pools demo_aks_state = Some [p] \<and> map_option sint (ap_Count p) = Some 3"
proof -
  obtain p where p: "aks_agent_pools demo_aks_state = Some [p]"
    by (simp add: aks_agent_pools_def hasAgentPoolProfile_def demo_aks_state_def aks_read_opts_def demo_aks_opts_def)
  have "sint (as_AgentCount demo_aks_state) = 3" by (simp add: demo_aks_state_def aks_read_opts_def demo_aks_opts_def)
  with agent_count_sent[OF p] p show ?thesis by auto
qed

text \<open>C17. A cluster whose creation or update failed can still be removed: once its options are accepted,
  the call answers, with an error or not, an info that holds the driver's state, so that removing the
  cluster with that info deletes the cluster that was requested.\<close>

theorem aks_failed_create_removable:
  assumes "aks_getStateFromOptions (ae_ParseAuthorizedKey ae) opts = Inr s"
    and "ae_Marshal ae s = Inr data" "ae_Unmarshal ae data = Inr s"
    and "createOrUpdate ae opts isCreate g = Some (Ret (info, err), g')"
  shows "\<exists>i. info = Some i \<and> aks_getState ae i = Inr s \<and>
     (\<forall>cl h. newClustersClient (ae_api ae) None s = Inr cl \<longrightarrow>
       aks_Remove ae i h = gdo (az_Delete (ae_api ae) cl (as_ResourceGroup s) (as_Name s)) h)"
proof -
  obtain i where i: "aks_storeState ae empty_info s = Inr i" and st: "aks_getState ae i = Inr s"
    by (rule aks.get_store[OF assms(2,3)])
  have "info = Some i"
    using assms(1,4) i by (auto simp: createOrUpdate_def split: option.splits prod.splits outcome.splits sum.splits)
  then show ?thesis using st by (auto simp: aks_Remove_def with_client_def gbind_simps)
qed

theorem aks_failed_create_removable_witness:
  "\<exists>i e. aks_Create demo_aks_env demo_aks_opts 0 = Some (Ret (Some i, Some e), 2) \<and>
     aks_Remove demo_aks_env i 2 = Some (Ret (Inr ()), 102)"
proof -
  have prov: "aks_provision demo_aks_env demo_aks_state True 0 =
      Some (Ret (Inl (Errorf ''failed to provision Azure cluster'')), 2)"
    by (simp add: aks_provision_def Let_def demo_env newResourceGroupsClient_def demo_aks_wait demo_aks_clients
        demo_aks_steps newOperationInsightsWorkspaceClient_def newClustersClient_def gbind_simps)
  obtain i where i: "aks_Create demo_aks_env demo_aks_opts 0 =
      Some (Ret (Some i, Some (Errorf ''failed to provision Azure cluster'')), 2)"
    by (simp add: aks_Create_def createOrUpdate_def aks_storeState_def demo_env demo_aks_accepted prov)
  have "aks_Remove demo_aks_env i 2 = gdo (az_Delete demo_az_api demo_client
      (as_ResourceGroup demo_aks_state) (as_Name demo_aks_state)) 2"
    using aks_failed_create_removable[of demo_aks_env demo_aks_opts demo_aks_state "''{}''" True 0 "Some i"] i
    by (simp add: aks_Create_def demo_env demo_aks_accepted demo_aks_clients newClustersClient_def)
  then show ?thesis using i by (simp add: gdo_def demo_az_api_def)
qed

end
