(* ===== verification/RkeCerts.thy ===== *)
theory RkeCerts
  imports CliStore
begin

text \<open>
  The certificates of an RKE cluster as text (\<open>drivers/rke/rkecerts/certs.go\<close>): a JSON object of
  \<open>savedCertificatePKI\<close> values, in which the parsed certificate and key are replaced by their PEM
  texts. The JSON text is the one of \<open>GoJson\<close>. Certificates \<open>'c\<close>, keys \<open>'k\<close> and signing requests
  \<open>'r\<close> are opaque, and the PEM functions of the RKE library are parameters. The main fact is that
  loading the saved text gives the certificates back, without their signing requests.
\<close>

section \<open>Data\<close>

record ('c, 'k, 'r) CertificatePKI =
  pk_Certificate :: "'c option"
  pk_Key :: "'k option"
  pk_CSR :: "'r option"
  pk_CertificatePEM :: string
  pk_KeyPEM :: string
  pk_CSRPEM :: string
  pk_Config :: string
  pk_Name :: string
  pk_CommonName :: string
  pk_OUName :: string
  pk_EnvName :: string
  pk_Path :: string
  pk_KeyEnvName :: string
  pk_KeyPath :: string
  pk_ConfigEnvName :: string
  pk_ConfigPath :: string

record ('c, 'k, 'r) savedCertificatePKI =
  sv_CertificatePKI :: "('c, 'k, 'r) CertificatePKI"
  sv_CertPEM :: string
  sv_KeyPEM :: string

definition zero_pki :: "('c, 'k, 'r) CertificatePKI" where
  "zero_pki = \<lparr>pk_Certificate = None, pk_Key = None, pk_CSR = None, pk_CertificatePEM = [], pk_KeyPEM = [],
     pk_CSRPEM = [], pk_Config = [], pk_Name = [], pk_CommonName = [], pk_OUName = [], pk_EnvName = [],
     pk_Path = [], pk_KeyEnvName = [], pk_KeyPath = [], pk_ConfigEnvName = [], pk_ConfigPath = []\<rparr>"

definition zero_saved :: "('c, 'k, 'r) savedCertificatePKI" where
  "zero_saved = \<lparr>sv_CertificatePKI = zero_pki, sv_CertPEM = [], sv_KeyPEM = []\<rparr>"

text \<open>\<open>cert.EncodeCertPEM\<close>, \<open>cert.EncodePrivateKeyPEM\<close>, \<open>cert.ParseCertsPEM\<close> and
  \<open>cert.ParsePrivateKeyPEM\<close>; the last one gives \<open>None\<close> for a key that is not an RSA key.\<close>

record ('c, 'k) pem_lib =
  EncodeCertPEM :: "'c \<Rightarrow> string"
  EncodePrivateKeyPEM :: "'k \<Rightarrow> string"
  ParseCertsPEM :: "string \<Rightarrow> goerr + 'c list"
  ParsePrivateKeyPEM :: "string \<Rightarrow> goerr + 'k option"

section \<open>The JSON form\<close>

text \<open>
  The fields in the order they are written, with how to read and to set them. The fields tagged \<open>-\<close> are left
  out; \<open>keyPEM\<close> of the embedded struct and \<open>KeyPEM\<close> of the outer one are two fields.
\<close>

definition in_pki :: "(('c, 'k, 'r) CertificatePKI \<Rightarrow> ('c, 'k, 'r) CertificatePKI)
    \<Rightarrow> ('c, 'k, 'r) savedCertificatePKI \<Rightarrow> ('c, 'k, 'r) savedCertificatePKI" where
  "in_pki f sv = sv\<lparr>sv_CertificatePKI := f (sv_CertificatePKI sv)\<rparr>"

definition saved_members :: "('c, 'k, 'r) savedCertificatePKI \<Rightarrow> (string \<times> string) list" where
  "saved_members sv = (let p = sv_CertificatePKI sv in
     [(''certificatePEM'', pk_CertificatePEM p), (''keyPEM'', pk_KeyPEM p), (''config'', pk_Config p),
      (''name'', pk_Name p), (''commonName'', pk_CommonName p), (''ouName'', pk_OUName p),
      (''envName'', pk_EnvName p), (''path'', pk_Path p), (''keyEnvName'', pk_KeyEnvName p),
      (''keyPath'', pk_KeyPath p), (''configEnvName'', pk_ConfigEnvName p), (''configPath'', pk_ConfigPath p),
      (''CertPEM'', sv_CertPEM sv), (''KeyPEM'', sv_KeyPEM sv)])"

definition saved_setters :: "(string \<times> (string \<Rightarrow> ('c, 'k, 'r) savedCertificatePKI \<Rightarrow> ('c, 'k, 'r) savedCertificatePKI)) list" where
  "saved_setters =
     [(''certificatePEM'', \<lambda>s. in_pki (\<lambda>p. p\<lparr>pk_CertificatePEM := s\<rparr>)),
      (''keyPEM'', \<lambda>s. in_pki (\<lambda>p. p\<lparr>pk_KeyPEM := s\<rparr>)), (''config'', \<lambda>s. in_pki (\<lambda>p. p\<lparr>pk_Config := s\<rparr>)),
      (''name'', \<lambda>s. in_pki (\<lambda>p. p\<lparr>pk_Name := s\<rparr>)), (''commonName'', \<lambda>s. in_pki (\<lambda>p. p\<lparr>pk_CommonName := s\<rparr>)),
      (''ouName'', \<lambda>s. in_pki (\<lambda>p. p\<lparr>pk_OUName := s\<rparr>)), (''envName'', \<lambda>s. in_pki (\<lambda>p. p\<lparr>pk_EnvName := s\<rparr>)),
      (''path'', \<lambda>s. in_pki (\<lambda>p. p\<lparr>pk_Path := s\<rparr>)), (''keyEnvName'', \<lambda>s. in_pki (\<lambda>p. p\<lparr>pk_KeyEnvName := s\<rparr>)),
      (''keyPath'', \<lambda>s. in_pki (\<lambda>p. p\<lparr>pk_KeyPath := s\<rparr>)),
      (''configEnvName'', \<lambda>s. in_pki (\<lambda>p. p\<lparr>pk_ConfigEnvName := s\<rparr>)),
      (''configPath'', \<lambda>s. in_pki (\<lambda>p. p\<lparr>pk_ConfigPath := s\<rparr>)),
      (''CertPEM'', \<lambda>s sv. sv\<lparr>sv_CertPEM := s\<rparr>), (''KeyPEM'', \<lambda>s sv. sv\<lparr>sv_KeyPEM := s\<rparr>)]"

text \<open>A member goes to the field of its name, or else to the first field of that name up to case.\<close>

definition find_setter :: "string \<Rightarrow> (string \<Rightarrow> ('c, 'k, 'r) savedCertificatePKI \<Rightarrow> ('c, 'k, 'r) savedCertificatePKI) option" where
  "find_setter k =
     (case map_of saved_setters k of
        Some u \<Rightarrow> Some u
      | None \<Rightarrow> map_of (map (\<lambda>(n, u). (fold_letters n, u)) saved_setters) (fold_letters k))"

fun dec_saved :: "(string \<times> json) list \<Rightarrow> ('c, 'k, 'r) savedCertificatePKI \<Rightarrow> ('c, 'k, 'r) savedCertificatePKI option" where
  "dec_saved [] sv = Some sv"
| "dec_saved ((k, v) # ms) sv =
     (case find_setter k of
        None \<Rightarrow> dec_saved ms sv
      | Some u \<Rightarrow>
          (case v of JStr s \<Rightarrow> dec_saved ms (u s sv) | JNull \<Rightarrow> dec_saved ms sv | _ \<Rightarrow> None))"

fun dec_saved_map :: "(string \<times> json) list \<Rightarrow> (string \<times> ('c, 'k, 'r) savedCertificatePKI) list
    \<Rightarrow> (string \<times> ('c, 'k, 'r) savedCertificatePKI) list option" where
  "dec_saved_map [] m = Some m"
| "dec_saved_map ((k, v) # ms) m =
     (case (case v of JObj fs \<Rightarrow> dec_saved fs zero_saved | JNull \<Rightarrow> Some zero_saved | _ \<Rightarrow> None) of
        None \<Rightarrow> None
      | Some sv \<Rightarrow> dec_saved_map ms (AList.update k sv m))"

text \<open>\<open>json.NewDecoder(f).Decode(&saved)\<close> reads the first value of the input.\<close>

definition decode_saved :: "string \<Rightarrow> (string \<times> ('c, 'k, 'r) savedCertificatePKI) list option" where
  "decode_saved input =
     (case dec_val (Suc (length input)) input of
        Some (JObj ms, rest) \<Rightarrow> dec_saved_map ms []
      | Some (JNull, rest) \<Rightarrow> Some []
      | _ \<Rightarrow> None)"

definition saved_json :: "(string \<times> ('c, 'k, 'r) savedCertificatePKI) list \<Rightarrow> json" where
  "saved_json toSave =
     JObj (map (\<lambda>(name, sv). (name, JObj (map (\<lambda>(k, s). (k, JStr s)) (saved_members sv))))
       (sort_key fst (AList.clearjunk toSave)))"

section \<open>Saving and loading\<close>

definition to_save :: "('c, 'k) pem_lib \<Rightarrow> ('c, 'k, 'r) CertificatePKI \<Rightarrow> ('c, 'k, 'r) savedCertificatePKI" where
  "to_save pem p = \<lparr>
     sv_CertificatePKI = p\<lparr>pk_Certificate := None, pk_Key := None\<rparr>,
     sv_CertPEM = (case pk_Certificate p of Some c \<Rightarrow> EncodeCertPEM pem c | None \<Rightarrow> []),
     sv_KeyPEM = (case pk_Key p of Some k \<Rightarrow> EncodePrivateKeyPEM pem k | None \<Rightarrow> [])\<rparr>"

text \<open>\<open>Save\<close> into a buffer: the text that \<open>Encode\<close> writes, with its final newline. Encoding strings into a
  buffer does not fail.\<close>

definition Save :: "('c, 'k) pem_lib \<Rightarrow> (string \<times> ('c, 'k, 'r) CertificatePKI) list \<Rightarrow> string \<times> goerr option" where
  "Save pem certs = (json_encode (saved_json (map (\<lambda>(name, p). (name, to_save pem p)) certs)) @ [CHR 0x0A], None)"

definition ToString :: "('c, 'k) pem_lib \<Rightarrow> (string \<times> ('c, 'k, 'r) CertificatePKI) list \<Rightarrow> string \<times> goerr option" where
  "ToString pem certs = Save pem certs"

definition load_one :: "('c, 'k) pem_lib \<Rightarrow> ('c, 'k, 'r) savedCertificatePKI \<Rightarrow> (goerr + ('c, 'k, 'r) CertificatePKI) outcome" where
  "load_one pem sv =
     (case (if sv_CertPEM sv \<noteq> [] then
              (case ParseCertsPEM pem (sv_CertPEM sv) of
                 Inl e \<Rightarrow> Inl e
               | Inr [] \<Rightarrow> Inl (Errorf ''failed to parse certs, 0 found'')
               | Inr (c # _) \<Rightarrow> Inr ((sv_CertificatePKI sv)\<lparr>pk_Certificate := Some c\<rparr>))
            else Inr (sv_CertificatePKI sv)) of
        Inl e \<Rightarrow> Ret (Inl e)
      | Inr p \<Rightarrow>
          (if sv_KeyPEM sv \<noteq> [] then
             (case ParsePrivateKeyPEM pem (sv_KeyPEM sv) of
                Inl e \<Rightarrow> Ret (Inl e)
              | Inr None \<Rightarrow> Panic ''interface conversion: not *rsa.PrivateKey''
              | Inr (Some k) \<Rightarrow> Ret (Inr (p\<lparr>pk_Key := Some k\<rparr>)))
           else Ret (Inr p)))"

fun load_all :: "('c, 'k) pem_lib \<Rightarrow> (string \<times> ('c, 'k, 'r) savedCertificatePKI) list
    \<Rightarrow> (goerr + (string \<times> ('c, 'k, 'r) CertificatePKI) list) outcome" where
  "load_all pem [] = Ret (Inr [])"
| "load_all pem ((name, sv) # rest) =
     (case load_one pem sv of
        Panic m \<Rightarrow> Panic m
      | Ret (Inl e) \<Rightarrow> Ret (Inl e)
      | Ret (Inr p) \<Rightarrow>
          (case load_all pem rest of
             Ret (Inr certs) \<Rightarrow> Ret (Inr ((name, p) # certs))
           | r \<Rightarrow> r))"

text \<open>\<open>picks\<close> orders the \<open>range\<close> loop.\<close>

definition Load :: "('c, 'k) pem_lib \<Rightarrow> nat list \<Rightarrow> string \<Rightarrow> (goerr + (string \<times> ('c, 'k, 'r) CertificatePKI) list) outcome" where
  "Load pem picks input =
     (case decode_saved input of
        None \<Rightarrow> Ret (Inl (Errorf ''json: cannot unmarshal''))
      | Some savedCerts \<Rightarrow> load_all pem (visit picks savedCerts))"

definition LoadString :: "('c, 'k) pem_lib \<Rightarrow> nat list \<Rightarrow> string \<Rightarrow> (goerr + (string \<times> ('c, 'k, 'r) CertificatePKI) list) outcome" where
  "LoadString pem picks input = Load pem picks input"

section \<open>Lemmas\<close>

text \<open>What survives: everything but the signing request.\<close>

definition kept :: "('c, 'k, 'r) CertificatePKI \<Rightarrow> ('c, 'k, 'r) CertificatePKI" where
  "kept p = p\<lparr>pk_CSR := None, pk_CSRPEM := []\<rparr>"

lemma dec_saved_members:
  "pk_Certificate (sv_CertificatePKI sv) = None \<Longrightarrow> pk_Key (sv_CertificatePKI sv) = None \<Longrightarrow>
   dec_saved (map (\<lambda>(k, s). (k, JStr s)) (saved_members sv)) zero_saved = Some (in_pki kept sv)"
  by (cases sv; cases "sv_CertificatePKI sv")
    (simp add: saved_members_def find_setter_def saved_setters_def in_pki_def kept_def zero_saved_def zero_pki_def)

lemma integral_saved_json: "integral (saved_json l)"
  by (auto simp: saved_json_def)

lemma update_new_key: "k \<notin> fst ` set m \<Longrightarrow> AList.update k v m = m @ [(k, v)]"
  by (induction m) auto

lemma dec_saved_map_members:
  assumes "distinct (map fst (m @ l))"
    and "\<forall>(k, sv) \<in> set l. pk_Certificate (sv_CertificatePKI sv) = None \<and> pk_Key (sv_CertificatePKI sv) = None"
  shows "dec_saved_map (map (\<lambda>(name, sv). (name, JObj (map (\<lambda>(k, s). (k, JStr s)) (saved_members sv)))) l) m =
     Some (m @ map (\<lambda>(name, sv). (name, in_pki kept sv)) l)"
  using assms
proof (induction l arbitrary: m)
  case (Cons e l)
  obtain k sv where e: "e = (k, sv)" by force
  have "k \<notin> fst ` set m" using Cons.prems(1) e by auto
  moreover have "distinct (map fst ((m @ [(k, in_pki kept sv)]) @ l))" using Cons.prems(1) e by simp
  ultimately show ?case
    using Cons.IH[of "m @ [(k, in_pki kept sv)]"] Cons.prems(2) e by (simp add: dec_saved_members update_new_key)
qed simp

lemma sorted_clearjunk:
  "distinct (map fst (sort_key fst (AList.clearjunk l)))" "set (sort_key fst (AList.clearjunk l)) = set (AList.clearjunk l)"
proof -
  have "mset (map fst (sort_key fst (AList.clearjunk l))) = mset (map fst (AList.clearjunk l))" by simp
  then show "distinct (map fst (sort_key fst (AList.clearjunk l)))"
    by (metis distinct_clearjunk mset_eq_imp_distinct_iff)
qed simp

lemma map_of_keyed: "map_of (map (\<lambda>(k, v). (k, f k)) l) n = map_option (\<lambda>_. f n) (map_of l n)"
  by (induction l) auto

text \<open>The strings of a saved bundle are valid UTF-8, which JSON text preserves.\<close>

definition utf8_saved :: "(string \<times> ('c, 'k, 'r) savedCertificatePKI) list \<Rightarrow> bool" where
  "utf8_saved l \<longleftrightarrow> list_all (\<lambda>(name, sv). valid_utf8 name \<and> list_all (\<lambda>(k, s). valid_utf8 s) (saved_members sv)) l"

lemma saved_member_keys: "(k, s) \<in> set (saved_members sv) \<Longrightarrow> valid_utf8 k"
  by (auto simp: saved_members_def Let_def)

lemma fix_saved_json:
  assumes "utf8_saved l"
  shows "fix_json (saved_json l) = saved_json l"
proof (rule fix_json_valid)
  have "(name, sv) \<in> set l" if "(name, sv) \<in> set (AList.clearjunk l)" for name sv
    using that clearjunk_subset[of l] by blast
  with assms show "valid_json (saved_json l)"
    by (fastforce simp: saved_json_def utf8_saved_def list_all_iff dest: saved_member_keys)
qed

lemma decode_encode_saved:
  assumes "utf8_saved l" and "\<forall>(k, sv) \<in> set l. pk_Certificate (sv_CertificatePKI sv) = None \<and> pk_Key (sv_CertificatePKI sv) = None"
  shows "decode_saved (json_encode (saved_json l) @ [CHR 0x0A]) =
     Some (map (\<lambda>(name, sv). (name, in_pki kept sv)) (sort_key fst (AList.clearjunk l)))"
proof -
  let ?t = "json_encode (saved_json l) @ [CHR 0x0A]"
  have "dec_val (Suc (length ?t)) ?t = Some (fix_json (saved_json l), [CHR 0x0A])"
    unfolding json_encode_def
    by (intro dec_enc(1)) (simp_all add: integral_saved_json num_end_def is_digit_def)
  moreover have "\<forall>(k, sv) \<in> set (sort_key fst (AList.clearjunk l)). pk_Certificate (sv_CertificatePKI sv) = None \<and>
      pk_Key (sv_CertificatePKI sv) = None"
    using assms(2) clearjunk_subset[of l] by (auto simp: sorted_clearjunk)
  ultimately show ?thesis
    using dec_saved_map_members[of "[]" "sort_key fst (AList.clearjunk l)"] sorted_clearjunk(1)[of l]
    using fix_saved_json[OF assms(1)] by (simp add: decode_saved_def saved_json_def del: fix_json.simps)
qed

text \<open>The PEM functions are inverse to each other: documented behaviour of the certificate library.\<close>

definition pem_inverse :: "('c, 'k) pem_lib \<Rightarrow> bool" where
  "pem_inverse pem \<longleftrightarrow>
     (\<forall>c. EncodeCertPEM pem c \<noteq> [] \<and> ParseCertsPEM pem (EncodeCertPEM pem c) = Inr [c]) \<and>
     (\<forall>k. EncodePrivateKeyPEM pem k \<noteq> [] \<and> ParsePrivateKeyPEM pem (EncodePrivateKeyPEM pem k) = Inr (Some k))"

lemma load_one_to_save: "pem_inverse pem \<Longrightarrow> load_one pem (in_pki kept (to_save pem p)) = Ret (Inr (kept p))"
  by (cases p) (auto simp: load_one_def to_save_def in_pki_def kept_def pem_inverse_def split: option.splits)

lemma load_all_ok:
  "\<forall>(k, sv) \<in> set l. load_one pem sv = Ret (Inr (f k)) \<Longrightarrow> load_all pem l = Ret (Inr (map (\<lambda>(k, sv). (k, f k)) l))"
  by (induction l) auto

lemma map_of_perm: "mset xs = mset ys \<Longrightarrow> distinct (map fst xs) \<Longrightarrow> map_of xs = map_of ys"
  by (metis map_of_inject_set mset_eq_setD mset_eq_imp_distinct_iff mset_map)

section \<open>Properties\<close>

text \<open>C35. Loading the text that \<open>ToString\<close> saved gives every certificate back under its name, with its key and
  all its settings and without its signing request, in whatever order the maps are visited. The names, the settings and the
  PEM texts are valid UTF-8, as JSON text can hold no other strings.\<close>

theorem Load_ToString:
  assumes "pem_inverse pem" "utf8_saved (map (\<lambda>(name, p). (name, to_save pem p)) certs)"
  shows "\<exists>loaded. LoadString pem picks (fst (ToString pem certs)) = Ret (Inr loaded) \<and>
     (\<forall>name. map_of loaded name = map_option kept (map_of certs name))"
proof -
  let ?l = "map (\<lambda>(name, p). (name, to_save pem p)) certs"
  define m where "m = map (\<lambda>(name, sv). (name, in_pki kept sv)) (sort_key fst (AList.clearjunk ?l))"
  have d: "decode_saved (fst (ToString pem certs)) = Some m"
    unfolding ToString_def Save_def fst_conv m_def by (rule decode_encode_saved[OF assms(2)]) (auto simp: to_save_def)
  have m: "map_of m name = map_option (in_pki kept \<circ> to_save pem) (map_of certs name)" for name
    unfolding m_def map_of_map using map_of_perm[of "sort_key fst (AList.clearjunk ?l)" "AList.clearjunk ?l"]
    by (simp add: sorted_clearjunk(1) map_of_clearjunk map_of_map option.map_comp comp_def)
  have dm: "distinct (map fst m)" unfolding m_def using sorted_clearjunk(1)[of ?l] by (simp add: comp_def case_prod_unfold)
  have "load_one pem sv = Ret (Inr (kept (the (map_of certs k))))" if "(k, sv) \<in> set (visit picks m)" for k sv
  proof -
    have "map_of m k = Some sv" using that dm by simp
    then show ?thesis using load_one_to_save[OF assms(1)] by (auto simp: m)
  qed
  then have l: "load_all pem (visit picks m) = Ret (Inr (map (\<lambda>(k, sv). (k, kept (the (map_of certs k)))) (visit picks m)))"
    by (intro load_all_ok) auto
  have "map_of (visit picks m) = map_of m" using map_of_perm[of m "visit picks m"] dm by simp
  then have "map_of (map (\<lambda>(k, sv). (k, kept (the (map_of certs k)))) (visit picks m)) name =
      map_option kept (map_of certs name)" for name
    by (cases "map_of certs name") (simp_all add: m map_of_keyed)
  then show ?thesis using d l by (simp add: LoadString_def Load_def)
qed

definition demo_pem :: "(string, string) pem_lib" where
  "demo_pem = \<lparr>EncodeCertPEM = \<lambda>c. CHR ''C'' # c, EncodePrivateKeyPEM = \<lambda>k. CHR ''K'' # k,
     ParseCertsPEM = \<lambda>s. Inr [tl s], ParsePrivateKeyPEM = \<lambda>s. Inr (Some (tl s))\<rparr>"

definition demo_pki :: "(string, string, unit) CertificatePKI" where
  "demo_pki = zero_pki\<lparr>pk_Certificate := Some ''cert'', pk_Key := Some ''key'', pk_CSR := Some (), pk_Name := ''kube-ca''\<rparr>"

theorem Load_ToString_witness:
  "\<exists>loaded. LoadString demo_pem [] (fst (ToString demo_pem [(''kube-ca'', demo_pki)])) = Ret (Inr loaded) \<and>
     map_of loaded ''kube-ca'' = Some (demo_pki\<lparr>pk_CSR := None\<rparr>)"
proof -
  have "pem_inverse demo_pem" by (simp add: pem_inverse_def demo_pem_def)
  moreover have "utf8_saved (map (\<lambda>(name, p). (name, to_save demo_pem p)) [(''kube-ca'', demo_pki)])"
    by (simp add: utf8_saved_def saved_members_def to_save_def demo_pem_def demo_pki_def zero_pki_def)
  ultimately obtain loaded where
    l: "LoadString demo_pem [] (fst (ToString demo_pem [(''kube-ca'', demo_pki)])) = Ret (Inr loaded)"
    and m: "\<forall>name. map_of loaded name = map_option kept (map_of [(''kube-ca'', demo_pki)] name)"
    using Load_ToString[of demo_pem "[(''kube-ca'', demo_pki)]" "[]"] by blast
  have "kept demo_pki = demo_pki\<lparr>pk_CSR := None\<rparr>" by (simp add: kept_def demo_pki_def zero_pki_def)
  with l m show ?thesis by auto
qed

end
