(* ===== verification/Rke.thy ===== *)
theory Rke
  imports RkeCerts DriverUtil Polling
begin

text \<open>
  The RKE driver (\<open>drivers/rke/rke_driver.go\<close>). The RKE library, the YAML library and the store of
  templates are parameters: the records \<open>rke_lib\<close> and \<open>rke_store\<close>. The library works on the files
  of a state directory, so a handler is a computation over \<open>rke_world\<close>: the file system and the hosts.
  \<open>with_state\<close> is the frame of the handlers: restore the directory, run, and clean up, also when the
  body panics. Lemmas: what survives a restore and a save, what the clean-up leaves, and that the
  credentials of a created cluster are those that the clients get.
\<close>

section \<open>Data\<close>

record rke_config =
  rc_Version :: string
  rc_NodeRoles :: "string list list"
  rc_rest :: string

text \<open>Certificates, keys and signing requests are their encodings.\<close>

type_synonym rke_certs = "(string \<times> (string, string, string) CertificatePKI) list"

record rke_up =
  up_APIURL :: string
  up_caCrt :: string
  up_clientCert :: string
  up_clientKey :: string
  up_certs :: rke_certs

record rke_store =
  GetAddonTemplates :: "string \<Rightarrow> goerr + string gomap"
  GetServiceOptions :: "string \<Rightarrow> goerr + (string \<times> string option) list"

text \<open>A wrapper turns a transport into another one; transports are opaque texts.\<close>

type_synonym wrapper = "string \<Rightarrow> string"

record rke_driver =
  DockerDialer :: "string option"
  LocalDialer :: "string option"
  DataStore :: "rke_store option"
  WrapTransportFactory :: "(rke_config \<Rightarrow> wrapper option) option"
  rk_driverCapabilities :: capabilities

record dialers_options =
  do_DockerDialer :: "string option"
  do_LocalDialer :: "string option"
  do_WrapTransport :: "wrapper option"

record external_flags =
  ef_Local :: bool
  ef_UpdateOnly :: bool
  ef_DisablePortCheck :: bool
  ef_UseLocalState :: bool
  ef_ConfigDir :: path
  ef_ClusterFilePath :: string

record 'g rke_world =
  rw_fs :: fs
  rw_hosts :: 'g

record 'g rke_lib =
  rk_yaml :: "string \<Rightarrow> goerr + rke_config"
  rk_pem :: "(string, string) pem_lib"
  rk_ClusterInit :: "rke_config \<Rightarrow> dialers_options \<Rightarrow> external_flags \<Rightarrow> 'g rke_world \<Rightarrow> goerr option \<times> 'g rke_world"
  rk_ClusterUp :: "dialers_options \<Rightarrow> external_flags \<Rightarrow> string gomap \<Rightarrow> 'g rke_world \<Rightarrow> (rke_up \<times> goerr option) \<times> 'g rke_world"
  rk_ClusterRemove :: "rke_config \<Rightarrow> dialers_options \<Rightarrow> external_flags \<Rightarrow> 'g rke_world \<Rightarrow> goerr option \<times> 'g rke_world"
  rk_SnapshotSaveEtcdHosts :: "rke_config \<Rightarrow> dialers_options \<Rightarrow> external_flags \<Rightarrow> string \<Rightarrow> 'g rke_world \<Rightarrow> goerr option \<times> 'g rke_world"
  rk_SnapshotRemoveFromEtcdHosts :: "rke_config \<Rightarrow> dialers_options \<Rightarrow> external_flags \<Rightarrow> string \<Rightarrow> 'g rke_world \<Rightarrow> goerr option \<times> 'g rke_world"
  rk_RestoreEtcdSnapshot :: "rke_config \<Rightarrow> dialers_options \<Rightarrow> external_flags \<Rightarrow> string gomap \<Rightarrow> string \<Rightarrow> 'g rke_world \<Rightarrow> (rke_up \<times> goerr option) \<times> 'g rke_world"
  rk_NewForConfig :: "string \<Rightarrow> string \<Rightarrow> string \<Rightarrow> string \<Rightarrow> wrapper option \<Rightarrow> goerr + 'g clientset"
  rk_ListNodes :: "'g clientset \<Rightarrow> 'g \<Rightarrow> (goerr + nat) \<times> 'g"

definition rke_NewDriver :: rke_driver where
  "rke_NewDriver = \<lparr>DockerDialer = None, LocalDialer = None, DataStore = None, WrapTransportFactory = None,
     rk_driverCapabilities =
       AddCapability (cap_num EtcdBackupCapability)
         (AddCapability (cap_num GetClusterSizeCapability)
           (AddCapability (cap_num SetVersionCapability)
             (AddCapability (cap_num GetVersionCapability) Map.empty)))\<rparr>"

definition wrapTransport :: "rke_driver \<Rightarrow> rke_config \<Rightarrow> wrapper option" where
  "wrapTransport d config =
     (case WrapTransportFactory d of
        None \<Rightarrow> None
      | Some factory \<Rightarrow> Some (\<lambda>rt. case factory config of None \<Rightarrow> rt | Some fn \<Rightarrow> fn rt))"

definition rke_GetK8SCapabilities :: k8s_capabilities where
  "rke_GetK8SCapabilities = \<lparr>k8s_L4LoadBalancer = None, k8s_IngressControllers = [],
     k8s_NodePoolScalingSupported = False, k8s_NodePortRange = []\<rparr>"

definition rke_create_flags :: driver_flags where
  "rke_create_flags = flag_map [(''config-file-path'', plain_flag StringType ''the path to the config file'')]"
definition rke_update_flags :: driver_flags where
  "rke_update_flags = flag_map [(''config-file-path'', plain_flag StringType ''the path to the config file'')]"

section \<open>The state directory\<close>

definition kubeConfigFile :: string where "kubeConfigFile = ''kube_config_cluster.yml''"
definition clusterStateFile :: string where "clusterStateFile = ''cluster.rkestate''"
definition rancherPath :: path where "rancherPath = fp_clean ''./management-state/rke/''"

text \<open>The text of a path ends in \<open>/cluster.yml\<close> if that is its last segment and there is one before it.\<close>

definition at_cluster_yml :: "path \<Rightarrow> bool" where
  "at_cluster_yml p \<longleftrightarrow> 2 \<le> length p \<and> last p = ''cluster.yml''"

definition kubeConfig :: "path \<Rightarrow> path" where
  "kubeConfig stateDir = (if at_cluster_yml stateDir then fp_join (fp_dir stateDir) kubeConfigFile else fp_join stateDir kubeConfigFile)"

definition clusterState :: "path \<Rightarrow> path" where
  "clusterState stateDir = (if at_cluster_yml stateDir then fp_join (fp_dir stateDir) clusterStateFile else fp_join stateDir clusterStateFile)"

text \<open>\<open>ioutil.TempDir\<close>: the first of the random names that is not taken, 10000 tries at most.\<close>

fun try_tempdir :: "nat \<Rightarrow> nat \<Rightarrow> path \<Rightarrow> string \<Rightarrow> fs \<Rightarrow> (goerr + path) \<times> fs" where
  "try_tempdir 0 i dir prefix fs = (Inl (Errorf ''file exists''), fs)"
| "try_tempdir (Suc n) i dir prefix fs =
     (let p = dir @ [prefix @ Rand fs i] in
      case Deny fs OpMkdir p of
        Some e \<Rightarrow> (Inl e, fs)
      | None \<Rightarrow>
          (if node_at fs p \<noteq> None then try_tempdir n (Suc i) dir prefix fs
           else if node_at fs dir \<noteq> Some FDir then (Inl (Errorf ''no such file or directory''), fs)
           else (Inr p, set_node p FDir fs)))"

definition TempDir :: "path \<Rightarrow> string \<Rightarrow> fs \<Rightarrow> (goerr + path) \<times> fs" where
  "TempDir dir prefix fs = try_tempdir 10000 0 dir prefix fs"

text \<open>The errors of \<open>os.MkdirAll\<close> and \<open>ioutil.WriteFile\<close> are ignored.\<close>

definition write_state :: "path \<Rightarrow> string \<Rightarrow> fs \<Rightarrow> fs" where
  "write_state p data fs = (if data \<noteq> [] then snd (WriteFile p data fs) else fs)"

definition rke_restore :: "cluster_info option \<Rightarrow> fs \<Rightarrow> (goerr + path) \<times> fs" where
  "rke_restore info fs =
     (case TempDir rancherPath ''rke-'' (snd (os_MkdirAll rancherPath fs)) of
        (Inl e, fs1) \<Rightarrow> (Inl e, fs1)
      | (Inr dir, fs1) \<Rightarrow>
          (Inr (fp_join dir ''cluster.yml''),
           case info of
             None \<Rightarrow> fs1
           | Some i \<Rightarrow>
               write_state (clusterState dir) (gm_str (ci_Metadata i) ''fullState'')
                 (write_state (kubeConfig dir) (gm_str (ci_Metadata i) ''state'') fs1)))"

definition rke_cleanup :: "path \<Rightarrow> fs \<Rightarrow> fs" where
  "rke_cleanup stateDir fs =
     (if at_cluster_yml stateDir \<and> \<not> list_ex (\<lambda>seg. contains seg ''..'') stateDir
      then snd (os_Remove (fp_dir stateDir) (snd (os_Remove (kubeConfig stateDir) (snd (os_Remove stateDir fs)))))
      else fs)"

text \<open>\<open>save\<close> reads the files back into the metadata. Only the first assignment makes a nil map; the second
  one panics on it, and then the clean-up at the end is not reached.\<close>

definition save_metadata :: "path \<Rightarrow> fs \<Rightarrow> string gomap \<Rightarrow> string gomap outcome" where
  "save_metadata stateDir fs m =
     (let m1 = (case ReadFile (kubeConfig stateDir) fs of Inr b \<Rightarrow> gm_put ''state'' b m | Inl _ \<Rightarrow> m) in
      case ReadFile (clusterState stateDir) fs of
        Inl _ \<Rightarrow> Ret m1
      | Inr s \<Rightarrow>
          (case m1 of
             None \<Rightarrow> Panic ''assignment to entry in nil map''
           | Some _ \<Rightarrow> Ret (gm_put ''fullState'' s m1)))"

definition rke_save :: "cluster_info option \<Rightarrow> path \<Rightarrow> fs \<Rightarrow> cluster_info option outcome \<times> fs" where
  "rke_save info stateDir fs =
     (case info of
        None \<Rightarrow> (Ret None, rke_cleanup stateDir fs)
      | Some i \<Rightarrow>
          (case save_metadata stateDir fs (ci_Metadata i) of
             Panic p \<Rightarrow> (Panic p, fs)
           | Ret m \<Rightarrow> (Ret (Some (i\<lparr>ci_Metadata := m\<rparr>)), rke_cleanup stateDir fs)))"

definition getFlags :: "rke_driver \<Rightarrow> rke_config \<Rightarrow> path \<Rightarrow> dialers_options \<times> external_flags" where
  "getFlags d rkeConfig stateDir =
     (\<lparr>do_DockerDialer = DockerDialer d, do_LocalDialer = LocalDialer d, do_WrapTransport = wrapTransport d rkeConfig\<rparr>,
      \<lparr>ef_Local = False, ef_UpdateOnly = False, ef_DisablePortCheck = False, ef_UseLocalState = True,
       ef_ConfigDir = stateDir, ef_ClusterFilePath = []\<rparr>)"

section \<open>Steps\<close>

definition ConvertToRkeConfig :: "'g rke_lib \<Rightarrow> string \<Rightarrow> goerr + rke_config" where
  "ConvertToRkeConfig lib config = rk_yaml lib config"

definition getYAML :: "driver_options \<Rightarrow> fs \<Rightarrow> goerr + string" where
  "getYAML opts fs =
     (case StringOptions opts ''config-file-path'' of
        Some path \<Rightarrow> ReadFile (fp_clean path) fs
      | None \<Rightarrow> Inr (case StringOptions opts ''rkeConfig'' of Some y \<Rightarrow> y | None \<Rightarrow> []))"

text \<open>The options are added to the template data; a nil map of templates cannot take them.\<close>

definition getData :: "rke_store option \<Rightarrow> string \<Rightarrow> (string gomap, 'w) run" where
  "getData s k8sVersion =
     (case s of
        None \<Rightarrow> gpanic ''nil pointer dereference''
      | Some s \<Rightarrow>
          gbind (gpure (GetAddonTemplates s k8sVersion)) (\<lambda>data.
          gbind (gpure (GetServiceOptions s k8sVersion)) (\<lambda>serviceOptions.
          let set = List.map_filter (\<lambda>(key, opts). map_option (Pair key) opts) serviceOptions in
          if data = None \<and> set \<noteq> [] then gpanic ''assignment to entry in nil map''
          else gret (fold (\<lambda>(key, opts). gm_put key opts) set data))))"

definition clusterUp :: "'g rke_lib \<Rightarrow> rke_config \<Rightarrow> dialers_options \<Rightarrow> external_flags \<Rightarrow> string gomap
    \<Rightarrow> 'g rke_world \<Rightarrow> (rke_up \<times> goerr option) \<times> 'g rke_world" where
  "clusterUp lib rkeConfig dialers flags data w =
     (case rk_ClusterInit lib rkeConfig dialers flags w of (_, w') \<Rightarrow> rk_ClusterUp lib dialers flags data w')"

definition up_metadata :: "rke_up \<Rightarrow> string \<Rightarrow> string \<Rightarrow> string gomap" where
  "up_metadata up yaml certStr = Some [(''Endpoint'', up_APIURL up), (''RootCA'', base64_encode (up_caCrt up)),
     (''ClientCert'', base64_encode (up_clientCert up)), (''ClientKey'', base64_encode (up_clientKey up)),
     (''Config'', yaml), (''Certs'', certStr)]"

definition updateMetadata :: "'g rke_lib \<Rightarrow> rke_up \<Rightarrow> string \<Rightarrow> string gomap \<times> goerr option" where
  "updateMetadata lib up yaml =
     (case ToString (rk_pem lib) (up_certs up) of
        (_, Some e) \<Rightarrow> (Some [(''Config'', yaml)], Some e)
      | (certStr, None) \<Rightarrow> (up_metadata up yaml certStr, None))"

text \<open>
  The frame of the handlers that use a state directory: \<open>fail\<close> is what they return when it cannot be made.
  The deferred clean-up runs whether the body returns or panics.
\<close>

definition on_fs :: "(fs \<Rightarrow> fs) \<Rightarrow> 'g rke_world \<Rightarrow> 'g rke_world" where
  "on_fs f w = w\<lparr>rw_fs := f (rw_fs w)\<rparr>"

definition with_state :: "cluster_info option \<Rightarrow> (goerr \<Rightarrow> 'b)
    \<Rightarrow> (path \<Rightarrow> 'g rke_world \<Rightarrow> ('b outcome \<times> 'g rke_world) option) \<Rightarrow> 'g rke_world \<Rightarrow> ('b outcome \<times> 'g rke_world) option" where
  "with_state info fail body w =
     (case rke_restore info (rw_fs w) of
        (Inl e, fs1) \<Rightarrow> Some (Ret (fail e), w\<lparr>rw_fs := fs1\<rparr>)
      | (Inr stateDir, fs1) \<Rightarrow>
          (case body stateDir (w\<lparr>rw_fs := fs1\<rparr>) of
             None \<Rightarrow> None
           | Some (r, w') \<Rightarrow> Some (r, on_fs (rke_cleanup stateDir) w')))"

text \<open>\<open>return d.save(info, stateDir), err\<close>.\<close>

definition save_return :: "cluster_info \<Rightarrow> path \<Rightarrow> goerr option \<Rightarrow> 'g rke_world
    \<Rightarrow> ((cluster_info option \<times> goerr option) outcome \<times> 'g rke_world) option" where
  "save_return info stateDir err w =
     (case rke_save (Some info) stateDir (rw_fs w) of
        (Panic p, fs) \<Rightarrow> Some (Panic p, w\<lparr>rw_fs := fs\<rparr>)
      | (Ret i, fs) \<Rightarrow> Some (Ret (i, err), w\<lparr>rw_fs := fs\<rparr>))"

text \<open>A computation whose error becomes \<open>return nil, err\<close>.\<close>

definition or_nil :: "('a, 'w) run \<Rightarrow> ('a \<Rightarrow> 'w \<Rightarrow> (('i option \<times> goerr option) outcome \<times> 'w) option)
    \<Rightarrow> 'w \<Rightarrow> (('i option \<times> goerr option) outcome \<times> 'w) option" where
  "or_nil m f w =
     (case m w of
        None \<Rightarrow> None
      | Some (Ret (Inr x), w') \<Rightarrow> f x w'
      | Some (Ret (Inl e), w') \<Rightarrow> Some (Ret (None, Some e), w')
      | Some (Panic p, w') \<Rightarrow> Some (Panic p, w'))"

section \<open>Handlers\<close>

text \<open>The end of \<open>Create\<close>: the error of \<open>clusterUp\<close> is replaced by that of \<open>ToString\<close> when there are
  certificates.\<close>

definition rke_finish_create :: "'g rke_lib \<Rightarrow> string \<Rightarrow> path \<Rightarrow> rke_up \<times> goerr option \<Rightarrow> 'g rke_world
    \<Rightarrow> ((cluster_info option \<times> goerr option) outcome \<times> 'g rke_world) option" where
  "rke_finish_create lib yaml stateDir up_err w =
     (case up_err of (up, err0) \<Rightarrow>
        (case (if up_certs up \<noteq> [] then ToString (rk_pem lib) (up_certs up) else ([], err0)) of
           (certsStr, err) \<Rightarrow>
             (if err \<noteq> None \<and> certsStr = []
              then save_return (empty_info\<lparr>ci_Metadata := Some [(''Config'', yaml)]\<rparr>) stateDir err w
              else save_return (empty_info\<lparr>ci_Metadata := up_metadata up yaml certsStr\<rparr>) stateDir err w)))"

definition rke_Create :: "rke_driver \<Rightarrow> 'g rke_lib \<Rightarrow> driver_options \<Rightarrow> cluster_info option \<Rightarrow> 'g rke_world
    \<Rightarrow> ((cluster_info option \<times> goerr option) outcome \<times> 'g rke_world) option" where
  "rke_Create d lib opts info =
     or_nil (\<lambda>w. Some (Ret (getYAML opts (rw_fs w)), w)) (\<lambda>yaml.
     or_nil (gpure (ConvertToRkeConfig lib yaml)) (\<lambda>rkeConfig.
     with_state info (\<lambda>e. (None, Some e)) (\<lambda>stateDir.
       or_nil (getData (DataStore d) (rc_Version rkeConfig)) (\<lambda>data w.
         (case getFlags d rkeConfig stateDir of (dialers, flags) \<Rightarrow>
          (case clusterUp lib rkeConfig dialers flags data w of (r, w') \<Rightarrow>
             rke_finish_create lib yaml stateDir r w'))))))"

text \<open>The end of \<open>Update\<close> and \<open>ETCDRestore\<close>.\<close>

definition rke_finish_update :: "'g rke_lib \<Rightarrow> cluster_info \<Rightarrow> string \<Rightarrow> path \<Rightarrow> rke_up \<times> goerr option \<Rightarrow> 'g rke_world
    \<Rightarrow> ((cluster_info option \<times> goerr option) outcome \<times> 'g rke_world) option" where
  "rke_finish_update lib info yaml stateDir up_err w =
     (case up_err of
        (_, Some e) \<Rightarrow> save_return (empty_info\<lparr>ci_Metadata := Some [(''Config'', yaml)]\<rparr>) stateDir (Some e) w
      | (up, None) \<Rightarrow>
          (case updateMetadata lib up yaml of
             (metadata, err) \<Rightarrow> save_return (info\<lparr>ci_Metadata := metadata\<rparr>) stateDir err w))"

definition rke_Update :: "rke_driver \<Rightarrow> 'g rke_lib \<Rightarrow> cluster_info \<Rightarrow> driver_options \<Rightarrow> 'g rke_world
    \<Rightarrow> ((cluster_info option \<times> goerr option) outcome \<times> 'g rke_world) option" where
  "rke_Update d lib info opts =
     or_nil (\<lambda>w. Some (Ret (getYAML opts (rw_fs w)), w)) (\<lambda>yaml.
     or_nil (gpure (ConvertToRkeConfig lib yaml)) (\<lambda>rkeConfig.
     with_state (Some info) (\<lambda>e. (None, Some e)) (\<lambda>stateDir.
       or_nil (getData (DataStore d) (rc_Version rkeConfig)) (\<lambda>data.
         (case getFlags d rkeConfig stateDir of (dialers, flags) \<Rightarrow>
          or_nil (gdo (rk_ClusterInit lib rkeConfig dialers flags)) (\<lambda>_ w.
          (case rk_ClusterUp lib dialers flags data w of (r, w') \<Rightarrow>
             rke_finish_update lib info yaml stateDir r w')))))))"

text \<open>\<open>getClientset\<close> also fills in the info. It calls the transport factory without a test for nil.\<close>

definition decode_field :: "string \<Rightarrow> (string, 'w) run" where
  "decode_field s =
     (case base64_decode s of None \<Rightarrow> gpure (Inl (Errorf ''illegal base64 data'')) | Some b \<Rightarrow> gret b)"

definition rke_getClientset :: "rke_driver \<Rightarrow> 'g rke_lib \<Rightarrow> cluster_info \<Rightarrow> ('g clientset \<times> cluster_info, 'w) run" where
  "rke_getClientset d lib info =
     (let m = ci_Metadata info;
          info' = info\<lparr>ci_Endpoint := gm_str m ''Endpoint'', ci_ClientCertificate := gm_str m ''ClientCert'',
                    ci_ClientKey := gm_str m ''ClientKey'', ci_RootCaCertificate := gm_str m ''RootCA''\<rparr>;
          host = (if has_prefix (ci_Endpoint info') ''https://'' then ci_Endpoint info' else ''https://'' @ ci_Endpoint info') in
      gbind (gpure (ConvertToRkeConfig lib (gm_str m ''Config''))) (\<lambda>rkeConfig.
      gbind (decode_field (ci_ClientCertificate info')) (\<lambda>certBytes.
      gbind (decode_field (ci_ClientKey info')) (\<lambda>keyBytes.
      gbind (decode_field (ci_RootCaCertificate info')) (\<lambda>rootBytes.
      (case WrapTransportFactory d of
         None \<Rightarrow> gpanic ''nil pointer dereference''
       | Some factory \<Rightarrow>
           gbind (gpure (rk_NewForConfig lib host rootBytes certBytes keyBytes (factory rkeConfig))) (\<lambda>cs.
           gret (cs, info'))))))))"

definition nodeCount :: "'g rke_lib \<Rightarrow> cluster_info \<Rightarrow> goerr + int64" where
  "nodeCount lib info =
     (case gm_find (ci_Metadata info) ''Config'' of
        None \<Rightarrow> Inr 0
      | Some yaml \<Rightarrow>
          (case ConvertToRkeConfig lib yaml of
             Inl e \<Rightarrow> Inl e
           | Inr rkeConfig \<Rightarrow>
               Inr (fold (\<lambda>roles count. if ''worker'' \<in> set roles then count + 1 else count) (rc_NodeRoles rkeConfig) 0)))"

definition in_hosts :: "('a, 'g) run \<Rightarrow> ('a, 'g rke_world) run" where
  "in_hosts m = (\<lambda>w. case m (rw_hosts w) of None \<Rightarrow> None | Some (r, g) \<Rightarrow> Some (r, w\<lparr>rw_hosts := g\<rparr>))"

text \<open>One round of \<open>PostCheck\<close>, and at most \<open>n\<close> rounds with the last error.\<close>

definition check_round :: "'g rke_lib \<Rightarrow> 'g clientset \<Rightarrow> cluster_info \<Rightarrow> 'g \<Rightarrow> (goerr + cluster_info) \<times> 'g" where
  "check_round lib cs info g =
     (case cs_ServerVersion cs g of
        (Inl e, g1) \<Rightarrow> (Inl (Errorf (''failed to get Kubernetes server version: '' @ err_msg e)), g1)
      | (Inr version, g1) \<Rightarrow>
          (case GenerateServiceAccountToken cs g1 of
             (Inl e, g2, _) \<Rightarrow> (Inl e, g2)
           | (Inr token, g2, _) \<Rightarrow>
               (case nodeCount lib info of
                  Inl e \<Rightarrow> (Inl e, g2)
                | Inr n \<Rightarrow> (Inr (info\<lparr>ci_Version := version, ci_ServiceAccountToken := token, ci_NodeCount := n\<rparr>), g2))))"

fun check_rounds :: "nat \<Rightarrow> 'g rke_lib \<Rightarrow> 'g clientset \<Rightarrow> cluster_info \<Rightarrow> goerr option \<Rightarrow> 'g
    \<Rightarrow> (cluster_info option \<times> goerr option) \<times> 'g" where
  "check_rounds 0 lib cs info lastErr g = ((None, lastErr), g)"
| "check_rounds (Suc n) lib cs info lastErr g =
     (case check_round lib cs info g of
        (Inr info', g') \<Rightarrow> ((Some info', None), g')
      | (Inl e, g') \<Rightarrow> check_rounds n lib cs info (Some e) g')"

definition rke_PostCheck :: "rke_driver \<Rightarrow> 'g rke_lib \<Rightarrow> cluster_info \<Rightarrow> 'g rke_world
    \<Rightarrow> ((cluster_info option \<times> goerr option) outcome \<times> 'g rke_world) option" where
  "rke_PostCheck d lib info =
     or_nil (rke_getClientset d lib info) (\<lambda>(cs, info') w.
       (case check_rounds 3 lib cs info' None (rw_hosts w) of (r, g) \<Rightarrow> Some (Ret r, w\<lparr>rw_hosts := g\<rparr>)))"

definition rke_GetVersion :: "rke_driver \<Rightarrow> 'g rke_lib \<Rightarrow> cluster_info \<Rightarrow> (string, 'g rke_world) run" where
  "rke_GetVersion d lib info =
     gbind (gwrap ''failed to create clientset: '' (rke_getClientset d lib info)) (\<lambda>(cs, _).
     gwrap ''failed to get server version: '' (in_hosts (gcall (cs_ServerVersion cs))))"

definition rke_SetVersion :: "rke_driver \<Rightarrow> 'g rke_lib \<Rightarrow> cluster_info \<Rightarrow> string \<Rightarrow> (unit, 'g rke_world) run" where
  "rke_SetVersion d lib info version =
     gbind (gpure (ConvertToRkeConfig lib (gm_str (ci_Metadata info) ''Config''))) (\<lambda>config0.
     let config = config0\<lparr>rc_Version := version\<rparr> in
     with_state (Some info) Inl (\<lambda>stateDir.
       (case getFlags d config stateDir of (dialers, flags) \<Rightarrow>
        gbind (gdo (rk_ClusterInit lib config dialers flags)) (\<lambda>_.
        gbind (getData (DataStore d) (rc_Version config)) (\<lambda>data.
        gbind (gdo (\<lambda>w. case rk_ClusterUp lib dialers flags data w of ((_, err), w') \<Rightarrow> (err, w'))) (\<lambda>_ w.
        (case rke_save (Some info) stateDir (rw_fs w) of
           (Panic p, fs) \<Rightarrow> Some (Panic p, w\<lparr>rw_fs := fs\<rparr>)
         | (Ret _, fs) \<Rightarrow> Some (Ret (Inr ()), w\<lparr>rw_fs := fs\<rparr>))))))))"

definition rke_GetClusterSize :: "rke_driver \<Rightarrow> 'g rke_lib \<Rightarrow> cluster_info \<Rightarrow> (int64, 'g rke_world) run" where
  "rke_GetClusterSize d lib info =
     gbind (gwrap ''failed to create clientset: '' (rke_getClientset d lib info)) (\<lambda>(cs, _).
     gbind (gwrap ''failed to get server version: '' (in_hosts (gcall (rk_ListNodes lib cs)))) (\<lambda>n.
     gret (of_nat n)))"

text \<open>\<open>Remove\<close> goes on without a state directory when it cannot be made; its deferred \<open>save\<close> of no info is
  the clean-up.\<close>

definition rke_Remove :: "rke_driver \<Rightarrow> 'g rke_lib \<Rightarrow> cluster_info \<Rightarrow> (unit, 'g rke_world) run" where
  "rke_Remove d lib info =
     gbind (gpure (ConvertToRkeConfig lib (gm_str (ci_Metadata info) ''Config''))) (\<lambda>rkeConfig w.
       (case rke_restore (Some info) (rw_fs w) of (r, fs1) \<Rightarrow>
        (let stateDir = (case r of Inl _ \<Rightarrow> [] | Inr p \<Rightarrow> p) in
         case getFlags d rkeConfig stateDir of (dialers, flags) \<Rightarrow>
         (case gdo (rk_ClusterRemove lib rkeConfig dialers flags) (w\<lparr>rw_fs := fs1\<rparr>) of
            None \<Rightarrow> None
          | Some (res, w') \<Rightarrow> Some (res, on_fs (\<lambda>fs. snd (rke_save None stateDir fs)) w')))))"

definition rke_RemoveLegacyServiceAccount :: "rke_driver \<Rightarrow> 'g rke_lib \<Rightarrow> cluster_info \<Rightarrow> (unit, 'g rke_world) run" where
  "rke_RemoveLegacyServiceAccount d lib info =
     gbind (rke_getClientset d lib info) (\<lambda>(cs, _). in_hosts (gdo (DeleteLegacyServiceAccountAndRoleBinding cs)))"

text \<open>The two snapshot calls differ in the library function they end in.\<close>

definition on_snapshot :: "rke_driver \<Rightarrow> 'g rke_lib
    \<Rightarrow> (rke_config \<Rightarrow> dialers_options \<Rightarrow> external_flags \<Rightarrow> string \<Rightarrow> 'g rke_world \<Rightarrow> goerr option \<times> 'g rke_world)
    \<Rightarrow> cluster_info \<Rightarrow> string \<Rightarrow> (unit, 'g rke_world) run" where
  "on_snapshot d lib act info snapshotName =
     gbind (gpure (ConvertToRkeConfig lib (gm_str (ci_Metadata info) ''Config''))) (\<lambda>rkeConfig.
     with_state (Some info) Inl (\<lambda>stateDir.
       (case getFlags d rkeConfig stateDir of (dialers, flags) \<Rightarrow> gdo (act rkeConfig dialers flags snapshotName))))"

definition rke_ETCDSave :: "rke_driver \<Rightarrow> 'g rke_lib \<Rightarrow> cluster_info \<Rightarrow> string \<Rightarrow> (unit, 'g rke_world) run" where
  "rke_ETCDSave d lib = on_snapshot d lib (rk_SnapshotSaveEtcdHosts lib)"

definition rke_ETCDRemoveSnapshot :: "rke_driver \<Rightarrow> 'g rke_lib \<Rightarrow> cluster_info \<Rightarrow> string \<Rightarrow> (unit, 'g rke_world) run" where
  "rke_ETCDRemoveSnapshot d lib = on_snapshot d lib (rk_SnapshotRemoveFromEtcdHosts lib)"

definition rke_ETCDRestore :: "rke_driver \<Rightarrow> 'g rke_lib \<Rightarrow> cluster_info \<Rightarrow> driver_options \<Rightarrow> string \<Rightarrow> 'g rke_world
    \<Rightarrow> ((cluster_info option \<times> goerr option) outcome \<times> 'g rke_world) option" where
  "rke_ETCDRestore d lib info opts snapshotName =
     or_nil (\<lambda>w. Some (Ret (getYAML opts (rw_fs w)), w)) (\<lambda>yaml.
     or_nil (gpure (ConvertToRkeConfig lib yaml)) (\<lambda>rkeConfig.
     with_state (Some info) (\<lambda>e. (None, Some e)) (\<lambda>stateDir.
       or_nil (getData (DataStore d) (rc_Version rkeConfig)) (\<lambda>data w.
         (case getFlags d rkeConfig stateDir of (dialers, flags) \<Rightarrow>
          (case rk_RestoreEtcdSnapshot lib rkeConfig dialers flags data snapshotName w of (r, w') \<Rightarrow>
             rke_finish_update lib info yaml stateDir r w'))))))"

section \<open>Lemmas\<close>

text \<open>Every node is in a directory.\<close>

definition tree :: "fs \<Rightarrow> bool" where
  "tree fs \<longleftrightarrow> (\<forall>p x. p \<noteq> [] \<longrightarrow> node_at fs (p @ [x]) \<noteq> None \<longrightarrow> node_at fs p = Some FDir)"

lemma has_children_iff: "p \<noteq> [] \<Longrightarrow> has_children fs p \<longleftrightarrow> (\<exists>x. node_at fs (p @ [x]) \<noteq> None)"
proof -
  assume p: "p \<noteq> []"
  have "has_children fs p \<longleftrightarrow> (\<exists>q. q \<noteq> [] \<and> butlast q = p \<and> q \<in> fst ` set (Nodes fs))"
    by (force simp: has_children_def list_ex_iff)
  also have "\<dots> \<longleftrightarrow> (\<exists>x. p @ [x] \<in> fst ` set (Nodes fs))"
    by (metis append_butlast_last_id butlast_snoc snoc_eq_iff_butlast)
  also have "\<dots> \<longleftrightarrow> (\<exists>x. node_at fs (p @ [x]) \<noteq> None)"
    using p by (simp add: node_at_def map_of_eq_None_iff)
  finally show ?thesis .
qed

lemma try_tempdir_result:
  "try_tempdir n i dir prefix fs = (Inr p, fs') \<Longrightarrow>
   \<exists>j. p = dir @ [prefix @ Rand fs j] \<and> node_at fs p = None \<and> fs' = set_node p FDir fs"
  by (induction n arbitrary: i) (auto simp: Let_def split: option.splits if_splits)

lemma rancherPath_eq: "rancherPath = [''management-state'', ''rke'']"
  by (simp add: rancherPath_def fp_clean_def fp_join_def join_seg_def has_prefix_def)

lemma state_segs [simp]: "valid_seg ''cluster.yml''" "valid_seg kubeConfigFile" "valid_seg clusterStateFile"
  by (simp_all add: valid_seg_def kubeConfigFile_def clusterStateFile_def)

lemma state_files:
  "d \<noteq> [] \<Longrightarrow> kubeConfig (d @ [''cluster.yml'']) = d @ [kubeConfigFile]"
  "d \<noteq> [] \<Longrightarrow> clusterState (d @ [''cluster.yml'']) = d @ [clusterStateFile]"
  "kubeConfig (d @ [''rke-'' @ r]) = (d @ [''rke-'' @ r]) @ [kubeConfigFile]"
  "clusterState (d @ [''rke-'' @ r]) = (d @ [''rke-'' @ r]) @ [clusterStateFile]"
  by (simp_all add: kubeConfig_def clusterState_def at_cluster_yml_def Suc_le_eq)

lemma file_names_differ [simp]:
  "kubeConfigFile \<noteq> clusterStateFile" "clusterStateFile \<noteq> kubeConfigFile"
  "kubeConfigFile \<noteq> ''cluster.yml''" "clusterStateFile \<noteq> ''cluster.yml''"
  "''cluster.yml'' \<noteq> kubeConfigFile" "''cluster.yml'' \<noteq> clusterStateFile"
  by (simp_all add: kubeConfigFile_def clusterStateFile_def)

lemma write_state_ok:
  assumes "no_faults fs" "node_at fs (d @ [n]) = None" "node_at fs d = Some FDir" "d \<noteq> []"
  shows "write_state (d @ [n]) data fs = (if data \<noteq> [] then set_node (d @ [n]) (FFile data) fs else fs)"
  using assms by (simp add: write_state_def WriteFile_def)

text \<open>What \<open>restore\<close> leaves: a fresh directory with the state files of the info, and nothing else.\<close>

definition state_of :: "cluster_info option \<Rightarrow> string \<Rightarrow> string" where
  "state_of info k = (case info of None \<Rightarrow> [] | Some i \<Rightarrow> gm_str (ci_Metadata i) k)"

lemma rke_restore_result:
  assumes "no_faults fs" "tree fs" "rke_restore info fs = (Inr stateDir, fs2)"
  obtains i d where "d = rancherPath @ [''rke-'' @ Rand fs i]" "stateDir = d @ [''cluster.yml'']"
    and "node_at fs2 d = Some FDir" "no_faults fs2"
    and "\<And>x. node_at fs2 (d @ [x]) =
      (if x = kubeConfigFile \<and> state_of info ''state'' \<noteq> [] then Some (FFile (state_of info ''state''))
       else if x = clusterStateFile \<and> state_of info ''fullState'' \<noteq> [] then Some (FFile (state_of info ''fullState''))
       else None)"
proof -
  let ?fs0 = "snd (os_MkdirAll rancherPath fs)"
  have t: "touches {} (set (prefixes_of rancherPath)) fs ?fs0"
    unfolding os_MkdirAll_def by (rule touches_mkdirs) simp
  have env: "same_env fs ?fs0" by (rule touches_env[OF t])
  obtain dir fs1 where td: "TempDir rancherPath ''rke-'' ?fs0 = (Inr dir, fs1)"
    and sd: "stateDir = fp_join dir ''cluster.yml''"
    and fs2: "fs2 = (case info of None \<Rightarrow> fs1 | Some i \<Rightarrow>
      write_state (clusterState dir) (gm_str (ci_Metadata i) ''fullState'')
        (write_state (kubeConfig dir) (gm_str (ci_Metadata i) ''state'') fs1))"
    using assms(3) by (auto simp: rke_restore_def split: prod.splits sum.splits)
  obtain i where d: "dir = rancherPath @ [''rke-'' @ Rand fs i]" and fresh: "node_at ?fs0 dir = None"
    and fs1: "fs1 = set_node dir FDir ?fs0"
    using try_tempdir_result[OF td[unfolded TempDir_def]] same_envD[OF env] by auto
  have ne: "dir \<noteq> []" "dir \<notin> set (prefixes_of rancherPath)" "dir @ [x] \<notin> set (prefixes_of rancherPath)" for x
    by (auto simp: d in_prefixes_of rancherPath_eq)
  have "node_at fs (dir @ [x]) = None" for x
    using assms(2) fresh touches_node[OF t, of dir] ne by (auto simp: tree_def)
  then have none: "node_at fs1 (dir @ [x]) = None" for x
    using touches_node[OF t, of "dir @ [x]"] ne by (simp add: fs1 node_at_set_other)
  have nf: "no_faults fs1" using assms(1) no_faults_env[OF env] by (simp add: fs1 no_faults_def set_node_def)
  have isdir: "node_at fs1 dir = Some FDir" using ne(1) by (simp add: fs1 d rancherPath_eq)
  define s f where "s = state_of info ''state''" and "f = state_of info ''fullState''"
  define g where "g = (if s \<noteq> [] then set_node (dir @ [kubeConfigFile]) (FFile s) fs1 else fs1)"
  have kc: "kubeConfig dir = dir @ [kubeConfigFile]" "clusterState dir = dir @ [clusterStateFile]"
    unfolding d by (rule state_files)+
  have g: "write_state (kubeConfig dir) s fs1 = g" "no_faults g" "node_at g dir = Some FDir"
    and gx: "node_at g (dir @ [x]) = (if x = kubeConfigFile \<and> s \<noteq> [] then Some (FFile s) else None)" for x
    using write_state_ok[OF nf none isdir ne(1)] nf isdir none ne(1)
    by (auto simp: kc g_def no_faults_def set_node_def node_at_def update_conv')
  define h where "h = (if f \<noteq> [] then set_node (dir @ [clusterStateFile]) (FFile f) g else g)"
  have h: "write_state (clusterState dir) f g = h"
    using write_state_ok[OF g(2) _ g(3) ne(1), of clusterStateFile] by (simp add: kc h_def gx)
  have "fs2 = h"
    using fs2 g(1) h by (cases info) (auto simp: s_def f_def state_of_def g_def h_def)
  show thesis
  proof (rule that[OF d])
    show "stateDir = dir @ [''cluster.yml'']" using sd by simp
    show "node_at fs2 dir = Some FDir" "no_faults fs2"
      using g ne(1) unfolding \<open>fs2 = h\<close> h_def by (auto simp: no_faults_def set_node_def node_at_def update_conv')
    show "node_at fs2 (dir @ [x]) = (if x = kubeConfigFile \<and> state_of info ''state'' \<noteq> [] then Some (FFile (state_of info ''state''))
       else if x = clusterStateFile \<and> state_of info ''fullState'' \<noteq> [] then Some (FFile (state_of info ''fullState''))
       else None)" for x
      using gx[of x] ne(1) unfolding \<open>fs2 = h\<close> h_def s_def[symmetric] f_def[symmetric]
      by (auto simp: node_at_set_other)
  qed
qed

lemma contains_set: "contains s p \<Longrightarrow> set p \<subseteq> set s"
proof (induction s)
  case (Cons c s)
  have "set p \<subseteq> set (c # s)" if "has_prefix (c # s) p" using that by (metis has_prefix_def set_take_subset)
  with Cons show ?case by auto
qed simp

lemma case_gm_put: "(case gm_put k v m of None \<Rightarrow> a | Some l \<Rightarrow> b) = b"
  by (simp add: gm_put_def)

lemma rke_name_plain: "list_all is_digit r \<Longrightarrow> \<not> contains (''rke-'' @ r) ''..''"
  using contains_set[of "''rke-'' @ r" "''..''"] by (force simp: list_all_iff is_digit_def)

lemma os_Remove_missing: "no_faults fs \<Longrightarrow> node_at fs p = None \<Longrightarrow> snd (os_Remove p fs) = fs"
  by (simp add: os_Remove_def)

lemma os_Remove_file: "no_faults fs \<Longrightarrow> node_at fs p = Some (FFile x) \<Longrightarrow> snd (os_Remove p fs) = del_node p fs"
  by (simp add: os_Remove_def)

lemma no_faults_del [simp]: "no_faults (del_node p fs) = no_faults fs"
  by (simp add: no_faults_def del_node_def)

text \<open>The clean-up of a directory that holds at most the two state files.\<close>

lemma rke_cleanup_dir:
  assumes "no_faults fs" "d = rancherPath @ [''rke-'' @ r]" "list_all is_digit r" "node_at fs d = Some FDir"
    and "\<And>x. x \<noteq> kubeConfigFile \<Longrightarrow> x \<noteq> clusterStateFile \<Longrightarrow> node_at fs (d @ [x]) = None"
    and "node_at fs (d @ [kubeConfigFile]) \<noteq> Some FDir"
  shows "node_at (rke_cleanup (d @ [''cluster.yml'']) fs) (d @ [kubeConfigFile]) = None"
    and "node_at fs (d @ [clusterStateFile]) = None \<Longrightarrow> node_at (rke_cleanup (d @ [''cluster.yml'']) fs) d = None"
    and "node_at fs (d @ [clusterStateFile]) = Some n \<Longrightarrow>
      node_at (rke_cleanup (d @ [''cluster.yml'']) fs) (d @ [clusterStateFile]) = Some n"
proof -
  define fs' where "fs' = snd (os_Remove (d @ [kubeConfigFile]) fs)"
  have ne: "d \<noteq> []" "d \<noteq> [''/'']" using assms(2) by (simp_all add: rancherPath_eq)
  have "\<not> list_ex (\<lambda>seg. contains seg ''..'') (d @ [''cluster.yml''])"
    using rke_name_plain[OF assms(3)] by (simp add: assms(2) rancherPath_eq has_prefix_def)
  then have c: "rke_cleanup (d @ [''cluster.yml'']) fs = snd (os_Remove d fs')"
    using ne assms(1) assms(5)[of "''cluster.yml''"]
    by (simp add: rke_cleanup_def at_cluster_yml_def state_files os_Remove_missing fs'_def Suc_le_eq)
  have fs': "no_faults fs'" "node_at fs' (d @ [x]) = (if x = kubeConfigFile then None else node_at fs (d @ [x]))"
    "node_at fs' d = Some FDir" for x
  proof (atomize (full), cases "node_at fs (d @ [kubeConfigFile])")
    case None
    then show "no_faults fs' \<and> node_at fs' (d @ [x]) = (if x = kubeConfigFile then None else node_at fs (d @ [x])) \<and>
        node_at fs' d = Some FDir" using assms(1,4) by (simp add: fs'_def os_Remove_missing)
  next
    case (Some n)
    then obtain y where "n = FFile y" using assms(6) by (cases n) auto
    then show "no_faults fs' \<and> node_at fs' (d @ [x]) = (if x = kubeConfigFile then None else node_at fs (d @ [x])) \<and>
        node_at fs' d = Some FDir"
      using Some assms(1,4) ne by (simp add: fs'_def os_Remove_file node_at_del_other)
  qed
  have keep: "node_at (snd (os_Remove d fs')) (d @ [x]) = node_at fs' (d @ [x])" for x
    using ne by (intro touches_node[OF touches_os_Remove[of d "{d}" "{}"]]) auto
  show "node_at (rke_cleanup (d @ [''cluster.yml'']) fs) (d @ [kubeConfigFile]) = None"
    unfolding c keep by (simp add: fs')
  show "node_at (rke_cleanup (d @ [''cluster.yml'']) fs) (d @ [clusterStateFile]) = Some n"
    if "node_at fs (d @ [clusterStateFile]) = Some n"
    unfolding c keep using that by (simp add: fs')
  show "node_at (rke_cleanup (d @ [''cluster.yml'']) fs) d = None" if "node_at fs (d @ [clusterStateFile]) = None"
  proof -
    have "node_at fs' (d @ [x]) = None" for x
      using fs'(2)[of x] assms(5)[of x] that by (cases "x = clusterStateFile") auto
    then have "\<not> has_children fs' d" by (simp add: has_children_iff ne)
    then show ?thesis unfolding c using fs'(1,3) ne by (simp add: os_Remove_def)
  qed
qed

lemma or_nil_ok:
  assumes "or_nil m f w = Some (Ret (Some i, err), w')"
  obtains x w1 where "m w = Some (Ret (Inr x), w1)" "f x w1 = Some (Ret (Some i, err), w')"
  using assms by (auto simp: or_nil_def split: option.splits prod.splits outcome.splits sum.splits)

lemma with_state_ok:
  assumes "with_state info (\<lambda>e. (None, Some e)) body w = Some (Ret (Some i, err), w')"
  obtains stateDir w1 w2 where "body stateDir w1 = Some (Ret (Some i, err), w2)"
  using assms by (auto simp: with_state_def split: option.splits prod.splits sum.splits)

text \<open>Saving changes the two states in the metadata and nothing else.\<close>

lemma save_metadata_other:
  "save_metadata stateDir fs m = Ret m' \<Longrightarrow> k \<noteq> ''state'' \<Longrightarrow> k \<noteq> ''fullState'' \<Longrightarrow> gm_str m' k = gm_str m k"
  by (cases "ReadFile (kubeConfig stateDir) fs"; cases "ReadFile (clusterState stateDir) fs")
    (auto simp: save_metadata_def case_gm_put split: option.splits)

lemma save_return_ok:
  assumes "save_return info stateDir err w = Some (Ret (Some i, err'), w')"
  shows "err' = err" "k \<noteq> ''state'' \<Longrightarrow> k \<noteq> ''fullState'' \<Longrightarrow> gm_str (ci_Metadata i) k = gm_str (ci_Metadata info) k"
  using assms by (auto simp: save_return_def rke_save_def save_metadata_other split: prod.splits outcome.splits)

lemma finish_create_ok:
  assumes "rke_finish_create lib yaml stateDir (up, err0) w = Some (Ret (Some i, None), w')"
  shows "gm_str (ci_Metadata i) ''Endpoint'' = up_APIURL up" "gm_str (ci_Metadata i) ''Config'' = yaml"
    "gm_str (ci_Metadata i) ''RootCA'' = base64_encode (up_caCrt up)"
    "gm_str (ci_Metadata i) ''ClientCert'' = base64_encode (up_clientCert up)"
    "gm_str (ci_Metadata i) ''ClientKey'' = base64_encode (up_clientKey up)"
proof -
  obtain certStr where "save_return (empty_info\<lparr>ci_Metadata := up_metadata up yaml certStr\<rparr>) stateDir None w = Some (Ret (Some i, None), w')"
    using assms save_return_ok(1) by (fastforce simp: rke_finish_create_def split: prod.splits if_splits)
  note save_return_ok(2)[OF this]
  then show "gm_str (ci_Metadata i) ''Endpoint'' = up_APIURL up" "gm_str (ci_Metadata i) ''Config'' = yaml"
    "gm_str (ci_Metadata i) ''RootCA'' = base64_encode (up_caCrt up)"
    "gm_str (ci_Metadata i) ''ClientCert'' = base64_encode (up_clientCert up)"
    "gm_str (ci_Metadata i) ''ClientKey'' = base64_encode (up_clientKey up)"
    by (simp_all add: up_metadata_def gm_str_def gm_find_def gm_list_def)
qed

text \<open>With certificates at hand the error of the library is dropped; and the driver as \<open>NewDriver\<close> makes it has no store
  of templates, so that \<open>Create\<close> panics.\<close>

lemma rke_up_error_dropped:
  "up_certs up \<noteq> [] \<Longrightarrow> rke_finish_create lib yaml stateDir (up, err) w = rke_finish_create lib yaml stateDir (up, None) w"
  by (simp add: rke_finish_create_def)

lemma rke_new_driver_panics:
  assumes "getYAML opts (rw_fs w) = Inr yaml" "ConvertToRkeConfig lib yaml = Inr config"
    and "rke_restore info (rw_fs w) = (Inr stateDir, fs1)"
  shows "\<exists>w'. rke_Create rke_NewDriver lib opts info w = Some (Panic ''nil pointer dereference'', w')"
  using assms by (simp add: rke_Create_def or_nil_def with_state_def getData_def rke_NewDriver_def)

text \<open>Inputs for the witnesses.\<close>

definition demo_rke_info :: cluster_info where
  "demo_rke_info = empty_info\<lparr>ci_Metadata := Some [(''state'', ''kube''), (''fullState'', ''full'')]\<rparr>"

definition demo_rke_driver :: rke_driver where
  "demo_rke_driver = rke_NewDriver\<lparr>WrapTransportFactory := Some (\<lambda>c. None),
     DataStore := Some \<lparr>GetAddonTemplates = \<lambda>v. Inr (Some []), GetServiceOptions = \<lambda>v. Inr []\<rparr>\<rparr>"

definition demo_rke_up :: rke_up where
  "demo_rke_up = \<lparr>up_APIURL = ''api'', up_caCrt = ''ca'', up_clientCert = ''cert'', up_clientKey = ''key'', up_certs = []\<rparr>"

definition demo_rke_lib :: "nat rke_lib" where
  "demo_rke_lib = \<lparr>rk_yaml = \<lambda>y. Inr \<lparr>rc_Version = [], rc_NodeRoles = [], rc_rest = y\<rparr>, rk_pem = demo_pem,
     rk_ClusterInit = \<lambda>c dl fl w. (None, w), rk_ClusterUp = \<lambda>dl fl data w. ((demo_rke_up, None), w),
     rk_ClusterRemove = \<lambda>c dl fl w. (None, w), rk_SnapshotSaveEtcdHosts = \<lambda>c dl fl n w. (None, w),
     rk_SnapshotRemoveFromEtcdHosts = \<lambda>c dl fl n w. (None, w),
     rk_RestoreEtcdSnapshot = \<lambda>c dl fl data n w. ((demo_rke_up, None), w),
     rk_NewForConfig = \<lambda>host ca cert key wr. Inl (Errorf (host @ '' '' @ ca @ '' '' @ cert @ '' '' @ key)),
     rk_ListNodes = \<lambda>cs g. (Inr 0, g)\<rparr>"

definition demo_rke_opts :: driver_options where
  "demo_rke_opts = \<lparr>BoolOptions = Map.empty, StringOptions = [''rkeConfig'' \<mapsto> ''nodes: []''], IntOptions = Map.empty,
     StringSliceOptions = Map.empty\<rparr>"

definition demo_rke_world :: "nat rke_world" where
  "demo_rke_world = \<lparr>rw_fs = plain_fs [], rw_hosts = 0\<rparr>"

lemma TempDir_first:
  "no_faults fs \<Longrightarrow> node_at fs (dir @ [prefix @ Rand fs 0]) = None \<Longrightarrow> node_at fs dir = Some FDir \<Longrightarrow>
   TempDir dir prefix fs = (Inr (dir @ [prefix @ Rand fs 0]), set_node (dir @ [prefix @ Rand fs 0]) FDir fs)"
  unfolding TempDir_def by (simp add: numeral_eq_Suc Let_def)

lemma demo_rke_restore: "\<exists>stateDir fs1. rke_restore info (plain_fs []) = (Inr stateDir, fs1)"
proof -
  let ?fs0 = "snd (os_MkdirAll rancherPath (plain_fs []))"
  have fs0: "?fs0 = set_node rancherPath FDir (set_node [''management-state''] FDir (plain_fs []))"
    by (simp add: os_MkdirAll_def prefixes_of_def rancherPath_eq upt_rec plain_fs_def node_at_def set_node_def)
  have "no_faults ?fs0" "node_at ?fs0 rancherPath = Some FDir" "node_at ?fs0 (rancherPath @ [x]) = None" for x
    unfolding fs0 by (simp_all add: no_faults_def set_node_def plain_fs_def node_at_def rancherPath_eq)
  then show ?thesis by (simp add: rke_restore_def TempDir_first)
qed

lemma demo_tree: "tree (plain_fs [])"
  by (simp add: tree_def node_at_plain)

section \<open>Properties\<close>

text \<open>C15. The state of a cluster survives the driver's state directory: whatever info is saved from a directory that
  was restored from an info with both states, it carries the same two states.\<close>

theorem rke_restore_save:
  assumes "no_faults fs" "tree fs" "rke_restore (Some info) fs = (Inr stateDir, fs1)"
    and "gm_str (ci_Metadata info) ''state'' \<noteq> []" "gm_str (ci_Metadata info) ''fullState'' \<noteq> []"
  shows "\<exists>i fs2. rke_save (Some new) stateDir fs1 = (Ret (Some i), fs2) \<and>
     gm_str (ci_Metadata i) ''state'' = gm_str (ci_Metadata info) ''state'' \<and>
     gm_str (ci_Metadata i) ''fullState'' = gm_str (ci_Metadata info) ''fullState''"
proof -
  obtain k d where "d = rancherPath @ [''rke-'' @ Rand fs k]" and s: "stateDir = d @ [''cluster.yml'']"
    and nf: "no_faults fs1" and x: "\<And>x. node_at fs1 (d @ [x]) =
      (if x = kubeConfigFile \<and> state_of (Some info) ''state'' \<noteq> [] then Some (FFile (state_of (Some info) ''state''))
       else if x = clusterStateFile \<and> state_of (Some info) ''fullState'' \<noteq> [] then Some (FFile (state_of (Some info) ''fullState''))
       else None)"
    using assms(1-3) by (rule rke_restore_result) blast
  then have "d \<noteq> []" by simp
  then have "ReadFile (kubeConfig stateDir) fs1 = Inr (gm_str (ci_Metadata info) ''state'')"
    "ReadFile (clusterState stateDir) fs1 = Inr (gm_str (ci_Metadata info) ''fullState'')"
    using assms(4,5) nf by (simp_all add: s state_files ReadFile_def x state_of_def)
  then show ?thesis by (simp add: rke_save_def save_metadata_def Let_def case_gm_put)
qed

theorem rke_restore_save_witness:
  "\<exists>stateDir fs1 i fs2. rke_restore (Some demo_rke_info) (plain_fs []) = (Inr stateDir, fs1) \<and>
     rke_save (Some empty_info) stateDir fs1 = (Ret (Some i), fs2) \<and>
     gm_str (ci_Metadata i) ''state'' = ''kube'' \<and> gm_str (ci_Metadata i) ''fullState'' = ''full''"
proof -
  obtain stateDir fs1 where r: "rke_restore (Some demo_rke_info) (plain_fs []) = (Inr stateDir, fs1)"
    using demo_rke_restore by blast
  have m: "gm_str (ci_Metadata demo_rke_info) ''state'' = ''kube''" "gm_str (ci_Metadata demo_rke_info) ''fullState'' = ''full''"
    by (simp_all add: demo_rke_info_def gm_str_def gm_find_def gm_list_def)
  show ?thesis
    using rke_restore_save[OF no_faults_plain demo_tree r, of empty_info] r unfolding m by auto
qed

text \<open>After a call whose library function leaves the restored files alone, the clean-up has deleted the cluster's
  kubeconfig; it deletes the directory too when the info carried no full state, and otherwise both the directory
  and the file with the full state stay on disk.\<close>

theorem rke_cleanup_after_restore:
  assumes "no_faults fs" "tree fs" "\<forall>i. list_all is_digit (Rand fs i)" "rke_restore info fs = (Inr stateDir, fs1)"
  shows "node_at (rke_cleanup stateDir fs1) (kubeConfig stateDir) = None \<and>
    (if state_of info ''fullState'' = [] then node_at (rke_cleanup stateDir fs1) (fp_dir stateDir) = None
     else node_at (rke_cleanup stateDir fs1) (clusterState stateDir) = Some (FFile (state_of info ''fullState'')))"
proof -
  obtain k d where d: "d = rancherPath @ [''rke-'' @ Rand fs k]" and s: "stateDir = d @ [''cluster.yml'']"
    and dir: "node_at fs1 d = Some FDir" and nf: "no_faults fs1" and x: "\<And>x. node_at fs1 (d @ [x]) =
      (if x = kubeConfigFile \<and> state_of info ''state'' \<noteq> [] then Some (FFile (state_of info ''state''))
       else if x = clusterStateFile \<and> state_of info ''fullState'' \<noteq> [] then Some (FFile (state_of info ''fullState''))
       else None)"
    using assms(1,2,4) by (rule rke_restore_result) blast
  have "d \<noteq> []" by (simp add: d)
  then show ?thesis
    using rke_cleanup_dir[OF nf d _ dir] assms(3) by (auto simp: s state_files x)
qed

theorem rke_cleanup_after_restore_witness:
  "\<exists>stateDir fs1. rke_restore (Some demo_rke_info) (plain_fs []) = (Inr stateDir, fs1) \<and>
     node_at (rke_cleanup stateDir fs1) (clusterState stateDir) = Some (FFile ''full'')"
proof -
  obtain stateDir fs1 where r: "rke_restore (Some demo_rke_info) (plain_fs []) = (Inr stateDir, fs1)"
    using demo_rke_restore by blast
  have f: "state_of (Some demo_rke_info) ''fullState'' = ''full''"
    by (simp add: state_of_def demo_rke_info_def gm_str_def gm_find_def gm_list_def)
  have "\<forall>i. list_all is_digit (Rand (plain_fs []) i)"
    using nat_text_digits by (simp add: plain_fs_def list_all_iff)
  from rke_cleanup_after_restore[OF no_faults_plain demo_tree this r] r show ?thesis unfolding f by auto
qed

text \<open>C19. The clients of a created cluster get the credentials of the library: when \<open>Create\<close> reports success, then
  \<open>getClientset\<close> on the info it returned connects to the URL that the library reported for the configuration,
  over https, with exactly its root certificate, client certificate and key. That needs a transport factory: with a nil
  one, which \<open>Create\<close> accepts and \<open>NewDriver\<close> leaves, \<open>getClientset\<close> panics.\<close>

theorem rke_created_credentials:
  assumes "rke_Create d lib opts info w = Some (Ret (Some i, None), w')"
  shows "\<exists>yaml config stateDir data v up err v' i'.
     getYAML opts (rw_fs w) = Inr yaml \<and> ConvertToRkeConfig lib yaml = Inr config \<and>
     clusterUp lib config (fst (getFlags d config stateDir)) (snd (getFlags d config stateDir)) data v = ((up, err), v') \<and>
     rke_getClientset d lib i w' =
       (case WrapTransportFactory d of
          None \<Rightarrow> gpanic ''nil pointer dereference'' w'
        | Some factory \<Rightarrow>
            gbind (gpure (rk_NewForConfig lib
                (if has_prefix (up_APIURL up) ''https://'' then up_APIURL up else ''https://'' @ up_APIURL up)
                (up_caCrt up) (up_clientCert up) (up_clientKey up) (factory config)))
              (\<lambda>cs. gret (cs, i')) w')"
proof -
  from assms obtain yaml config stateDir data v w2 where y: "getYAML opts (rw_fs w) = Inr yaml"
    and c: "ConvertToRkeConfig lib yaml = Inr config" and
    "(case getFlags d config stateDir of (dialers, flags) \<Rightarrow>
       (case clusterUp lib config dialers flags data v of (r, w') \<Rightarrow>
          rke_finish_create lib yaml stateDir r w')) = Some (Ret (Some i, None), w2)"
    unfolding rke_Create_def by (elim or_nil_ok with_state_ok) auto
  then obtain up err v' where
    u: "clusterUp lib config (fst (getFlags d config stateDir)) (snd (getFlags d config stateDir)) data v = ((up, err), v')"
    and f: "rke_finish_create lib yaml stateDir (up, err) v' = Some (Ret (Some i, None), w2)"
    by (auto split: prod.splits)
  have "\<exists>i'. rke_getClientset d lib i w' =
       (case WrapTransportFactory d of
          None \<Rightarrow> gpanic ''nil pointer dereference'' w'
        | Some factory \<Rightarrow>
            gbind (gpure (rk_NewForConfig lib
                (if has_prefix (up_APIURL up) ''https://'' then up_APIURL up else ''https://'' @ up_APIURL up)
                (up_caCrt up) (up_clientCert up) (up_clientKey up) (factory config)))
              (\<lambda>cs. gret (cs, i')) w')"
    using c by (auto simp: rke_getClientset_def Let_def finish_create_ok[OF f] decode_field_def base64_decode_encode gbind_simps
        split: option.split)
  with y c u show ?thesis by blast
qed

theorem rke_created_credentials_witness:
  "\<exists>i w'. rke_Create demo_rke_driver demo_rke_lib demo_rke_opts None demo_rke_world = Some (Ret (Some i, None), w') \<and>
     rke_getClientset demo_rke_driver demo_rke_lib i w' = Some (Ret (Inl (Errorf ''https://api ca cert key'')), w')"
proof -
  obtain stateDir fs1 where r: "rke_restore None (plain_fs []) = (Inr stateDir, fs1)"
    using demo_rke_restore by blast
  have "\<exists>i w'. rke_Create demo_rke_driver demo_rke_lib demo_rke_opts None demo_rke_world = Some (Ret (Some i, None), w')"
    by (simp add: rke_Create_def or_nil_def with_state_def r demo_rke_world_def getYAML_def demo_rke_opts_def
        ConvertToRkeConfig_def demo_rke_lib_def demo_rke_driver_def getData_def gbind_simps Let_def
        getFlags_def clusterUp_def rke_finish_create_def demo_rke_up_def save_return_def rke_save_def
        save_metadata_def up_metadata_def case_gm_put List.map_filter_simps split: sum.splits option.splits)
  then obtain i w' where c: "rke_Create demo_rke_driver demo_rke_lib demo_rke_opts None demo_rke_world = Some (Ret (Some i, None), w')"
    by blast
  have "WrapTransportFactory demo_rke_driver = Some (\<lambda>c. None)" by (simp add: demo_rke_driver_def)
  with rke_created_credentials[OF c] have
    "rke_getClientset demo_rke_driver demo_rke_lib i w' = Some (Ret (Inl (Errorf ''https://api ca cert key'')), w')"
    by (auto simp: clusterUp_def demo_rke_lib_def demo_rke_up_def has_prefix_def gbind_simps)
  with c show ?thesis by blast
qed

end
