(* ===== verification/Writer.thy ===== *)
theory Writer
  imports GoJson
begin

text \<open>
  The table writer of the \<open>ls\<close> command (\<open>utils/writer.go\<close>). Executing a template, marshalling a value and
  the tab writer below are the record \<open>writer_lib\<close>: each says what is written and with which error. An
  object is \<open>Some x\<close>, and \<open>None\<close> is the empty struct the header is printed with. The main fact is what
  a table consists of: its header once, and then one row per object.
\<close>

section \<open>The writer\<close>

text \<open>The function \<open>json\<close> of a template; its argument is what marshalling the data gives.\<close>

type_synonym template_funcs = "(string \<times> (goerr + json \<Rightarrow> string \<times> goerr option)) list"

record 'o writer_lib =
  wl_Template :: "template_funcs \<Rightarrow> string \<Rightarrow> 'o option \<Rightarrow> string \<times> goerr option"
  wl_Marshal :: "'o \<Rightarrow> goerr + string"
  wl_Write :: "string \<Rightarrow> goerr option"
  wl_Flush :: "goerr option"

record TableWriter =
  HeaderFormat :: string
  ValueFormat :: string
  tw_err :: "goerr option"
  headerPrinted :: bool
  tw_out :: "string list"

definition appendTabDelim :: "string \<Rightarrow> string \<Rightarrow> string" where
  "appendTabDelim buf v = (if buf = [] then v else buf @ [CHR 0x09] @ v)"

fun simple_loop :: "(string \<times> string) list \<Rightarrow> string \<Rightarrow> string \<Rightarrow> string \<times> string" where
  "simple_loop [] header row = (header, row)"
| "simple_loop ((h, v) # vs) header row =
     simple_loop vs (appendTabDelim header h)
       (appendTabDelim row (if contains v ''{{'' then v else ''{{.'' @ v @ ''}}''))"

definition SimpleFormat :: "(string \<times> string) list \<Rightarrow> string \<times> string" where
  "SimpleFormat values =
     (case simple_loop values [] [] of (header, row) \<Rightarrow> (header @ [CHR 0x0A], row @ [CHR 0x0A]))"

text \<open>\<open>quiet\<close> and \<open>customFormat\<close> are the flags \<open>quiet\<close> and \<open>format\<close> of the command.\<close>

definition NewTableWriter :: "(string \<times> string) list \<Rightarrow> bool \<Rightarrow> string \<Rightarrow> TableWriter" where
  "NewTableWriter values quiet customFormat =
     (case SimpleFormat values of (header, row) \<Rightarrow>
        (let (h1, v1) = (if quiet then ([], ''{{.ID}}'' @ [CHR 0x0A]) else (header, row));
             (h2, v2) = (if customFormat = ''json'' then ([], ''json'')
                         else if customFormat \<noteq> [] then ([], customFormat @ [CHR 0x0A])
                         else (h1, v1)) in
         \<lparr>HeaderFormat = h2, ValueFormat = v2, tw_err = None, headerPrinted = False, tw_out = []\<rparr>))"

definition Err :: "TableWriter \<Rightarrow> goerr option" where
  "Err t = tw_err t"

definition FormatJSON :: "goerr + json \<Rightarrow> string \<times> goerr option" where
  "FormatJSON data =
     (case data of
        Inl err \<Rightarrow> ([CHR 0x0A], Some err)
      | Inr v \<Rightarrow> (ind_val (replicate 4 (CHR '' '')) 0 v @ [CHR 0x0A], None))"

definition funcMap :: template_funcs where
  "funcMap = [(''json'', FormatJSON)]"

definition printTemplate :: "'o writer_lib \<Rightarrow> string \<Rightarrow> 'o option \<Rightarrow> TableWriter \<Rightarrow> TableWriter" where
  "printTemplate lib templateContent obj t =
     (case wl_Template lib funcMap templateContent obj of
        (text, err) \<Rightarrow> t\<lparr>tw_out := tw_out t @ [text], tw_err := err\<rparr>)"

definition writeHeader :: "'o writer_lib \<Rightarrow> TableWriter \<Rightarrow> TableWriter" where
  "writeHeader lib t =
     (if HeaderFormat t \<noteq> [] \<and> \<not> headerPrinted t
      then printTemplate lib (HeaderFormat t) None (t\<lparr>headerPrinted := True\<rparr>) else t)"

definition Write :: "'o writer_lib \<Rightarrow> 'o \<Rightarrow> TableWriter \<Rightarrow> TableWriter" where
  "Write lib obj t =
     (if tw_err t \<noteq> None then t
      else (let t1 = writeHeader lib t in
            if tw_err t1 \<noteq> None then t1
            else if ValueFormat t1 = ''json'' then
              (case wl_Marshal lib obj of
                 Inl e \<Rightarrow> t1\<lparr>tw_err := Some e\<rparr>
               | Inr content \<Rightarrow>
                   t1\<lparr>tw_out := tw_out t1 @ [content @ [CHR 0x0A]], tw_err := wl_Write lib (content @ [CHR 0x0A])\<rparr>)
            else printTemplate lib (ValueFormat t1) (Some obj) t1))"

text \<open>The returned error and the writer; the error of the flush is only returned.\<close>

definition Close :: "'o writer_lib \<Rightarrow> TableWriter \<Rightarrow> goerr option \<times> TableWriter" where
  "Close lib t =
     (if tw_err t \<noteq> None then (tw_err t, t)
      else (let t1 = writeHeader lib t in
            if tw_err t1 \<noteq> None then (tw_err t1, t1) else (wl_Flush lib, t1)))"

section \<open>Lemmas\<close>

text \<open>An error stops the writer: nothing more is written.\<close>

lemma Write_after_error: "tw_err t \<noteq> None \<Longrightarrow> fold (Write lib) objs t = t"
  by (induction objs) (simp_all add: Write_def)

text \<open>The text of one row, and when writing it succeeds.\<close>

definition row_text :: "'o writer_lib \<Rightarrow> string \<Rightarrow> 'o \<Rightarrow> string" where
  "row_text lib fmt obj =
     (if fmt = ''json'' then (case wl_Marshal lib obj of Inr c \<Rightarrow> c @ [CHR 0x0A] | Inl _ \<Rightarrow> [])
      else fst (wl_Template lib funcMap fmt (Some obj)))"

definition row_ok :: "'o writer_lib \<Rightarrow> string \<Rightarrow> 'o \<Rightarrow> bool" where
  "row_ok lib fmt obj \<longleftrightarrow>
     (if fmt = ''json'' then (case wl_Marshal lib obj of Inr c \<Rightarrow> wl_Write lib (c @ [CHR 0x0A]) = None | Inl _ \<Rightarrow> False)
      else snd (wl_Template lib funcMap fmt (Some obj)) = None)"

definition header_text :: "'o writer_lib \<Rightarrow> TableWriter \<Rightarrow> string list" where
  "header_text lib t = (if HeaderFormat t \<noteq> [] \<and> \<not> headerPrinted t then [fst (wl_Template lib funcMap (HeaderFormat t) None)] else [])"

definition header_ok :: "'o writer_lib \<Rightarrow> TableWriter \<Rightarrow> bool" where
  "header_ok lib t \<longleftrightarrow> HeaderFormat t = [] \<or> snd (wl_Template lib funcMap (HeaderFormat t) None) = None"

lemma writeHeader_ok:
  assumes "tw_err t = None" "header_ok lib t"
  shows "tw_err (writeHeader lib t) = None" "tw_out (writeHeader lib t) = tw_out t @ header_text lib t"
    "ValueFormat (writeHeader lib t) = ValueFormat t" "HeaderFormat (writeHeader lib t) = HeaderFormat t"
    "header_text lib (writeHeader lib t) = []" "header_ok lib (writeHeader lib t)"
  using assms by (auto simp: writeHeader_def printTemplate_def header_text_def header_ok_def split: prod.splits)

lemma Write_ok:
  assumes "tw_err t = None" "header_ok lib t" "row_ok lib (ValueFormat t) obj"
  shows "tw_err (Write lib obj t) = None" "tw_out (Write lib obj t) = tw_out t @ header_text lib t @ [row_text lib (ValueFormat t) obj]"
    "ValueFormat (Write lib obj t) = ValueFormat t" "header_text lib (Write lib obj t) = []" "header_ok lib (Write lib obj t)"
proof -
  let ?t = "writeHeader lib t"
  note h = writeHeader_ok[OF assms(1,2)]
  have same: "header_text lib (?t\<lparr>tw_out := x, tw_err := y\<rparr>) = header_text lib ?t"
    "header_ok lib (?t\<lparr>tw_out := x, tw_err := y\<rparr>) = header_ok lib ?t" for x y
    by (simp_all add: header_text_def header_ok_def)
  show "tw_err (Write lib obj t) = None" "tw_out (Write lib obj t) = tw_out t @ header_text lib t @ [row_text lib (ValueFormat t) obj]"
    "ValueFormat (Write lib obj t) = ValueFormat t" "header_text lib (Write lib obj t) = []" "header_ok lib (Write lib obj t)"
    using assms h by (auto simp: Write_def Let_def row_ok_def row_text_def printTemplate_def same
        split: sum.splits prod.splits if_splits)
qed

lemma Writes_ok:
  assumes "tw_err t = None" "header_ok lib t" "\<forall>obj \<in> set objs. row_ok lib (ValueFormat t) obj"
  shows "tw_err (fold (Write lib) objs t) = None \<and> header_ok lib (fold (Write lib) objs t) \<and>
    tw_out (fold (Write lib) objs t) @ header_text lib (fold (Write lib) objs t) =
      tw_out t @ header_text lib t @ map (row_text lib (ValueFormat t)) objs"
  using assms
proof (induction objs arbitrary: t)
  case (Cons obj objs)
  note w = Write_ok[OF Cons.prems(1,2), of obj]
  have ok: "row_ok lib (ValueFormat t) obj" using Cons.prems(3) by simp
  show ?case using Cons.IH[of "Write lib obj t"] w[OF ok] Cons.prems(3) by simp
qed simp

section \<open>Properties\<close>

text \<open>A table that is written without an error consists of its header, exactly once and first, also when there
  are no rows, and then of one row per object in the order of the writes.\<close>

theorem table_output:
  assumes "t = NewTableWriter values quiet customFormat" "header_ok lib t" "\<forall>obj \<in> set objs. row_ok lib (ValueFormat t) obj"
  shows "\<exists>t'. Close lib (fold (Write lib) objs t) = (wl_Flush lib, t') \<and>
     tw_out t' = (if HeaderFormat t = [] then [] else [fst (wl_Template lib funcMap (HeaderFormat t) None)]) @
       map (row_text lib (ValueFormat t)) objs"
proof -
  have t: "tw_err t = None" "tw_out t = []" "\<not> headerPrinted t"
    using assms(1) by (simp_all add: NewTableWriter_def Let_def split: prod.splits)
  let ?u = "fold (Write lib) objs t"
  have u: "tw_err ?u = None" "header_ok lib ?u"
    "tw_out ?u @ header_text lib ?u = header_text lib t @ map (row_text lib (ValueFormat t)) objs"
    using Writes_ok[OF t(1) assms(2,3)] t(2) by simp_all
  show ?thesis
    using writeHeader_ok(1,2)[OF u(1,2)] u t(3) by (simp add: Close_def Let_def header_text_def)
qed

definition demo_writer :: "string writer_lib" where
  "demo_writer = \<lparr>wl_Template = \<lambda>fs fmt obj. (case obj of None \<Rightarrow> (fmt, None) | Some x \<Rightarrow> (x, None)),
     wl_Marshal = \<lambda>x. Inr x, wl_Write = \<lambda>s. None, wl_Flush = None\<rparr>"

theorem table_output_witness:
  "\<exists>t'. Close demo_writer (fold (Write demo_writer) [''c1'', ''c2''] (NewTableWriter [(''NAME'', ''Name'')] False [])) = (None, t') \<and>
     tw_out t' = [''NAME'' @ [CHR 0x0A], ''c1'', ''c2'']"
  using table_output[OF refl, of demo_writer "[(''NAME'', ''Name'')]" False "[]" "[''c1'', ''c2'']"]
  by (simp add: NewTableWriter_def SimpleFormat_def appendTabDelim_def demo_writer_def header_ok_def row_ok_def row_text_def has_prefix_def)

end
