(* ===== verification/Cmd.thy ===== *)
theory Cmd
  imports CliStore Writer
begin

text \<open>
  The command line (\<open>cmd/\<close>, \<open>drivers/register.go\<close>). The command-line library is a parameter: \<open>cli_ctx\<close> is the
  context it parsed. The registered drivers, the connection to a started one, and the library functions of the
  store and the writer are the record \<open>cmd_env\<close>. A command is a function on \<open>cmd_world\<close>: what was
  printed, the files, and the state of the providers. \<open>create\<close> and \<open>update\<close> run twice, first to learn the
  driver's flags and then with them: the first pass gives the arguments and flags of the second
  (\<open>Rerun\<close>). Lemmas: how a driver is looked up, which options reach it, and what the commands
  do to the store.
\<close>

section \<open>The command-line library\<close>

datatype cli_flag =
    StringFlag string string string
  | BoolFlag string string
  | Int64Flag string string int64
  | StringSliceFlag string string

fun flag_GetName :: "cli_flag \<Rightarrow> string" where
  "flag_GetName (StringFlag n u v) = n"
| "flag_GetName (BoolFlag n u) = n"
| "flag_GetName (Int64Flag n u v) = n"
| "flag_GetName (StringSliceFlag n u) = n"

record cli_ctx =
  cx_Args :: "string list"
  cx_Flags :: "cli_flag list"
  cx_String :: "string \<Rightarrow> string"
  cx_Bool :: "string \<Rightarrow> bool"
  cx_Int64 :: "string \<Rightarrow> int64"
  cx_StringSlice :: "string \<Rightarrow> string list"
  cx_GlobalString :: "string \<Rightarrow> string"

text \<open>\<open>ctx.Args().Get(n)\<close> is empty out of range.\<close>

definition arg_get :: "cli_ctx \<Rightarrow> nat \<Rightarrow> string" where
  "arg_get cx n = (if n < length (cx_Args cx) then cx_Args cx ! n else [])"

record 'd cmd_env =
  ce_OsArgs :: "string list"
  ce_Drivers :: "string \<rightharpoonup> 'd driver"
  ce_Listen :: string
  ce_Dial :: "string \<Rightarrow> goerr + 'd conn"
  ce_yaml :: yaml_codec
  ce_FmtFloat :: "rat \<Rightarrow> string"
  ce_writer :: "cluster writer_lib"
  ce_Stdout :: "string \<Rightarrow> goerr option"

record 'd cmd_world =
  cw_out :: "string list"
  cw_fs :: fs
  cw_provider :: 'd

definition println :: "string \<Rightarrow> 'd cmd_world \<Rightarrow> 'd cmd_world" where
  "println line w = w\<lparr>cw_out := cw_out w @ [line]\<rparr>"

definition ShowCommandHelp :: "string \<Rightarrow> 'd cmd_world \<Rightarrow> goerr option \<times> 'd cmd_world" where
  "ShowCommandHelp cmd w = (None, println (''help '' @ cmd) w)"

section \<open>Flags and options\<close>

text \<open>The names under which \<open>register.go\<close> registers the drivers.\<close>

definition registered_names :: "string list" where
  "registered_names = [''googlekubernetesengine'', ''azurekubernetesservice'', ''amazonelasticcontainerservice'', ''import'', ''rke'']"

definition int_value :: "string \<Rightarrow> int64" where
  "int_value s = (case Atoi s of Some v \<Rightarrow> word_of_int v | None \<Rightarrow> 0)"

fun getDriverFlags :: "driver_flags \<Rightarrow> cli_flag list" where
  "getDriverFlags [] = []"
| "getDriverFlags ((k, v) # opts) =
     (if flag_Type v = ''int'' \<or> flag_Type v = ''intPtr'' then [Int64Flag k (flag_Usage v) (int_value (flag_Value v))]
      else if flag_Type v = ''string'' then [StringFlag k (flag_Usage v) (flag_Value v)]
      else if flag_Type v = ''stringSlice'' then [StringSliceFlag k (flag_Usage v)]
      else if flag_Type v = ''bool'' \<or> flag_Type v = ''boolPtr'' then [BoolFlag k (flag_Usage v)]
      else []) @ getDriverFlags opts"

fun set_option :: "cli_ctx \<Rightarrow> cli_flag \<Rightarrow> driver_options \<Rightarrow> driver_options" where
  "set_option cx (StringFlag n u v) opts = opts\<lparr>StringOptions := (StringOptions opts)(n \<mapsto> cx_String cx n)\<rparr>"
| "set_option cx (BoolFlag n u) opts = opts\<lparr>BoolOptions := (BoolOptions opts)(n \<mapsto> cx_Bool cx n)\<rparr>"
| "set_option cx (Int64Flag n u v) opts = opts\<lparr>IntOptions := (IntOptions opts)(n \<mapsto> cx_Int64 cx n)\<rparr>"
| "set_option cx (StringSliceFlag n u) opts =
     opts\<lparr>StringSliceOptions := (StringSliceOptions opts)(n \<mapsto> cx_StringSlice cx n)\<rparr>"

definition getDriverOpts :: "cli_ctx \<Rightarrow> driver_options" where
  "getDriverOpts cx = fold (set_option cx) (cx_Flags cx) empty_options"

definition cli_GetConfig :: "cli_ctx \<Rightarrow> string \<Rightarrow> goerr + driver_options" where
  "cli_GetConfig cx name = Inr (put_string ''name'' name (getDriverOpts cx))"

text \<open>The value of a flag, looked up in the arguments; \<open>flagName[1:3]\<close> is \<open>-d\<close> for \<open>--driver\<close>.\<close>

fun flag_loop :: "string \<Rightarrow> string \<Rightarrow> string list \<Rightarrow> string" where
  "flag_loop flagName flagPrefix [] = []"
| "flag_loop flagName flagPrefix (arg # rest) =
     (if contains arg flagPrefix then
        (if (arg = flagPrefix \<or> arg = flagName) \<and> rest \<noteq> [] then hd rest
         else if has_prefix arg (flagPrefix @ ''='') \<or> has_prefix arg (flagName @ ''='')
         then split_on (CHR ''='') arg ! 1
         else flag_loop flagName flagPrefix rest)
      else flag_loop flagName flagPrefix rest)"

definition flagHackLookup :: "string list \<Rightarrow> string \<Rightarrow> string" where
  "flagHackLookup osArgs flagName = flag_loop flagName (take 2 (drop 1 flagName)) osArgs"

definition lookUpDebugFlag :: "string list \<Rightarrow> bool" where
  "lookUpDebugFlag osArgs = list_ex (\<lambda>arg. arg = ''--debug'') osArgs"

text \<open>The server of a registered driver runs in the process, and the client talks to it; \<open>ce_Listen\<close> is the address the
  server got. When it gets none, the process exits in \<open>ServeOrDie\<close> and the command does not return.\<close>

definition dial :: "'d cmd_env \<Rightarrow> 'd driver \<Rightarrow> string \<Rightarrow> goerr + 'd conn \<times> 'd driver" where
  "dial ce creator addr = (case ce_Dial ce addr of Inl e \<Rightarrow> Inl e | Inr cn \<Rightarrow> Inr (cn, grpc_server creator))"

definition runRPCDriver :: "'d cmd_env \<Rightarrow> string \<Rightarrow> goerr + 'd rpc_driver \<times> string" where
  "runRPCDriver ce driverName =
     (case ce_Drivers ce driverName of
        None \<Rightarrow> Inl (Errorf (''no driver '' @ driverName @ '' found''))
      | Some creator \<Rightarrow>
          (case NewClient (dial ce creator) driverName (ce_Listen ce) of
             Inl e \<Rightarrow> Inl e
           | Inr rpcClient \<Rightarrow> Inr (rpcClient, ce_Listen ce)))"

text \<open>A client of the driver that an earlier pass started.\<close>

definition cmd_client :: "'d cmd_env \<Rightarrow> string \<Rightarrow> string \<Rightarrow> goerr + 'd rpc_driver" where
  "cmd_client ce driverName addr =
     (case ce_Drivers ce driverName of
        Some creator \<Rightarrow> NewClient (dial ce creator) driverName addr
      | None \<Rightarrow> Inl (Errorf ''connection refused''))"

definition cmd_handles :: "'d cmd_env \<Rightarrow> cli_ctx \<Rightarrow> string \<Rightarrow> 'd rpc_driver \<Rightarrow> (fs, 'd) env" where
  "cmd_handles ce cx name rpcClient = \<lparr>Driver = rpcClient, PersistStore = CLIPersistStore (ce_yaml ce),
     GetConfig = cli_GetConfig cx name, FmtFloat = ce_FmtFloat ce\<rparr>"

definition on_cluster :: "((fs, 'd) cstate \<Rightarrow> 'r \<times> (fs, 'd) cstate) \<Rightarrow> cluster \<Rightarrow> 'd cmd_world \<Rightarrow> 'r \<times> 'd cmd_world" where
  "on_cluster op c w =
     (case op (c, cw_fs w, cw_provider w) of (r, _, s, d) \<Rightarrow> (r, w\<lparr>cw_fs := s, cw_provider := d\<rparr>))"

definition cant_find :: "string \<Rightarrow> goerr" where
  "cant_find name = Errorf (''cluster '' @ name @ '' can'' @ [CHR 0x27] @ ''t be found'')"

section \<open>Create and update\<close>

datatype first_pass = Return "goerr option" | Rerun "string list" "cli_flag list" | Crash string

definition stored_driver :: "string \<Rightarrow> fs \<Rightarrow> string" where
  "stored_driver name fs = (case cli_Get name fs of Inr cls \<Rightarrow> DriverName cls | Inl _ \<Rightarrow> [])"

definition rerun_args :: "string list \<Rightarrow> string \<Rightarrow> string list" where
  "rerun_args osArgs addr =
     (if length osArgs > 1 \<and> addr \<noteq> [] then [hd osArgs, ''--plugin-listen-addr'', addr] @ tl osArgs else osArgs)"

definition driver_pass :: "'d cmd_env \<Rightarrow> ('d rpc_driver \<Rightarrow> 'd \<Rightarrow> (goerr + driver_flags) \<times> 'd) \<Rightarrow> string
    \<Rightarrow> 'd cmd_world \<Rightarrow> first_pass \<times> 'd cmd_world" where
  "driver_pass ce getFlags driverName w =
     (case runRPCDriver ce driverName of
        Inl e \<Rightarrow> (Return (Some e), w)
      | Inr (rpcClient, addr) \<Rightarrow>
          (case getFlags rpcClient (cw_provider w) of
             (Inl e, d) \<Rightarrow> (Return (Some e), w\<lparr>cw_provider := d\<rparr>)
           | (Inr driverFlags, d) \<Rightarrow>
               (Rerun (rerun_args (ce_OsArgs ce) addr) (getDriverFlags driverFlags), w\<lparr>cw_provider := d\<rparr>)))"

definition createWapper :: "'d cmd_env \<Rightarrow> 'd cmd_world \<Rightarrow> first_pass \<times> 'd cmd_world" where
  "createWapper ce w =
     (let named = flagHackLookup (ce_OsArgs ce) ''--driver'';
          driverName = (if named = [] then stored_driver (last (ce_OsArgs ce)) (cw_fs w) else named) in
      if driverName = [] then (case ShowCommandHelp ''create'' w of (r, w') \<Rightarrow> (Return r, w'))
      else driver_pass ce d_GetDriverCreateOptions driverName w)"

definition new_cluster :: "'d cmd_env \<Rightarrow> cli_ctx \<Rightarrow> string \<Rightarrow> string \<Rightarrow> 'd cmd_world \<Rightarrow> goerr option \<times> 'd cmd_world" where
  "new_cluster ce cx name addr w =
     (let driverName = cx_String cx ''driver'' in
      if driverName = [] then ShowCommandHelp ''create'' w
      else (case NewCluster (cmd_client ce) (ce_FmtFloat ce) driverName name addr (cli_GetConfig cx name)
                   (CLIPersistStore (ce_yaml ce)) of
              Inl e \<Rightarrow> (Some e, w)
            | Inr (env, c) \<Rightarrow>
                (if Name c = [] then ShowCommandHelp ''create'' w else on_cluster (Create env) c w)))"

definition cmd_create :: "'d cmd_env \<Rightarrow> cli_ctx \<Rightarrow> 'd cmd_world \<Rightarrow> goerr option \<times> 'd cmd_world" where
  "cmd_create ce cx w =
     (let addr = cx_GlobalString cx ''plugin-listen-addr'';
          name = (if cx_Args cx \<noteq> [] then arg_get cx 0 else []);
          config = cli_GetConfig cx name;
          store = CLIPersistStore (ce_yaml ce) in
      case cli_Get (last (ce_OsArgs ce)) (cw_fs w) of
        Inr clusterFrom \<Rightarrow>
          (if DriverName clusterFrom \<noteq> []
           then (case FromCluster (cmd_client ce) (ce_FmtFloat ce) clusterFrom addr config store of
                   Inl e \<Rightarrow> (Some e, w)
                 | Inr (env, c) \<Rightarrow> on_cluster (Create env) c w)
           else new_cluster ce cx name addr w)
      | Inl _ \<Rightarrow> new_cluster ce cx name addr w)"

text \<open>The cluster named by the last argument, or by the one before it when the last one is \<open>--help\<close>. With no
  arguments \<open>Get(-1)\<close> indexes the empty list.\<close>

definition updateWrapper :: "'d cmd_env \<Rightarrow> cli_ctx \<Rightarrow> 'd cmd_world \<Rightarrow> first_pass \<times> 'd cmd_world" where
  "updateWrapper ce cx w =
     (let args = cx_Args cx; name = last args in
      if args = [] then (Crash ''index out of range'', w)
      else if name = ''--help'' \<and> length args < 2
      then (case ShowCommandHelp ''update'' w of (r, w') \<Rightarrow> (Return r, w'))
      else (let name' = (if name = ''--help'' then args ! (length args - 2) else name) in
            case GetAllClusterFromStore (cw_fs w) of
              Inl e \<Rightarrow> (Return (Some e), w)
            | Inr clusters \<Rightarrow>
                (case map_of clusters name' of
                   None \<Rightarrow> (Return (Some (cant_find name')), w)
                 | Some c \<Rightarrow> driver_pass ce d_GetDriverUpdateOptions (DriverName c) w)))"

definition updateCluster :: "'d cmd_env \<Rightarrow> cli_ctx \<Rightarrow> 'd cmd_world \<Rightarrow> goerr option \<times> 'd cmd_world" where
  "updateCluster ce cx w =
     (let name = arg_get cx 0 in
      if name = [] then (Some (Errorf ''name is required when inspecting cluster''), w)
      else if name = ''--help'' then ShowCommandHelp ''update'' w
      else (case GetAllClusterFromStore (cw_fs w) of
              Inl e \<Rightarrow> (Some e, w)
            | Inr clusters \<Rightarrow>
                (case map_of clusters name of
                   None \<Rightarrow> (Some (cant_find name), w)
                 | Some c \<Rightarrow>
                     (case cmd_client ce (DriverName c) (cx_GlobalString cx ''plugin-listen-addr'') of
                        Inl e \<Rightarrow> (Some e, w)
                      | Inr rpcClient \<Rightarrow> on_cluster (Update (cmd_handles ce cx name rpcClient)) c w))))"

section \<open>Remove\<close>

text \<open>The removal of one cluster: an error, or \<open>None\<close> when its name was printed.\<close>

definition rm_one :: "'d cmd_env \<Rightarrow> cli_ctx \<Rightarrow> string \<Rightarrow> 'd cmd_world \<Rightarrow> goerr option \<times> 'd cmd_world" where
  "rm_one ce cx name w =
     (case GetAllClusterFromStore (cw_fs w) of
        Inl e \<Rightarrow> (Some e, w)
      | Inr clusters \<Rightarrow>
          (case map_of clusters name of
             None \<Rightarrow> (Some (cant_find name), w)
           | Some c \<Rightarrow>
               (case runRPCDriver ce (DriverName c) of
                  Inl e \<Rightarrow> (Some e, w)
                | Inr (rpcClient, _) \<Rightarrow>
                    (case on_cluster (Remove (cmd_handles ce cx name rpcClient) True) c w of
                       (None, w1) \<Rightarrow> (None, println (Name c) w1)
                     | (Some e, w1) \<Rightarrow>
                         (if cx_Bool cx ''force''
                          then (None, println (Name c) (w1\<lparr>cw_fs := snd (cli_Remove (ce_yaml ce) name (cw_fs w1))\<rparr>))
                          else (Some e, w1))))))"

fun rm_loop :: "'d cmd_env \<Rightarrow> cli_ctx \<Rightarrow> string list \<Rightarrow> goerr option \<Rightarrow> 'd cmd_world \<Rightarrow> goerr option \<times> 'd cmd_world" where
  "rm_loop ce cx [] lastErr w = (lastErr, w)"
| "rm_loop ce cx (name # names) lastErr w =
     (if name = [] \<or> name = ''--help'' then ShowCommandHelp ''remove'' w
      else (case rm_one ce cx name w of
              (None, w') \<Rightarrow> rm_loop ce cx names lastErr w'
            | (Some e, w') \<Rightarrow> rm_loop ce cx names (Some e) w'))"

definition rmCluster :: "'d cmd_env \<Rightarrow> cli_ctx \<Rightarrow> 'd cmd_world \<Rightarrow> goerr option \<times> 'd cmd_world" where
  "rmCluster ce cx w = rm_loop ce cx (cx_Args cx) None w"

section \<open>Listing and inspecting\<close>

definition ls_columns :: "(string \<times> string) list" where
  "ls_columns = [(''NAME'', ''Name''), (''DRIVER'', ''DriverName''), (''VERISON'', ''Version''), (''ENDPOINT'', ''Endpoint''),
     (''NODE_COUNT'', ''NodeCount''), (''STATUS'', ''Status'')]"

text \<open>The deferred \<open>Close\<close> runs after the result is taken; its error is lost.\<close>

definition lsCluster :: "'d cmd_env \<Rightarrow> cli_ctx \<Rightarrow> 'd cmd_world \<Rightarrow> goerr option \<times> 'd cmd_world" where
  "lsCluster ce cx w =
     (case GetAllClusterFromStore (cw_fs w) of
        Inl e \<Rightarrow> (Some e, w)
      | Inr clusters \<Rightarrow>
          (let t = fold (Write (ce_writer ce)) (map snd clusters)
                     (NewTableWriter ls_columns (cx_Bool cx ''quiet'') (cx_String cx ''format'')) in
           (Err t, w\<lparr>cw_out := cw_out w @ tw_out (snd (Close (ce_writer ce) t))\<rparr>)))"

definition cmd_setenv :: "'d cmd_env \<Rightarrow> cli_ctx \<Rightarrow> 'd cmd_world \<Rightarrow> goerr option \<times> 'd cmd_world" where
  "cmd_setenv ce cx w =
     (let name = arg_get cx 0 in
      if name = [] \<or> name = ''--help'' then ShowCommandHelp ''env'' w
      else (case cli_SetEnv (ce_yaml ce) name (cw_fs w) of (r, fs') \<Rightarrow> (r, w\<lparr>cw_fs := fs'\<rparr>)))"

definition redact :: "cluster \<Rightarrow> cluster" where
  "redact c = c\<lparr>ClientKey := ''Redacted'', ClientCertificate := ''Redacted'', RootCACert := ''Redacted''\<rparr>"

definition inspectCluster :: "'d cmd_env \<Rightarrow> cli_ctx \<Rightarrow> 'd cmd_world \<Rightarrow> goerr option \<times> 'd cmd_world" where
  "inspectCluster ce cx w =
     (let name = arg_get cx 0 in
      if name = [] then (Some (Errorf ''name is required when inspecting cluster''), w)
      else (case GetAllClusterFromStore (cw_fs w) of
              Inl e \<Rightarrow> (Some e, w)
            | Inr clusters \<Rightarrow>
                (case map_of clusters name of
                   None \<Rightarrow> (Some (cant_find name), w)
                 | Some c \<Rightarrow>
                     (let data = ind_val [CHR 0x09] 0 (cluster_json (redact c)) in
                      (ce_Stdout ce data, w\<lparr>cw_out := cw_out w @ [data]\<rparr>)))))"

section \<open>Versions and sizes\<close>

text \<open>
  The four commands share their frame: the clusters are read once, every named one must be there, its
  driver is started, and the action runs only if the driver has the capability. The error for a missing
  cluster prints the nil error of the outer scope.
\<close>

definition with_capability :: "'d cmd_env \<Rightarrow> cli_ctx \<Rightarrow> (string \<times> cluster) list \<Rightarrow> capability \<Rightarrow> string
    \<Rightarrow> (string \<Rightarrow> (fs, 'd) env \<Rightarrow> cluster \<Rightarrow> 'd cmd_world \<Rightarrow> goerr option \<times> 'd cmd_world) \<Rightarrow> string
    \<Rightarrow> 'd cmd_world \<Rightarrow> goerr option \<times> 'd cmd_world" where
  "with_capability ce cx clusters cap what act name w =
     (case map_of clusters name of
        None \<Rightarrow> (Some (Errorf ''could not find cluster: <nil>''), w)
      | Some c \<Rightarrow>
          (case runRPCDriver ce (DriverName c) of
             Inl e \<Rightarrow> (Some e, w)
           | Inr (rpcClient, _) \<Rightarrow>
               (let env = cmd_handles ce cx name rpcClient in
                case on_cluster (GetCapabilities env) c w of
                  (Inl e, w1) \<Rightarrow> (Some (Errorf (''error getting capabilities: '' @ err_msg e)), w1)
                | (Inr caps, w1) \<Rightarrow>
                    (if HasCapability cap caps then act name env c w1
                     else (Some (Errorf (''no '' @ what @ '' capability available'')), w1)))))"

fun name_loop :: "string \<Rightarrow> (string \<Rightarrow> 'd cmd_world \<Rightarrow> goerr option \<times> 'd cmd_world) \<Rightarrow> string list
    \<Rightarrow> 'd cmd_world \<Rightarrow> goerr option \<times> 'd cmd_world" where
  "name_loop cmd f [] w = (None, w)"
| "name_loop cmd f (name # names) w =
     (if name = [] \<or> name = ''--help'' then ShowCommandHelp cmd w
      else and_then (f name w) (name_loop cmd f names))"

definition capability_cmd :: "'d cmd_env \<Rightarrow> cli_ctx \<Rightarrow> string \<Rightarrow> capability
    \<Rightarrow> (string \<Rightarrow> (fs, 'd) env \<Rightarrow> cluster \<Rightarrow> 'd cmd_world \<Rightarrow> goerr option \<times> 'd cmd_world)
    \<Rightarrow> 'd cmd_world \<Rightarrow> goerr option \<times> 'd cmd_world" where
  "capability_cmd ce cx cmd cap act w =
     (case GetAllClusterFromStore (cw_fs w) of
        Inl e \<Rightarrow> (Some e, w)
      | Inr clusters \<Rightarrow> name_loop cmd (with_capability ce cx clusters cap cmd act) (cx_Args cx) w)"

definition cmd_getVersion :: "'d cmd_env \<Rightarrow> cli_ctx \<Rightarrow> 'd cmd_world \<Rightarrow> goerr option \<times> 'd cmd_world" where
  "cmd_getVersion ce cx = capability_cmd ce cx ''get-version'' GetVersionCapability (\<lambda>name env c w.
     (case on_cluster (GetVersion env) c w of
        (Inl e, w') \<Rightarrow> (Some e, w') | (Inr version, w') \<Rightarrow> (None, println (name @ '': '' @ version) w')))"

definition cmd_setVersion :: "'d cmd_env \<Rightarrow> cli_ctx \<Rightarrow> 'd cmd_world \<Rightarrow> goerr option \<times> 'd cmd_world" where
  "cmd_setVersion ce cx = capability_cmd ce cx ''set-version'' SetVersionCapability (\<lambda>name env c w.
     and_then (on_cluster (SetVersion env (cx_String cx ''version'')) c w) (\<lambda>w'.
       (None, println (name @ '' updated to '' @ cx_String cx ''version'') w')))"

definition cmd_getClusterSize :: "'d cmd_env \<Rightarrow> cli_ctx \<Rightarrow> 'd cmd_world \<Rightarrow> goerr option \<times> 'd cmd_world" where
  "cmd_getClusterSize ce cx = capability_cmd ce cx ''get-cluster-size'' GetClusterSizeCapability (\<lambda>name env c w.
     (case on_cluster (GetClusterSize env) c w of
        (Inl e, w') \<Rightarrow> (Some e, w') | (Inr n, w') \<Rightarrow> (None, println (name @ '': '' @ int_text (sint n)) w')))"

text \<open>The size is declared as a string flag and read as an integer one.\<close>

definition cmd_setClusterSize :: "'d cmd_env \<Rightarrow> cli_ctx \<Rightarrow> 'd cmd_world \<Rightarrow> goerr option \<times> 'd cmd_world" where
  "cmd_setClusterSize ce cx = capability_cmd ce cx ''set-cluster-size'' SetClusterSizeCapability (\<lambda>name env c w.
     and_then (on_cluster (SetClusterSize env (cx_Int64 cx ''cluster-size'')) c w) (\<lambda>w'.
       (None, println (name @ '' updated to '' @ int_text (sint (cx_Int64 cx ''cluster-size'')) @ '' nodes'') w')))"

section \<open>Lemmas\<close>

text \<open>A listed cluster is listed under its name, and its strings, read from JSON text, are valid UTF-8.\<close>

definition listed_ok :: "(string \<times> cluster) list \<Rightarrow> bool" where
  "listed_ok cls \<longleftrightarrow> (\<forall>n c. map_of cls n = Some c \<longrightarrow> Name c = n \<and> utf8_cluster c)"

lemma listed_ok_update:
  "listed_ok cls \<Longrightarrow> unmarshal_cluster data = Some c \<Longrightarrow> listed_ok (AList.update (Name c) c cls)"
  using unmarshal_utf8[of data c] by (auto simp: listed_ok_def update_conv' split: if_splits)

lemma read_configs_ok:
  "read_configs dir es fs cls = Inr out \<Longrightarrow> listed_ok cls \<Longrightarrow> listed_ok out"
proof (induction dir es fs cls rule: read_configs.induct)
  case (2 dir sub isdir es fs cls)
  show ?case
  proof (cases "\<not> isdir \<and> has_suffix sub ''config.json''")
    case True
    then obtain data c where d: "ReadFile (dir @ [sub]) fs = Inr data" "unmarshal_cluster data = Some c"
      "read_configs dir es fs (AList.update (Name c) c cls) = Inr out"
      using 2(3) by (auto split: sum.splits option.splits)
    show ?thesis by (rule 2(1)[OF True d(1,2,3) listed_ok_update[OF 2(4) d(2)]])
  next
    case False
    then have "read_configs dir es fs cls = Inr out" using 2(3) by (simp only: read_configs.simps if_False)
    with 2(2)[OF False] 2(4) show ?thesis by blast
  qed
qed simp

lemma read_dirs_ok:
  "read_dirs home es fs cls = Inr out \<Longrightarrow> listed_ok cls \<Longrightarrow> listed_ok out"
proof (induction home es fs cls rule: read_dirs.induct)
  case (2 home name isdir es fs cls)
  show ?case
  proof (cases "isdir \<and> \<not> has_prefix name ''.''")
    case True
    show ?thesis
    proof (cases "ReadDir (home @ [name]) fs")
      case DirMissing
      then have "read_dirs home es fs cls = Inr out" using 2(4) True by simp
      with 2(1)[OF True DirMissing] 2(5) show ?thesis by blast
    next
      case (DirErr e)
      then show ?thesis using 2(4) True by simp
    next
      case (DirEntries subs)
      then obtain m where m: "read_configs (home @ [name]) subs fs cls = Inr m" "read_dirs home es fs m = Inr out"
        using 2(4) True by (auto split: sum.splits)
      from 2(2)[OF True DirEntries m(1) m(2)] read_configs_ok[OF m(1) 2(5)] show ?thesis by blast
    qed
  next
    case False
    then have "read_dirs home es fs cls = Inr out" using 2(4) by (simp only: read_dirs.simps if_False)
    with 2(3)[OF False] 2(5) show ?thesis by blast
  qed
qed simp

lemma listed_ok:
  assumes "GetAllClusterFromStore fs = Inr clusters"
  shows "listed_ok clusters"
  using assms read_dirs_ok[of "fp_join (HomeDir fs) ''clusters''" _ fs "[]" clusters]
  by (auto simp: GetAllClusterFromStore_def Let_def listed_ok_def split: readdir_result.splits)

lemma listed_named:
  "GetAllClusterFromStore fs = Inr clusters \<Longrightarrow> map_of clusters n = Some c \<Longrightarrow> Name c = n"
  using listed_ok by (simp add: listed_ok_def)

lemma listed_utf8:
  "GetAllClusterFromStore fs = Inr clusters \<Longrightarrow> map_of clusters n = Some c \<Longrightarrow> utf8_cluster c"
  using listed_ok by (simp add: listed_ok_def)

lemma cmd_handles_simps [simp]:
  "PersistStore (cmd_handles ce cx name rpc) = CLIPersistStore (ce_yaml ce)" "Driver (cmd_handles ce cx name rpc) = rpc"
  by (simp_all add: cmd_handles_def)

text \<open>A successful \<open>Remove\<close> leaves nothing under the name, also when there was nothing before.\<close>

lemma Remove_cli_gone:
  assumes "PersistStore env = CLIPersistStore Y" "valid_seg (Name c)" "Remove env force (c, s, d) = (None, c', s', d')"
  shows "\<exists>e. cli_Get (Name c) s' = Inl e"
proof (cases "cli_Get (Name c) s")
  case (Inl e)
  then show ?thesis using assms(3) by (auto simp: Remove_def restore_def assms(1) CLIPersistStore_def split: if_splits)
next
  case (Inr p)
  then have "ps_Get (CLIPersistStore Y) (Name c) s = Inr p" by (simp add: CLIPersistStore_def)
  from cli.Remove_forgets[OF assms(1,2) this assms(3)] show ?thesis by (simp add: CLIPersistStore_def)
qed

lemma Remove_cli_other:
  assumes "PersistStore env = CLIPersistStore Y" "valid_seg (Name c)" "valid_seg n" "n \<noteq> Name c"
    and "Remove env force (c, s, d) = (r, c', s', d')"
  shows "cli_Get n s' = cli_Get n s"
proof -
  have "store_closed (PersistStore env) (Name c) (\<lambda>x. cli_Get n x = cli_Get n s)"
    using cli.other_names[OF assms(2,3), of Y "cli_Get n s"] assms(1,4) by (auto simp: CLIPersistStore_def)
  from Remove_good[OF this, of "DriverName c" "(c, s, d)" force] assms(5) show ?thesis by simp
qed

lemma rm_one_None:
  assumes "rm_one ce cx name w = (None, w')" "\<not> cx_Bool cx ''force''" "valid_seg name"
  shows "\<exists>e. cli_Get name (cw_fs w') = Inl e"
    and "valid_seg n \<Longrightarrow> n \<noteq> name \<Longrightarrow> cli_Get n (cw_fs w') = cli_Get n (cw_fs w)"
proof -
  have "\<exists>clusters c rpc c' d'. GetAllClusterFromStore (cw_fs w) = Inr clusters \<and> map_of clusters name = Some c \<and>
      Remove (cmd_handles ce cx name rpc) True (c, cw_fs w, cw_provider w) = (None, c', cw_fs w', d')"
    using assms(1,2)
    by (auto simp: rm_one_def println_def on_cluster_def split: sum.splits option.splits prod.splits) blast+
  then obtain clusters c rpc c' d' where l: "GetAllClusterFromStore (cw_fs w) = Inr clusters" "map_of clusters name = Some c"
    and r: "Remove (cmd_handles ce cx name rpc) True (c, cw_fs w, cw_provider w) = (None, c', cw_fs w', d')" by blast
  have n: "Name c = name" by (rule listed_named[OF l])
  show "\<exists>e. cli_Get name (cw_fs w') = Inl e"
    using Remove_cli_gone[OF _ _ r] n assms(3) by simp
  show "cli_Get n (cw_fs w') = cli_Get n (cw_fs w)" if "valid_seg n" "n \<noteq> name"
    using Remove_cli_other[OF _ _ that(1) _ r] n that(2) assms(3) by simp
qed

lemma rm_loop_error: "rm_loop ce cx names (Some e) w = (None, w') \<Longrightarrow> \<exists>n \<in> set names. n = [] \<or> n = ''--help''"
  by (induction names arbitrary: e w) (auto split: if_splits prod.splits option.splits)

lemma rm_loop_gone:
  assumes "rm_loop ce cx names None w = (None, w')" "\<not> cx_Bool cx ''force''"
    and "\<forall>n \<in> set names. valid_seg n \<and> n \<noteq> ''--help''"
    and "\<forall>n \<in> set done. valid_seg n \<and> (\<exists>e. cli_Get n (cw_fs w) = Inl e)"
  shows "\<forall>n \<in> set done \<union> set names. \<exists>e. cli_Get n (cw_fs w') = Inl e"
  using assms
proof (induction names arbitrary: w "done")
  case (Cons name names)
  have v: "valid_seg name" "name \<noteq> []" "name \<noteq> ''--help''" using Cons.prems(3) by (auto simp: valid_seg_def)
  obtain w1 where one: "rm_one ce cx name w = (None, w1)" and rest: "rm_loop ce cx names None w1 = (None, w')"
    using Cons.prems(1,3) v rm_loop_error[of ce cx names _ _ w']
    by (auto simp: valid_seg_def split: prod.splits option.splits)
  note g = rm_one_None[OF one Cons.prems(2) v(1)]
  have "\<forall>n \<in> set (name # done). valid_seg n \<and> (\<exists>e. cli_Get n (cw_fs w1) = Inl e)"
    using g Cons.prems(4) v(1) by (metis set_ConsD)
  from Cons.IH[OF rest Cons.prems(2) _ this] Cons.prems(3) show ?case by auto
qed auto

text \<open>Every flag sets one option, and setting it again changes nothing.\<close>

lemma set_options_maps:
  "StringOptions (fold (set_option cx) fs o0) k =
     (if \<exists>u v. StringFlag k u v \<in> set fs then Some (cx_String cx k) else StringOptions o0 k)"
  "BoolOptions (fold (set_option cx) fs o0) k =
     (if \<exists>u. BoolFlag k u \<in> set fs then Some (cx_Bool cx k) else BoolOptions o0 k)"
  "IntOptions (fold (set_option cx) fs o0) k =
     (if \<exists>u v. Int64Flag k u v \<in> set fs then Some (cx_Int64 cx k) else IntOptions o0 k)"
  "StringSliceOptions (fold (set_option cx) fs o0) k =
     (if \<exists>u. StringSliceFlag k u \<in> set fs then Some (cx_StringSlice cx k) else StringSliceOptions o0 k)"
proof (induction fs arbitrary: o0)
  case (Cons f fs)
  { case 1 show ?case by (cases f) (auto simp: Cons.IH) next
    case 2 show ?case by (cases f) (auto simp: Cons.IH) next
    case 3 show ?case by (cases f) (auto simp: Cons.IH) next
    case 4 show ?case by (cases f) (auto simp: Cons.IH) }
qed simp_all

lemma getDriverFlags_mem:
  "(\<exists>u x. StringFlag k u x \<in> set (getDriverFlags fl)) \<longleftrightarrow> (\<exists>v. (k, v) \<in> set fl \<and> flag_Type v = ''string'')"
  "(\<exists>u. BoolFlag k u \<in> set (getDriverFlags fl)) \<longleftrightarrow> (\<exists>v. (k, v) \<in> set fl \<and> flag_Type v \<in> {''bool'', ''boolPtr''})"
  "(\<exists>u x. Int64Flag k u x \<in> set (getDriverFlags fl)) \<longleftrightarrow> (\<exists>v. (k, v) \<in> set fl \<and> flag_Type v \<in> {''int'', ''intPtr''})"
  "(\<exists>u. StringSliceFlag k u \<in> set (getDriverFlags fl)) \<longleftrightarrow> (\<exists>v. (k, v) \<in> set fl \<and> flag_Type v = ''stringSlice'')"
proof (induction fl)
  case (Cons f fl)
  obtain j v where f: "f = (j, v)" by force
  { case 1 show ?case using Cons.IH(1) by (auto simp: f) next
    case 2 show ?case using Cons.IH(2) by (auto simp: f) next
    case 3 show ?case using Cons.IH(3) by (auto simp: f) next
    case 4 show ?case using Cons.IH(4) by (auto simp: f) }
qed simp_all

text \<open>One named cluster that is listed and whose driver starts: \<open>remove\<close> is the forced removal of the life cycle.\<close>

lemma rm_single:
  assumes "cx_Args cx = [n]" "n \<noteq> []" "n \<noteq> ''--help''"
    and "GetAllClusterFromStore (cw_fs w) = Inr clusters" "map_of clusters n = Some c"
    and "runRPCDriver ce (DriverName c) = Inr (rpc, addr)"
    and "Remove (cmd_handles ce cx n rpc) True (c, cw_fs w, cw_provider w) = (None, c', s', d')"
  shows "rmCluster ce cx w = (None, w\<lparr>cw_out := cw_out w @ [n], cw_fs := s', cw_provider := d'\<rparr>)"
  using assms listed_named[OF assms(4,5)]
  by (simp add: rmCluster_def rm_one_def on_cluster_def println_def)

end
