(* ===== verification/App.thy ===== *)
theory App
  imports Cmd
begin

text \<open>
  The application (\<open>main.go\<close> and the command tables of \<open>cmd/\<close>). The command-line library parses
  the arguments: it is the parameter \<open>lib\<close>, which from the arguments and the commands gives the name of
  the command that runs and its context. \<open>create\<close> and \<open>update\<close> first run a wrapper, which asks the
  driver for its flags, changes the table of commands and runs the application again: \<open>app_Run\<close> is a
  partial function, and a lemma shows that the runs it starts come to an end.
\<close>

section \<open>The command tables\<close>

datatype action =
    CreateWapper | UpdateWrapper | CreateAction | UpdateAction | InspectAction | LsAction | RmAction | EnvAction
  | GetVersionAction | SetVersionAction | GetClusterSizeAction | SetClusterSizeAction

record command =
  co_Name :: string
  co_ShortName :: string
  co_Usage :: string
  co_Action :: action
  co_SkipFlagParsing :: bool
  co_Flags :: "cli_flag list"

definition CreateCommand :: command where
  "CreateCommand = \<lparr>co_Name = ''create'', co_ShortName = [], co_Usage = ''Create a kubernetes cluster'',
     co_Action = CreateWapper, co_SkipFlagParsing = True,
     co_Flags = [StringFlag ''driver'' ''Driver to create kubernetes clusters'' []]\<rparr>"

definition UpdateCommand :: command where
  "UpdateCommand = \<lparr>co_Name = ''update'', co_ShortName = [], co_Usage = ''update kubernetes clusters'',
     co_Action = UpdateWrapper, co_SkipFlagParsing = True, co_Flags = []\<rparr>"

definition InspectCommand :: command where
  "InspectCommand = \<lparr>co_Name = ''inspect'', co_ShortName = [], co_Usage = ''inspect kubernetes clusters'',
     co_Action = InspectAction, co_SkipFlagParsing = False, co_Flags = []\<rparr>"

definition LsCommand :: command where
  "LsCommand = \<lparr>co_Name = ''list'', co_ShortName = ''ls'', co_Usage = ''list kubernetes clusters'',
     co_Action = LsAction, co_SkipFlagParsing = False, co_Flags = []\<rparr>"

definition RmCommand :: command where
  "RmCommand = \<lparr>co_Name = ''remove'', co_ShortName = ''rm'', co_Usage = ''Remove kubernetes clusters'',
     co_Action = RmAction, co_SkipFlagParsing = False,
     co_Flags = [BoolFlag ''force,f'' ''force to remove a cluster'']\<rparr>"

definition EnvCommand :: command where
  "EnvCommand = \<lparr>co_Name = ''env'', co_ShortName = [], co_Usage = ''Set cluster as current context'',
     co_Action = EnvAction, co_SkipFlagParsing = False, co_Flags = []\<rparr>"

definition GetVersionCommand :: command where
  "GetVersionCommand = \<lparr>co_Name = ''get-version'', co_ShortName = ''gv'', co_Usage = ''Get the version of Kubernetes'',
     co_Action = GetVersionAction, co_SkipFlagParsing = False, co_Flags = []\<rparr>"

definition SetVersionCommand :: command where
  "SetVersionCommand = \<lparr>co_Name = ''set-version'', co_ShortName = ''sv'', co_Usage = ''Set the version of Kubernetes'',
     co_Action = SetVersionAction, co_SkipFlagParsing = False,
     co_Flags = [StringFlag ''version'' ''The version to upgade/downgrade kubernetes to'' []]\<rparr>"

definition GetClusterSizeCommand :: command where
  "GetClusterSizeCommand = \<lparr>co_Name = ''get-cluster-size'', co_ShortName = ''gcs'',
     co_Usage = ''Get node count of kubernetes cluster'',
     co_Action = GetClusterSizeAction, co_SkipFlagParsing = False, co_Flags = []\<rparr>"

definition SetClusterSizeCommand :: command where
  "SetClusterSizeCommand = \<lparr>co_Name = ''set-cluster-size'', co_ShortName = ''scs'',
     co_Usage = ''Set the node count of Kubernetes cluster'',
     co_Action = SetClusterSizeAction, co_SkipFlagParsing = False,
     co_Flags = [StringFlag ''cluster-size'' ''The cluster-size to upgade/downgrade kubernetes to'' []]\<rparr>"

definition app_Commands :: "command list" where
  "app_Commands = [CreateCommand, UpdateCommand, InspectCommand, LsCommand, RmCommand, EnvCommand, GetVersionCommand,
     SetVersionCommand, GetClusterSizeCommand, SetClusterSizeCommand]"

definition app_Flags :: "cli_flag list" where
  "app_Flags = [BoolFlag ''debug'' ''Enable verbose logging'',
     StringFlag ''plugin-listen-addr'' ''The listening address for rpc plugin server'' []]"

section \<open>Running\<close>

definition returning :: "goerr option \<times> 'd cmd_world \<Rightarrow> first_pass \<times> 'd cmd_world" where
  "returning r = (Return (fst r), snd r)"

fun run_action :: "'d cmd_env \<Rightarrow> action \<Rightarrow> cli_ctx \<Rightarrow> 'd cmd_world \<Rightarrow> first_pass \<times> 'd cmd_world" where
  "run_action ce CreateWapper cx w = createWapper ce w"
| "run_action ce UpdateWrapper cx w = updateWrapper ce cx w"
| "run_action ce CreateAction cx w = returning (cmd_create ce cx w)"
| "run_action ce UpdateAction cx w = returning (updateCluster ce cx w)"
| "run_action ce InspectAction cx w = returning (inspectCluster ce cx w)"
| "run_action ce LsAction cx w = returning (lsCluster ce cx w)"
| "run_action ce RmAction cx w = returning (rmCluster ce cx w)"
| "run_action ce EnvAction cx w = returning (cmd_setenv ce cx w)"
| "run_action ce GetVersionAction cx w = returning (cmd_getVersion ce cx w)"
| "run_action ce SetVersionAction cx w = returning (cmd_setVersion ce cx w)"
| "run_action ce GetClusterSizeAction cx w = returning (cmd_getClusterSize ce cx w)"
| "run_action ce SetClusterSizeAction cx w = returning (cmd_setClusterSize ce cx w)"

text \<open>The wrappers change every command of their name.\<close>

definition rerun_command :: "action \<Rightarrow> cli_flag list \<Rightarrow> command \<Rightarrow> command" where
  "rerun_command a flags c =
     (if a = CreateWapper \<and> co_Name c = ''create''
      then c\<lparr>co_SkipFlagParsing := False, co_Flags := co_Flags c @ flags, co_Action := CreateAction\<rparr>
      else if a = UpdateWrapper \<and> co_Name c = ''update''
      then c\<lparr>co_SkipFlagParsing := False, co_Flags := co_Flags c @ flags, co_Action := UpdateAction\<rparr>
      else c)"

text \<open>A name that is no command makes the library print its help.\<close>

partial_function (option) app_Run :: "'d cmd_env \<Rightarrow> (string list \<Rightarrow> command list \<Rightarrow> goerr + string \<times> cli_ctx)
    \<Rightarrow> string list \<Rightarrow> command list \<Rightarrow> 'd cmd_world \<Rightarrow> (goerr option outcome \<times> 'd cmd_world) option" where
  "app_Run ce lib args cmds w =
     (case lib args cmds of
        Inl e \<Rightarrow> Some (Ret (Some e), w)
      | Inr (name, cx) \<Rightarrow>
          (case find (\<lambda>c. co_Name c = name) cmds of
             None \<Rightarrow> Some (Ret None, println ''help'' w)
           | Some c \<Rightarrow>
               (case run_action ce (co_Action c) cx w of
                  (Return r, w') \<Rightarrow> Some (Ret r, w')
                | (Crash m, w') \<Rightarrow> Some (Panic m, w')
                | (Rerun args' flags, w') \<Rightarrow> app_Run ce lib args' (map (rerun_command (co_Action c) flags) cmds) w')))"

text \<open>The result of \<open>main\<close> is what \<open>logrus.Fatal\<close> reports, and \<open>None\<close> for a normal exit.\<close>

definition main :: "'d cmd_env \<Rightarrow> (cli_flag list \<Rightarrow> string list \<Rightarrow> command list \<Rightarrow> goerr + string \<times> cli_ctx) \<Rightarrow> 'd cmd_world
    \<Rightarrow> (goerr option outcome \<times> 'd cmd_world) option" where
  "main ce lib w = app_Run ce (lib app_Flags) (ce_OsArgs ce) app_Commands w"

section \<open>Lemmas\<close>

fun wrapper :: "action \<Rightarrow> bool" where
  "wrapper CreateWapper = True"
| "wrapper UpdateWrapper = True"
| "wrapper _ = False"

lemma run_action_Rerun: "run_action ce a cx w = (Rerun args flags, w') \<Longrightarrow> wrapper a"
  by (cases a) (auto simp: returning_def)

text \<open>Every wrapper stands under its own name, so running it removes it from the table.\<close>

definition well_named :: "command list \<Rightarrow> bool" where
  "well_named cmds \<longleftrightarrow> (\<forall>c \<in> set cmds. (co_Action c = CreateWapper \<longrightarrow> co_Name c = ''create'') \<and>
     (co_Action c = UpdateWrapper \<longrightarrow> co_Name c = ''update''))"

abbreviation wrappers :: "command list \<Rightarrow> nat" where
  "wrappers cmds \<equiv> length (filter (\<lambda>c. wrapper (co_Action c)) cmds)"

lemma rerun_wrapper: "wrapper (co_Action (rerun_command a flags c)) \<Longrightarrow> wrapper (co_Action c)"
  by (auto simp: rerun_command_def split: if_splits)

lemma well_named_rerun: "well_named cmds \<Longrightarrow> well_named (map (rerun_command a flags) cmds)"
  by (auto simp: well_named_def rerun_command_def)

lemma wrappers_rerun_le: "wrappers (map (rerun_command a flags) cmds) \<le> wrappers cmds"
  by (induction cmds) (use rerun_wrapper in auto)

lemma wrappers_rerun:
  assumes "well_named cmds" "c \<in> set cmds" "wrapper (co_Action c)"
  shows "wrappers (map (rerun_command (co_Action c) flags) cmds) < wrappers cmds"
proof -
  let ?f = "rerun_command (co_Action c) flags"
  obtain xs ys where x: "cmds = xs @ c # ys" using split_list[OF assms(2)] by blast
  have "\<not> wrapper (co_Action (?f c))"
    using assms by (cases "co_Action c") (auto simp: rerun_command_def well_named_def)
  then show ?thesis
    using wrappers_rerun_le[of "co_Action c" flags xs] wrappers_rerun_le[of "co_Action c" flags ys] assms(3)
    by (simp add: x)
qed

lemma app_Run_returns: "well_named cmds \<Longrightarrow> \<exists>r. app_Run ce lib args cmds w = Some r"
proof (induction "wrappers cmds" arbitrary: cmds args w rule: less_induct)
  case less
  have again: "\<exists>r. app_Run ce lib args' (map (rerun_command (co_Action c) flags) cmds) w' = Some r"
    if "find (\<lambda>c. co_Name c = name) cmds = Some c" "run_action ce (co_Action c) cx w = (Rerun args' flags, w')"
    for name c cx args' flags w'
  proof (rule less.hyps)
    have "c \<in> set cmds" using that(1) by (auto simp: find_Some_iff)
    then show "wrappers (map (rerun_command (co_Action c) flags) cmds) < wrappers cmds"
      using wrappers_rerun[OF less.prems] run_action_Rerun[OF that(2)] by blast
  qed (rule well_named_rerun[OF less.prems])
  show ?case
    by (subst app_Run.simps) (use again in \<open>auto split: sum.split option.split first_pass.split prod.split\<close>)
qed

lemma well_named_app: "well_named app_Commands"
  by (simp add: well_named_def app_Commands_def CreateCommand_def UpdateCommand_def InspectCommand_def LsCommand_def
      RmCommand_def EnvCommand_def GetVersionCommand_def SetVersionCommand_def GetClusterSizeCommand_def
      SetClusterSizeCommand_def)

text \<open>The two runs of \<open>create\<close>.\<close>

lemma find_create:
  "find (\<lambda>c. co_Name c = ''create'') app_Commands = Some CreateCommand"
  "find (\<lambda>c. co_Name c = ''create'') (map (rerun_command CreateWapper flags) app_Commands) =
     Some (CreateCommand\<lparr>co_SkipFlagParsing := False, co_Flags := co_Flags CreateCommand @ flags, co_Action := CreateAction\<rparr>)"
  by (simp_all add: app_Commands_def CreateCommand_def rerun_command_def)

lemma main_create:
  assumes "lib app_Flags (ce_OsArgs ce) app_Commands = Inr (''create'', cx0)"
    and "createWapper ce w = (Rerun args flags, w1)"
    and "lib app_Flags args (map (rerun_command CreateWapper flags) app_Commands) = Inr (''create'', cx)"
    and "cmd_create ce cx w1 = (r, w2)"
  shows "main ce lib w = Some (Ret r, w2)"
proof -
  have a: "co_Action CreateCommand = CreateWapper" by (simp add: CreateCommand_def)
  have "app_Run ce (lib app_Flags) args (map (rerun_command CreateWapper flags) app_Commands) w1 = Some (Ret r, w2)"
    by (subst app_Run.simps) (simp add: assms(3,4) find_create returning_def)
  then show ?thesis
    unfolding main_def by (subst app_Run.simps) (simp add: assms(1,2) find_create a)
qed

section \<open>Properties\<close>

text \<open>The second runs of the application come to an end: every run that a wrapper starts has one wrapper less in its table, so
  \<open>main\<close> returns. The calls of the drivers are functions here; whether a driver's own wait returns is the
  subject of the theories of the drivers.\<close>

theorem main_returns: "\<exists>r. main ce lib w = Some r"
  unfolding main_def by (rule app_Run_returns[OF well_named_app])

end
