(* ===== verification/Spec2Isabelle.thy ===== *)
theory Spec2Isabelle
  imports CliStore Logstream Serving Example DriverState Gke Eks Aks Rke App
begin

text \<open>
  A verification library for kontainer-engine (package paths under \<open>src/\<close>).

  \<^bold>\<open>The program.\<close> kontainer-engine provisions Kubernetes clusters. A driver per provider
  (\<open>drivers/\<close>) creates, updates, checks and removes clusters; it runs as an in-process server or as
  a plugin process and is called over gRPC (\<open>types/rpc_client.go\<close>, \<open>types/rpc_server.go\<close>). The
  package \<open>cluster\<close> runs the lifecycle of one cluster: it restores the record from a store, calls the
  driver, and writes the record and its status back. The command line uses the store of
  \<open>store/clistore.go\<close>, which keeps one directory per cluster and a kubeconfig file in the home
  directory. A management server uses the engine of \<open>service/service.go\<close>, which starts a driver for
  each call, connects to it, runs the cluster operation and stops the driver again; messages for the
  user go to a log stream (\<open>logstream/\<close>).

  \<^bold>\<open>The theories.\<close> Each theory models the files it names, one definition per function, in the order
  of the code.
  \<^item> \<open>Prelude\<close>: Go errors, strings, maps with their unspecified iteration order, the sequencing
    \<open>and_then\<close> of calls that may fail, and \<open>outcome\<close> for code that may panic.
  \<^item> \<open>Utf8\<close>: valid UTF-8 and the replacement of invalid bytes by U+FFFD (\<open>utf8_fix\<close>), as Go's loops over
    runes and \<open>encoding/json\<close> make it.
  \<^item> \<open>GoJson\<close>: the parts of \<open>encoding/json\<close> the program relies on. Decoding inverts encoding up to \<open>utf8_fix\<close> on the
    strings (\<open>fix_json\<close>), and of equal keys of an object the last one counts (\<open>go_maps\<close>); numbers are literals.
  \<^item> \<open>Types\<close> (\<open>types/\<close>): the messages, the driver interface on both sides of the connection, the
    server's and client's handlers and the translation of errors. A driver is a record of functions
    over the state \<open>'d\<close> of its provider.
  \<^item> \<open>Options\<close> (\<open>drivers/options/options.go\<close>, \<open>flatten\<close>, \<open>flattenIfNotExist\<close>): reading options by
    alias keys; flattening a decoded JSON object into options, as a sequence of single assignments,
    so that independence of the iteration order is commutation of assignments.
  \<^item> \<open>Cluster\<close> (\<open>cluster/\<close>): the lifecycle over any store and driver. The store is an interface:
    the locale \<open>persistent_store\<close> has the laws the lifecycle relies on (what a read gives after
    a write, that operations on one name leave other names alone, that a writable store accepts a
    status), and the lemmas on Create, Update, PostCheck and Remove are proved inside it.
  \<^item> \<open>FileSys\<close> (\<open>utils/utils.go\<close>): a file system with injected errors per operation and path,
    short writes and random temporary names; \<open>WriteToFile\<close> over it.
  \<^item> \<open>CliStore\<close> (\<open>store/\<close>): the store of the command line, base64, the JSON form of a cluster,
    the kubeconfig file. It interprets \<open>persistent_store\<close>, so the lifecycle lemmas hold for the
    real store. The YAML codec is a parameter. A store that is \<open>ready_store\<close> for a name can be written and has no
    kubeconfig file or one that the codec reads; other clusters may be stored in it.
  \<^item> \<open>Logstream\<close> (\<open>logstream/\<close>): the registry, and a stream as a step relation in which writers and
    closers interleave at every lock, send and unlock; an invariant by rule induction.
  \<^item> \<open>Service\<close> (\<open>service/service.go\<close>): the engine. Every call records what it does to processes,
    servers and connections as events; the host is a record. The work between start and stop may panic, and so may
    the deferred stop, when the in-process server does not exist yet (\<open>h_Constructed\<close>).
  \<^item> \<open>Serving\<close> (\<open>types/rpc_server.go\<close>, \<open>rpcDriver.Start\<close>): starting and stopping the in-process server, a
    step relation between the goroutine of \<open>Serve\<close> and its starter, with a later stop: an invariant, a
    bound on every run, the deadlock and the panic that are possible.
  \<^item> \<open>Example\<close> (\<open>example/example.go\<close>): the sample client of the engine.
  \<^item> \<open>DriverUtil\<close> (\<open>drivers/util/\<close>, \<open>drivers/import/\<close>): service account tokens over an abstract
    Kubernetes client, and the import driver.
  \<^item> \<open>Polling\<close>: computations of the cloud drivers (an error, a panic, or never returning), and the
    locale \<open>poll_loop\<close> for loops that poll a status: when such a loop returns, with what, after how
    many calls.
  \<^item> \<open>GkeFlags\<close>, \<open>Gke\<close> (\<open>drivers/gke/\<close>): the Google driver over an abstract Google API. \<open>strings.ToLower\<close> is
    computed on ASCII text; on other text the Unicode tables are the parameter \<open>ge_ToLower\<close>.
  \<^item> \<open>EksTemplates\<close> (\<open>drivers/eks/templates.go\<close>): the CloudFormation texts and the formatting that fills in
    the user data, with small readers for the sections and parameters of a template. What CloudFormation does with
    a template, such as the substitution by \<open>Fn::Sub\<close>, is not part of the program.
  \<^item> \<open>EksData\<close>, \<open>Eks\<close> (\<open>drivers/eks/eks_driver.go\<close>): the Amazon driver; images and flags as data, then
    the handlers over an abstract AWS API, with the credentials file of \<open>getEKSToken\<close> in the modelled
    file system.
  \<^item> \<open>AksData\<close>, \<open>Sha256\<close>, \<open>Aks\<close> (\<open>drivers/aks/\<close>): the Azure driver over an abstract Azure API; the
    names of its log workspaces contain a SHA-256 digest, which is computed.
  \<^item> \<open>RkeCerts\<close>, \<open>Rke\<close> (\<open>drivers/rke/\<close>): the saved form of certificate bundles, and the RKE driver,
    whose state directory lies in the modelled file system; the RKE library is a parameter.
  \<^item> \<open>DriverState\<close>: the locale \<open>driver_state\<close>, a driver that keeps its state as JSON in the cluster's
    metadata, interpreted by the Google, Amazon and Azure drivers.
  \<^item> \<open>Writer\<close> (\<open>utils/writer.go\<close>): the table writer.
  \<^item> \<open>Cmd\<close> (\<open>cmd/\<close>, \<open>drivers/register.go\<close>): the actions of the commands over the file store.
  \<^item> \<open>App\<close> (\<open>main.go\<close>, the command tables of \<open>cmd/\<close>): the program from its arguments to its exit, including the
    second run with the driver's flags.
  \<^item> \<open>Spec2Isabelle\<close>: the properties of the lifecycle over the command line's store, histories of
    operations, and the properties of the commands.

  The interfaces are locales, interpreted on the model: \<open>persistent_store\<close> by the file store,
  \<open>poll_loop\<close> by \<open>poll_until\<close>, of which the waiting loops of the cloud drivers are instances, and
  \<open>driver_state\<close> by the three cloud drivers.

  \<^bold>\<open>What is shown.\<close> For the lifecycle: creating a new cluster beside others succeeds and leaves a running
  record and a kubeconfig with the cluster merged in; a success means that the stored record is what the driver's check reported; a failure is on disk;
  existing and adopted clusters are not created again; updates and removals do what they report;
  no operation touches another cluster. For the store: the JSON round trip (exact for records of valid UTF-8), the certificate
  files, the kubeconfig entries; for files: contents and frame of \<open>WriteToFile\<close>. For the engine:
  clean-up on every path, also after a panic, with the one stop that cannot work; bounded retries; and \<open>Create\<close> from the
  start of the driver to the data it returns. For streams: mutual exclusion, no send on a closed
  channel, no lost events. For the drivers: what options are accepted, validity of requests,
  termination and results of the waiting loops, that no credentials stay on disk, that a failed
  creation can still be removed, that saved state is read back and survives the store, and that the
  parameters sent with a template are the ones it declares. For the in-process server: every run of
  start ends within nine steps, with the one deadlock that is possible. For the commands: which
  clusters \<open>rm\<close> removes, which options reach a driver, that \<open>create\<close> creates from the
  arguments to the stored record, and what \<open>inspect\<close> prints. Some theorems state behaviour that
  is likely not intended (a lost file after a failed rename, a stale kubeconfig, a node version that
  is not sent, a driver error that \<open>rm\<close> ignores); they are listed as findings.

  \<^bold>\<open>Bounds and fuel.\<close> The loops with a counter (\<open>check_up\<close> with at most seven calls, \<open>remove_rounds\<close>
  with eleven, \<open>token_loop\<close> with five, \<open>check_rounds\<close> of the RKE driver with three) are recursive
  functions, and their theorems speak of the number of rounds or the total pause. \<open>try_tempdir\<close> has the ten
  thousand attempts of \<open>ioutil.TempDir\<close>. The unbounded loops (\<open>waitCluster\<close>, \<open>waitNodePool\<close>, \<open>createStack\<close>,
  \<open>waitForClusterReady\<close>, \<open>waitForClusterUpdateReady\<close>, \<open>aks_wait\<close>) are partial functions into \<open>option\<close>;
  theorems say exactly when they return and with what. \<open>app_Run\<close> is one too, because the create and update
  commands run the application again; \<open>main_returns\<close> shows that these runs come to an end. The calls of a driver
  are total functions at that level; the loops inside the cloud drivers are not, and may wait for ever.

  \<^bold>\<open>Not modelled.\<close> The help templates of the command line; \<open>logClusterConfig\<close> of the Azure driver, which
  only logs; generated code (\<open>types/drivers.pb.go\<close> beyond its messages) and vendored
  code. The provider APIs, the RKE, YAML, template and command-line libraries and the host are
  parameters. Log output has no effect in the model, and pauses are recorded where a property speaks
  of them.
\<close>

section \<open>Operations on a stored cluster as a history\<close>

datatype cluster_op =
    OpCreate
  | OpUpdate
  | OpRemove bool
  | OpPostCheck
  | OpGenerateServiceAccount
  | OpRemoveLegacyServiceAccount
  | OpETCDSave string
  | OpETCDRestore string
  | OpETCDRemoveSnapshot string

fun run_op :: "('s, 'd) env \<Rightarrow> cluster_op \<Rightarrow> ('s, 'd) cstate \<Rightarrow> goerr option \<times> ('s, 'd) cstate" where
  "run_op env OpCreate st = Create env st"
| "run_op env OpUpdate st = Update env st"
| "run_op env (OpRemove force) st = Remove env force st"
| "run_op env OpPostCheck st = PostCheck env st"
| "run_op env OpGenerateServiceAccount st = GenerateServiceAccount env st"
| "run_op env OpRemoveLegacyServiceAccount st = RemoveLegacyServiceAccount env st"
| "run_op env (OpETCDSave snap) st = ETCDSave env snap st"
| "run_op env (OpETCDRestore snap) st = ETCDRestore env snap st"
| "run_op env (OpETCDRemoveSnapshot snap) st = ETCDRemoveSnapshot env snap st"

fun run_ops :: "('s, 'd) env \<Rightarrow> cluster_op list \<Rightarrow> ('s, 'd) cstate \<Rightarrow> ('s, 'd) cstate" where
  "run_ops env [] st = st"
| "run_ops env (op # ops) st = run_ops env ops (snd (run_op env op st))"

lemma run_ops_good:
  assumes "store_closed (PersistStore env) n P"
  shows "good n dn P st \<Longrightarrow> good n dn P (run_ops env ops st)"
proof (induction ops arbitrary: st)
  case (Cons op ops)
  have "good n dn P (snd (run_op env op st))"
    using assms Cons.prems by (cases op) (auto intro: keeps_good)
  then show ?case by (simp add: Cons.IH)
qed simp

section \<open>The life cycle over the file store\<close>

text \<open>A new cluster in a store that is ready for it is created when the driver succeeds.\<close>

lemma persist_ready:
  assumes "PersistStore env = CLIPersistStore Y" "valid_seg (Name c)" "ready_store Y cfg (Name c) s"
  obtains s' where "persist env status (c, s, d) = (None, c, s', d)" "ready_store Y cfg (Name c) s'" "HomeDir s' = HomeDir s"
proof -
  let ?c = "c\<lparr>Status := status\<rparr>"
  have "writable s" using assms(3) by (simp add: ready_store_def)
  then have "fst (write_cluster ?c s) = None" using assms(2) by (intro write_cluster_ok) simp_all
  moreover have "ready_store Y cfg (Name c) (snd (write_cluster ?c s))"
    using ready_write_cluster [of Y cfg ?c s] assms(2,3) by simp
  moreover have "HomeDir (snd (write_cluster ?c s)) = HomeDir s"
    using same_envD(7) [OF touches_env [OF stays_write_cluster [of ?c s]]] assms(2) by simp
  ultimately show ?thesis
    using that by (simp add: persist_def assms(1) CLIPersistStore_def cli_PersistStatus_def case_prod_beta)
qed

lemma persist_keeps_kubeconfig:
  assumes "PersistStore env = CLIPersistStore Y" "valid_seg (Name c)" "persist env status (c, s, d) = (r, c', s', d')"
  shows "node_at s' (HomeDir s @ [''kubeconfig'']) = node_at s (HomeDir s @ [''kubeconfig''])"
  using cluster_file_keeps_home [OF assms(2) valid_segs(2), of "''kubeconfig''" "marshal_cluster (c\<lparr>Status := status\<rparr>)" s] assms(1,3)
  by (auto simp: persist_def CLIPersistStore_def cli_PersistStatus_def write_cluster_def split: prod.splits)

lemma Create_ready:
  assumes env: "PersistStore env = CLIPersistStore Y" and v: "valid_seg (Name c)"
    and ready: "ready_store Y cfg (Name c) s" and unknown: "cli_Get (Name c) s = Inl e0"
    and new: "RootCACert c = []" "Status c = []" "Metadata c = None"
    and conf: "GetConfig env = Inr opts"
    and cr: "d_Create (Driver env) opts None d = ((Some i, None), d1)"
    and pc: "d_PostCheck (Driver env) (i\<lparr>ci_CreateError := []\<rparr>) d1 = (Inr i', d2)"
    and certs: "\<forall>k \<in> {ci_RootCaCertificate i', ci_ClientKey i', ci_ClientCertificate i'}. base64_decode k \<noteq> None"
    and yaml: "y_Marshal Y (merge_config (transformClusterInfo (transformClusterInfo c i) i') cfg) = Inr ytext"
  obtains s' where "Create env (c, s, d) = (None, transformClusterInfo (transformClusterInfo c i) i', s', d2)"
    "node_at s' (HomeDir s @ [''kubeconfig'']) = Some (FFile ytext)"
proof -
  let ?c1 = "transformClusterInfo c i" let ?c2 = "transformClusterInfo ?c1 i'"
  obtain s1 where s1: "persist env PreCreating (c, s, d) = (None, c, s1, d)" "ready_store Y cfg (Name c) s1" "HomeDir s1 = HomeDir s"
    by (rule persist_ready [OF env v ready])
  obtain s2 where s2: "persist env Creating (c, s1, d) = (None, c, s2, d)" "ready_store Y cfg (Name c) s2" "HomeDir s2 = HomeDir s1"
    by (rule persist_ready [OF env v s1(2)])
  obtain s3 where s3: "persist env PostChecking (?c1, s2, d1) = (None, ?c1, s3, d1)" "ready_store Y cfg (Name ?c1) s3" "HomeDir s3 = HomeDir s2"
    by (rule persist_ready [OF env, of ?c1 cfg s2]) (use v s2(2) in simp_all)
  have st: "fst (cli_Store Y ?c2 s3) = None \<and> node_at (snd (cli_Store Y ?c2 s3)) (HomeDir s3 @ [''kubeconfig'']) = Some (FFile ytext)"
    using v s3(2) certs by (intro cli_Store_ready [OF yaml]) (simp_all add: transformClusterInfo_def)
  obtain s4 where st4: "cli_Store Y ?c2 s3 = (None, s4)" using st by (metis prod.collapse)
  have w4: "writable s4" using writable_Store [of ?c2 s3 Y] v s3(2) st4 by (simp add: ready_store_def)
  have h4: "HomeDir s4 = HomeDir s3"
    using same_envD(7) [OF touches_env [OF stays_Store [of ?c2 s3 Y]]] v st4 by simp
  have v2: "valid_seg (Name ?c2)" using v by simp
  obtain s5 where s5: "persist env Running (?c2, s4, d2) = (None, ?c2, s5, d2)"
    by (rule cli.persist_writable [OF env v2 w4])
  have kube: "node_at s5 (HomeDir s @ [''kubeconfig'']) = Some (FFile ytext)"
    using persist_keeps_kubeconfig [OF env v2 s5] st st4 h4 s1(3) s2(3) s3(3) by simp
  have "create env None (c, s, d) = (None, ?c1, s2, d1)"
    using s1(1) s2(1) conf cr new by (simp add: create_def Let_def del: PreCreating_def Creating_def)
  moreover have "PostCheck env (?c1, s2, d1) = (None, ?c2, s4, d2)"
    using s3(1) pc st4 by (simp add: PostCheck_def Store_def env CLIPersistStore_def del: PostChecking_def)
  moreover have "restore env (c, s, d) = (Some e0, c, s, d)"
    using unknown by (simp add: restore_def env CLIPersistStore_def)
  ultimately have "createInner env (c, s, d) = (None, ?c2, s4, d2)"
    using new by (simp add: createInner_def exists_status_def)
  moreover have "init_store env c s = s" using new by (simp add: init_store_def)
  ultimately have "Create env (c, s, d) = (None, ?c2, s5, d2)"
    using s5 by (simp add: Create_unfold del: Running_def)
  then show ?thesis using kube by (rule that)
qed

lemma ready_readable: "ready_store Y cfg n s \<Longrightarrow> readable s"
  by (simp add: ready_store_def writable_def readable_def)

lemma toInfo_no_error: "(toInfo x)\<lparr>ci_CreateError := []\<rparr> = toInfo x"
  by (simp add: toInfo_def)

subsection \<open>A concrete environment\<close>

definition demo_driver :: "nat driver" where
  "demo_driver = stub_driver\<lparr>
     v_Create := \<lambda>opts info d. ((Some (empty_info\<lparr>ci_Version := ''v1.17''\<rparr>), None), d + 1),
     v_PostCheck := \<lambda>info d. ((Some (info\<lparr>ci_Endpoint := ''10.0.0.1''\<rparr>), None), d),
     v_Update := \<lambda>info opts d. ((None, Some (Errorf ''quota'')), d + 1),
     v_Remove := \<lambda>info d. (Some (Errorf ''in use''), d + 1)\<rparr>"

text \<open>A codec for which every kubeconfig has an entry for another cluster \<open>c2\<close>.\<close>

definition demo_config :: KubeConfig where
  "demo_config = merge_config (zero_cluster\<lparr>Name := ''c2''\<rparr>) zero_config"

definition demo_codec :: yaml_codec where
  "demo_codec = \<lparr>y_Marshal = \<lambda>cfg. Inr (concat (map (\<lambda>cl. cc_Name cl @ '';'') (Clusters cfg))), y_Unmarshal = \<lambda>_. Inr demo_config\<rparr>"

definition demo_env :: "(fs, nat) env" where
  "demo_env = \<lparr>Driver = grpc_client good_conn (grpc_server demo_driver), PersistStore = CLIPersistStore demo_codec,
     GetConfig = Inr empty_options, FmtFloat = \<lambda>_. []\<rparr>"

definition demo_cluster :: cluster where
  "demo_cluster = zero_cluster\<lparr>Name := ''c1'', DriverName := ''import''\<rparr>"

text \<open>The store after the demo cluster was saved with a status.\<close>

definition demo_store :: "string \<Rightarrow> fs" where
  "demo_store status = snd (cli_PersistStatus demo_cluster status (plain_fs []))"

lemma demo_simps [simp]:
  "PersistStore demo_env = CLIPersistStore demo_codec" "GetConfig demo_env = Inr empty_options"
  "Name demo_cluster = ''c1''" "Status demo_cluster = []" "RootCACert demo_cluster = []"
  "Metadata demo_cluster = None" "DriverName demo_cluster = ''import''" "valid_seg ''c1''" "valid_seg ''c2''"
  "ps_Get (CLIPersistStore Y) = cli_Get"
  by (simp_all add: demo_env_def demo_cluster_def zero_cluster_def valid_seg_def CLIPersistStore_def)

lemma readable_plain [simp]: "readable (plain_fs nodes)"
  by (simp add: readable_def plain_fs_def)

lemma demo_store_writable [simp]: "writable (demo_store status)"
  using writable_write_cluster [of "plain_fs []" "demo_cluster\<lparr>Status := status\<rparr>"]
  by (simp add: demo_store_def cli_PersistStatus_def)

lemma demo_store_readable [simp]: "readable (demo_store status)"
  using demo_store_writable by (simp add: writable_def readable_def)

lemma demo_store_Get [simp]: "cli_Get ''c1'' (demo_store status) = Inr (saved (demo_cluster\<lparr>Status := status\<rparr>))"
proof -
  let ?w = "cli_PersistStatus demo_cluster status (plain_fs [])"
  have "fst ?w = None"
    unfolding cli_PersistStatus_def by (rule write_cluster_ok) simp_all
  then show ?thesis
    using cli.Get_PersistStatus [of demo_cluster "plain_fs []" demo_codec status "snd ?w"]
    by (simp add: demo_store_def CLIPersistStore_def prod_eq_iff)
qed

lemma demo_driver_calls [simp]:
  "d_Create (Driver demo_env) opts prev d = ((Some (empty_info\<lparr>ci_Version := ''v1.17''\<rparr>), None), d + 1)"
  "d_PostCheck (Driver demo_env) info d = (Inr (info\<lparr>ci_Endpoint := ''10.0.0.1''\<rparr>), d)"
  "d_Update (Driver demo_env) info opts d = (Inl (Errorf ''quota''), d + 1)"
  "d_Remove (Driver demo_env) info d = (Some (Errorf ''in use''), d + 1)"
  by (simp_all add: demo_env_def demo_driver_def grpc_client_def grpc_server_def grpc_Create_def srv_Create_def
      rpc_call_def rpc_empty_def stub_driver_def empty_info_def)

text \<open>A store that holds the cluster \<open>c2\<close> and its kubeconfig, and not the demo cluster.\<close>

definition second_store :: fs where
  "second_store = plain_fs [([''/'', ''root'', ''.kontainer'', ''kubeconfig''], FFile ''c2;''),
     ([''/'', ''root'', ''.kontainer'', ''clusters'', ''c2'', ''config.json''], FFile (marshal_cluster (zero_cluster\<lparr>Name := ''c2''\<rparr>)))]"

lemma demo_unknown: "\<exists>e. cli_Get ''c1'' (plain_fs []) = Inl e" "\<exists>e. cli_Get ''c1'' second_store = Inl e"
  by (simp_all add: second_store_def cli_Get_def os_Stat_def ReadFile_def cluster_dir_eq node_at_plain Let_def split: option.split)

lemma second_store_ready [simp]: "ready_store demo_codec demo_config ''c1'' second_store"
  by (auto simp: ready_store_def kubeconfig_is_def writable_def is_file_def node_at_plain second_store_def demo_codec_def
      prefixes_of_def tmp_name_def split: option.splits if_splits)

lemma second_store_home [simp]: "HomeDir second_store = [''/'', ''root'', ''.kontainer'']"
  by (simp add: second_store_def)

lemma demo_marshal: "Name c = ''c1'' \<Longrightarrow> y_Marshal demo_codec (merge_config c demo_config) = Inr ''c2;c1;''"
  by (simp add: demo_codec_def demo_config_def merge_config_def zero_config_def add_entry_def zero_cluster_def Let_def)

lemma demo_marshal_total: "\<exists>t. y_Marshal demo_codec config = Inr t"
  by (simp add: demo_codec_def)

lemma demo_certs: "base64_decode [] = Some []"
  by (simp add: base64_decode_def)

lemma demo_create:
  obtains c' s' where "Create demo_env (demo_cluster, second_store, 0) = (None, c', s', 1)"
proof -
  obtain e where e: "cli_Get ''c1'' second_store = Inl e" using demo_unknown by blast
  show ?thesis
    by (rule Create_ready [where env = demo_env and Y = demo_codec and c = demo_cluster and s = second_store and cfg = demo_config
          and d = 0 and ?d1.0 = 1 and ?d2.0 = 1 and opts = empty_options and ?e0.0 = e and ytext = "''c2;c1;''"
          and i = "empty_info\<lparr>ci_Version := ''v1.17''\<rparr>"])
       (auto simp: e demo_certs demo_marshal empty_info_def intro: that)
qed

section \<open>Properties of the life cycle\<close>

text \<open>
  C1. Creating a new cluster succeeds, whatever other clusters the store holds: when nothing is stored under the name, the store
  can be written and its kubeconfig file, if there is one, can be read as the config \<open>cfg\<close> (\<open>ready_store\<close>), the driver creates the
  cluster, its check passes with decodable certificates, and the merged kubeconfig can be marshalled, then
  \<open>Create\<close> returns nil with the info of the check, the stored record has status Running, and the kubeconfig file
  holds the old config with the cluster merged in.
\<close>

theorem create_new_cluster_succeeds:
  assumes "PersistStore env = CLIPersistStore Y" "valid_seg (Name c)"
    and "ready_store Y cfg (Name c) s" "cli_Get (Name c) s = Inl e0"
    and "RootCACert c = []" "Status c = []" "Metadata c = None"
    and "GetConfig env = Inr opts"
    and "d_Create (Driver env) opts None d = ((Some i, None), d1)"
    and "d_PostCheck (Driver env) (i\<lparr>ci_CreateError := []\<rparr>) d1 = (Inr i', d2)"
    and "\<forall>k \<in> {ci_RootCaCertificate i', ci_ClientKey i', ci_ClientCertificate i'}. base64_decode k \<noteq> None"
    and "y_Marshal Y (merge_config (transformClusterInfo (transformClusterInfo c i) i') cfg) = Inr ytext"
  shows "\<exists>c' s'. Create env (c, s, d) = (None, c', s', d2) \<and> toInfo c' = i'\<lparr>ci_CreateError := []\<rparr> \<and>
     cli_Get (Name c) s' = Inr (saved (c'\<lparr>Status := Running\<rparr>)) \<and>
     node_at s' (HomeDir s @ [''kubeconfig'']) = Some (FFile ytext)"
proof -
  let ?c' = "transformClusterInfo (transformClusterInfo c i) i'"
  obtain s' where r: "Create env (c, s, d) = (None, ?c', s', d2)" "node_at s' (HomeDir s @ [''kubeconfig'']) = Some (FFile ytext)"
    by (rule Create_ready [OF assms])
  from cli.Create_success [OF assms(1,2) ready_readable [OF assms(3)] r(1)] r show ?thesis by auto
qed

theorem create_new_cluster_witness:
  "\<exists>c' s'. Create demo_env (demo_cluster, second_store, 0) = (None, c', s', 1) \<and>
     cli_Get ''c1'' s' = Inr (saved (c'\<lparr>Status := Running\<rparr>)) \<and>
     node_at s' [''/'', ''root'', ''.kontainer'', ''kubeconfig''] = Some (FFile ''c2;c1;'')"
proof -
  obtain e where e: "cli_Get ''c1'' second_store = Inl e" using demo_unknown by blast
  show ?thesis
    using create_new_cluster_succeeds [of demo_env demo_codec demo_cluster demo_config second_store e empty_options 0
        "empty_info\<lparr>ci_Version := ''v1.17''\<rparr>" 1
        "empty_info\<lparr>ci_Version := ''v1.17'', ci_Endpoint := ''10.0.0.1''\<rparr>" 1 "''c2;c1;''"]
    by (auto simp: e demo_certs demo_marshal empty_info_def)
qed

text \<open>
  C2. Whenever \<open>Create\<close> returns nil, the record on disk has status Running and otherwise holds
  exactly what the driver's \<open>PostCheck\<close> reported last; so no cluster is recorded as running that
  its driver did not check.
\<close>

theorem create_persists_checked_info:
  assumes "PersistStore env = CLIPersistStore Y" "valid_seg (Name c)" "readable s"
    and "Create env (c, s, d) = (None, c', s', d')"
  shows "cli_Get (Name c) s' = Inr (saved (c'\<lparr>Status := Running\<rparr>)) \<and>
     (\<exists>info dp i. d_PostCheck (Driver env) info dp = (Inr i, d') \<and> toInfo c' = i\<lparr>ci_CreateError := []\<rparr>)"
  using cli.Create_success [OF assms] by simp

theorem create_persists_checked_info_witness:
  "\<exists>c' s'. cli_Get ''c1'' s' = Inr (saved (c'\<lparr>Status := Running\<rparr>)) \<and>
     (\<exists>info dp i. d_PostCheck (Driver demo_env) info dp = (Inr i, 1) \<and> toInfo c' = i\<lparr>ci_CreateError := []\<rparr>)"
proof -
  obtain c' s' where "Create demo_env (demo_cluster, second_store, 0) = (None, c', s', 1)" by (rule demo_create)
  from create_persists_checked_info [OF demo_simps(1) _ ready_readable [OF second_store_ready] this] show ?thesis
    by (simp only: demo_simps) blast
qed

text \<open>
  C4. When \<open>Create\<close> fails on a writable store, the failure is on disk: the record keeps the
  fields collected so far and has status Error, or Running when the error is that the cluster
  already exists; and the store stays writable, so the operation can be retried.
\<close>

theorem create_failure_is_persisted:
  assumes "PersistStore env = CLIPersistStore Y" "valid_seg (Name c)" "writable s"
    and "Create env (c, s, d) = (Some e, c', s', d')"
  shows "cli_Get (Name c) s' =
     Inr (saved (c'\<lparr>Status := if e = ErrClusterExists then Running else ErrorStatus\<rparr>)) \<and> writable s'"
  using cli.Create_error [OF assms] by simp

text \<open>
  C27. \<open>Create\<close> on a cluster that is stored as updating, running, post-checking or adopted
  returns \<open>ErrClusterExists\<close>, does not call the driver (the provider's state is unchanged) and
  marks the record as Running.
\<close>

theorem create_existing_calls_no_driver:
  assumes "PersistStore env = CLIPersistStore Y" "valid_seg (Name c)" "writable s"
    and "cli_Get (Name c) s = Inr p" "Status p \<in> {Updating, Running, PostChecking, Init}"
  shows "\<exists>c' s'. Create env (c, s, d) = (Some ErrClusterExists, c', s', d) \<and>
     cli_Get (Name c) s' = Inr (saved (c'\<lparr>Status := Running\<rparr>))"
proof -
  have "exists_status (Status p)" using assms(5) by (auto simp: exists_status_def)
  with cli.Create_existing [OF assms(1-3), of p d] assms(4) show ?thesis by (simp only: demo_simps) blast
qed

theorem create_existing_calls_no_driver_witness:
  "\<exists>c' s'. Create demo_env (demo_cluster, demo_store Updating, 7) = (Some ErrClusterExists, c', s', 7) \<and>
     cli_Get ''c1'' s' = Inr (saved (c'\<lparr>Status := Running\<rparr>))"
  using create_existing_calls_no_driver [of demo_env demo_codec demo_cluster "demo_store Updating"
      "saved (demo_cluster\<lparr>Status := Updating\<rparr>)" 7] by simp

theorem create_failure_is_persisted_witness:
  "\<exists>c' s'. cli_Get ''c1'' s' = Inr (saved (c'\<lparr>Status := Running\<rparr>)) \<and> writable s'"
proof -
  have "exists_status (Status (saved (demo_cluster\<lparr>Status := Updating\<rparr>)))" by (simp add: exists_status_def)
  then obtain c' s' where "Create demo_env (demo_cluster, demo_store Updating, 7) = (Some ErrClusterExists, c', s', 7)"
    using cli.Create_existing [of demo_env demo_codec demo_cluster "demo_store Updating"
        "saved (demo_cluster\<lparr>Status := Updating\<rparr>)" 7] by (simp only: demo_simps) (metis demo_store_Get demo_store_writable)
  from create_failure_is_persisted [OF demo_simps(1) _ demo_store_writable this] show ?thesis
    by (simp only: demo_simps simp_thms if_True) blast
qed

text \<open>
  A cluster handed over with a CA certificate and no status is adopted: whatever is stored
  under its name, the driver is not called, and the record is stored as Running.
\<close>

theorem create_adopts_given_cluster:
  assumes "PersistStore env = CLIPersistStore Y" "valid_seg (Name c)" "writable s"
    and "RootCACert c \<noteq> []" "Status c = []"
  shows "\<exists>c' s'. Create env (c, s, d) = (Some ErrClusterExists, c', s', d) \<and>
     cli_Get (Name c) s' = Inr (saved (c'\<lparr>Status := Running\<rparr>))"
  using cli.Create_adopts [OF assms, of d] by (simp only: demo_simps) blast

theorem create_adopts_given_cluster_witness:
  "\<exists>c' s'. Create demo_env (demo_cluster\<lparr>RootCACert := ''YQ==''\<rparr>, plain_fs [], 7) = (Some ErrClusterExists, c', s', 7)
     \<and> cli_Get ''c1'' s' = Inr (saved (c'\<lparr>Status := Running\<rparr>))"
  using create_adopts_given_cluster [of demo_env demo_codec "demo_cluster\<lparr>RootCACert := ''YQ==''\<rparr>" "plain_fs []" 7]
  by simp

text \<open>
  What a repeated create hands to the driver: after a failed attempt (status Error) the
  stored info, so that the driver can resume; after an attempt that was interrupted while the
  status was Pre-Creating or Creating no info at all, although it may have left resources.
\<close>

theorem create_retry_info:
  assumes "PersistStore env = CLIPersistStore Y" "cli_Get (Name c) s = Inr p"
    and "Status p \<in> {ErrorStatus, PreCreating, Creating}"
  shows "createInner env (c, s, d) =
     and_then (create env (if Status p = ErrorStatus then Some (toInfo p) else None)
        (transformClusterInfo c (toInfo p), s, d)) (PostCheck env)"
proof (rule cli.createInner_retry [OF assms(1)])
  show "\<not> exists_status (Status p)" using assms(3) by (auto simp: exists_status_def)
qed (simp add: assms(2))

theorem create_retry_info_witness:
  "createInner demo_env (demo_cluster, demo_store Creating, 0) =
     and_then (create demo_env None
       (transformClusterInfo demo_cluster (toInfo (saved (demo_cluster\<lparr>Status := Creating\<rparr>))), demo_store Creating, 0))
       (PostCheck demo_env)"
  using create_retry_info [of demo_env demo_codec demo_cluster "demo_store Creating"
      "saved (demo_cluster\<lparr>Status := Creating\<rparr>)" 0] by simp

text \<open>
  When the driver's update fails, the error is returned and the record is left with status
  Updating: nothing puts the old status back.
\<close>

theorem update_failure_leaves_updating:
  assumes "PersistStore env = CLIPersistStore Y" "valid_seg (Name c)" "writable s"
    and "cli_Get (Name c) s = Inr p" "Status p \<notin> {ErrorStatus, PreCreating, Creating}"
    and "GetConfig env = Inr opts"
    and "d_Update (Driver env) (toInfo p)
           (merge_metadata (FmtFloat env) (gm_list (Metadata p)) (put_string ''name'' (Name c) opts)) d
         = (Inl e, d')"
  shows "\<exists>c' s'. Update env (c, s, d) = (Some e, c', s', d') \<and>
     cli_Get (Name c) s' = Inr (saved (c'\<lparr>Status := Updating\<rparr>))"
proof -
  have "ps_Get (CLIPersistStore Y) (Name c) s = Inr p" using assms(4) by simp
  from cli.Update_driver_error [OF assms(1-3) this assms(5-7)] show ?thesis
    by (simp only: demo_simps) blast
qed

theorem update_failure_leaves_updating_witness:
  "\<exists>c' s'. Update demo_env (demo_cluster, demo_store Running, 0) = (Some (Errorf ''quota''), c', s', 1) \<and>
     cli_Get ''c1'' s' = Inr (saved (c'\<lparr>Status := Updating\<rparr>))"
  using update_failure_leaves_updating [of demo_env demo_codec demo_cluster "demo_store Running"
      "saved (demo_cluster\<lparr>Status := Running\<rparr>)" empty_options 0 "Errorf ''quota''" 1] by simp

text \<open>
  C26. A successful update of a cluster that is not in status Error stores exactly what the
  driver's \<open>PostCheck\<close> reported, its status included: \<open>Update\<close> itself never writes Running.
\<close>

theorem update_persists_checked_info:
  assumes "PersistStore env = CLIPersistStore Y" "valid_seg (Name c)"
    and "cli_Get (Name c) s = Inr p" "Status p \<noteq> ErrorStatus"
    and "Update env (c, s, d) = (None, c', s', d')" "readable s"
  shows "cli_Get (Name c) s' = Inr (saved c') \<and>
     (\<exists>info dp i. d_PostCheck (Driver env) info dp = (Inr i, d') \<and> toInfo c' = i\<lparr>ci_CreateError := []\<rparr>)"
proof -
  have "ps_Get (CLIPersistStore Y) (Name c) s = Inr p" using assms(3) by simp
  from cli.Update_success [OF assms(1,2) this assms(4-6)] show ?thesis by simp
qed

definition updating_env :: "(fs, nat) env" where
  "updating_env = demo_env\<lparr>Driver := grpc_client good_conn (grpc_server
     (demo_driver\<lparr>v_Update := \<lambda>info opts d. ((Some info, None), d + 1)\<rparr>))\<rparr>"

lemma updating_env_simps [simp]:
  "PersistStore updating_env = CLIPersistStore demo_codec" "GetConfig updating_env = Inr empty_options"
  "d_Update (Driver updating_env) info opts d = (Inr info, d + 1)"
  "d_PostCheck (Driver updating_env) info d = (Inr (info\<lparr>ci_Endpoint := ''10.0.0.1''\<rparr>), d)"
  by (simp_all add: updating_env_def demo_driver_def grpc_client_def grpc_server_def rpc_call_def)

lemma demo_update:
  obtains c' s' where "Update updating_env (demo_cluster, demo_store Running, 0) = (None, c', s', 1)"
proof -
  let ?p = "saved (demo_cluster\<lparr>Status := Running\<rparr>)"
  let ?c1 = "transformClusterInfo demo_cluster (toInfo ?p)"
  let ?c2 = "transformClusterInfo ?c1 (toInfo ?p)"
  let ?c3 = "transformClusterInfo ?c2 ((toInfo ?p)\<lparr>ci_Endpoint := ''10.0.0.1''\<rparr>)"
  have f0: "ready_store demo_codec zero_config (Name ?c1) (demo_store Running)"
    using ready_write_cluster [of demo_codec zero_config "demo_cluster\<lparr>Status := Running\<rparr>" "plain_fs []"]
    by (simp add: demo_store_def cli_PersistStatus_def)
  have v: "valid_seg (Name ?c1)" "valid_seg (Name ?c2)" by simp_all
  obtain s1 where s1: "persist updating_env Updating (?c1, demo_store Running, 0) = (None, ?c1, s1, 0)"
    "ready_store demo_codec zero_config (Name ?c1) s1"
    by (rule persist_ready [OF updating_env_simps(1) v(1) f0])
  have f1: "ready_store demo_codec zero_config (Name ?c2) s1" using s1(2) by simp
  obtain s2 where s2: "persist updating_env PostChecking (?c2, s1, 1) = (None, ?c2, s2, 1)"
    "ready_store demo_codec zero_config (Name ?c2) s2"
    by (rule persist_ready [OF updating_env_simps(1) v(2) f1])
  have "fst (cli_Store demo_codec ?c3 s2) = None"
    using s2(2) cli_Store_ready [of demo_codec ?c3 zero_config _ s2]
    by (simp add: demo_codec_def transformClusterInfo_def toInfo_def saved_def demo_cluster_def zero_cluster_def base64_decode_def)
  then obtain s3 where s3: "cli_Store demo_codec ?c3 s2 = (None, s3)" by (metis prod.collapse)
  have "restore updating_env (demo_cluster, demo_store Running, 0) = (None, ?c1, demo_store Running, 0)"
    by (simp add: restore_def)
  with s1(1) s2(1) s3 have "Update updating_env (demo_cluster, demo_store Running, 0) = (None, ?c3, s3, 1)"
    by (simp add: Update_def PostCheck_def Store_def toInfo_no_error Let_def CLIPersistStore_def
        del: Updating_def PostChecking_def)
  then show ?thesis by (rule that)
qed

theorem update_persists_checked_info_witness:
  "\<exists>c' s'. cli_Get ''c1'' s' = Inr (saved c') \<and>
     (\<exists>info dp i. d_PostCheck (Driver updating_env) info dp = (Inr i, 1) \<and> toInfo c' = i\<lparr>ci_CreateError := []\<rparr>)"
proof -
  obtain c' s' where u: "Update updating_env (demo_cluster, demo_store Running, 0) = (None, c', s', 1)"
    by (rule demo_update)
  from update_persists_checked_info [OF updating_env_simps(1) _ demo_store_Get [unfolded demo_simps(3) [symmetric]] _ u]
  show ?thesis by (simp only: demo_simps) auto
qed

text \<open>
  C12. After a successful \<open>Remove\<close> the cluster is gone from the store.
\<close>

theorem remove_forgets_cluster:
  assumes "PersistStore env = CLIPersistStore Y" "valid_seg (Name c)" "cli_Get (Name c) s = Inr p"
    and "Remove env force (c, s, d) = (None, c', s', d')"
  shows "\<exists>e. cli_Get (Name c) s' = Inl e"
proof -
  have "ps_Get (CLIPersistStore Y) (Name c) s = Inr p" using assms(3) by simp
  from cli.Remove_forgets [OF assms(1,2) this assms(4)] show ?thesis by simp
qed

text \<open>
  When the driver cannot remove the cluster, an unforced \<open>Remove\<close> returns an error that names
  the cluster, the driver and the cause, and leaves the store as it is; a forced one removes
  the record all the same and returns only the store's error.
\<close>

theorem remove_driver_failure:
  assumes "PersistStore env = CLIPersistStore Y" "cli_Get (Name c) s = Inr p"
    and "d_Remove (Driver env) (toInfo p) d = (Some e, d')"
  shows "Remove env False (c, s, d) =
       (Some (Errorf (''Error removing cluster ['' @ Name c @ ''] with driver ['' @ DriverName c @ '']: '' @ err_msg e)),
        transformClusterInfo c (toInfo p), s, d') \<and>
     fst (Remove env True (c, s, d)) = fst (cli_Remove Y (Name c) s) \<and>
     fst (snd (snd (Remove env True (c, s, d)))) = snd (cli_Remove Y (Name c) s)"
proof -
  have g: "ps_Get (CLIPersistStore Y) (Name c) s = Inr p" using assms(2) by simp
  show ?thesis
    using cli.Remove_unforced_error [OF assms(1) g assms(3)] cli.Remove_forced [OF assms(1) g, of d]
    by (simp add: CLIPersistStore_def)
qed

theorem remove_driver_failure_witness:
  "fst (Remove demo_env False (demo_cluster, demo_store Running, 0)) =
     Some (Errorf ''Error removing cluster [c1] with driver [import]: in use'')"
  using remove_driver_failure [of demo_env demo_codec demo_cluster "demo_store Running"
      "saved (demo_cluster\<lparr>Status := Running\<rparr>)" 0 "Errorf ''in use''" 1] by simp

text \<open>A store with a kubeconfig, from which the demo cluster can be removed.\<close>

definition full_store :: fs where
  "full_store = plain_fs [([''/'', ''root'', ''.kontainer'', ''kubeconfig''], FFile ''kind: Config''),
     ([''/'', ''root'', ''.kontainer'', ''clusters'', ''c1'', ''config.json''], FFile (marshal_cluster demo_cluster))]"

lemma full_store_Get: "cli_Get ''c1'' full_store = Inr (saved demo_cluster)"
  by (simp add: cli_Get_def cluster_dir_eq full_store_def os_Stat_def ReadFile_def node_at_plain
      unmarshal_marshal Let_def split: option.split)

lemma full_store_Remove: "fst (cli_Remove demo_codec ''c1'' full_store) = None"
  by (rule cli_Remove_ok)
     (auto simp: full_store_def node_at_plain is_file_def demo_codec_def prefixes_of_def tmp_name_def
       split: option.splits if_splits)

theorem remove_forgets_cluster_witness:
  "\<exists>s' e. Remove demo_env True (demo_cluster, full_store, 0) =
      (None, transformClusterInfo demo_cluster (toInfo (saved demo_cluster)), s', 1) \<and> cli_Get ''c1'' s' = Inl e"
proof -
  obtain s' where r: "cli_Remove demo_codec ''c1'' full_store = (None, s')"
    using full_store_Remove by (metis prod.collapse)
  have rm: "Remove demo_env True (demo_cluster, full_store, 0) =
      (None, transformClusterInfo demo_cluster (toInfo (saved demo_cluster)), s', 1)"
    using r full_store_Get by (simp add: Remove_def restore_def CLIPersistStore_def)
  from remove_forgets_cluster [OF demo_simps(1) _ _ rm] full_store_Get rm show ?thesis by simp
qed

text \<open>
  C3. Operations on one cluster never touch another: after any history of operations, with any
  outcomes of driver and store, every other cluster is read from the store exactly as before,
  and the handle still names the same cluster and driver.
\<close>

theorem other_clusters_untouched:
  assumes "PersistStore env = CLIPersistStore Y" "valid_seg (Name c)" "valid_seg n'" "n' \<noteq> Name c"
    and "run_ops env ops (c, s, d) = (c', s', d')"
  shows "cli_Get n' s' = cli_Get n' s \<and> Name c' = Name c \<and> DriverName c' = DriverName c"
proof -
  have "store_closed (PersistStore env) (Name c) (\<lambda>x. cli_Get n' x = cli_Get n' s)"
    using cli.other_names [OF assms(2,3), of Y "cli_Get n' s"] assms(1,4) by auto
  from run_ops_good [OF this, of "DriverName c" "(c, s, d)" ops] assms(5) show ?thesis by simp
qed

theorem other_clusters_untouched_witness:
  "\<exists>c' s' d'. run_ops demo_env [OpCreate, OpUpdate, OpRemove True] (demo_cluster, demo_store Creating, 0) = (c', s', d')
     \<and> cli_Get ''c2'' s' = cli_Get ''c2'' (demo_store Creating)"
proof -
  obtain c' s' d' where r: "run_ops demo_env [OpCreate, OpUpdate, OpRemove True] (demo_cluster, demo_store Creating, 0) = (c', s', d')"
    by (rule prod_cases3)
  from other_clusters_untouched [OF demo_simps(1) _ _ _ r, of "''c2''"] r show ?thesis by simp
qed

section \<open>Properties of the commands\<close>

text \<open>A store in which the demo cluster is listed, and the commands over the demo driver.\<close>

definition listed_store :: fs where
  "listed_store = plain_fs [([''/'', ''root''], FDir), ([''/'', ''root'', ''.kontainer''], FDir),
     ([''/'', ''root'', ''.kontainer'', ''clusters''], FDir), ([''/'', ''root'', ''.kontainer'', ''clusters'', ''c1''], FDir),
     ([''/'', ''root'', ''.kontainer'', ''kubeconfig''], FFile ''kind: Config''),
     ([''/'', ''root'', ''.kontainer'', ''clusters'', ''c1'', ''config.json''], FFile (marshal_cluster demo_cluster))]"

definition demo_cmd :: "nat cmd_env" where
  "demo_cmd = \<lparr>ce_OsArgs = [''kontainer-engine'', ''rm'', ''c1''], ce_Drivers = [''import'' \<mapsto> demo_driver],
     ce_Listen = ''127.0.0.1:'', ce_Dial = \<lambda>_. Inr good_conn, ce_yaml = demo_codec, ce_FmtFloat = \<lambda>_. [],
     ce_writer = \<lparr>wl_Template = \<lambda>fs t x. (t, None), wl_Marshal = \<lambda>_. Inr [], wl_Write = \<lambda>_. None, wl_Flush = None\<rparr>,
     ce_Stdout = \<lambda>_. None\<rparr>"

definition demo_ctx :: cli_ctx where
  "demo_ctx = \<lparr>cx_Args = [''c1''], cx_Flags = [], cx_String = \<lambda>_. [], cx_Bool = \<lambda>_. False, cx_Int64 = \<lambda>_. 0,
     cx_StringSlice = \<lambda>_. [], cx_GlobalString = \<lambda>_. []\<rparr>"

definition demo_world :: "nat cmd_world" where
  "demo_world = \<lparr>cw_out = [], cw_fs = listed_store, cw_provider = 0\<rparr>"

lemma demo_cmd_simps [simp]:
  "cx_Args demo_ctx = [''c1'']" "cx_Bool demo_ctx k = False" "ce_yaml demo_cmd = demo_codec"
  "cw_fs demo_world = listed_store" "cw_provider demo_world = 0" "cw_out demo_world = []"
  "runRPCDriver demo_cmd ''import'' = Inr (Driver demo_env, ''127.0.0.1:'')"
  by (simp_all add: demo_ctx_def demo_cmd_def demo_world_def runRPCDriver_def NewClient_def dial_def demo_env_def)

lemma listed_store_Get: "cli_Get ''c1'' listed_store = Inr (saved demo_cluster)"
  by (simp add: cli_Get_def cluster_dir_eq listed_store_def os_Stat_def ReadFile_def node_at_plain
      unmarshal_marshal Let_def split: option.split)

lemma listed_store_Remove: "fst (cli_Remove demo_codec ''c1'' listed_store) = None"
  by (rule cli_Remove_ok)
     (auto simp: listed_store_def node_at_plain is_file_def demo_codec_def prefixes_of_def tmp_name_def
       split: option.splits if_splits)

lemma listed_store_reads:
  "HomeDir listed_store = [''/'', ''root'', ''.kontainer'']"
  "ReadDir [''/'', ''root'', ''.kontainer'', ''clusters''] listed_store = DirEntries [(''c1'', True)]"
  "ReadDir [''/'', ''root'', ''.kontainer'', ''clusters'', ''c1''] listed_store = DirEntries [(''config.json'', False)]"
  "ReadFile [''/'', ''root'', ''.kontainer'', ''clusters'', ''c1'', ''config.json''] listed_store =
     Inr (marshal_cluster demo_cluster)"
  by (simp_all add: listed_store_def ReadDir_def ReadFile_def node_at_plain plain_fs_def[THEN arg_cong[where f = Nodes]]
      plain_fs_def[THEN arg_cong[where f = Deny]])

lemma listed_store_all: "GetAllClusterFromStore listed_store = Inr [(''c1'', saved demo_cluster)]"
  by (simp add: GetAllClusterFromStore_def listed_store_reads valid_seg_def has_prefix_def has_suffix_def unmarshal_marshal)

text \<open>
  C20. When \<open>remove\<close> without \<open>--force\<close> reports no error, every cluster it was given is gone from the store.
\<close>

theorem rm_removes_all:
  assumes "rmCluster ce cx w = (None, w')" "\<not> cx_Bool cx ''force''"
    and "\<forall>n \<in> set (cx_Args cx). valid_seg n \<and> n \<noteq> ''--help''" "n \<in> set (cx_Args cx)"
  shows "\<exists>e. cli_Get n (cw_fs w') = Inl e"
  using rm_loop_gone[of ce cx "cx_Args cx" w w' "[]"] assms by (simp add: rmCluster_def)

text \<open>
  \<open>remove\<close> asks for a forced removal whether or not \<open>--force\<close> was given: when the driver fails to delete the
  cluster, the record is dropped from the store all the same, the name is printed and no error is returned.
\<close>

theorem rm_ignores_driver_error:
  assumes "cx_Args cx = [n]" "n \<noteq> []" "n \<noteq> ''--help''"
    and "GetAllClusterFromStore (cw_fs w) = Inr clusters" "map_of clusters n = Some c"
    and "runRPCDriver ce (DriverName c) = Inr (rpc, addr)"
    and "cli_Get n (cw_fs w) = Inr p" "d_Remove rpc (toInfo p) (cw_provider w) = (Some e, d')"
    and "cli_Remove (ce_yaml ce) n (cw_fs w) = (None, fs')"
  shows "rmCluster ce cx w = (None, w\<lparr>cw_out := cw_out w @ [n], cw_fs := fs', cw_provider := d'\<rparr>)"
proof (rule rm_single[OF assms(1-6)])
  have "Name c = n" by (rule listed_named[OF assms(4,5)])
  with assms(7-9) show "Remove (cmd_handles ce cx n rpc) True (c, cw_fs w, cw_provider w) =
      (None, transformClusterInfo c (toInfo p), fs', d')"
    by (simp add: Remove_def restore_def CLIPersistStore_def toInfo_no_error)
qed

lemma demo_rm:
  obtains fs' where "cli_Remove demo_codec ''c1'' listed_store = (None, fs')"
    "Remove (cmd_handles demo_cmd demo_ctx ''c1'' (Driver demo_env)) True (saved demo_cluster, listed_store, 0) =
       (None, transformClusterInfo (saved demo_cluster) (toInfo (saved demo_cluster)), fs', 1)"
proof -
  obtain fs' where r: "cli_Remove demo_codec ''c1'' listed_store = (None, fs')"
    using listed_store_Remove by (metis prod.collapse)
  have "Name (saved demo_cluster) = ''c1''" by simp
  with r listed_store_Get show ?thesis
    by (intro that[OF r]) (simp add: Remove_def restore_def CLIPersistStore_def)
qed

theorem rm_ignores_driver_error_witness:
  "\<exists>fs'. rmCluster demo_cmd demo_ctx demo_world = (None, demo_world\<lparr>cw_out := [''c1''], cw_fs := fs', cw_provider := 1\<rparr>)"
proof -
  obtain fs' where r: "cli_Remove demo_codec ''c1'' listed_store = (None, fs')" by (rule demo_rm)
  show ?thesis
    using rm_ignores_driver_error[of demo_ctx "''c1''" demo_world "[(''c1'', saved demo_cluster)]" "saved demo_cluster"
        demo_cmd "Driver demo_env" "''127.0.0.1:''" "saved demo_cluster" "Errorf ''in use''" 1 fs'] r
    by (simp add: listed_store_all listed_store_Get) blast
qed

theorem rm_removes_all_witness:
  "\<exists>w' e. rmCluster demo_cmd demo_ctx demo_world = (None, w') \<and> cli_Get ''c1'' (cw_fs w') = Inl e"
proof -
  obtain fs' where r: "Remove (cmd_handles demo_cmd demo_ctx ''c1'' (Driver demo_env)) True (saved demo_cluster, listed_store, 0) =
       (None, transformClusterInfo (saved demo_cluster) (toInfo (saved demo_cluster)), fs', 1)" by (rule demo_rm)
  have "\<exists>w'. rmCluster demo_cmd demo_ctx demo_world = (None, w')"
    using rm_single[of demo_ctx "''c1''" demo_world "[(''c1'', saved demo_cluster)]" "saved demo_cluster"
        demo_cmd "Driver demo_env" "''127.0.0.1:''" _ fs' 1] r
    by (simp add: listed_store_all) 
  then obtain w' where w: "rmCluster demo_cmd demo_ctx demo_world = (None, w')" ..
  from rm_removes_all[OF w, of "''c1''"] w show ?thesis by simp
qed

text \<open>
  C37. Which options reach the driver when \<open>create\<close> runs with the flags the driver declared: exactly the declared
  ones, each under its name and as the type it was declared with, holding the value of the command line;
  beside them the flag \<open>driver\<close>, and the cluster's name, which overrides a flag \<open>name\<close>.
\<close>

theorem cli_options_reach_driver:
  "\<exists>opts. cli_GetConfig (cx\<lparr>cx_Flags := StringFlag ''driver'' u [] # getDriverFlags fl\<rparr>) name = Inr opts \<and>
     StringOptions opts k = (if k = ''name'' then Some name
        else if k = ''driver'' \<or> (\<exists>v. (k, v) \<in> set fl \<and> flag_Type v = ''string'') then Some (cx_String cx k) else None) \<and>
     BoolOptions opts k =
       (if \<exists>v. (k, v) \<in> set fl \<and> flag_Type v \<in> {''bool'', ''boolPtr''} then Some (cx_Bool cx k) else None) \<and>
     IntOptions opts k =
       (if \<exists>v. (k, v) \<in> set fl \<and> flag_Type v \<in> {''int'', ''intPtr''} then Some (cx_Int64 cx k) else None) \<and>
     StringSliceOptions opts k =
       (if \<exists>v. (k, v) \<in> set fl \<and> flag_Type v = ''stringSlice'' then Some (cx_StringSlice cx k) else None)"
proof -
  let ?fs = "StringFlag ''driver'' u [] # getDriverFlags fl" and ?cx = "cx\<lparr>cx_Flags := StringFlag ''driver'' u [] # getDriverFlags fl\<rparr>"
  define q where "q = fold (set_option ?cx) ?fs empty_options"
  note maps = set_options_maps[where cx = ?cx and fs = ?fs and ?o0.0 = empty_options and k = k]
  have mem: "(\<exists>a b. StringFlag k a b \<in> set ?fs) \<longleftrightarrow> k = ''driver'' \<or> (\<exists>v. (k, v) \<in> set fl \<and> flag_Type v = ''string'')"
    "(\<exists>a. BoolFlag k a \<in> set ?fs) \<longleftrightarrow> (\<exists>v. (k, v) \<in> set fl \<and> flag_Type v \<in> {''bool'', ''boolPtr''})"
    "(\<exists>a b. Int64Flag k a b \<in> set ?fs) \<longleftrightarrow> (\<exists>v. (k, v) \<in> set fl \<and> flag_Type v \<in> {''int'', ''intPtr''})"
    "(\<exists>a. StringSliceFlag k a \<in> set ?fs) \<longleftrightarrow> (\<exists>v. (k, v) \<in> set fl \<and> flag_Type v = ''stringSlice'')"
    unfolding getDriverFlags_mem[symmetric] by auto
  have q: "StringOptions q k = (if k = ''driver'' \<or> (\<exists>v. (k, v) \<in> set fl \<and> flag_Type v = ''string'') then Some (cx_String cx k) else None)"
    "BoolOptions q k =
       (if \<exists>v. (k, v) \<in> set fl \<and> flag_Type v \<in> {''bool'', ''boolPtr''} then Some (cx_Bool cx k) else None)"
    "IntOptions q k =
       (if \<exists>v. (k, v) \<in> set fl \<and> flag_Type v \<in> {''int'', ''intPtr''} then Some (cx_Int64 cx k) else None)"
    "StringSliceOptions q k =
       (if \<exists>v. (k, v) \<in> set fl \<and> flag_Type v = ''stringSlice'' then Some (cx_StringSlice cx k) else None)"
    unfolding q_def maps mem by (simp_all add: empty_options_def)
  have "cli_GetConfig ?cx name = Inr (put_string ''name'' name q)"
    by (simp add: cli_GetConfig_def getDriverOpts_def q_def)
  then show ?thesis
    by (intro exI[of _ "put_string ''name'' name q"] conjI) (simp_all add: put_string_def q)
qed

text \<open>A cluster made by \<open>NewCluster\<close> under a new name is created when the driver succeeds.\<close>

lemma NewCluster_Create:
  assumes "mkc dn addr = Inr rpc" "valid_seg n" "ready_store Y cfg n s" "cli_Get n s = Inl e0"
    and "d_Create rpc opts None d = ((Some i, None), d1)" "d_PostCheck rpc (i\<lparr>ci_CreateError := []\<rparr>) d1 = (Inr i', d2)"
    and "\<forall>k \<in> {ci_RootCaCertificate i', ci_ClientKey i', ci_ClientCertificate i'}. base64_decode k \<noteq> None"
    and "\<And>config. \<exists>t. y_Marshal Y config = Inr t"
  obtains env c c' s' t where "NewCluster mkc fmtf dn n addr (Inr opts) (CLIPersistStore Y) = Inr (env, c)" "Driver env = rpc" "Name c = n"
    "Create env (c, s, d) = (None, c', s', d2)" "cli_Get n s' = Inr (saved (c'\<lparr>Status := Running\<rparr>))"
    "toInfo c' = i'\<lparr>ci_CreateError := []\<rparr>" "Name c' = n" "y_Marshal Y (merge_config c' cfg) = Inr t"
    "node_at s' (HomeDir s @ [''kubeconfig'']) = Some (FFile t)"
proof -
  obtain env c where nc: "NewCluster mkc fmtf dn n addr (Inr opts) (CLIPersistStore Y) = Inr (env, c)"
    and e: "Driver env = rpc" "PersistStore env = CLIPersistStore Y" "GetConfig env = Inr opts"
    and c: "Name c = n" "RootCACert c = []" "Status c = []" "Metadata c = None"
    by (simp add: NewCluster_def assms(1))
  let ?c' = "transformClusterInfo (transformClusterInfo c i) i'"
  obtain t where t: "y_Marshal Y (merge_config ?c' cfg) = Inr t" using assms(8) by blast
  obtain s' where r: "Create env (c, s, d) = (None, ?c', s', d2)" and k: "node_at s' (HomeDir s @ [''kubeconfig'']) = Some (FFile t)"
    by (rule Create_ready[where env = env and c = c and s = s and d = d])
       (use e c t assms(2-7) in \<open>simp_all\<close>)
  from cli.Create_success[OF e(2) _ ready_readable[OF assms(3)] r] c(1) assms(2)
  have "cli_Get n s' = Inr (saved (?c'\<lparr>Status := Running\<rparr>))" by simp
  then show ?thesis using c(1) by (intro that[OF nc e(1) c(1) r _ _ _ t k]) simp_all
qed

text \<open>
  C5. The command \<open>create\<close> from end to end, for a name that is not stored yet, beside any other clusters: the store can be written
  and its kubeconfig, if any, is read as \<open>cfg\<close>; kubeconfigs can be marshalled. When the driver named on the command line
  creates the cluster and its check passes with decodable certificates, the program exits normally, the record
  in the store has status Running and holds what the check reported, and the kubeconfig file holds \<open>cfg\<close> with the
  cluster merged in.
\<close>

theorem create_command_creates:
  assumes "flagHackLookup (ce_OsArgs ce) ''--driver'' = dn" "dn \<noteq> []" "last (ce_OsArgs ce) = n" "valid_seg n"
    and "ce_Drivers ce dn = Some drv" "\<And>addr. ce_Dial ce addr = Inr cn"
    and rpc: "rpc = grpc_client cn (grpc_server drv)"
    and "d_GetDriverCreateOptions rpc (cw_provider w) = (Inr fl, d0)"
    and "lib app_Flags (ce_OsArgs ce) app_Commands = Inr (''create'', cx0)"
    and "lib app_Flags (rerun_args (ce_OsArgs ce) (ce_Listen ce))
           (map (rerun_command CreateWapper (getDriverFlags fl)) app_Commands) = Inr (''create'', cx)"
    and "cx_Args cx = [n]" "cx_String cx ''driver'' = dn"
    and "ready_store (ce_yaml ce) cfg n (cw_fs w)" "cli_Get n (cw_fs w) = Inl e0"
    and "d_Create rpc (put_string ''name'' n (getDriverOpts cx)) None d0 = ((Some i, None), d1)"
    and "d_PostCheck rpc (i\<lparr>ci_CreateError := []\<rparr>) d1 = (Inr i', d2)"
    and "\<forall>k \<in> {ci_RootCaCertificate i', ci_ClientKey i', ci_ClientCertificate i'}. base64_decode k \<noteq> None"
    and "\<And>config. \<exists>t. y_Marshal (ce_yaml ce) config = Inr t"
  shows "\<exists>s' c' t. main ce lib w = Some (Ret None, w\<lparr>cw_fs := s', cw_provider := d2\<rparr>) \<and>
     cli_Get n s' = Inr (saved (c'\<lparr>Status := Running\<rparr>)) \<and> toInfo c' = i'\<lparr>ci_CreateError := []\<rparr> \<and> Name c' = n \<and>
     y_Marshal (ce_yaml ce) (merge_config c' cfg) = Inr t \<and> node_at s' (HomeDir (cw_fs w) @ [''kubeconfig'']) = Some (FFile t)"
proof -
  let ?w1 = "w\<lparr>cw_provider := d0\<rparr>"
  have n: "n \<noteq> []" using assms(4) by (simp add: valid_seg_def)
  have cl: "cmd_client ce dn addr = Inr rpc" for addr by (simp add: cmd_client_def NewClient_def dial_def assms(5,6) rpc)
  obtain env c c' s' t where nc: "NewCluster (cmd_client ce) (ce_FmtFloat ce) dn n (cx_GlobalString cx ''plugin-listen-addr'')
      (cli_GetConfig cx n) (CLIPersistStore (ce_yaml ce)) = Inr (env, c)" and c: "Name c = n"
    and r: "Create env (c, cw_fs w, d0) = (None, c', s', d2)" "toInfo c' = i'\<lparr>ci_CreateError := []\<rparr>"
    and got: "cli_Get n s' = Inr (saved (c'\<lparr>Status := Running\<rparr>))"
    and name: "Name c' = n"
    and kube: "y_Marshal (ce_yaml ce) (merge_config c' cfg) = Inr t" "node_at s' (HomeDir (cw_fs w) @ [''kubeconfig'']) = Some (FFile t)"
    unfolding cli_GetConfig_def
    by (rule NewCluster_Create[where mkc = "cmd_client ce" and dn = dn, OF cl assms(4,13-18)]) blast
  have w: "createWapper ce w = (Rerun (rerun_args (ce_OsArgs ce) (ce_Listen ce)) (getDriverFlags fl), ?w1)"
    using assms(1,2,5,6,8) rpc by (simp add: createWapper_def driver_pass_def runRPCDriver_def NewClient_def dial_def)
  have "cmd_create ce cx ?w1 = (None, w\<lparr>cw_fs := s', cw_provider := d2\<rparr>)"
    using assms(2,3,11,12,14) n nc c r(1)
    by (simp add: cmd_create_def new_cluster_def arg_get_def on_cluster_def)
  then have "main ce lib w = Some (Ret None, w\<lparr>cw_fs := s', cw_provider := d2\<rparr>)"
    by (rule main_create[where lib = lib, OF assms(9) w assms(10)])
  with got r(2) name kube show ?thesis by blast
qed

definition demo_create_cmd :: "nat cmd_env" where
  "demo_create_cmd = demo_cmd\<lparr>ce_OsArgs := [''kontainer-engine'', ''create'', ''--driver'', ''import'', ''c1''],
     ce_Drivers := [''import'' \<mapsto> demo_driver\<lparr>v_GetDriverCreateOptions := \<lambda>d. ((Some [], None), d)\<rparr>]\<rparr>"

definition demo_create_ctx :: cli_ctx where
  "demo_create_ctx = demo_ctx\<lparr>cx_String := \<lambda>k. if k = ''driver'' then ''import'' else []\<rparr>"

lemma demo_create_simps:
  "ce_OsArgs demo_create_cmd = [''kontainer-engine'', ''create'', ''--driver'', ''import'', ''c1'']"
  "ce_Dial demo_create_cmd = (\<lambda>_. Inr good_conn)" "ce_yaml demo_create_cmd = demo_codec"
  "ce_Drivers demo_create_cmd ''import'' = Some (demo_driver\<lparr>v_GetDriverCreateOptions := \<lambda>d. ((Some [], None), d)\<rparr>)"
  "cx_Args demo_create_ctx = [''c1'']" "cx_String demo_create_ctx ''driver'' = ''import''"
  by (simp_all add: demo_create_cmd_def demo_cmd_def demo_create_ctx_def demo_ctx_def)

lemma demo_create_driver: "flagHackLookup (ce_OsArgs demo_create_cmd) ''--driver'' = ''import''"
  unfolding demo_create_simps by code_simp

theorem create_command_creates_witness:
  "\<exists>w'. main demo_create_cmd (\<lambda>_ _ _. Inr (''create'', demo_create_ctx)) (demo_world\<lparr>cw_fs := second_store\<rparr>) = Some (Ret None, w') \<and>
     (\<exists>p. cli_Get ''c1'' (cw_fs w') = Inr p \<and> Status p = Running) \<and>
     node_at (cw_fs w') [''/'', ''root'', ''.kontainer'', ''kubeconfig''] = Some (FFile ''c2;c1;'')"
proof -
  obtain e where e: "cli_Get ''c1'' second_store = Inl e" using demo_unknown by blast
  let ?drv = "demo_driver\<lparr>v_GetDriverCreateOptions := \<lambda>d. ((Some [], None), d)\<rparr>"
  let ?rpc = "grpc_client good_conn (grpc_server ?drv)" and ?i = "empty_info\<lparr>ci_Version := ''v1.17''\<rparr>"
  let ?w = "demo_world\<lparr>cw_fs := second_store\<rparr>"
  have calls: "d_GetDriverCreateOptions ?rpc 0 = (Inr [], 0)"
    "d_Create ?rpc opts None 0 = ((Some ?i, None), 1)"
    "d_PostCheck ?rpc info d = (Inr (info\<lparr>ci_Endpoint := ''10.0.0.1''\<rparr>), d)" for opts info d
    by (simp_all add: demo_driver_def grpc_client_def grpc_server_def grpc_Create_def srv_Create_def
      rpc_call_def rpc_empty_def stub_driver_def empty_info_def)
  have "\<exists>s' c' t. main demo_create_cmd (\<lambda>_ _ _. Inr (''create'', demo_create_ctx)) ?w =
      Some (Ret None, ?w\<lparr>cw_fs := s', cw_provider := 1\<rparr>) \<and>
      cli_Get ''c1'' s' = Inr (saved (c'\<lparr>Status := Running\<rparr>)) \<and> toInfo c' = ?i\<lparr>ci_Endpoint := ''10.0.0.1''\<rparr>\<lparr>ci_CreateError := []\<rparr> \<and> Name c' = ''c1'' \<and>
      y_Marshal (ce_yaml demo_create_cmd) (merge_config c' demo_config) = Inr t \<and>
      node_at s' (HomeDir (cw_fs ?w) @ [''kubeconfig'']) = Some (FFile t)"
    by (rule create_command_creates[where dn = "''import''" and drv = ?drv and cn = good_conn and rpc = ?rpc
          and fl = "[]" and ?d0.0 = 0 and ?cx0.0 = demo_create_ctx and cx = demo_create_ctx and ?e0.0 = e and i = ?i and ?d1.0 = 1])
       (simp_all add: demo_create_driver[unfolded demo_create_simps] demo_create_simps e calls demo_certs demo_marshal_total empty_info_def)
  then obtain s' c' t where m: "main demo_create_cmd (\<lambda>_ _ _. Inr (''create'', demo_create_ctx)) ?w =
      Some (Ret None, ?w\<lparr>cw_fs := s', cw_provider := 1\<rparr>)" and got: "cli_Get ''c1'' s' = Inr (saved (c'\<lparr>Status := Running\<rparr>))"
    and n: "Name c' = ''c1''"
    and k: "y_Marshal demo_codec (merge_config c' demo_config) = Inr t" "node_at s' [''/'', ''root'', ''.kontainer'', ''kubeconfig''] = Some (FFile t)"
    by (auto simp: demo_create_simps)
  show ?thesis using m got k demo_marshal[OF n] by force
qed

text \<open>
  C6. The engine's \<open>Create\<close> from end to end over the file store, for a name that is not stored yet, beside any other clusters (the
  store can be written, its kubeconfig, if any, is read as \<open>cfg\<close>, and kubeconfigs can be marshalled): when the driver starts and
  answers, creates the cluster and its check passes with decodable certificates, the call returns the endpoint (with its
  scheme), the service account token and the CA certificate the check reported, the stored record is Running and
  holds what the check reported, the kubeconfig file holds \<open>cfg\<close> with the cluster merged in, and the connection
  and the driver are closed again, in this order. An in-process driver that has answered has its server by then, so that
  the stop does not panic.
\<close>

theorem engine_create_succeeds:
  assumes "getRunningDriver kd spec = Inr r" "Start (e_host e) r = (Inr addr, evs)" "driver_name spec = Ret (Inr dn)"
    and "e_newClient e dn addr = Inr rpc" "e_store e = CLIPersistStore Y" "valid_seg n"
    and "check_up rpc 0 (w_drv w) = (None, d0, pauses)"
    and "svc_GetConfig (e_fmt e) \<lparr>cg_driverName = dn, cg_clusterSpec = spec, cg_clusterName = n\<rparr> = Inr opts"
    and "ready_store Y cfg n (w_store w)" "cli_Get n (w_store w) = Inl e0"
    and "d_Create rpc opts None d0 = ((Some i, None), d1)" "d_PostCheck rpc (i\<lparr>ci_CreateError := []\<rparr>) d1 = (Inr i', d2)"
    and "\<forall>k \<in> {ci_RootCaCertificate i', ci_ClientKey i', ci_ClientCertificate i'}. base64_decode k \<noteq> None"
    and "\<And>config. \<exists>t. y_Marshal Y config = Inr t"
    and "rd_Builtin r \<Longrightarrow> h_Constructed (e_host e) (w_trace w @ evs @ EvClientOpen # map EvSleep pauses @ [EvClientClose])"
  shows "\<exists>s' c' t. svc_Create e n kd spec w =
       (Ret (Inr (if has_prefix (ci_Endpoint i') ''https://'' then ci_Endpoint i' else ''https://'' @ ci_Endpoint i',
          ci_ServiceAccountToken i', ci_RootCaCertificate i')),
        \<lparr>w_store = s', w_drv = d2,
         w_trace = w_trace w @ evs @ EvClientOpen # map EvSleep pauses @
           [EvClientClose, if rd_Builtin r then EvServerStop else EvCancel]\<rparr>) \<and>
     cli_Get n s' = Inr (saved (c'\<lparr>Status := Running\<rparr>)) \<and> toInfo c' = i'\<lparr>ci_CreateError := []\<rparr> \<and> Name c' = n \<and>
     y_Marshal Y (merge_config c' cfg) = Inr t \<and> node_at s' (HomeDir (w_store w) @ [''kubeconfig'']) = Some (FFile t)"
proof -
  obtain env c c' s' t where nc: "NewCluster (e_newClient e) (e_fmt e) dn n addr (Inr opts) (CLIPersistStore Y) = Inr (env, c)"
    and env: "Driver env = rpc" and cr: "Create env (c, w_store w, d0) = (None, c', s', d2)"
    and got: "cli_Get n s' = Inr (saved (c'\<lparr>Status := Running\<rparr>))" and info: "toInfo c' = i'\<lparr>ci_CreateError := []\<rparr>"
    and name: "Name c' = n"
    and kube: "y_Marshal Y (merge_config c' cfg) = Inr t" "node_at s' (HomeDir (w_store w) @ [''kubeconfig'']) = Some (FFile t)"
    by (rule NewCluster_Create[where mkc = "e_newClient e" and dn = dn, OF assms(4,6,9-14)])
  have c': "Endpoint c' = ci_Endpoint i'" "ServiceAccountToken c' = ci_ServiceAccountToken i'" "RootCACert c' = ci_RootCaCertificate i'"
    using arg_cong[OF info, of ci_Endpoint] arg_cong[OF info, of ci_ServiceAccountToken] arg_cong[OF info, of ci_RootCaCertificate]
    by (simp_all add: toInfo_def)
  have "convertCluster e n addr spec (w\<lparr>w_trace := w_trace w @ evs\<rparr>) =
      (Ret (Inr (env, c)), w\<lparr>w_drv := d0, w_trace := w_trace w @ evs @ EvClientOpen # map EvSleep pauses\<rparr>)"
    using assms(3,5,7,8) nc env by (simp add: convertCluster_def)
  then have "svc_Create e n kd spec w = (Ret (Inr (access_data c')), \<lparr>w_store = s', w_drv = d2,
         w_trace = w_trace w @ evs @ EvClientOpen # map EvSleep pauses @
           [EvClientClose, if rd_Builtin r then EvServerStop else EvCancel]\<rparr>)"
    using assms(1,2,15) cr by (simp add: svc_Create_def with_driver_def ret_of_def deferred_stop_def Stop_def)
  then show ?thesis using got c' info name kube by (simp add: access_data_def) blast
qed

definition demo_kd :: kontainer_driver where
  "demo_kd = \<lparr>kd_Name = ''import'', kd_BuiltIn = True, kd_ExecutablePath = []\<rparr>"

definition demo_spec :: cluster_spec where
  "demo_spec = \<lparr>ImportedConfig = Some (JObj []), RancherKubernetesEngineConfig = None, GenericEngineConfig = None, DisplayName = []\<rparr>"

definition demo_engine :: "(fs, nat) engine" where
  "demo_engine = NewEngineService demo_host (\<lambda>_ _. Inr (Driver demo_env)) (\<lambda>_. []) (CLIPersistStore demo_codec)"

lemma demo_engine_starts:
  "Start (e_host demo_engine) \<lparr>rd_Name = ''import'', rd_Path = [], rd_Builtin = True\<rparr> = (Inr ''127.0.0.1:4711'', [EvServe ''127.0.0.1:4711''])"
proof -
  have "portOnly ''127.0.0.1:4711'' = Inr ''4711''" by code_simp
  then show ?thesis by (simp add: demo_engine_def NewEngineService_def Start_def demo_host_def builtin_names_def ImportDriverName_def)
qed

lemma demo_engine_up: "check_up (Driver demo_env) 0 0 = (None, 0, [])"
  by (simp add: check_up.simps demo_env_def demo_driver_def grpc_client_def grpc_server_def rpc_invoke_def stub_driver_def good_conn_def)

lemma demo_engine_built: "h_Constructed (e_host demo_engine) evs \<longleftrightarrow> EvClientOpen \<in> set evs"
  by (simp add: demo_engine_def NewEngineService_def demo_host_def)

theorem engine_create_succeeds_witness:
  "\<exists>s' c'. svc_Create demo_engine ''c1'' demo_kd demo_spec \<lparr>w_store = second_store, w_drv = 0, w_trace = []\<rparr> =
     (Ret (Inr (''https://10.0.0.1'', [], [])), \<lparr>w_store = s', w_drv = 1,
        w_trace = [EvServe ''127.0.0.1:4711'', EvClientOpen, EvClientClose, EvServerStop]\<rparr>) \<and>
     cli_Get ''c1'' s' = Inr (saved (c'\<lparr>Status := Running\<rparr>)) \<and> Endpoint c' = ''10.0.0.1''"
proof -
  obtain e where e: "cli_Get ''c1'' second_store = Inl e" using demo_unknown by blast
  let ?cg = "\<lparr>cg_driverName = ''import'', cg_clusterSpec = demo_spec, cg_clusterName = ''c1''\<rparr>"
  let ?i = "empty_info\<lparr>ci_Version := ''v1.17''\<rparr>"
  obtain opts where opts: "svc_GetConfig (e_fmt demo_engine) ?cg = Inr opts"
    by (simp add: svc_GetConfig_def toMap_def ptr_json_def demo_spec_def ImportDriverName_def)
  have "getRunningDriver demo_kd demo_spec = Inr \<lparr>rd_Name = ''import'', rd_Path = [], rd_Builtin = True\<rparr>"
    "driver_name demo_spec = Ret (Inr ''import'')" "e_newClient demo_engine ''import'' ''127.0.0.1:4711'' = Inr (Driver demo_env)"
    "e_store demo_engine = CLIPersistStore demo_codec"
    by (simp_all add: getRunningDriver_def demo_kd_def driver_name_def demo_spec_def ImportDriverName_def demo_engine_def NewEngineService_def)
  from engine_create_succeeds[OF this(1) demo_engine_starts this(2-4), of "''c1''"
        "\<lparr>w_store = second_store, w_drv = 0, w_trace = []\<rparr>" 0 "[]" opts demo_config e ?i 1 "?i\<lparr>ci_Endpoint := ''10.0.0.1''\<rparr>" 1]
  obtain s' c' where r: "svc_Create demo_engine ''c1'' demo_kd demo_spec \<lparr>w_store = second_store, w_drv = 0, w_trace = []\<rparr> =
     (Ret (Inr (''https://10.0.0.1'', [], [])), \<lparr>w_store = s', w_drv = 1,
        w_trace = [EvServe ''127.0.0.1:4711'', EvClientOpen, EvClientClose, EvServerStop]\<rparr>)"
    "cli_Get ''c1'' s' = Inr (saved (c'\<lparr>Status := Running\<rparr>))" "toInfo c' = ?i\<lparr>ci_Endpoint := ''10.0.0.1''\<rparr>"
    by (auto simp: e demo_engine_up demo_engine_built opts demo_marshal_total demo_certs empty_info_def has_prefix_def)
  have "Endpoint c' = ''10.0.0.1''" using arg_cong[OF r(3), of ci_Endpoint] by (simp add: toInfo_def)
  with r(1,2) show ?thesis by blast
qed

text \<open>
  C36. The command \<open>inspect\<close> prints one JSON text, which decodes to the stored record with the client key, the
  client certificate and the CA certificate replaced; every other field is printed as it is stored, also the password and
  the service account token.
\<close>

theorem inspect_prints_record:
  assumes "arg_get cx 0 = name" "name \<noteq> []" "GetAllClusterFromStore (cw_fs w) = Inr clusters" "map_of clusters name = Some c"
  shows "\<exists>text. inspectCluster ce cx w = (ce_Stdout ce text, w\<lparr>cw_out := cw_out w @ [text]\<rparr>) \<and>
     unmarshal_cluster text = Some (c\<lparr>ClientKey := ''Redacted'', ClientCertificate := ''Redacted'',
       RootCACert := ''Redacted'', Metadata := canon_meta (Metadata c)\<rparr>)"
proof -
  let ?text = "ind_val [CHR 0x09] 0 (cluster_json (redact c))"
  have "json_decode ?text = Some (fix_json (cluster_json (redact c)))"
    using json_decode_indent[OF integral_cluster_json[of "redact c"], of "[CHR 0x09]" "[]"] by (simp add: is_ws_def)
  then have "unmarshal_cluster ?text = Some (saved (redact c))" by (rule unmarshal_cluster_json)
  moreover have "utf8_cluster (redact c)"
    using listed_utf8[OF assms(3,4)] by (simp add: redact_def utf8_cluster_def)
  ultimately show ?thesis using assms
    by (intro exI[of _ ?text]) (simp add: inspectCluster_def Let_def saved_utf8, simp add: redact_def)
qed

theorem inspect_prints_record_witness:
  "\<exists>text c. inspectCluster demo_cmd demo_ctx demo_world = (ce_Stdout demo_cmd text, demo_world\<lparr>cw_out := [text]\<rparr>) \<and>
     unmarshal_cluster text = Some c \<and> Name c = ''c1'' \<and> ClientKey c = ''Redacted''"
  using inspect_prints_record[of demo_ctx "''c1''" demo_world "[(''c1'', saved demo_cluster)]" "saved demo_cluster" demo_cmd]
  by (auto simp: listed_store_all arg_get_def)

text \<open>
  C14. The state of a cloud driver survives a failed creation and a restart of the program: when the driver's
  \<open>Create\<close> fails for a new cluster but answers an info, whose state is valid UTF-8 (as every output of \<open>json.Marshal\<close> is), the
  record in the store has status Error, and the Azure, Amazon and Google drivers read from it the same state as from that info.
\<close>

theorem driver_state_survives:
  assumes "PersistStore env = CLIPersistStore Y" "valid_seg (Name c)" "writable s" "cli_Get (Name c) s = Inl e0"
    and "RootCACert c = []" "Status c = []" "Metadata c = None" "GetConfig env = Inr opts"
    and "d_Create (Driver env) opts None d = ((Some i, Some e), d1)" "e \<noteq> ErrClusterExists"
    and "valid_utf8 (gm_str (ci_Metadata i) ''state'')"
  shows "\<exists>c' s' p. Create env (c, s, d) = (Some e, c', s', d1) \<and> cli_Get (Name c) s' = Inr p \<and> Status p = ErrorStatus \<and>
     aks_getState ae (toInfo p) = aks_getState ae i \<and> eks_getState ee (toInfo p) = eks_getState ee i \<and>
     gke_getState ge (toInfo p) = gke_getState ge i"
proof -
  let ?c1 = "transformClusterInfo c i"
  obtain s1 where s1: "persist env PreCreating (c, s, d) = (None, c, s1, d)" "writable s1"
    by (rule cli.persist_writable[OF assms(1-3)])
  obtain s2 where s2: "persist env Creating (c, s1, d) = (None, c, s2, d)" "writable s2"
    by (rule cli.persist_writable[OF assms(1,2) s1(2)])
  have v: "valid_seg (Name ?c1)" using assms(2) by simp
  obtain s3 where s3: "persist env ErrorStatus (?c1, s2, d1) = (None, ?c1, s3, d1)"
    "ps_Get (CLIPersistStore Y) (Name ?c1) s3 = Inr (saved (?c1\<lparr>Status := ErrorStatus\<rparr>))"
    by (rule cli.persist_writable[OF assms(1) v s2(2)])
  have "create env None (c, s, d) = (Some e, ?c1, s2, d1)"
    using s1(1) s2(1) assms(6-9) by (simp add: create_def Let_def del: PreCreating_def Creating_def)
  moreover have "restore env (c, s, d) = (Some e0, c, s, d)"
    using assms(4) by (simp add: restore_def assms(1) CLIPersistStore_def)
  ultimately have "createInner env (c, s, d) = (Some e, ?c1, s2, d1)"
    using assms(6) by (simp add: createInner_def exists_status_def)
  moreover have "init_store env c s = s" using assms(5) by (simp add: init_store_def)
  ultimately have "Create env (c, s, d) = (Some e, ?c1, s3, d1)"
    using s3(1) assms(10) by (simp add: Create_unfold del: ErrorStatus_def)
  with s3(2) show ?thesis
    by (simp add: aks.get_stored_cluster eks.get_stored_cluster gke.get_stored_cluster assms(11))
qed

definition demo_eks_env :: "nat eks_env" where
  "demo_eks_env = \<lparr>ee_api = demo_aws_api, ee_Marshal = \<lambda>_. Inr ''{}'', ee_Unmarshal = \<lambda>_. Inr (eks_read_opts demo_eks_opts)\<rparr>"

definition failing_env :: "(fs, nat) env" where
  "failing_env = demo_env\<lparr>Driver := grpc_client good_conn (grpc_server (demo_driver\<lparr>v_Create := \<lambda>opts info d.
     ((Some (empty_info\<lparr>ci_Metadata := Some [(''state'', ''{}'')]\<rparr>), Some (Errorf ''quota'')), d + 1)\<rparr>))\<rparr>"

lemma failing_env_Create:
  "d_Create (Driver failing_env) opts None 0 =
     ((Some (empty_info\<lparr>ci_Metadata := Some [(''state'', ''{}'')], ci_CreateError := ''quota''\<rparr>), Some (Errorf ''quota'')), 1)"
  by (simp add: failing_env_def demo_driver_def grpc_client_def grpc_server_def grpc_Create_def srv_Create_def rpc_call_def
      stub_driver_def empty_info_def)

theorem driver_state_survives_witness:
  "\<exists>c' s' p. Create failing_env (demo_cluster, plain_fs [], 0) = (Some (Errorf ''quota''), c', s', 1) \<and>
     cli_Get ''c1'' s' = Inr p \<and> Status p = ErrorStatus \<and>
     aks_getState demo_aks_env (toInfo p) = aks_getState demo_aks_env (empty_info\<lparr>ci_Metadata := Some [(''state'', ''{}'')], ci_CreateError := ''quota''\<rparr>)"
proof -
  obtain e where e: "cli_Get ''c1'' (plain_fs []) = Inl e" using demo_unknown by blast
  have f: "PersistStore failing_env = CLIPersistStore demo_codec" "GetConfig failing_env = Inr empty_options"
    by (simp_all add: failing_env_def)
  have n: "valid_seg (Name demo_cluster)" "cli_Get (Name demo_cluster) (plain_fs []) = Inl e" by (simp_all add: e)
  from driver_state_survives[OF f(1) n(1) writable_plain n(2) _ _ _ f(2) failing_env_Create, of demo_aks_env demo_eks_env demo_gke_env]
  show ?thesis by (simp add: gm_str_def gm_find_def) blast
qed

end
